(* ===== verification/Go_Prelude.thy ===== *)
theory Go_Prelude
  imports
    Main
    "HOL-Library.Word"
    "HOL-Library.Finite_Map"
    "HOL-Library.Sublist"
    "HOL-Library.Multiset"
    "HOL-Library.Char_ord"
    "HOL-Library.List_Lexorder"
    "HOL-Library.Product_Lexorder"
begin

text \<open>
  Shared vocabulary of the development: the fragments of Go's standard library that the
  modelled packages use (string splitting, ASCII case folding, saturating time
  subtraction, decimal and hexadecimal rendering of machine words), string-keyed maps as
  finite maps, and the generic lemmas on lists and finite maps that the component proofs
  share.  Nothing here is specific to one component.
\<close>

section \<open>Collections of rewrite rules\<close>

named_theorems go_defs \<open>definitions of small library helpers, unfolded on demand\<close>
named_theorems key_simps \<open>well-known label and annotation keys, pairwise distinct\<close>

section \<open>Strings\<close>

text \<open>A Go \<open>map[string]string\<close>; a nil map and an empty one are not distinguished.\<close>

type_synonym strmap = "(string, string) fmap"

text \<open>Go's \<open>m[k]\<close> on a string map: the zero value when the key is absent.\<close>

definition mget :: "strmap \<Rightarrow> string \<Rightarrow> string" where
  "mget m k = (case fmlookup m k of None \<Rightarrow> [] | Some v \<Rightarrow> v)"

lemma mget_fmempty [simp]: "mget fmempty k = []"
  by (simp add: mget_def)

lemma mget_fmupd [simp]: "mget (fmupd k v m) k' = (if k' = k then v else mget m k')"
  by (simp add: mget_def)

lemma mget_fmdrop [simp]: "mget (fmdrop k m) k' = (if k' = k then [] else mget m k')"
  by (simp add: mget_def)

text \<open>
  \<open>split_first c s\<close> cuts \<open>s\<close> at the first occurrence of \<open>c\<close>, dropping the separator:
  the common shape of \<open>strings.Index\<close>, \<open>strings.IndexByte\<close> and \<open>strings.SplitN(s, sep, 2)\<close>
  with a one-byte separator.
\<close>

fun split_first :: "char \<Rightarrow> string \<Rightarrow> (string \<times> string) option" where
  "split_first c [] = None"
| "split_first c (x # xs) =
     (if x = c then Some ([], xs)
      else map_option (\<lambda>(a, b). (x # a, b)) (split_first c xs))"

lemma split_first_None_iff: "split_first c s = None \<longleftrightarrow> c \<notin> set s"
  by (induction s) auto

lemma split_first_append [simp]:
  "c \<notin> set xs \<Longrightarrow> split_first c (xs @ c # ys) = Some (xs, ys)"
  by (induction xs) auto

lemma split_first_notin [simp]: "c \<notin> set xs \<Longrightarrow> split_first c xs = None"
  by (simp add: split_first_None_iff)

lemma split_first_Some_iff:
  "split_first c s = Some (a, b) \<longleftrightarrow> s = a @ c # b \<and> c \<notin> set a"
proof (induction s arbitrary: a)
  case Nil
  then show ?case by simp
next
  case (Cons x xs)
  show ?case
  proof (cases a)
    case Nil
    then show ?thesis by (auto split: option.splits)
  next
    case (Cons y ys)
    with Cons.IH [of ys] show ?thesis by (auto split: prod.splits)
  qed
qed

section \<open>Characters\<close>

text \<open>
  Strings of the model are ASCII, as the Kubernetes names, labels and image references the
  code works on are; on them bytes and runes coincide.
\<close>

definition isLower :: "char \<Rightarrow> bool" where
  "isLower c \<longleftrightarrow> CHR ''a'' \<le> c \<and> c \<le> CHR ''z''"

definition isDigitChar :: "char \<Rightarrow> bool" where
  "isDigitChar c \<longleftrightarrow> CHR ''0'' \<le> c \<and> c \<le> CHR ''9''"

definition toLowerChar :: "char \<Rightarrow> char" where
  "toLowerChar c = (if CHR ''A'' \<le> c \<and> c \<le> CHR ''Z'' then char_of (of_char c + 32 :: nat) else c)"

definition toLower :: "string \<Rightarrow> string" where
  "toLower s = map toLowerChar s"

text \<open>\<open>strings.Trim\<close> with a one-character cutset, and \<open>strings.TrimSpace\<close>.\<close>

definition trimWhile :: "(char \<Rightarrow> bool) \<Rightarrow> string \<Rightarrow> string" where
  "trimWhile p s = rev (dropWhile p (rev (dropWhile p s)))"

definition isSpace :: "char \<Rightarrow> bool" where
  "isSpace c \<longleftrightarrow> c \<in> {CHR '' '', CHR 0x09, CHR 0x0A, CHR 0x0B, CHR 0x0C, CHR 0x0D}"

definition TrimSpace :: "string \<Rightarrow> string" where
  "TrimSpace s = trimWhile isSpace s"

definition hexDigit :: "nat \<Rightarrow> char" where
  "hexDigit n = ''0123456789abcdef'' ! (n mod 16)"

lemma hexDigit_class: "isLower (hexDigit n) \<or> isDigitChar (hexDigit n)"
proof -
  have "list_all (\<lambda>k. isLower (hexDigit k) \<or> isDigitChar (hexDigit k)) [0..<16]"
    by code_simp
  then have "\<forall>k<16. isLower (hexDigit k) \<or> isDigitChar (hexDigit k)"
    by (auto simp: list_all_iff)
  moreover have "hexDigit n = hexDigit (n mod 16)" by (simp add: hexDigit_def)
  ultimately show ?thesis by simp
qed

lemma trimWhile_ends:
  assumes "trimWhile p s \<noteq> []"
  shows "\<not> p (hd (trimWhile p s)) \<and> \<not> p (last (trimWhile p s))"
proof -
  let ?d = "dropWhile p (rev (dropWhile p s))"
  from assms have ne: "?d \<noteq> []" by (simp add: trimWhile_def)
  then have l: "\<not> p (hd ?d)" by (rule hd_dropWhile)
  from ne have "dropWhile p s \<noteq> []" by (metis dropWhile.simps(1) rev.simps(1))
  then have h: "\<not> p (hd (dropWhile p s))" by (rule hd_dropWhile)
  have "rev (dropWhile p s) = takeWhile p (rev (dropWhile p s)) @ ?d" by simp
  then have "dropWhile p s = rev ?d @ rev (takeWhile p (rev (dropWhile p s)))"
    by (metis rev_append rev_rev_ident)
  with ne have "hd (dropWhile p s) = hd (rev ?d)"
    by (metis hd_append2 rev_is_Nil_conv)
  with h l ne show ?thesis by (simp add: trimWhile_def last_rev)
qed

lemma set_trimWhile: "set (trimWhile p s) \<subseteq> set s"
  by (auto simp: trimWhile_def dest!: set_dropWhileD)

lemma length_trimWhile: "length (trimWhile p s) \<le> length s"
  unfolding trimWhile_def by (metis length_dropWhile_le length_rev order_trans)

lemma toLowerChar_id: "isLower c \<or> isDigitChar c \<or> c = CHR ''-'' \<Longrightarrow> toLowerChar c = c"
  by (auto simp: toLowerChar_def isLower_def isDigitChar_def less_eq_char_def)

section \<open>Machine integers and time\<close>

text \<open>
  \<open>time.Time\<close> is an instant in nanoseconds since the zero time; \<open>time.Duration\<close> is an
  \<open>int64\<close>, so products wrap and \<open>Sub\<close> saturates.
\<close>

type_synonym gotime = int

abbreviation (input) zeroTime :: gotime where "zeroTime \<equiv> 0"

definition wrap64 :: "int \<Rightarrow> int" where
  "wrap64 n = signed_take_bit 63 n"

definition second :: int where "second = 1000000000"

definition maxDuration :: int where "maxDuration = 2 ^ 63 - 1"

definition minDuration :: int where "minDuration = - (2 ^ 63)"

definition timeSub :: "gotime \<Rightarrow> gotime \<Rightarrow> int" where
  "timeSub t u = max minDuration (min maxDuration (t - u))"

lemma wrap64_id: "minDuration \<le> n \<Longrightarrow> n \<le> maxDuration \<Longrightarrow> wrap64 n = n"
  unfolding wrap64_def minDuration_def maxDuration_def
  by (intro signed_take_bit_int_eq_self) simp_all

lemma timeSub_exact: "minDuration \<le> t - u \<Longrightarrow> t - u \<le> maxDuration \<Longrightarrow> timeSub t u = t - u"
  by (simp add: timeSub_def)

lemma timeSub_pos: "u < t \<Longrightarrow> 0 < timeSub t u \<and> timeSub t u \<le> t - u"
  by (auto simp: timeSub_def maxDuration_def minDuration_def)

lemma sint32_bounds: "- (2 ^ 31) \<le> sint (w :: 32 word)" "sint (w :: 32 word) < 2 ^ 31"
  using sint_greater_eq [of w] sint_less [of w] by simp_all

end
