(* ===== verification/Warm_Queue.thy ===== *)
theory Warm_Queue
  imports Go_Prelude
begin

text \<open>
  The in-memory queue of adoptable warm-pool sandboxes
  (\<^verbatim>\<open>extensions/controllers/queue/simple_sandbox_queue.go\<close>): a dictionary from warm pool
  to a mutex-protected slice with a de-duplication set.  The single-queue operations come
  first, then the dictionary, then the invariant that ties the slice to the set, then the
  concurrent reading of \<open>PopWithStrategy\<close>, which drops the lock between its snapshot and
  its removal.
\<close>

section \<open>Data\<close>

record SandboxKey =
  sk_Namespace :: string
  sk_Name :: string
  sk_NodeName :: string

definition zeroKey :: SandboxKey where
  "zeroKey = \<lparr>sk_Namespace = [], sk_Name = [], sk_NodeName = []\<rparr>"

record synchronizedQueue =
  sq_items :: "SandboxKey list"
  sq_set :: "string set"

type_synonym SimpleSandboxQueue = "string \<Rightarrow> synchronizedQueue option"

type_synonym pickStrategy = "SandboxKey list \<Rightarrow> SandboxKey option"

definition newSynchronizedQueue :: synchronizedQueue where
  "newSynchronizedQueue = \<lparr>sq_items = [], sq_set = {}\<rparr>"

definition NewSimpleSandboxQueue :: SimpleSandboxQueue where
  "NewSimpleSandboxQueue = Map.empty"

definition uniqueID :: "SandboxKey \<Rightarrow> string" where
  "uniqueID k = sk_Namespace k @ ''/'' @ sk_Name k"

definition GetNamespacedWarmPoolName :: "string \<Rightarrow> string \<Rightarrow> string" where
  "GetNamespacedWarmPoolName namespace warmPoolName = namespace @ ''/'' @ warmPoolName"

section \<open>Operations on one queue\<close>

text \<open>The comparison both removal loops and the update loop make on a slice element.\<close>

definition sameKey :: "SandboxKey \<Rightarrow> SandboxKey \<Rightarrow> bool" where
  "sameKey k key \<longleftrightarrow> sk_Namespace k = sk_Namespace key \<and> sk_Name k = sk_Name key"

text \<open>Index of the first match, where the \<open>for ... range\<close> loops \<open>break\<close>.\<close>

fun findKey :: "SandboxKey \<Rightarrow> SandboxKey list \<Rightarrow> nat option" where
  "findKey key [] = None"
| "findKey key (k # ks) = (if sameKey k key then Some 0 else map_option Suc (findKey key ks))"

text \<open>
  The slice surgery of the loops: \<open>copy(items[i:], items[i+1:])\<close> moves the tail one place
  left (the last slot keeps its old value), the last slot is cleared, and the slice is
  cut by one.
\<close>

definition shiftOut :: "SandboxKey list \<Rightarrow> nat \<Rightarrow> SandboxKey list" where
  "shiftOut items i =
     (let last = length items - 1;
          copied = take i items @ drop (Suc i) items @ drop last items;
          cleared = copied[last := zeroKey]
      in take last cleared)"

definition removeFirst :: "SandboxKey \<Rightarrow> SandboxKey list \<Rightarrow> SandboxKey list" where
  "removeFirst key items =
     (case findKey key items of None \<Rightarrow> items | Some i \<Rightarrow> shiftOut items i)"

definition Remove :: "synchronizedQueue \<Rightarrow> SandboxKey \<Rightarrow> synchronizedQueue" where
  "Remove q key =
     (if uniqueID key \<notin> sq_set q then q
      else q\<lparr>sq_set := sq_set q - {uniqueID key},
             sq_items := removeFirst key (sq_items q)\<rparr>)"

text \<open>The in-place update of the node name of the first match.\<close>

definition updateNode :: "SandboxKey \<Rightarrow> SandboxKey list \<Rightarrow> SandboxKey list" where
  "updateNode key items =
     (case findKey key items of
        None \<Rightarrow> items
      | Some i \<Rightarrow> items[i := (items ! i)\<lparr>sk_NodeName := sk_NodeName key\<rparr>])"

definition Push :: "synchronizedQueue \<Rightarrow> SandboxKey \<Rightarrow> synchronizedQueue" where
  "Push q key =
     (if uniqueID key \<notin> sq_set q
      then q\<lparr>sq_set := insert (uniqueID key) (sq_set q), sq_items := sq_items q @ [key]\<rparr>
      else q\<lparr>sq_items := updateNode key (sq_items q)\<rparr>)"

definition Pop :: "synchronizedQueue \<Rightarrow> SandboxKey option \<times> synchronizedQueue" where
  "Pop q =
     (case sq_items q of
        [] \<Rightarrow> (None, q)
      | item # rest \<Rightarrow>
          (Some item, q\<lparr>sq_items := rest, sq_set := sq_set q - {uniqueID item}\<rparr>))"

text \<open>The tail of \<open>PopWithStrategy\<close>, under the lock: cut the picked key out of slice and set.\<close>

definition takeKey :: "SandboxKey \<Rightarrow> synchronizedQueue \<Rightarrow> synchronizedQueue" where
  "takeKey key q = q\<lparr>sq_items := removeFirst key (sq_items q), sq_set := sq_set q - {uniqueID key}\<rparr>"

text \<open>
  \<open>PopWithStrategy\<close> releases the mutex while it runs \<open>pick\<close>.  What other goroutines do to
  the queue in that window of iteration \<open>n\<close> is the argument \<open>env n\<close>; the identity is the
  uncontended run.  The loop retries when the picked key was taken meanwhile, so it need
  not return: \<open>None\<close> is divergence.
\<close>

partial_function (option) PopWithStrategy ::
  "pickStrategy \<Rightarrow> (nat \<Rightarrow> synchronizedQueue \<Rightarrow> synchronizedQueue) \<Rightarrow> nat \<Rightarrow> synchronizedQueue
     \<Rightarrow> (SandboxKey option \<times> synchronizedQueue) option" where
  "PopWithStrategy pick env n q =
     (if sq_items q = [] then Some (None, q)
      else
        let snapshot = sq_items q; q' = env n q
        in case pick snapshot of
             None \<Rightarrow> Some (None, q')
           | Some key \<Rightarrow>
               if uniqueID key \<notin> sq_set q' then PopWithStrategy pick env (Suc n) q'
               else Some (Some key, takeKey key q'))"

section \<open>Operations on the dictionary of queues\<close>

definition Add :: "SimpleSandboxQueue \<Rightarrow> string \<Rightarrow> SandboxKey \<Rightarrow> SimpleSandboxQueue" where
  "Add s pool item =
     (let q = (case s pool of None \<Rightarrow> newSynchronizedQueue | Some q \<Rightarrow> q)
      in s(pool \<mapsto> Push q item))"

definition Get :: "SimpleSandboxQueue \<Rightarrow> string \<Rightarrow> SandboxKey option \<times> SimpleSandboxQueue" where
  "Get s pool =
     (case s pool of
        None \<Rightarrow> (None, s)
      | Some q \<Rightarrow> let (r, q') = Pop q in (r, s(pool \<mapsto> q')))"

definition GetWithStrategy ::
  "SimpleSandboxQueue \<Rightarrow> string \<Rightarrow> pickStrategy
     \<Rightarrow> (SandboxKey option \<times> SimpleSandboxQueue) option" where
  "GetWithStrategy s pool pick =
     (case s pool of
        None \<Rightarrow> Some (None, s)
      | Some q \<Rightarrow>
          map_option (\<lambda>(r, q'). (r, s(pool \<mapsto> q'))) (PopWithStrategy pick (\<lambda>_ q. q) 0 q))"

definition RemoveItem :: "SimpleSandboxQueue \<Rightarrow> string \<Rightarrow> SandboxKey \<Rightarrow> SimpleSandboxQueue" where
  "RemoveItem s pool item =
     (case s pool of None \<Rightarrow> s | Some q \<Rightarrow> s(pool \<mapsto> Remove q item))"

definition RemoveQueue :: "SimpleSandboxQueue \<Rightarrow> string \<Rightarrow> SimpleSandboxQueue" where
  "RemoveQueue s pool = s(pool := None)"

text \<open>\<open>n\<close> pops in a row, as a reader of the queue sees them.\<close>

fun drain :: "nat \<Rightarrow> synchronizedQueue \<Rightarrow> SandboxKey option list" where
  "drain 0 q = []"
| "drain (Suc n) q = (let (r, q') = Pop q in r # drain n q')"

section \<open>The slice surgery removes exactly the first match\<close>

fun dropKey :: "SandboxKey \<Rightarrow> SandboxKey list \<Rightarrow> SandboxKey list" where
  "dropKey key [] = []"
| "dropKey key (k # ks) = (if sameKey k key then ks else k # dropKey key ks)"

lemma findKey_less: "findKey key items = Some i \<Longrightarrow> i < length items"
  by (induction items arbitrary: i) (auto split: if_splits)

lemma findKey_sameKey: "findKey key items = Some i \<Longrightarrow> sameKey (items ! i) key"
  by (induction items arbitrary: i) (auto split: if_splits)

lemma findKey_None_iff: "findKey key items = None \<longleftrightarrow> (\<forall>k\<in>set items. \<not> sameKey k key)"
  by (induction items) auto

lemma shiftOut_eq:
  assumes "i < length items"
  shows "shiftOut items i = take i items @ drop (Suc i) items"
proof -
  have "length (take i items @ drop (Suc i) items) = length items - 1"
    and "min (length items - Suc 0) i = i"
    using assms by auto
  with assms show ?thesis
    by (simp add: shiftOut_def Let_def flip: append_assoc)
qed

lemma removeFirst_dropKey: "removeFirst key items = dropKey key items"
proof (induction items)
  case Nil
  then show ?case by (simp add: removeFirst_def)
next
  case (Cons k ks)
  show ?case
  proof (cases "sameKey k key")
    case True
    then show ?thesis by (simp add: removeFirst_def shiftOut_eq)
  next
    case False
    with Cons.IH show ?thesis
      by (auto simp: removeFirst_def shiftOut_eq findKey_less split: option.splits)
  qed
qed


section \<open>Invariant: the set mirrors the slice\<close>

text \<open>
  The de-duplication set is keyed by \<open>namespace/name\<close>; the loops compare the two fields.
  The two agree exactly when namespaces carry no \<open>/\<close>, which Kubernetes guarantees (a
  namespace is a DNS label).
\<close>

definition wfKey :: "SandboxKey \<Rightarrow> bool" where
  "wfKey k \<longleftrightarrow> CHR ''/'' \<notin> set (sk_Namespace k)"

definition sq_inv :: "synchronizedQueue \<Rightarrow> bool" where
  "sq_inv q \<longleftrightarrow>
     distinct (map uniqueID (sq_items q)) \<and>
     sq_set q = uniqueID ` set (sq_items q) \<and>
     list_all wfKey (sq_items q)"

lemma sameKey_refl [simp]: "sameKey k k"
  by (simp add: sameKey_def)

lemma sameKey_sym: "sameKey a b \<Longrightarrow> sameKey b a"
  by (simp add: sameKey_def)

lemma sameKey_uniqueID: "sameKey a b \<Longrightarrow> uniqueID a = uniqueID b"
  by (simp add: sameKey_def uniqueID_def)

lemma uniqueID_eq_iff:
  assumes "wfKey a" "wfKey b"
  shows "uniqueID a = uniqueID b \<longleftrightarrow> sameKey a b"
proof
  assume "uniqueID a = uniqueID b"
  then have "split_first (CHR ''/'') (uniqueID a) = split_first (CHR ''/'') (uniqueID b)"
    by simp
  with assms show "sameKey a b"
    by (simp add: uniqueID_def wfKey_def sameKey_def)
qed (rule sameKey_uniqueID)

lemma uniqueID_image_iff:
  assumes "wfKey key" "list_all wfKey items"
  shows "uniqueID key \<in> uniqueID ` set items \<longleftrightarrow> (\<exists>k\<in>set items. sameKey k key)"
  using assms by (auto simp: list_all_iff uniqueID_eq_iff image_iff dest: sameKey_sym)

lemma dropKey_subset: "set (dropKey key items) \<subseteq> set items"
  by (induction items) auto

lemma dropKey_filter:
  assumes "distinct (map uniqueID items)" "wfKey key" "list_all wfKey items"
  shows "dropKey key items = filter (\<lambda>k. uniqueID k \<noteq> uniqueID key) items"
  using assms
proof (induction items)
  case Nil
  then show ?case by simp
next
  case (Cons k ks)
  then have eq: "uniqueID k = uniqueID key \<longleftrightarrow> sameKey k key"
    by (simp add: uniqueID_eq_iff)
  have "filter (\<lambda>x. uniqueID x \<noteq> uniqueID k) ks = ks"
    using Cons.prems(1) by (auto intro!: filter_True) (metis imageI)
  with Cons eq show ?case by auto
qed

lemma updateNode_ids [simp]: "map uniqueID (updateNode key items) = map uniqueID items"
proof (cases "findKey key items")
  case (Some i)
  have "uniqueID (k\<lparr>sk_NodeName := n\<rparr>) = uniqueID k" for k n
    by (simp add: uniqueID_def)
  with Some findKey_less [OF Some] show ?thesis
    by (simp add: updateNode_def map_update) (metis length_map list_update_id nth_map)
qed (simp add: updateNode_def)

lemma updateNode_set_ids [simp]: "uniqueID ` set (updateNode key items) = uniqueID ` set items"
  by (metis list.set_map updateNode_ids)

lemma updateNode_wf: "list_all wfKey items \<Longrightarrow> list_all wfKey (updateNode key items)"
proof (cases "findKey key items")
  case (Some i)
  assume "list_all wfKey items"
  moreover have "wfKey (k\<lparr>sk_NodeName := n\<rparr>) = wfKey k" for k n
    by (simp add: wfKey_def)
  ultimately show ?thesis
    using Some findKey_less [OF Some]
    by (auto simp: updateNode_def list_all_length nth_list_update)
qed (simp add: updateNode_def)

lemma new_items [simp]: "sq_items newSynchronizedQueue = []"
  by (simp add: newSynchronizedQueue_def)

lemma sq_inv_new [simp]: "sq_inv newSynchronizedQueue"
  by (simp add: sq_inv_def newSynchronizedQueue_def)

lemma sq_inv_Push: "sq_inv q \<Longrightarrow> wfKey key \<Longrightarrow> sq_inv (Push q key)"
  by (auto simp: sq_inv_def Push_def updateNode_wf)

lemma sq_inv_Pop: "sq_inv q \<Longrightarrow> sq_inv (snd (Pop q))"
  by (auto simp: sq_inv_def Pop_def split: list.splits) (metis imageI)

lemma sq_inv_take:
  assumes "sq_inv q" "wfKey key"
    and "sq_items q' = removeFirst key (sq_items q)" "sq_set q' = sq_set q - {uniqueID key}"
  shows "sq_inv q'"
  using assms
  by (auto simp: sq_inv_def removeFirst_dropKey dropKey_filter list_all_iff distinct_map_filter)

lemma sq_inv_Remove: "sq_inv q \<Longrightarrow> wfKey key \<Longrightarrow> sq_inv (Remove q key)"
  by (auto simp: Remove_def intro: sq_inv_take)

section \<open>\<open>PopWithStrategy\<close>\<close>

text \<open>A strategy that only ever picks from the snapshot it is given.\<close>

definition soundPick :: "pickStrategy \<Rightarrow> bool" where
  "soundPick pick \<longleftrightarrow> (\<forall>keys k. pick keys = Some k \<longrightarrow> k \<in> set keys)"

lemma takeKey_sel [simp]:
  "sq_items (takeKey key q) = removeFirst key (sq_items q)"
  "sq_set (takeKey key q) = sq_set q - {uniqueID key}"
  by (simp_all add: takeKey_def)

lemma sq_inv_takeKey: "sq_inv q \<Longrightarrow> wfKey key \<Longrightarrow> sq_inv (takeKey key q)"
  by (auto intro: sq_inv_take)

lemma PopWithStrategy_unfold:
  "PopWithStrategy pick env n q =
     (if sq_items q = [] then Some (None, q)
      else case pick (sq_items q) of
             None \<Rightarrow> Some (None, env n q)
           | Some key \<Rightarrow>
               if uniqueID key \<notin> sq_set (env n q) then PopWithStrategy pick env (Suc n) (env n q)
               else Some (Some key, takeKey key (env n q)))"
  by (subst PopWithStrategy.simps) (simp add: Let_def)

lemma sq_inv_member: "sq_inv q \<Longrightarrow> k \<in> set (sq_items q) \<Longrightarrow> uniqueID k \<in> sq_set q \<and> wfKey k"
  by (auto simp: sq_inv_def list_all_iff)

text \<open>Without contention one iteration is enough.\<close>

lemma PopWithStrategy_uncontended:
  assumes "sq_inv q" and "\<And>k. pick (sq_items q) = Some k \<Longrightarrow> k \<in> set (sq_items q)"
  shows "PopWithStrategy pick (\<lambda>_ q. q) n q =
     Some (if sq_items q = [] then (None, q)
           else case pick (sq_items q) of
                  None \<Rightarrow> (None, q)
                | Some key \<Rightarrow> (Some key, takeKey key q))"
  using assms sq_inv_member [OF assms(1)]
  by (subst PopWithStrategy_unfold) (auto split: option.splits)

text \<open>
  Under contention the loop returns as soon as the other goroutines leave the queue
  alone for one iteration.
\<close>

lemma PopWithStrategy_returns:
  assumes "sq_inv q" and "soundPick pick"
    and pres: "\<And>m q. sq_inv q \<Longrightarrow> sq_inv (env m q)"
    and quiet: "\<And>q. env (n + d) q = q"
  shows "\<exists>r q'. PopWithStrategy pick env n q = Some (r, q')"
  using assms(1) quiet
proof (induction d arbitrary: n q)
  case 0
  have "\<exists>r q'. PopWithStrategy pick env n q = Some (r, q')"
    if "pick (sq_items q) = Some k" "sq_items q \<noteq> []" for k
    using that 0 assms(2) sq_inv_member [OF 0(1)]
    by (subst PopWithStrategy_unfold) (auto simp: soundPick_def)
  then show ?case
    by (cases "pick (sq_items q)"; cases "sq_items q") (auto simp: PopWithStrategy_unfold)
next
  case (Suc d)
  have "\<exists>r q'. PopWithStrategy pick env (Suc n) (env n q) = Some (r, q')"
    using Suc.IH [of "env n q" "Suc n"] Suc.prems pres by simp
  then show ?case
    by (subst PopWithStrategy_unfold) (auto split: option.splits)
qed

text \<open>
  Whatever the interference, a returned key was in the de-duplication set when it was
  taken and is in neither the set nor the slice afterwards; the invariant survives.
\<close>

lemma PopWithStrategy_sound:
  assumes "PopWithStrategy pick env n q = Some (r, q')"
    and "sq_inv q" "soundPick pick" "\<And>m q. sq_inv q \<Longrightarrow> sq_inv (env m q)"
  shows "sq_inv q' \<and> (\<forall>k. r = Some k \<longrightarrow> wfKey k \<and> uniqueID k \<notin> sq_set q')"
proof -
  let ?P = "\<lambda>pick env n q res. sq_inv q \<longrightarrow> soundPick pick \<longrightarrow> (\<forall>m q. sq_inv q \<longrightarrow> sq_inv (env m q)) \<longrightarrow>
    sq_inv (snd res) \<and> (\<forall>k. fst res = Some k \<longrightarrow> wfKey k \<and> uniqueID k \<notin> sq_set (snd res))"
  have "?P pick env n q (r, q')"
  proof (rule PopWithStrategy.raw_induct [where P = ?P, OF _ assms(1)])
    fix PWS pick env n q res
    assume IH: "\<And>pick env n q res. PWS pick env n q = Some res \<Longrightarrow> ?P pick env n q res"
      and eq: "(if sq_items q = [] then Some (None, q)
         else let snapshot = sq_items q; q' = env n q
              in case pick snapshot of None \<Rightarrow> Some (None, q')
                 | Some key \<Rightarrow> if uniqueID key \<notin> sq_set q' then PWS pick env (Suc n) q'
                              else Some (Some key, takeKey key q')) = Some res"
    show "?P pick env n q res"
    proof (intro impI)
      assume inv: "sq_inv q" and pick: "soundPick pick" and pres: "\<forall>m q. sq_inv q \<longrightarrow> sq_inv (env m q)"
      have "sq_inv (takeKey k (env n q)) \<and> wfKey k" if "pick (sq_items q) = Some k" for k
        using that inv pick pres sq_inv_member [OF inv] sq_inv_takeKey
        by (auto simp: soundPick_def)
      with inv pick pres eq IH [of pick env "Suc n" "env n q" res]
      show "sq_inv (snd res) \<and> (\<forall>k. fst res = Some k \<longrightarrow> wfKey k \<and> uniqueID k \<notin> sq_set (snd res))"
        by (auto simp: Let_def split: if_splits option.splits)
    qed
  qed
  with assms(2-) show ?thesis by simp
qed

section \<open>The queue interface\<close>

text \<open>What \<open>Add\<close> does to the sequence of keys of one pool.\<close>

definition enqueueKey :: "SandboxKey \<Rightarrow> SandboxKey list \<Rightarrow> SandboxKey list" where
  "enqueueKey key items =
     (if \<exists>k\<in>set items. sameKey k key then updateNode key items else items @ [key])"

definition queue_content :: "SimpleSandboxQueue \<Rightarrow> string \<Rightarrow> SandboxKey list" where
  "queue_content s pool = (case s pool of None \<Rightarrow> [] | Some q \<Rightarrow> sq_items q)"

definition queue_inv :: "SimpleSandboxQueue \<Rightarrow> bool" where
  "queue_inv s \<longleftrightarrow> (\<forall>pool q. s pool = Some q \<longrightarrow> sq_inv q)"

text \<open>
  The contract of the \<open>SandboxQueue\<close> interface as its client, the claim controller, relies
  on it: per pool a duplicate-free sequence of well-formed keys, \<open>Add\<close> appends or
  refreshes, \<open>GetWithStrategy\<close> hands out what the strategy picks and removes exactly that.
\<close>

locale sandbox_queue =
  fixes content :: "'q \<Rightarrow> string \<Rightarrow> SandboxKey list"
    and inv :: "'q \<Rightarrow> bool"
    and add :: "'q \<Rightarrow> string \<Rightarrow> SandboxKey \<Rightarrow> 'q"
    and get_with :: "'q \<Rightarrow> string \<Rightarrow> pickStrategy \<Rightarrow> (SandboxKey option \<times> 'q) option"
  assumes content_wf: "inv q \<Longrightarrow> list_all wfKey (content q p)"
    and content_distinct: "inv q \<Longrightarrow> distinct (map uniqueID (content q p))"
    and inv_add: "inv q \<Longrightarrow> wfKey k \<Longrightarrow> inv (add q p k)"
    and content_add: "inv q \<Longrightarrow> wfKey k \<Longrightarrow>
      content (add q p k) = (content q)(p := enqueueKey k (content q p))"
    and get_nothing: "inv q \<Longrightarrow> content q p = [] \<or> pick (content q p) = None \<Longrightarrow>
      get_with q p pick = Some (None, q)"
    and get_picked: "inv q \<Longrightarrow> pick (content q p) = Some k \<Longrightarrow> k \<in> set (content q p) \<Longrightarrow>
      \<exists>q'. get_with q p pick = Some (Some k, q') \<and> inv q' \<and>
           content q' = (content q)(p := dropKey k (content q p))"

lemma queue_content_upd [simp]:
  "queue_content (s(p \<mapsto> q)) = (queue_content s)(p := sq_items q)"
  by (auto simp: queue_content_def)

lemma queue_inv_upd: "queue_inv s \<Longrightarrow> sq_inv q \<Longrightarrow> queue_inv (s(p \<mapsto> q))"
  by (simp add: queue_inv_def)

lemma Push_items:
  assumes "sq_inv q" "wfKey key"
  shows "sq_items (Push q key) = enqueueKey key (sq_items q)"
  using assms uniqueID_image_iff [of key "sq_items q"]
  by (auto simp: Push_def enqueueKey_def sq_inv_def)

lemma queue_inv_Add: "queue_inv s \<Longrightarrow> wfKey k \<Longrightarrow> queue_inv (Add s p k)"
  by (auto simp: Add_def Let_def queue_inv_def sq_inv_Push split: option.splits)

lemma queue_content_Add:
  assumes "queue_inv s" "wfKey k"
  shows "queue_content (Add s p k) = (queue_content s)(p := enqueueKey k (queue_content s p))"
  using assms
  by (auto simp: Add_def Let_def Push_items queue_inv_def queue_content_def fun_eq_iff
      split: option.splits)

lemma GetWithStrategy_eq:
  assumes "queue_inv s" and "\<And>k. pick (queue_content s p) = Some k \<Longrightarrow> k \<in> set (queue_content s p)"
  shows "GetWithStrategy s p pick =
    Some (if queue_content s p = [] then (None, s)
          else case pick (queue_content s p) of
                 None \<Rightarrow> (None, s)
               | Some k \<Rightarrow> (Some k, s(p \<mapsto> takeKey k (the (s p)))))"
proof (cases "s p")
  case None
  then show ?thesis by (simp add: GetWithStrategy_def queue_content_def)
next
  case (Some q)
  with assms have "sq_inv q" and "\<And>k. pick (sq_items q) = Some k \<Longrightarrow> k \<in> set (sq_items q)"
    by (auto simp: queue_inv_def queue_content_def)
  from PopWithStrategy_uncontended [OF this] Some show ?thesis
    by (auto simp: GetWithStrategy_def queue_content_def map_upd_triv split: option.splits)
qed

interpretation lq: sandbox_queue queue_content queue_inv Add GetWithStrategy
proof (unfold_locales, goal_cases)
  case (1 q p)
  then show ?case by (auto simp: queue_inv_def queue_content_def sq_inv_def split: option.splits)
next
  case (2 q p)
  then show ?case by (auto simp: queue_inv_def queue_content_def sq_inv_def split: option.splits)
next
  case (3 q k p)
  then show ?case by (rule queue_inv_Add)
next
  case (4 q k p)
  then show ?case by (rule queue_content_Add)
next
  case (5 q p pick)
  then show ?case
    using PopWithStrategy_unfold [of pick "\<lambda>_ q. q" 0 "the (q p)"]
    by (auto simp: GetWithStrategy_def queue_content_def map_upd_triv split: option.splits)
next
  case (6 q pick p k)
  then obtain sq where sq: "q p = Some sq" "sq_inv sq" and k: "k \<in> set (sq_items sq)"
    by (auto simp: queue_content_def queue_inv_def split: option.splits)
  with 6 have "GetWithStrategy q p pick = Some (Some k, q(p \<mapsto> takeKey k sq))"
    by (subst GetWithStrategy_eq) (auto simp: queue_content_def)
  with 6 sq k show ?case
    using sq_inv_member [OF sq(2) k] sq_inv_takeKey [OF sq(2)]
    by (auto simp: queue_inv_upd removeFirst_dropKey queue_content_def)
qed

section \<open>Many goroutines on one queue\<close>

text \<open>
  Every locked region of the source is one atomic step.  \<open>PopWithStrategy\<close> has two: the
  snapshot and, after \<open>pick\<close> ran outside the lock, the removal or the retry.  Goroutines
  are numbered; \<open>added\<close> and \<open>taken\<close> count, per identity, the insertions into the queue
  and the keys that left it (handed out or removed).
\<close>

datatype popState =
    Idle
  | Snapshotted "SandboxKey list"
  | Picked SandboxKey
  | Returned "SandboxKey option"

record queueSystem =
  qs_queue :: synchronizedQueue
  qs_pops :: "nat \<Rightarrow> popState"
  qs_added :: "string \<Rightarrow> nat"
  qs_taken :: "string \<Rightarrow> nat"

definition initSystem :: queueSystem where
  "initSystem = \<lparr>qs_queue = newSynchronizedQueue, qs_pops = (\<lambda>_. Idle),
     qs_added = (\<lambda>_. 0), qs_taken = (\<lambda>_. 0)\<rparr>"

definition bump :: "string \<Rightarrow> (string \<Rightarrow> nat) \<Rightarrow> string \<Rightarrow> nat" where
  "bump u f = f(u := Suc (f u))"

inductive queueStep :: "pickStrategy \<Rightarrow> queueSystem \<Rightarrow> queueSystem \<Rightarrow> bool" for pick where
  push: "wfKey key \<Longrightarrow>
    queueStep pick s (s\<lparr>qs_queue := Push (qs_queue s) key,
      qs_added := (if uniqueID key \<in> sq_set (qs_queue s) then qs_added s
                   else bump (uniqueID key) (qs_added s))\<rparr>)"
| pop: "Pop (qs_queue s) = (Some key, q') \<Longrightarrow> qs_pops s i = Idle \<Longrightarrow>
    queueStep pick s (s\<lparr>qs_queue := q', qs_pops := (qs_pops s)(i := Returned (Some key)),
      qs_taken := bump (uniqueID key) (qs_taken s)\<rparr>)"
| remove: "wfKey key \<Longrightarrow> uniqueID key \<in> sq_set (qs_queue s) \<Longrightarrow>
    queueStep pick s (s\<lparr>qs_queue := Remove (qs_queue s) key,
      qs_taken := bump (uniqueID key) (qs_taken s)\<rparr>)"
| snapshot: "qs_pops s i = Idle \<Longrightarrow> sq_items (qs_queue s) \<noteq> [] \<Longrightarrow>
    queueStep pick s (s\<lparr>qs_pops := (qs_pops s)(i := Snapshotted (sq_items (qs_queue s)))\<rparr>)"
| empty: "qs_pops s i = Idle \<Longrightarrow> sq_items (qs_queue s) = [] \<Longrightarrow>
    queueStep pick s (s\<lparr>qs_pops := (qs_pops s)(i := Returned None)\<rparr>)"
| pick: "qs_pops s i = Snapshotted snap \<Longrightarrow>
    queueStep pick s (s\<lparr>qs_pops := (qs_pops s)(i :=
      (case pick snap of None \<Rightarrow> Returned None | Some key \<Rightarrow> Picked key))\<rparr>)"
| take: "qs_pops s i = Picked key \<Longrightarrow> uniqueID key \<in> sq_set (qs_queue s) \<Longrightarrow>
    queueStep pick s (s\<lparr>qs_queue := takeKey key (qs_queue s),
      qs_pops := (qs_pops s)(i := Returned (Some key)),
      qs_taken := bump (uniqueID key) (qs_taken s)\<rparr>)"
| retry: "qs_pops s i = Picked key \<Longrightarrow> uniqueID key \<notin> sq_set (qs_queue s) \<Longrightarrow>
    queueStep pick s (s\<lparr>qs_pops := (qs_pops s)(i := Idle)\<rparr>)"

inductive_cases queueStep_E: "queueStep pick s t"

inductive queueReachable :: "pickStrategy \<Rightarrow> queueSystem \<Rightarrow> bool" for pick where
  start: "queueReachable pick initSystem"
| step: "queueReachable pick s \<Longrightarrow> queueStep pick s t \<Longrightarrow> queueReachable pick t"

text \<open>Goroutine \<open>i\<close> was handed a key of identity \<open>u\<close>.\<close>

definition holds :: "queueSystem \<Rightarrow> string \<Rightarrow> nat \<Rightarrow> bool" where
  "holds s u i \<longleftrightarrow> (\<exists>key. qs_pops s i = Returned (Some key) \<and> uniqueID key = u)"

definition popWf :: "popState \<Rightarrow> bool" where
  "popWf p = (case p of Snapshotted snap \<Rightarrow> list_all wfKey snap | Picked key \<Rightarrow> wfKey key | _ \<Rightarrow> True)"

text \<open>
  The inductive invariant: the queue is consistent; what was inserted was taken or is
  still queued; the holders of an identity are finite in number and no more than were taken.
\<close>

definition system_inv :: "queueSystem \<Rightarrow> bool" where
  "system_inv s \<longleftrightarrow>
     sq_inv (qs_queue s) \<and>
     (\<forall>i. popWf (qs_pops s i)) \<and>
     (\<forall>u. qs_added s u = qs_taken s u + (if u \<in> sq_set (qs_queue s) then 1 else 0)) \<and>
     (\<forall>u. finite {i. holds s u i} \<and> card {i. holds s u i} \<le> qs_taken s u)"

lemma holders_upd:
  assumes "finite {i. holds s u i} \<and> card {i. holds s u i} \<le> n"
    and "qs_pops t = (qs_pops s)(i := x)"
    and "\<And>key. x = Returned (Some key) \<Longrightarrow> uniqueID key = u \<Longrightarrow> n < m" and "n \<le> m"
  shows "finite {i. holds t u i} \<and> card {i. holds t u i} \<le> m"
proof (cases "\<exists>key. x = Returned (Some key) \<and> uniqueID key = u")
  case True
  then have "{j. holds t u j} \<subseteq> insert i {j. holds s u j}"
    using assms(2) by (auto simp: holds_def split: if_splits)
  moreover from True assms(3) have "n < m" by blast
  moreover have "card (insert i {j. holds s u j}) \<le> Suc n"
    using assms(1) card_insert_le_m1 [of "Suc n" "{j. holds s u j}" i] by simp
  ultimately show ?thesis
    using assms(1) by (meson Suc_leI card_mono finite.insertI infinite_super order_trans)
next
  case False
  then have "{j. holds t u j} \<subseteq> {j. holds s u j}"
    using assms(2) by (auto simp: holds_def split: if_splits)
  then show ?thesis
    using assms(1,4) by (meson card_mono infinite_super order_trans)
qed

lemma Pop_Some:
  "Pop q = (Some key, q') \<Longrightarrow> sq_inv q \<Longrightarrow>
     sq_inv q' \<and> uniqueID key \<in> sq_set q \<and> sq_set q' = sq_set q - {uniqueID key}"
  using sq_inv_Pop [of q] by (auto simp: Pop_def sq_inv_def split: list.splits)

lemma system_inv_init: "system_inv initSystem"
  by (simp add: system_inv_def initSystem_def popWf_def holds_def) (simp add: newSynchronizedQueue_def)

lemma sq_set_Push [simp]: "sq_set (Push q key) = insert (uniqueID key) (sq_set q)"
  by (auto simp: Push_def)

lemma sq_set_Remove [simp]: "sq_set (Remove q key) = sq_set q - {uniqueID key}"
  by (auto simp: Remove_def)

text \<open>A step of goroutine \<open>i\<close> keeps the invariant if it keeps the queue and the counters in step.\<close>

lemma system_inv_upd:
  assumes "system_inv s" and "qs_pops t = (qs_pops s)(i := x)" and "popWf x"
    and "sq_inv (qs_queue t)"
    and "\<And>u. qs_added t u = qs_taken t u + (if u \<in> sq_set (qs_queue t) then 1 else 0)"
    and "\<And>key. x = Returned (Some key) \<Longrightarrow> qs_taken s (uniqueID key) < qs_taken t (uniqueID key)"
    and "\<And>u. qs_taken s u \<le> qs_taken t u"
  shows "system_inv t"
proof -
  have "finite {i. holds t u i} \<and> card {i. holds t u i} \<le> qs_taken t u" for u
  proof (rule holders_upd [where s = s and i = i and x = x and n = "qs_taken s u"])
    show "finite {i. holds s u i} \<and> card {i. holds s u i} \<le> qs_taken s u"
      using assms(1) by (simp add: system_inv_def)
  qed (use assms(2,6,7) in auto)
  moreover have "popWf (qs_pops t j)" for j
    using assms(1-3) by (simp add: system_inv_def)
  ultimately show ?thesis using assms(4,5) by (simp add: system_inv_def)
qed

lemma system_inv_step:
  assumes "queueStep pick s t" "soundPick pick" "system_inv s"
  shows "system_inv t"
  using assms
proof (induction rule: queueStep.induct)
  case (push key s)
  then show ?case
    by (auto simp: system_inv_def sq_inv_Push bump_def holds_def)
next
  case (pop s key q' i)
  then have "sq_inv q'" "uniqueID key \<in> sq_set (qs_queue s)"
      "sq_set q' = sq_set (qs_queue s) - {uniqueID key}"
    using Pop_Some [of "qs_queue s" key q'] by (auto simp: system_inv_def)
  note facts = this pop
  show ?case
    by (rule system_inv_upd [where s = s and i = i]) (use facts in \<open>auto simp: popWf_def bump_def system_inv_def\<close>)
next
  case (remove key s)
  then show ?case
    by (auto simp: system_inv_def sq_inv_Remove bump_def holds_def le_SucI)
next
  case (snapshot s i)
  note facts = this
  show ?case
    by (rule system_inv_upd [where s = s and i = i]) (use facts in \<open>auto simp: popWf_def system_inv_def sq_inv_def\<close>)
next
  case (empty s i)
  note facts = this
  show ?case
    by (rule system_inv_upd [where s = s and i = i]) (use facts in \<open>auto simp: popWf_def system_inv_def\<close>)
next
  case (pick s i snap)
  then have "popWf (Snapshotted snap)" by (auto simp: system_inv_def dest: spec [of _ i])
  note facts = this pick
  show ?case
    by (rule system_inv_upd [where s = s and i = i]) (use facts in \<open>auto simp: popWf_def system_inv_def soundPick_def list_all_iff split: option.splits\<close>)
next
  case (take s i key)
  then have "popWf (Picked key)" by (auto simp: system_inv_def dest: spec [of _ i])
  note facts = this take
  show ?case
    by (rule system_inv_upd [where s = s and i = i]) (use facts in \<open>auto simp: popWf_def system_inv_def bump_def sq_inv_takeKey\<close>)
next
  case (retry s i key)
  note facts = this
  show ?case
    by (rule system_inv_upd [where s = s and i = i]) (use facts in \<open>auto simp: popWf_def system_inv_def\<close>)
qed

lemma queueReachable_inv: "queueReachable pick s \<Longrightarrow> soundPick pick \<Longrightarrow> system_inv s"
  by (induction rule: queueReachable.induct) (auto intro: system_inv_init system_inv_step)

section \<open>First in, first out\<close>

lemma foldl_Push_items:
  assumes "distinct (map uniqueID (sq_items q @ keys))" "sq_set q = uniqueID ` set (sq_items q)"
  shows "sq_items (foldl Push q keys) = sq_items q @ keys"
  using assms
proof (induction keys arbitrary: q)
  case (Cons k keys)
  then have "uniqueID k \<notin> sq_set q" by auto
  then have "sq_items (Push q k) = sq_items q @ [k]" "sq_set (Push q k) = insert (uniqueID k) (sq_set q)"
    by (simp_all add: Push_def)
  with Cons.IH [of "Push q k"] Cons.prems show ?case by auto
qed simp

lemma drain_items: "drain (length items + n) q = map Some items @ replicate n None"
  if "sq_items q = items"
  using that
proof (induction items arbitrary: q)
  case Nil
  then show ?case by (induction n) (auto simp: Pop_def)
next
  case (Cons k ks)
  then show ?case by (simp add: Pop_def)
qed

section \<open>Properties\<close>

text \<open>
  C2: whatever the interleaving of \<open>Push\<close>, \<open>Pop\<close>, \<open>Remove\<close> and the two locked halves of
  \<open>PopWithStrategy\<close> by any number of goroutines, a sandbox is never handed out more often
  than it was inserted: the goroutines holding an identity, plus one if it is still queued,
  are at most its insertions.  A sandbox inserted once is adopted by at most one claim.
\<close>

theorem queue_exclusive_handout:
  assumes "queueReachable pick s" and "soundPick pick"
  shows "finite {i. holds s u i} \<and>
    card {i. holds s u i} + (if u \<in> sq_set (qs_queue s) then 1 else 0) \<le> qs_added s u"
  using queueReachable_inv [OF assms] by (auto simp: system_inv_def)

definition demoKey :: SandboxKey where
  "demoKey = \<lparr>sk_Namespace = ''team'', sk_Name = ''sb-1'', sk_NodeName = ''node-a''\<rparr>"

definition firstPick :: pickStrategy where
  "firstPick keys = (case keys of [] \<Rightarrow> None | k # _ \<Rightarrow> Some k)"

definition demoPushed :: queueSystem where
  "demoPushed = initSystem\<lparr>qs_queue := Push newSynchronizedQueue demoKey,
     qs_added := bump (uniqueID demoKey) (\<lambda>_. 0)\<rparr>"

definition demoPopped :: queueSystem where
  "demoPopped = demoPushed\<lparr>qs_queue := snd (Pop (qs_queue demoPushed)),
     qs_pops := (\<lambda>_. Idle)(7 := Returned (Some demoKey)),
     qs_taken := bump (uniqueID demoKey) (\<lambda>_. 0)\<rparr>"

lemma soundPick_firstPick: "soundPick firstPick"
  by (auto simp: soundPick_def firstPick_def split: list.splits)

lemma demoPushed_reachable: "queueReachable firstPick demoPushed"
proof -
  have "queueStep firstPick initSystem
      (initSystem\<lparr>qs_queue := Push (qs_queue initSystem) demoKey,
        qs_added := (if uniqueID demoKey \<in> sq_set (qs_queue initSystem) then qs_added initSystem
                   else bump (uniqueID demoKey) (qs_added initSystem))\<rparr>)"
    by (rule queueStep.push) (simp add: wfKey_def demoKey_def)
  moreover have "demoPushed = (initSystem\<lparr>qs_queue := Push (qs_queue initSystem) demoKey,
        qs_added := (if uniqueID demoKey \<in> sq_set (qs_queue initSystem) then qs_added initSystem
                   else bump (uniqueID demoKey) (qs_added initSystem))\<rparr>)"
    by (simp add: demoPushed_def initSystem_def) (simp add: newSynchronizedQueue_def)
  ultimately show ?thesis using queueReachable.start queueReachable.step by metis
qed

lemma demoPopped_reachable: "queueReachable firstPick demoPopped"
proof -
  have "queueStep firstPick demoPushed
      (demoPushed\<lparr>qs_queue := snd (Pop (qs_queue demoPushed)),
         qs_pops := (qs_pops demoPushed)(7 := Returned (Some demoKey)),
         qs_taken := bump (uniqueID demoKey) (qs_taken demoPushed)\<rparr>)"
    by (rule queueStep.pop)
      (simp_all add: demoPushed_def initSystem_def Pop_def Push_def newSynchronizedQueue_def)
  then show ?thesis
    using demoPushed_reachable queueReachable.step
    by (fastforce simp: demoPopped_def demoPushed_def initSystem_def)
qed

theorem queue_exclusive_handout_witness:
  "holds demoPopped ''team/sb-1'' 7 \<and> qs_added demoPopped ''team/sb-1'' = 1 \<and>
   finite {i. holds demoPopped ''team/sb-1'' i} \<and>
   card {i. holds demoPopped ''team/sb-1'' i}
     + (if ''team/sb-1'' \<in> sq_set (qs_queue demoPopped) then 1 else 0) \<le> qs_added demoPopped ''team/sb-1''"
  using queue_exclusive_handout [OF demoPopped_reachable soundPick_firstPick, of "''team/sb-1''"]
  by (auto simp: holds_def demoPopped_def demoPushed_def uniqueID_def demoKey_def bump_def)

text \<open>
  C19: \<open>PopWithStrategy\<close> returns as soon as the other goroutines leave the queue alone for
  one iteration, whichever invariant-preserving operations they ran before; the key it
  returns is in neither the slice nor the set afterwards, and the invariant survives.
\<close>

theorem PopWithStrategy_total:
  assumes "sq_inv q" and "soundPick pick"
    and "\<And>m q. sq_inv q \<Longrightarrow> sq_inv (env m q)"
    and "\<And>q. env (n + d) q = q"
  shows "\<exists>r q'. PopWithStrategy pick env n q = Some (r, q') \<and> sq_inv q' \<and>
    (\<forall>k. r = Some k \<longrightarrow> uniqueID k \<notin> sq_set q' \<and> (\<forall>k'\<in>set (sq_items q'). \<not> sameKey k' k))"
proof -
  from PopWithStrategy_returns [of q pick env n d] assms obtain r q'
    where r: "PopWithStrategy pick env n q = Some (r, q')" by blast
  with PopWithStrategy_sound [OF r] assms
  have "sq_inv q' \<and> (\<forall>k. r = Some k \<longrightarrow> uniqueID k \<notin> sq_set q')" by blast
  moreover have "\<not> sameKey k' k" if "sq_inv q'" "uniqueID k \<notin> sq_set q'" "k' \<in> set (sq_items q')" for k k'
    using that sameKey_uniqueID [of k' k] by (auto simp: sq_inv_def) (metis imageI)
  ultimately show ?thesis using r by blast
qed

theorem PopWithStrategy_total_witness:
  "sq_inv (Push newSynchronizedQueue demoKey) \<and>
   (\<exists>r q'. PopWithStrategy firstPick (\<lambda>m q. if m = 0 then Remove q demoKey else q) 0
            (Push newSynchronizedQueue demoKey) = Some (r, q') \<and> sq_inv q' \<and>
     (\<forall>k. r = Some k \<longrightarrow> uniqueID k \<notin> sq_set q' \<and> (\<forall>k'\<in>set (sq_items q'). \<not> sameKey k' k)))"
proof -
  have wf: "wfKey demoKey" by (simp add: wfKey_def demoKey_def)
  then have inv: "sq_inv (Push newSynchronizedQueue demoKey)" by (simp add: sq_inv_Push)
  show ?thesis
    using PopWithStrategy_total [OF inv soundPick_firstPick,
        of "\<lambda>m q. if m = 0 then Remove q demoKey else q" 0 1] inv wf
    by (simp add: sq_inv_Remove)
qed

text \<open>
  Distinct sandboxes pushed onto a fresh queue are popped in the order they were pushed,
  each exactly once, and further pops find the queue empty.
\<close>

theorem push_drain_fifo:
  assumes "distinct (map uniqueID keys)"
  shows "drain (length keys + n) (foldl Push newSynchronizedQueue keys) = map Some keys @ replicate n None"
  using assms foldl_Push_items [of newSynchronizedQueue keys]
  by (intro drain_items) (auto simp: newSynchronizedQueue_def)

theorem push_drain_fifo_witness:
  "distinct (map uniqueID [demoKey, demoKey\<lparr>sk_Name := ''sb-2''\<rparr>]) \<and>
   drain 3 (foldl Push newSynchronizedQueue [demoKey, demoKey\<lparr>sk_Name := ''sb-2''\<rparr>])
     = [Some demoKey, Some (demoKey\<lparr>sk_Name := ''sb-2''\<rparr>), None]"
  using push_drain_fifo [of "[demoKey, demoKey\<lparr>sk_Name := ''sb-2''\<rparr>]" 1]
  by (simp add: uniqueID_def demoKey_def numeral_3_eq_3 del: drain.simps)

end
