(* ===== verification/K8s_Meta.thy ===== *)
theory K8s_Meta
  imports Go_Prelude
begin

text \<open>
  The API objects the components exchange: the Sandbox types of
  \<^verbatim>\<open>api/v1beta1/sandbox_types.go\<close>, the claim, warm pool, template and node inventory types
  of \<^verbatim>\<open>extensions/api/v1beta1\<close>, and, of the Kubernetes types they embed, the fields the
  modelled code reads or writes.  A field of type \<open>string\<close> named \<open>..._Rest\<close> stands for the
  remaining fields of a Kubernetes struct, which the code only copies.

  The helpers of the apimachinery packages are not part of the sources; they enter the
  model as the record \<open>apimachinery\<close>, and what the code relies on is the predicate
  \<open>apimachinery_ok\<close>, which states their documented behaviour.
\<close>

section \<open>Metadata\<close>

record Condition =
  c_Type :: string
  c_Status :: string
  c_ObservedGeneration :: int
  c_LastTransitionTime :: gotime
  c_Reason :: string
  c_Message :: string

record OwnerReference =
  or_APIVersion :: string
  or_Kind :: string
  or_Name :: string
  or_UID :: string
  or_Controller :: bool
  or_BlockOwnerDeletion :: bool

record ObjectMeta =
  om_Name :: string
  om_GenerateName :: string
  om_Namespace :: string
  om_UID :: string
  om_ResourceVersion :: string
  om_Generation :: int
  om_CreationTimestamp :: gotime
  om_DeletionTimestamp :: "gotime option"
  om_Labels :: strmap
  om_Annotations :: strmap
  om_OwnerReferences :: "OwnerReference list"

definition emptyMeta :: ObjectMeta where
  "emptyMeta = \<lparr>om_Name = [], om_GenerateName = [], om_Namespace = [], om_UID = [],
     om_ResourceVersion = [], om_Generation = 0, om_CreationTimestamp = zeroTime,
     om_DeletionTimestamp = None, om_Labels = fmempty, om_Annotations = fmempty,
     om_OwnerReferences = []\<rparr>"

section \<open>Pods\<close>

record EnvVar =
  ev_Name :: string
  ev_Value :: string
  ev_ValueFrom :: "string option"

record Container =
  ct_Name :: string
  ct_Image :: string
  ct_Env :: "EnvVar list"
  ct_EnvFrom :: "string list"
  ct_Requests :: strmap
  ct_Limits :: strmap
  ct_Rest :: string

datatype VolumeSource = PVCSource string | OtherSource string

record Volume =
  vol_Name :: string
  vol_Source :: VolumeSource

record Toleration =
  tol_Key :: string
  tol_Operator :: string
  tol_Effect :: string
  tol_Rest :: string

record PodSpec =
  ps_Containers :: "Container list"
  ps_InitContainers :: "Container list"
  ps_Volumes :: "Volume list"
  ps_NodeName :: string
  ps_NodeSelector :: strmap
  ps_Tolerations :: "Toleration list"
  ps_RuntimeClassName :: "string option"
  ps_OS :: "string option"
  ps_AutomountServiceAccountToken :: "bool option"
  ps_DNSPolicy :: string
  ps_DNSConfig :: "string list option"
  ps_Rest :: string

definition emptyPodSpec :: PodSpec where
  "emptyPodSpec = \<lparr>ps_Containers = [], ps_InitContainers = [], ps_Volumes = [], ps_NodeName = [],
     ps_NodeSelector = fmempty, ps_Tolerations = [], ps_RuntimeClassName = None, ps_OS = None,
     ps_AutomountServiceAccountToken = None, ps_DNSPolicy = [], ps_DNSConfig = None, ps_Rest = []\<rparr>"

record PodCondition =
  pc_Type :: string
  pc_Status :: string

record Pod =
  pod_Meta :: ObjectMeta
  pod_Spec :: PodSpec
  pod_Phase :: string
  pod_Conditions :: "PodCondition list"
  pod_IPs :: "string list"

section \<open>Sandbox\<close>

record PodMetadata =
  pm_Labels :: strmap
  pm_Annotations :: strmap

record PodTemplate =
  pt_Spec :: PodSpec
  pt_Meta :: PodMetadata

record PersistentVolumeClaimTemplate =
  vct_Name :: string
  vct_Labels :: strmap
  vct_Annotations :: strmap
  vct_Spec :: string

record SandboxBlueprint =
  bp_PodTemplate :: PodTemplate
  bp_VolumeClaimTemplates :: "PersistentVolumeClaimTemplate list"
  bp_Service :: "bool option"

record SandboxSpec =
  ss_Blueprint :: SandboxBlueprint
  ss_ShutdownTime :: "gotime option"
  ss_ShutdownPolicy :: "string option"
  ss_OperatingMode :: string

record SandboxStatus =
  st_ServiceFQDN :: string
  st_Service :: string
  st_Conditions :: "Condition list"
  st_LabelSelector :: string
  st_PodIPs :: "string list"
  st_NodeName :: string

record Sandbox =
  sb_Meta :: ObjectMeta
  sb_Spec :: SandboxSpec
  sb_Status :: SandboxStatus

definition emptyBlueprint :: SandboxBlueprint where
  "emptyBlueprint = \<lparr>bp_PodTemplate = \<lparr>pt_Spec = emptyPodSpec,
       pt_Meta = \<lparr>pm_Labels = fmempty, pm_Annotations = fmempty\<rparr>\<rparr>,
     bp_VolumeClaimTemplates = [], bp_Service = None\<rparr>"

definition emptySandboxSpec :: SandboxSpec where
  "emptySandboxSpec = \<lparr>ss_Blueprint = emptyBlueprint, ss_ShutdownTime = None,
     ss_ShutdownPolicy = None, ss_OperatingMode = []\<rparr>"

definition emptySandboxStatus :: SandboxStatus where
  "emptySandboxStatus = \<lparr>st_ServiceFQDN = [], st_Service = [], st_Conditions = [],
     st_LabelSelector = [], st_PodIPs = [], st_NodeName = []\<rparr>"

definition emptySandbox :: Sandbox where
  "emptySandbox = \<lparr>sb_Meta = emptyMeta, sb_Spec = emptySandboxSpec, sb_Status = emptySandboxStatus\<rparr>"

section \<open>Claims, warm pools, templates, node inventories\<close>

record ClaimLifecycle =
  cl_ShutdownTime :: "gotime option"
  cl_TTLSecondsAfterFinished :: "32 word option"
  cl_ShutdownPolicy :: string

record ClaimEnvVar =
  ce_Name :: string
  ce_Value :: string
  ce_ContainerName :: string

record SandboxClaimSpec =
  cs_WarmPoolRef :: string
  cs_Lifecycle :: "ClaimLifecycle option"
  cs_AdditionalPodMetadata :: PodMetadata
  cs_Env :: "ClaimEnvVar list"
  cs_VolumeClaimTemplates :: "PersistentVolumeClaimTemplate list"

record SandboxClaimStatus =
  cst_Conditions :: "Condition list"
  cst_SandboxName :: string
  cst_PodIPs :: "string list"

record SandboxClaim =
  sc_Meta :: ObjectMeta
  sc_Spec :: SandboxClaimSpec
  sc_Status :: SandboxClaimStatus

record SandboxWarmPoolSpec =
  ws_Replicas :: "32 word option"
  ws_TemplateRef :: string
  ws_UpdateStrategy :: "string option"

record SandboxWarmPoolStatus =
  wt_Replicas :: "32 word"
  wt_ReadyReplicas :: "32 word"
  wt_Selector :: string

record SandboxWarmPool =
  wp_Meta :: ObjectMeta
  wp_Spec :: SandboxWarmPoolSpec
  wp_Status :: SandboxWarmPoolStatus

record SandboxTemplateSpec =
  ts_Blueprint :: SandboxBlueprint
  ts_NetworkPolicy :: "string option"
  ts_NetworkPolicyManagement :: string
  ts_EnvVarsInjectionPolicy :: string
  ts_VolumeClaimTemplatesPolicy :: string

record SandboxTemplate =
  tp_Meta :: ObjectMeta
  tp_Spec :: SandboxTemplateSpec

record PoolCapacity =
  pc_Template :: string
  pc_Net :: string
  pc_Size :: string
  pc_Warm :: int
  pc_Target :: int

record InventoryEntry =
  ie_Name :: string
  ie_ID :: string
  ie_Phase :: string
  ie_ClaimRef :: string
  ie_Address :: string

record NodeInventory =
  ni_ResourceVersion :: string
  ni_Node :: string
  ni_Entries :: "InventoryEntry list"
  ni_Address :: string
  ni_Pools :: "PoolCapacity list"

section \<open>Well-known keys\<close>

abbreviation "SandboxPodNameAnnotation \<equiv> ''agents.x-k8s.io/pod-name''"
abbreviation "SandboxTemplateRefAnnotation \<equiv> ''agents.x-k8s.io/sandbox-template-ref''"
abbreviation "SandboxLaunchTypeLabel \<equiv> ''agents.x-k8s.io/launch-type''"
abbreviation "CreatedByLabel \<equiv> ''agents.x-k8s.io/created-by''"
abbreviation "SandboxLaunchTypeCold \<equiv> ''cold''"
abbreviation "SandboxLaunchTypeWarm \<equiv> ''warm''"
abbreviation "DeprecatedSandboxPodTemplateHashLabel \<equiv> ''agents.x-k8s.io/sandbox-pod-template-hash''"
abbreviation "SandboxTemplateHashLabel \<equiv> ''agents.x-k8s.io/sandbox-template-hash''"
abbreviation "SandboxPropagatedLabelsAnnotation \<equiv> ''agents.x-k8s.io/propagated-labels''"
abbreviation "SandboxPropagatedAnnotationsAnnotation \<equiv> ''agents.x-k8s.io/propagated-annotations''"
abbreviation "SandboxAdoptableLabel \<equiv> ''agents.x-k8s.io/adoptable''"
abbreviation "SandboxWarmPoolLabel \<equiv> ''agents.x-k8s.io/warm-pool-sandbox''"
abbreviation "SandboxTemplateRefHashLabel \<equiv> ''agents.x-k8s.io/sandbox-template-ref-hash''"
abbreviation "SandboxIDLabel \<equiv> ''agents.x-k8s.io/claim-uid''"
abbreviation "AssignedSandboxNameAnnotation \<equiv> ''agents.x-k8s.io/sandbox-name''"
abbreviation "DeprecatedAssignedSandboxNameLabel \<equiv> ''agents.x-k8s.io/sandbox-name''"

section \<open>The apimachinery helpers\<close>

record apimachinery =
  FindStatusCondition :: "Condition list \<Rightarrow> string \<Rightarrow> Condition option"
  SetStatusCondition :: "gotime \<Rightarrow> Condition list \<Rightarrow> Condition \<Rightarrow> Condition list"
  RemoveStatusCondition :: "Condition list \<Rightarrow> string \<Rightarrow> Condition list"
  GetControllerOf :: "ObjectMeta \<Rightarrow> OwnerReference option"
  IsControlledBy :: "ObjectMeta \<Rightarrow> ObjectMeta \<Rightarrow> bool"

text \<open>
  Documented behaviour: \<open>FindStatusCondition\<close> returns the first condition of a type;
  \<open>SetStatusCondition\<close> replaces the condition of the given type or appends it, moving
  \<open>LastTransitionTime\<close> only when the status changes (argument one is the clock), and leaves
  the other types alone; \<open>RemoveStatusCondition\<close> drops the type; \<open>GetControllerOf\<close> returns
  the first owner reference marked as controller; \<open>IsControlledBy\<close> compares the UID of that
  reference with the owner's.
\<close>

definition find_ok :: "(Condition list \<Rightarrow> string \<Rightarrow> Condition option) \<Rightarrow> bool" where
  "find_ok f \<longleftrightarrow> (\<forall>cs t. f cs t = find (\<lambda>c. c_Type c = t) cs)"

definition set_ok :: "(gotime \<Rightarrow> Condition list \<Rightarrow> Condition \<Rightarrow> Condition list) \<Rightarrow> bool" where
  "set_ok f \<longleftrightarrow>
     (\<forall>now cs c. \<exists>c'. find (\<lambda>x. c_Type x = c_Type c) (f now cs c) = Some c' \<and>
        c_Status c' = c_Status c \<and> c_Reason c' = c_Reason c \<and> c_Message c' = c_Message c \<and>
        c_ObservedGeneration c' = c_ObservedGeneration c \<and>
        (\<forall>old. find (\<lambda>x. c_Type x = c_Type c) cs = Some old \<and> c_Status old = c_Status c
           \<longrightarrow> c_LastTransitionTime c' = c_LastTransitionTime old)) \<and>
     (\<forall>now cs c t. t \<noteq> c_Type c \<longrightarrow>
        find (\<lambda>x. c_Type x = t) (f now cs c) = find (\<lambda>x. c_Type x = t) cs)"

definition remove_ok :: "(Condition list \<Rightarrow> string \<Rightarrow> Condition list) \<Rightarrow> bool" where
  "remove_ok f \<longleftrightarrow> (\<forall>cs t. f cs t = filter (\<lambda>c. c_Type c \<noteq> t) cs)"

definition controller_ok :: "(ObjectMeta \<Rightarrow> OwnerReference option) \<Rightarrow> bool" where
  "controller_ok f \<longleftrightarrow> (\<forall>m. f m = find or_Controller (om_OwnerReferences m))"

definition controlled_ok ::
  "(ObjectMeta \<Rightarrow> OwnerReference option) \<Rightarrow> (ObjectMeta \<Rightarrow> ObjectMeta \<Rightarrow> bool) \<Rightarrow> bool" where
  "controlled_ok f g \<longleftrightarrow> (\<forall>obj owner. g obj owner = (\<exists>r. f obj = Some r \<and> or_UID r = om_UID owner))"

definition apimachinery_ok :: "apimachinery \<Rightarrow> bool" where
  "apimachinery_ok api \<longleftrightarrow> find_ok (FindStatusCondition api) \<and> set_ok (SetStatusCondition api) \<and>
     remove_ok (RemoveStatusCondition api) \<and> controller_ok (GetControllerOf api) \<and>
     controlled_ok (GetControllerOf api) (IsControlledBy api)"

section \<open>A concrete instance, for witnesses\<close>

fun upsertCondition :: "gotime \<Rightarrow> Condition list \<Rightarrow> Condition \<Rightarrow> Condition list" where
  "upsertCondition now [] c =
     [if c_LastTransitionTime c = zeroTime then c\<lparr>c_LastTransitionTime := now\<rparr> else c]"
| "upsertCondition now (x # xs) c =
     (if c_Type x = c_Type c then
        (if c_Status x = c_Status c then c\<lparr>c_LastTransitionTime := c_LastTransitionTime x\<rparr>
         else if c_LastTransitionTime c = zeroTime then c\<lparr>c_LastTransitionTime := now\<rparr> else c) # xs
      else x # upsertCondition now xs c)"

definition stdMachinery :: apimachinery where
  "stdMachinery = \<lparr>FindStatusCondition = (\<lambda>cs t. find (\<lambda>c. c_Type c = t) cs),
     SetStatusCondition = upsertCondition,
     RemoveStatusCondition = (\<lambda>cs t. filter (\<lambda>c. c_Type c \<noteq> t) cs),
     GetControllerOf = (\<lambda>m. find or_Controller (om_OwnerReferences m)),
     IsControlledBy = (\<lambda>m owner. case find or_Controller (om_OwnerReferences m) of
        None \<Rightarrow> False | Some r \<Rightarrow> or_UID r = om_UID owner)\<rparr>"

lemma upsert_same:
  "\<exists>c'. find (\<lambda>x. c_Type x = c_Type c) (upsertCondition now cs c) = Some c' \<and>
     c_Status c' = c_Status c \<and> c_Reason c' = c_Reason c \<and> c_Message c' = c_Message c \<and>
     c_ObservedGeneration c' = c_ObservedGeneration c \<and>
     (\<forall>old. find (\<lambda>x. c_Type x = c_Type c) cs = Some old \<and> c_Status old = c_Status c
           \<longrightarrow> c_LastTransitionTime c' = c_LastTransitionTime old)"
  by (induction cs) auto

lemma upsert_other:
  "t \<noteq> c_Type c \<Longrightarrow>
     find (\<lambda>x. c_Type x = t) (upsertCondition now cs c) = find (\<lambda>x. c_Type x = t) cs"
  by (induction cs) auto

lemma stdMachinery_ok: "apimachinery_ok stdMachinery"
  using upsert_same upsert_other
  by (simp add: apimachinery_ok_def stdMachinery_def find_ok_def set_ok_def remove_ok_def
      controller_ok_def controlled_ok_def split: option.splits)

lemma find_okD [simp]:
  "apimachinery_ok api \<Longrightarrow> FindStatusCondition api cs t = find (\<lambda>c. c_Type c = t) cs"
  by (simp add: apimachinery_ok_def find_ok_def)

lemma remove_okD [simp]:
  "apimachinery_ok api \<Longrightarrow> RemoveStatusCondition api cs t = filter (\<lambda>c. c_Type c \<noteq> t) cs"
  by (simp add: apimachinery_ok_def remove_ok_def)

lemma set_same:
  assumes "apimachinery_ok api"
  obtains c' where "find (\<lambda>x. c_Type x = c_Type c) (SetStatusCondition api now cs c) = Some c'"
    "c_Status c' = c_Status c" "c_Reason c' = c_Reason c" "c_Message c' = c_Message c"
    "c_ObservedGeneration c' = c_ObservedGeneration c"
  using assms unfolding apimachinery_ok_def set_ok_def by blast

lemma set_other [simp]:
  "apimachinery_ok api \<Longrightarrow> t \<noteq> c_Type c \<Longrightarrow>
     find (\<lambda>x. c_Type x = t) (SetStatusCondition api now cs c) = find (\<lambda>x. c_Type x = t) cs"
  by (simp add: apimachinery_ok_def set_ok_def)

lemma IsControlledBy_iff:
  "apimachinery_ok api \<Longrightarrow> IsControlledBy api obj owner \<longleftrightarrow>
     (\<exists>r. find or_Controller (om_OwnerReferences obj) = Some r \<and> or_UID r = om_UID owner)"
  by (simp add: apimachinery_ok_def controller_ok_def controlled_ok_def)

lemma GetControllerOf_okD [simp]:
  "apimachinery_ok api \<Longrightarrow> GetControllerOf api m = find or_Controller (om_OwnerReferences m)"
  by (simp add: apimachinery_ok_def controller_ok_def)

end
