(* ===== verification/Expiry.thy ===== *)
theory Expiry
  imports K8s_Meta
begin

text \<open>
  Expiry of sandboxes and claims (\<^verbatim>\<open>internal/lifecycle/expiry.go\<close>): the absolute shutdown time
  and the time-to-live after finishing, combined into the earliest deadline and the time
  left until it.
\<close>

definition FinishedCondition :: "apimachinery \<Rightarrow> Condition list \<Rightarrow> string \<Rightarrow> Condition option" where
  "FinishedCondition api conditions conditionType =
     (case FindStatusCondition api conditions conditionType of
        None \<Rightarrow> None
      | Some condition \<Rightarrow> if c_Status condition \<noteq> ''True'' then None else Some condition)"

definition NeedsCleanup :: "32 word option \<Rightarrow> Condition option \<Rightarrow> bool" where
  "NeedsCleanup ttlSecondsAfterFinished finishedCondition \<longleftrightarrow>
     ttlSecondsAfterFinished \<noteq> None \<and> finishedCondition \<noteq> None"

definition FinishedTime :: "Condition option \<Rightarrow> gotime option" where
  "FinishedTime finishedCondition =
     (case finishedCondition of
        None \<Rightarrow> None
      | Some c \<Rightarrow> if c_LastTransitionTime c = zeroTime then None else Some (c_LastTransitionTime c))"

text \<open>\<open>time.Duration(*ttl) * time.Second\<close>: the product is taken in 64 bits.\<close>

definition ttlDuration :: "32 word \<Rightarrow> int" where
  "ttlDuration ttl = wrap64 (sint ttl * second)"

definition ExpireAt :: "gotime option \<Rightarrow> 32 word option \<Rightarrow> Condition option \<Rightarrow> gotime option" where
  "ExpireAt shutdownTime ttl finishedCondition =
     (let expireAt = shutdownTime
      in if \<not> NeedsCleanup ttl finishedCondition then expireAt
         else case FinishedTime finishedCondition of
                None \<Rightarrow> expireAt
              | Some finishedAt \<Rightarrow>
                  let ttlExpireAt = finishedAt + ttlDuration (the ttl)
                  in case expireAt of
                       None \<Rightarrow> Some ttlExpireAt
                     | Some e \<Rightarrow> if ttlExpireAt < e then Some ttlExpireAt else Some e)"

definition TimeLeft ::
  "gotime \<Rightarrow> gotime option \<Rightarrow> 32 word option \<Rightarrow> Condition option \<Rightarrow> bool \<times> int" where
  "TimeLeft now shutdownTime ttl finishedCondition =
     (case ExpireAt shutdownTime ttl finishedCondition of
        None \<Rightarrow> (False, 0)
      | Some expireAt \<Rightarrow> if \<not> now < expireAt then (True, 0) else (False, timeSub expireAt now))"

text \<open>The deadlines in force: the shutdown time, and the finish time plus the time-to-live.\<close>

definition deadlines :: "gotime option \<Rightarrow> 32 word option \<Rightarrow> Condition option \<Rightarrow> gotime set" where
  "deadlines shutdownTime ttl fin =
     set_option shutdownTime \<union>
     {t + sint w * second | t w. FinishedTime fin = Some t \<and> ttl = Some w}"

lemma ttlDuration_exact: "ttlDuration w = sint w * second"
  unfolding ttlDuration_def using sint32_bounds [of w]
  by (intro wrap64_id) (simp_all add: second_def minDuration_def maxDuration_def)

lemma finite_deadlines: "finite (deadlines s ttl fin)"
  by (cases s; cases "FinishedTime fin"; cases ttl) (auto simp: deadlines_def)

lemma FinishedTime_Some_cond: "FinishedTime fin = Some t \<Longrightarrow> fin \<noteq> None"
  by (auto simp: FinishedTime_def split: option.splits)

lemma ExpireAt_None_iff: "ExpireAt s ttl fin = None \<longleftrightarrow> deadlines s ttl fin = {}"
  by (cases s; cases ttl; cases "FinishedTime fin")
    (auto simp: ExpireAt_def NeedsCleanup_def deadlines_def Let_def FinishedTime_Some_cond)

lemma ExpireAt_Min:
  "ExpireAt s ttl fin = (if deadlines s ttl fin = {} then None else Some (Min (deadlines s ttl fin)))"
proof (cases "\<exists>t w. FinishedTime fin = Some t \<and> ttl = Some w")
  case True
  then obtain t w where tw: "FinishedTime fin = Some t" "ttl = Some w" by blast
  then have "deadlines s ttl fin = set_option s \<union> {t + sint w * second}"
    by (auto simp: deadlines_def)
  with tw show ?thesis
    by (cases s)
      (auto simp: ExpireAt_def NeedsCleanup_def FinishedTime_Some_cond ttlDuration_exact min_def Let_def)
next
  case False
  then have d: "deadlines s ttl fin = set_option s" by (auto simp: deadlines_def)
  from False have "\<not> NeedsCleanup ttl fin \<or> FinishedTime fin = None"
    by (auto simp: NeedsCleanup_def)
  then show ?thesis unfolding d
    by (cases s) (auto simp: ExpireAt_def Let_def)
qed

text \<open>
  C33: \<open>TimeLeft\<close> reports expiry exactly when one of the configured deadlines has passed; the
  time-to-live product never overflows.  While nothing has expired, the reported delay is
  positive, and a re-check after it (when it is representable as a \<open>Duration\<close>) reports
  expiry while any earlier one does not: the controller's requeue is neither early nor late.
\<close>

theorem TimeLeft_exact:
  "(fst (TimeLeft now s ttl fin) \<longleftrightarrow> (\<exists>d\<in>deadlines s ttl fin. d \<le> now)) \<and>
   (deadlines s ttl fin \<noteq> {} \<and> \<not> fst (TimeLeft now s ttl fin) \<longrightarrow>
     0 < snd (TimeLeft now s ttl fin) \<and>
     (\<forall>t < now + snd (TimeLeft now s ttl fin). \<not> fst (TimeLeft t s ttl fin)) \<and>
     (Min (deadlines s ttl fin) - now \<le> maxDuration \<longrightarrow>
        fst (TimeLeft (now + snd (TimeLeft now s ttl fin)) s ttl fin)))"
  (is "?A \<and> (?B \<longrightarrow> ?C)")
proof (intro conjI [of ?A] impI)
  let ?D = "deadlines s ttl fin"
  have exp: "fst (TimeLeft u s ttl fin) \<longleftrightarrow> ?D \<noteq> {} \<and> Min ?D \<le> u" for u
    by (auto simp: TimeLeft_def ExpireAt_Min)
  then show ?A
    using Min_le_iff [OF finite_deadlines, of s ttl fin now] by auto
  assume ?B
  with exp have ne: "?D \<noteq> {}" and lt: "now < Min ?D" by auto
  then have "snd (TimeLeft now s ttl fin) = timeSub (Min ?D) now"
    by (simp add: TimeLeft_def ExpireAt_Min)
  with timeSub_pos [OF lt] ne exp lt show ?C
    by (auto simp: timeSub_def minDuration_def)
qed

definition demoFinished :: Condition where
  "demoFinished = \<lparr>c_Type = ''Finished'', c_Status = ''True'', c_ObservedGeneration = 1,
     c_LastTransitionTime = 100 * second, c_Reason = ''PodSucceeded'', c_Message = []\<rparr>"

lemma demo_deadlines: "deadlines (Some (200 * second)) (Some 30) (Some demoFinished) = {200 * second, 130 * second}"
  by (auto simp: deadlines_def FinishedTime_def demoFinished_def second_def)

theorem TimeLeft_exact_witness:
  "deadlines (Some (200 * second)) (Some 30) (Some demoFinished) = {200 * second, 130 * second} \<and>
   TimeLeft (120 * second) (Some (200 * second)) (Some 30) (Some demoFinished) = (False, 10 * second) \<and>
   \<not> fst (TimeLeft (129 * second) (Some (200 * second)) (Some 30) (Some demoFinished)) \<and>
   fst (TimeLeft (130 * second) (Some (200 * second)) (Some 30) (Some demoFinished))"
proof -
  have t: "TimeLeft (120 * second) (Some (200 * second)) (Some 30) (Some demoFinished) = (False, 10 * second)"
    by (simp add: TimeLeft_def ExpireAt_def NeedsCleanup_def FinishedTime_def ttlDuration_exact
        demoFinished_def second_def timeSub_def maxDuration_def minDuration_def)
  have m: "Min (deadlines (Some (200 * second)) (Some 30) (Some demoFinished)) = 130 * second"
    unfolding demo_deadlines by (simp add: second_def)
  from TimeLeft_exact [of "120 * second" "Some (200 * second)" "Some 30" "Some demoFinished"] t m demo_deadlines
  show ?thesis by (simp add: second_def maxDuration_def)
qed

end
