(* ===== verification/Pod_Runtime.thy ===== *)
theory Pod_Runtime
  imports K8s_Meta Sha256
begin

text \<open>
  The runtime adapter (\<^verbatim>\<open>pkg/podruntime/cocoon.go\<close>): it routes a newly created Pod to the
  virtual node of the selected runtime, filling in defaults without replacing what the user
  supplied, and derives a stable VM name.
\<close>

section \<open>Constants and errors\<close>

abbreviation "RuntimeAnnotation \<equiv> ''sandbox.cocoonstack.io/runtime''"
abbreviation "ModeVKCocoon \<equiv> ''vk-cocoon''"
abbreviation "ModeStandard \<equiv> ''standard''"
abbreviation "ModeSandboxd \<equiv> ''sandboxd''"
abbreviation "vkProviderTaintKey \<equiv> ''virtual-kubelet.io/provider''"
abbreviation "vkNodeLabelKey \<equiv> ''node.kubernetes.io/instance-type''"
abbreviation "vkNodeLabelValue \<equiv> ''virtual-node''"
abbreviation "sandboxdNodeLabelKey \<equiv> ''cocoon-sandbox.io/runtime''"
abbreviation "sandboxdNodeLabelValue \<equiv> ''sandboxd''"
abbreviation "sandboxdTemplateAnnotation \<equiv> ''sandbox.cocoonstack.io/template''"
abbreviation "cocoonModeAnnotation \<equiv> ''cocoonset.cocoonstack.io/mode''"
abbreviation "cocoonManagedAnnotation \<equiv> ''cocoonset.cocoonstack.io/managed''"
abbreviation "cocoonImageAnnotation \<equiv> ''cocoonset.cocoonstack.io/image''"
abbreviation "cocoonOSAnnotation \<equiv> ''cocoonset.cocoonstack.io/os''"
abbreviation "cocoonVMNameAnnotation \<equiv> ''vm.cocoonstack.io/name''"

datatype runtimeError =
    UnsupportedDefault string
  | NilSandbox
  | NilPod
  | UnsupportedMode string
  | ConflictsRuntimeClass string
  | ConflictsNodeName string string
  | ConflictsSelector string string string

section \<open>The mutator\<close>

record Mutator =
  defaultMode :: string

definition NewMutator :: "string \<Rightarrow> runtimeError + Mutator" where
  "NewMutator dm =
     (let mode = TrimSpace dm
      in if mode = ModeVKCocoon \<or> mode = ModeStandard \<or> mode = ModeSandboxd
         then Inr \<lparr>defaultMode = mode\<rparr> else Inl (UnsupportedDefault dm))"

definition setDefault :: "strmap \<Rightarrow> string \<Rightarrow> string \<Rightarrow> strmap" where
  "setDefault values key value =
     (if fmlookup values key = None \<and> value \<noteq> [] then fmupd key value values else values)"

fun toleratesVKCocoon :: "Toleration list \<Rightarrow> bool" where
  "toleratesVKCocoon [] = False"
| "toleratesVKCocoon (t # ts) =
     (if tol_Key t \<noteq> vkProviderTaintKey \<or> tol_Operator t \<noteq> ''Exists'' then toleratesVKCocoon ts
      else if tol_Effect t = [] \<or> tol_Effect t = ''NoSchedule'' then True
      else toleratesVKCocoon ts)"

definition requestedMode :: "Pod \<Rightarrow> string \<Rightarrow> string \<times> bool" where
  "requestedMode pod dm =
     (let value = TrimSpace (mget (om_Annotations (pod_Meta pod)) RuntimeAnnotation)
      in if value \<noteq> [] then (value, True)
         else if ps_RuntimeClassName (pod_Spec pod) \<noteq> None then (ModeStandard, False)
         else (dm, False))"

definition vkToleration :: Toleration where
  "vkToleration = \<lparr>tol_Key = vkProviderTaintKey, tol_Operator = ''Exists'',
     tol_Effect = ''NoSchedule'', tol_Rest = []\<rparr>"

definition routeToVirtualNode :: "Pod \<Rightarrow> string \<Rightarrow> string \<Rightarrow> string \<Rightarrow> runtimeError + Pod" where
  "routeToVirtualNode pod mode labelKey labelValue =
     (let spec = pod_Spec pod
      in if ps_NodeName spec \<noteq> [] then Inl (ConflictsNodeName mode (ps_NodeName spec))
         else if \<exists>value. fmlookup (ps_NodeSelector spec) labelKey = Some value \<and> value \<noteq> labelValue
         then Inl (ConflictsSelector labelKey (mget (ps_NodeSelector spec) labelKey) mode)
         else Inr (pod\<lparr>pod_Spec := spec\<lparr>
           ps_NodeSelector := fmupd labelKey labelValue (ps_NodeSelector spec),
           ps_Tolerations := (if \<not> toleratesVKCocoon (ps_Tolerations spec)
             then ps_Tolerations spec @ [vkToleration] else ps_Tolerations spec)\<rparr>\<rparr>))"

text \<open>The loop of \<open>stableVMName\<close>: runs of other characters collapse to one hyphen.\<close>

fun vmNormalize :: "bool \<Rightarrow> string \<Rightarrow> string" where
  "vmNormalize lastDash [] = []"
| "vmNormalize lastDash (c # cs) =
     (if isLower c \<or> isDigitChar c then c # vmNormalize False cs
      else if \<not> lastDash then CHR ''-'' # vmNormalize True cs
      else vmNormalize True cs)"

abbreviation trimDash :: "string \<Rightarrow> string" where
  "trimDash \<equiv> trimWhile (\<lambda>c. c = CHR ''-'')"

definition stableVMName :: "string \<Rightarrow> string \<Rightarrow> string" where
  "stableVMName namespace name =
     (let raw = toLower (trimDash (''sandbox'' @ ''-'' @ namespace @ ''-'' @ name));
          prefix0 = trimDash (vmNormalize False raw);
          prefix1 = (if prefix0 = [] then ''sandbox'' else prefix0);
          digest = take 8 (hexBytes (Sum256 (namespace @ ''/'' @ name)));
          maxPrefix = 63 - 1 - 8;
          prefix = (if length prefix1 > maxPrefix then trimDash (take maxPrefix prefix1) else prefix1)
      in prefix @ ''-'' @ digest)"

definition withAnnotations :: "strmap \<Rightarrow> Pod \<Rightarrow> Pod" where
  "withAnnotations m pod = pod\<lparr>pod_Meta := (pod_Meta pod)\<lparr>om_Annotations := m\<rparr>\<rparr>"

definition osName :: "Pod \<Rightarrow> string" where
  "osName pod =
     (case ps_OS (pod_Spec pod) of
        None \<Rightarrow> ''linux''
      | Some n \<Rightarrow> if n \<noteq> [] then n else ''linux'')"

definition vkAnnotations :: "Sandbox \<Rightarrow> Pod \<Rightarrow> strmap" where
  "vkAnnotations sandbox pod =
     (let a0 = om_Annotations (pod_Meta pod);
          a1 = setDefault a0 RuntimeAnnotation ModeVKCocoon;
          a2 = setDefault a1 cocoonModeAnnotation ''run'';
          a3 = setDefault a2 cocoonManagedAnnotation ''true'';
          a4 = setDefault a3 cocoonVMNameAnnotation
                 (stableVMName (om_Namespace (sb_Meta sandbox)) (om_Name (sb_Meta sandbox)));
          a5 = (case ps_Containers (pod_Spec pod) of
                  [] \<Rightarrow> a4 | c # _ \<Rightarrow> setDefault a4 cocoonImageAnnotation (ct_Image c))
      in setDefault a5 cocoonOSAnnotation (toLower (osName pod)))"

definition mutateVKCocoon :: "Sandbox \<Rightarrow> Pod \<Rightarrow> bool \<Rightarrow> runtimeError + Pod" where
  "mutateVKCocoon sandbox pod explicit =
     (if ps_RuntimeClassName (pod_Spec pod) \<noteq> None
      then (if explicit then Inl (ConflictsRuntimeClass ModeVKCocoon) else Inr pod)
      else case routeToVirtualNode pod ModeVKCocoon vkNodeLabelKey vkNodeLabelValue of
             Inl err \<Rightarrow> Inl err
           | Inr pod' \<Rightarrow> Inr (withAnnotations (vkAnnotations sandbox pod') pod'))"

definition sandboxdAnnotations :: "Pod \<Rightarrow> strmap" where
  "sandboxdAnnotations pod =
     (let a0 = om_Annotations (pod_Meta pod);
          a1 = setDefault a0 RuntimeAnnotation ModeSandboxd
      in case ps_Containers (pod_Spec pod) of
           [] \<Rightarrow> a1 | c # _ \<Rightarrow> setDefault a1 sandboxdTemplateAnnotation (ct_Image c))"

definition mutateSandboxd :: "Pod \<Rightarrow> bool \<Rightarrow> runtimeError + Pod" where
  "mutateSandboxd pod explicit =
     (if ps_RuntimeClassName (pod_Spec pod) \<noteq> None
      then (if explicit then Inl (ConflictsRuntimeClass ModeSandboxd) else Inr pod)
      else case routeToVirtualNode pod ModeSandboxd sandboxdNodeLabelKey sandboxdNodeLabelValue of
             Inl err \<Rightarrow> Inl err
           | Inr pod' \<Rightarrow> Inr (withAnnotations (sandboxdAnnotations pod') pod'))"

definition MutatePod :: "Mutator \<Rightarrow> Sandbox option \<Rightarrow> Pod option \<Rightarrow> runtimeError + Pod" where
  "MutatePod m sandbox pod =
     (case sandbox of
        None \<Rightarrow> Inl NilSandbox
      | Some sb \<Rightarrow>
          case pod of
            None \<Rightarrow> Inl NilPod
          | Some p \<Rightarrow>
              let (mode, explicit) = requestedMode p (defaultMode m)
              in if mode = ModeStandard then Inr p
                 else if mode = ModeVKCocoon then mutateVKCocoon sb p explicit
                 else if mode = ModeSandboxd then mutateSandboxd p explicit
                 else Inl (UnsupportedMode mode))"

section \<open>The stable VM name is a DNS label\<close>

definition dnsChar :: "char \<Rightarrow> bool" where
  "dnsChar c \<longleftrightarrow> isLower c \<or> isDigitChar c \<or> c = CHR ''-''"

definition dnsLabel :: "string \<Rightarrow> bool" where
  "dnsLabel s \<longleftrightarrow> s \<noteq> [] \<and> length s \<le> 63 \<and> list_all dnsChar s \<and>
     hd s \<noteq> CHR ''-'' \<and> last s \<noteq> CHR ''-''"

lemma vmNormalize_dns: "list_all dnsChar (vmNormalize b s)"
  by (induction b s rule: vmNormalize.induct) (auto simp: dnsChar_def)

lemma trimDash_dns: "list_all dnsChar s \<Longrightarrow> list_all dnsChar (trimDash s)"
  using set_trimWhile by (fastforce simp: list_all_iff)

lemma trimDash_nonempty:
  assumes "s \<noteq> []" "hd s \<noteq> CHR ''-''"
  shows "trimDash s \<noteq> []"
proof -
  from assms have d: "dropWhile (\<lambda>c. c = CHR ''-'') s = s" by (cases s) auto
  have "hd s \<in> set (rev s)" using assms by simp
  with assms(2) have "dropWhile (\<lambda>c. c = CHR ''-'') (rev s) \<noteq> []"
    by (metis (mono_tags) dropWhile_eq_Nil_conv)
  with d show ?thesis by (simp add: trimWhile_def)
qed

text \<open>A cut or whole prefix: at most 54 DNS characters, not empty, no leading hyphen.\<close>

lemma vmPrefix:
  assumes "list_all dnsChar p" "p \<noteq> []" "hd p \<noteq> CHR ''-''"
    and "q = (if length p > 54 then trimDash (take 54 p) else p)"
  shows "list_all dnsChar q \<and> q \<noteq> [] \<and> hd q \<noteq> CHR ''-'' \<and> length q \<le> 54"
proof (cases "length p > 54")
  case True
  have t: "take 54 p \<noteq> []" "hd (take 54 p) \<noteq> CHR ''-''"
    using assms(2,3) by (cases p; simp)+
  then have ne: "trimDash (take 54 p) \<noteq> []" by (rule trimDash_nonempty)
  have "list_all dnsChar (take 54 p)"
    using assms(1) by (auto simp: list_all_iff dest: in_set_takeD)
  then have "list_all dnsChar (trimDash (take 54 p))" by (rule trimDash_dns)
  moreover have "length (trimDash (take 54 p)) \<le> 54"
    using length_trimWhile [of "\<lambda>c. c = CHR ''-''" "take 54 p"] by simp
  ultimately show ?thesis
    using True ne trimWhile_ends [OF ne] assms(4) by simp
next
  case False
  with assms show ?thesis by simp
qed

lemma vmPrefix0:
  assumes "p = trimDash (vmNormalize False raw)"
  shows "list_all dnsChar (if p = [] then ''sandbox'' else p) \<and>
    (if p = [] then ''sandbox'' else p) \<noteq> [] \<and> hd (if p = [] then ''sandbox'' else p) \<noteq> CHR ''-''"
proof (cases "p = []")
  case True
  then show ?thesis by (simp add: dnsChar_def isLower_def less_eq_char_def)
next
  case False
  with assms trimWhile_ends [of "\<lambda>c. c = CHR ''-''" "vmNormalize False raw"]
  show ?thesis by (simp add: trimDash_dns vmNormalize_dns)
qed

lemma digest8:
  "length (take 8 (hexBytes (Sum256 s))) = 8" "list_all dnsChar (take 8 (hexBytes (Sum256 s)))"
  "last (take 8 (hexBytes (Sum256 s))) \<noteq> CHR ''-''"
proof -
  show l: "length (take 8 (hexBytes (Sum256 s))) = 8" by simp
  have c: "isLower c \<or> isDigitChar c" if "c \<in> set (take 8 (hexBytes (Sum256 s)))" for c
    using that by (meson hexBytes_class in_set_takeD)
  then show "list_all dnsChar (take 8 (hexBytes (Sum256 s)))"
    by (auto simp: list_all_iff dnsChar_def)
  have "\<not> (isLower (CHR ''-'') \<or> isDigitChar (CHR ''-''))"
    by (simp add: isLower_def isDigitChar_def less_eq_char_def)
  with c show "last (take 8 (hexBytes (Sum256 s))) \<noteq> CHR ''-''"
    using l by (metis last_in_set length_0_conv zero_neq_numeral)
qed

text \<open>
  For every namespace and name, however long and whatever characters they carry, the
  stable VM name is a DNS label: 1 to 63 characters of \<open>[a-z0-9-]\<close>, no hyphen at either end.
\<close>

theorem stableVMName_dnsLabel: "dnsLabel (stableVMName namespace name)"
proof -
  define raw where "raw = toLower (trimDash (''sandbox'' @ ''-'' @ namespace @ ''-'' @ name))"
  define p where "p = (if trimDash (vmNormalize False raw) = [] then ''sandbox''
    else trimDash (vmNormalize False raw))"
  define q where "q = (if length p > 54 then trimDash (take 54 p) else p)"
  define d where "d = take 8 (hexBytes (Sum256 (namespace @ ''/'' @ name)))"
  have "list_all dnsChar q \<and> q \<noteq> [] \<and> hd q \<noteq> CHR ''-'' \<and> length q \<le> 54"
    using vmPrefix0 [OF refl, of raw] q_def unfolding p_def by (intro vmPrefix) auto
  moreover have "stableVMName namespace name = q @ CHR ''-'' # d"
    by (simp add: stableVMName_def Let_def raw_def p_def q_def d_def)
  moreover have "d \<noteq> []"
    using digest8(1) [of "namespace @ ''/'' @ name"] unfolding d_def
    by (metis list.size(3) zero_neq_numeral)
  moreover have "length d = 8" "list_all dnsChar d" "last d \<noteq> CHR ''-''"
    using digest8 [of "namespace @ ''/'' @ name"] unfolding d_def by auto
  ultimately show ?thesis
    by (simp add: dnsLabel_def dnsChar_def)
qed

section \<open>Defaults never replace what the user supplied\<close>

definition extends :: "strmap \<Rightarrow> strmap \<Rightarrow> bool" where
  "extends m m' \<longleftrightarrow> (\<forall>k v. fmlookup m k = Some v \<longrightarrow> fmlookup m' k = Some v)"

lemma extends_refl [simp]: "extends m m"
  by (simp add: extends_def)

lemma extends_trans: "extends a b \<Longrightarrow> extends b c \<Longrightarrow> extends a c"
  by (simp add: extends_def)

lemma extends_setDefault: "extends m m' \<Longrightarrow> extends m (setDefault m' k v)"
  by (auto simp: extends_def setDefault_def)

lemma setDefault_settled: "v = [] \<or> fmlookup m k \<noteq> None \<Longrightarrow> setDefault m k v = m"
  by (auto simp: setDefault_def)

lemma setDefault_settles: "v = [] \<or> fmlookup (setDefault m k v) k \<noteq> None"
  by (simp add: setDefault_def)

lemma setDefault_keeps: "fmlookup m k' \<noteq> None \<Longrightarrow> fmlookup (setDefault m k v) k' \<noteq> None"
  by (simp add: setDefault_def)

lemma vkAnnotations_extends: "extends (om_Annotations (pod_Meta pod)) (vkAnnotations sb pod)"
  by (auto simp: vkAnnotations_def Let_def extends_setDefault split: list.splits)

lemma sandboxdAnnotations_extends: "extends (om_Annotations (pod_Meta pod)) (sandboxdAnnotations pod)"
  by (auto simp: sandboxdAnnotations_def Let_def extends_setDefault split: list.splits)

lemma toleratesVKCocoon_snoc: "toleratesVKCocoon (ts @ [vkToleration])"
  by (induction ts) (auto simp: vkToleration_def)

lemma routeToVirtualNode_Inr:
  assumes "routeToVirtualNode pod mode k v = Inr pod'"
  shows "pod_Meta pod' = pod_Meta pod \<and>
    fmlookup (ps_NodeSelector (pod_Spec pod')) k = Some v \<and>
    extends (ps_NodeSelector (pod_Spec pod)) (ps_NodeSelector (pod_Spec pod')) \<and>
    toleratesVKCocoon (ps_Tolerations (pod_Spec pod')) \<and>
    prefix (ps_Tolerations (pod_Spec pod)) (ps_Tolerations (pod_Spec pod')) \<and>
    ps_NodeName (pod_Spec pod') = [] \<and>
    ps_Containers (pod_Spec pod') = ps_Containers (pod_Spec pod) \<and>
    ps_OS (pod_Spec pod') = ps_OS (pod_Spec pod) \<and>
    ps_RuntimeClassName (pod_Spec pod') = ps_RuntimeClassName (pod_Spec pod)"
  using assms
  by (auto simp: routeToVirtualNode_def Let_def extends_def toleratesVKCocoon_snoc split: if_splits)

text \<open>The chains of \<open>setDefault\<close> as one fold, which is idempotent.\<close>

definition setDefaults :: "strmap \<Rightarrow> (string \<times> string) list \<Rightarrow> strmap" where
  "setDefaults m kvs = foldl (\<lambda>m (k, v). setDefault m k v) m kvs"

lemma setDefaults_simps [simp]:
  "setDefaults m [] = m"
  "setDefaults m ((k, v) # kvs) = setDefaults (setDefault m k v) kvs"
  by (simp_all add: setDefaults_def)

lemma setDefaults_keeps: "fmlookup m k \<noteq> None \<Longrightarrow> fmlookup (setDefaults m kvs) k \<noteq> None"
  by (induction kvs arbitrary: m) (auto simp: setDefault_def)

lemma setDefaults_settles: "(k, v) \<in> set kvs \<Longrightarrow> v = [] \<or> fmlookup (setDefaults m kvs) k \<noteq> None"
proof (induction kvs arbitrary: m)
  case (Cons kv kvs)
  then show ?case
    using setDefault_settles [of v m k] setDefaults_keeps by (cases kv) auto
qed simp

lemma setDefaults_settled:
  "\<forall>(k, v)\<in>set kvs. v = [] \<or> fmlookup m k \<noteq> None \<Longrightarrow> setDefaults m kvs = m"
  by (induction kvs) (auto simp: setDefault_settled)

lemma setDefaults_idem: "setDefaults (setDefaults m kvs) kvs = setDefaults m kvs"
  by (rule setDefaults_settled) (use setDefaults_settles in fast)

lemma vkAnnotations_setDefaults:
  "vkAnnotations sb pod = setDefaults (om_Annotations (pod_Meta pod))
     ([(RuntimeAnnotation, ModeVKCocoon), (cocoonModeAnnotation, ''run''),
       (cocoonManagedAnnotation, ''true''),
       (cocoonVMNameAnnotation, stableVMName (om_Namespace (sb_Meta sb)) (om_Name (sb_Meta sb)))] @
      (case ps_Containers (pod_Spec pod) of [] \<Rightarrow> [] | c # _ \<Rightarrow> [(cocoonImageAnnotation, ct_Image c)]) @
      [(cocoonOSAnnotation, toLower (osName pod))])"
  by (simp add: vkAnnotations_def Let_def split: list.splits)

lemma sandboxdAnnotations_setDefaults:
  "sandboxdAnnotations pod = setDefaults (om_Annotations (pod_Meta pod))
     ((RuntimeAnnotation, ModeSandboxd) #
      (case ps_Containers (pod_Spec pod) of [] \<Rightarrow> [] | c # _ \<Rightarrow> [(sandboxdTemplateAnnotation, ct_Image c)]))"
  by (simp add: sandboxdAnnotations_def Let_def split: list.splits)

lemma withAnnotations_sel [simp]:
  "om_Annotations (pod_Meta (withAnnotations m pod)) = m"
  "pod_Spec (withAnnotations m pod) = pod_Spec pod"
  "withAnnotations m' (withAnnotations m pod) = withAnnotations m' pod"
  "osName (withAnnotations m pod) = osName pod"
  by (simp_all add: withAnnotations_def osName_def)

lemma annotations_idem:
  "vkAnnotations sb (withAnnotations (vkAnnotations sb pod) pod) = vkAnnotations sb pod"
  "sandboxdAnnotations (withAnnotations (sandboxdAnnotations pod) pod) = sandboxdAnnotations pod"
  by (simp_all only: vkAnnotations_setDefaults sandboxdAnnotations_setDefaults withAnnotations_sel
      setDefaults_idem)

lemma fmupd_triv: "fmlookup m k = Some v \<Longrightarrow> fmupd k v m = m"
  by (rule fmap_ext) auto

lemma routeToVirtualNode_fix:
  assumes "ps_NodeName (pod_Spec pod) = []" "fmlookup (ps_NodeSelector (pod_Spec pod)) k = Some v"
    and "toleratesVKCocoon (ps_Tolerations (pod_Spec pod))"
  shows "routeToVirtualNode pod mode k v = Inr pod"
  using assms by (simp add: routeToVirtualNode_def Let_def fmupd_triv)

lemma mutateVKCocoon_Inr:
  assumes "mutateVKCocoon sb pod explicit = Inr pod'" "ps_RuntimeClassName (pod_Spec pod) = None"
  obtains r where "routeToVirtualNode pod ModeVKCocoon vkNodeLabelKey vkNodeLabelValue = Inr r"
    "pod' = withAnnotations (vkAnnotations sb r) r"
  using assms by (auto simp: mutateVKCocoon_def split: sum.splits)

lemma mutateSandboxd_Inr:
  assumes "mutateSandboxd pod explicit = Inr pod'" "ps_RuntimeClassName (pod_Spec pod) = None"
  obtains r where "routeToVirtualNode pod ModeSandboxd sandboxdNodeLabelKey sandboxdNodeLabelValue = Inr r"
    "pod' = withAnnotations (sandboxdAnnotations r) r"
  using assms by (auto simp: mutateSandboxd_def split: sum.splits)

text \<open>What every successful mutation keeps of the Pod.\<close>

definition keepsUser :: "Pod \<Rightarrow> Pod \<Rightarrow> bool" where
  "keepsUser pod pod' \<longleftrightarrow>
     extends (om_Annotations (pod_Meta pod)) (om_Annotations (pod_Meta pod')) \<and>
     om_Labels (pod_Meta pod') = om_Labels (pod_Meta pod) \<and>
     om_Name (pod_Meta pod') = om_Name (pod_Meta pod) \<and>
     om_OwnerReferences (pod_Meta pod') = om_OwnerReferences (pod_Meta pod) \<and>
     extends (ps_NodeSelector (pod_Spec pod)) (ps_NodeSelector (pod_Spec pod')) \<and>
     prefix (ps_Tolerations (pod_Spec pod)) (ps_Tolerations (pod_Spec pod')) \<and>
     ps_Containers (pod_Spec pod') = ps_Containers (pod_Spec pod) \<and>
     ps_RuntimeClassName (pod_Spec pod') = ps_RuntimeClassName (pod_Spec pod)"

lemma keepsUser_refl [simp]: "keepsUser pod pod"
  by (simp add: keepsUser_def)

lemma keepsUser_route:
  assumes "routeToVirtualNode pod mode k v = Inr r" "extends (om_Annotations (pod_Meta r)) m"
  shows "keepsUser pod (withAnnotations m r)"
  using routeToVirtualNode_Inr [OF assms(1)] assms(2)
  by (simp add: keepsUser_def) (simp add: withAnnotations_def)

lemma mutate_keepsUser:
  "mutateVKCocoon sb pod explicit = Inr pod' \<Longrightarrow> keepsUser pod pod'"
  "mutateSandboxd pod explicit = Inr pod' \<Longrightarrow> keepsUser pod pod'"
  using keepsUser_route vkAnnotations_extends sandboxdAnnotations_extends
  by (auto simp: mutateVKCocoon_def mutateSandboxd_def split: if_splits sum.splits)

lemma mutate_idem:
  "mutateVKCocoon sb pod explicit = Inr pod' \<Longrightarrow> ps_RuntimeClassName (pod_Spec pod) = None \<Longrightarrow>
     mutateVKCocoon sb pod' e = Inr pod'"
  "mutateSandboxd pod explicit = Inr pod' \<Longrightarrow> ps_RuntimeClassName (pod_Spec pod) = None \<Longrightarrow>
     mutateSandboxd pod' e = Inr pod'"
  subgoal
    by (erule (1) mutateVKCocoon_Inr, drule routeToVirtualNode_Inr)
      (simp add: mutateVKCocoon_def routeToVirtualNode_fix annotations_idem)
  subgoal
    by (erule (1) mutateSandboxd_Inr, drule routeToVirtualNode_Inr)
      (simp add: mutateSandboxd_def routeToVirtualNode_fix annotations_idem)
  done

text \<open>The mode a mutated Pod asks for is the mode it was mutated for.\<close>

lemma requestedMode_mutated:
  assumes "keepsUser pod pod'"
    and "mget (om_Annotations (pod_Meta pod')) RuntimeAnnotation =
      (if fmlookup (om_Annotations (pod_Meta pod)) RuntimeAnnotation = None then mode
       else mget (om_Annotations (pod_Meta pod)) RuntimeAnnotation)"
    and "fst (requestedMode pod dm) = mode" "TrimSpace mode = mode" "mode \<noteq> []"
  shows "fst (requestedMode pod' dm) = mode"
  using assms
  by (auto simp: requestedMode_def keepsUser_def Let_def mget_def split: if_splits option.splits)

lemma setDefault_other: "k' \<noteq> k \<Longrightarrow> fmlookup (setDefault m k v) k' = fmlookup m k'"
  by (simp add: setDefault_def)

lemma runtime_annotation:
  "fmlookup (vkAnnotations sb pod) RuntimeAnnotation =
     fmlookup (setDefault (om_Annotations (pod_Meta pod)) RuntimeAnnotation ModeVKCocoon) RuntimeAnnotation"
  "fmlookup (sandboxdAnnotations pod) RuntimeAnnotation =
     fmlookup (setDefault (om_Annotations (pod_Meta pod)) RuntimeAnnotation ModeSandboxd) RuntimeAnnotation"
  by (simp_all add: vkAnnotations_def sandboxdAnnotations_def Let_def setDefault_other
      split: list.split)

lemma TrimSpace_modes:
  "TrimSpace ModeVKCocoon = ModeVKCocoon" "TrimSpace ModeSandboxd = ModeSandboxd"
  by (simp_all add: TrimSpace_def trimWhile_def isSpace_def)

lemma requestedMode_runtimeClass:
  "requestedMode pod dm = (mode, explicit) \<Longrightarrow> mode \<noteq> ModeStandard \<Longrightarrow>
     ps_RuntimeClassName (pod_Spec pod) \<noteq> None \<Longrightarrow> explicit"
  by (auto simp: requestedMode_def Let_def split: if_splits)

lemma mutateVKCocoon_mode:
  assumes "mutateVKCocoon sb pod explicit = Inr pod'" "requestedMode pod dm = (ModeVKCocoon, explicit)"
  shows "ps_RuntimeClassName (pod_Spec pod) = None \<and> fst (requestedMode pod' dm) = ModeVKCocoon"
proof -
  have n: "ps_RuntimeClassName (pod_Spec pod) = None"
    using assms requestedMode_runtimeClass [OF assms(2)] by (auto simp: mutateVKCocoon_def split: if_splits)
  from mutateVKCocoon_Inr [OF assms(1) n] obtain r
    where r: "routeToVirtualNode pod ModeVKCocoon vkNodeLabelKey vkNodeLabelValue = Inr r"
      "pod' = withAnnotations (vkAnnotations sb r) r" .
  have "fst (requestedMode pod' dm) = ModeVKCocoon"
  proof (rule requestedMode_mutated [OF mutate_keepsUser(1) [OF assms(1)]])
  qed (use r(2) routeToVirtualNode_Inr [OF r(1)] assms(2) in
      \<open>simp_all add: TrimSpace_modes mget_def runtime_annotation setDefault_def\<close>)
  with n show ?thesis by simp
qed

lemma mutateSandboxd_mode:
  assumes "mutateSandboxd pod explicit = Inr pod'" "requestedMode pod dm = (ModeSandboxd, explicit)"
  shows "ps_RuntimeClassName (pod_Spec pod) = None \<and> fst (requestedMode pod' dm) = ModeSandboxd"
proof -
  have n: "ps_RuntimeClassName (pod_Spec pod) = None"
    using assms requestedMode_runtimeClass [OF assms(2)] by (auto simp: mutateSandboxd_def split: if_splits)
  from mutateSandboxd_Inr [OF assms(1) n] obtain r
    where r: "routeToVirtualNode pod ModeSandboxd sandboxdNodeLabelKey sandboxdNodeLabelValue = Inr r"
      "pod' = withAnnotations (sandboxdAnnotations r) r" .
  have "fst (requestedMode pod' dm) = ModeSandboxd"
  proof (rule requestedMode_mutated [OF mutate_keepsUser(2) [OF assms(1)]])
  qed (use r(2) routeToVirtualNode_Inr [OF r(1)] assms(2) in
      \<open>simp_all add: TrimSpace_modes mget_def runtime_annotation setDefault_def\<close>)
  with n show ?thesis by simp
qed

text \<open>Where a Pod of a virtual-node mode ends up.\<close>

definition routed :: "string \<Rightarrow> string \<Rightarrow> Pod \<Rightarrow> bool" where
  "routed k v pod \<longleftrightarrow> fmlookup (ps_NodeSelector (pod_Spec pod)) k = Some v \<and>
     toleratesVKCocoon (ps_Tolerations (pod_Spec pod)) \<and> ps_NodeName (pod_Spec pod) = []"

lemma routed_route: "routeToVirtualNode pod mode k v = Inr r \<Longrightarrow> routed k v (withAnnotations m r)"
  by (drule routeToVirtualNode_Inr) (simp add: routed_def)

lemma mutate_routed:
  "mutateVKCocoon sb pod explicit = Inr pod' \<Longrightarrow> ps_RuntimeClassName (pod_Spec pod) = None \<Longrightarrow>
     routed vkNodeLabelKey vkNodeLabelValue pod'"
  "mutateSandboxd pod explicit = Inr pod' \<Longrightarrow> ps_RuntimeClassName (pod_Spec pod) = None \<Longrightarrow>
     routed sandboxdNodeLabelKey sandboxdNodeLabelValue pod'"
  by (erule (1) mutateVKCocoon_Inr, simp add: routed_route)
    (erule (1) mutateSandboxd_Inr, simp add: routed_route)

text \<open>
  C34: a successful mutation keeps every annotation, label, node-selector entry, toleration,
  container and owner reference the Pod carried; in a virtual-node mode it pins the Pod to
  that mode's virtual node and makes it tolerate the provider taint; and it is idempotent,
  so a retried create never drifts.
\<close>

theorem MutatePod_defaults:
  assumes "MutatePod m (Some sb) (Some pod) = Inr pod'"
  shows "keepsUser pod pod' \<and> MutatePod m (Some sb) (Some pod') = Inr pod' \<and>
    (fst (requestedMode pod (defaultMode m)) = ModeVKCocoon \<longrightarrow> routed vkNodeLabelKey vkNodeLabelValue pod') \<and>
    (fst (requestedMode pod (defaultMode m)) = ModeSandboxd \<longrightarrow>
       routed sandboxdNodeLabelKey sandboxdNodeLabelValue pod')"
proof -
  obtain mode explicit where rm: "requestedMode pod (defaultMode m) = (mode, explicit)" by force
  with assms consider
      "mode = ModeStandard" "pod' = pod"
    | "mode = ModeVKCocoon" "mutateVKCocoon sb pod explicit = Inr pod'"
    | "mode = ModeSandboxd" "mutateSandboxd pod explicit = Inr pod'"
    by (auto simp: MutatePod_def split: if_splits)
  then show ?thesis
  proof cases
    case 1
    with assms rm show ?thesis by simp
  next
    case 2
    with mutateVKCocoon_mode [of sb pod explicit pod' "defaultMode m"] rm
    have n: "ps_RuntimeClassName (pod_Spec pod) = None" "fst (requestedMode pod' (defaultMode m)) = ModeVKCocoon"
      by auto
    from mutate_routed(1) [OF 2(2) n(1)] have "routed vkNodeLabelKey vkNodeLabelValue pod'"
      by simp
    moreover obtain e where "requestedMode pod' (defaultMode m) = (ModeVKCocoon, e)"
      using n(2) by (cases "requestedMode pod' (defaultMode m)") auto
    moreover note 2 rm mutate_keepsUser(1) [OF 2(2)] mutate_idem(1) [OF 2(2) n(1)]
    ultimately show ?thesis by (simp add: MutatePod_def)
  next
    case 3
    with mutateSandboxd_mode [of pod explicit pod' "defaultMode m"] rm
    have n: "ps_RuntimeClassName (pod_Spec pod) = None" "fst (requestedMode pod' (defaultMode m)) = ModeSandboxd"
      by auto
    from mutate_routed(2) [OF 3(2) n(1)] have "routed sandboxdNodeLabelKey sandboxdNodeLabelValue pod'"
      by simp
    moreover obtain e where "requestedMode pod' (defaultMode m) = (ModeSandboxd, e)"
      using n(2) by (cases "requestedMode pod' (defaultMode m)") auto
    moreover note 3 rm mutate_keepsUser(2) [OF 3(2)] mutate_idem(2) [OF 3(2) n(1)]
    ultimately show ?thesis by (simp add: MutatePod_def)
  qed
qed

definition demoPod :: Pod where
  "demoPod = \<lparr>pod_Meta = emptyMeta\<lparr>om_Annotations := fmupd RuntimeAnnotation ''sandboxd'' fmempty\<rparr>,
     pod_Spec = emptyPodSpec, pod_Phase = [], pod_Conditions = [], pod_IPs = []\<rparr>"

definition demoRouted :: Pod where
  "demoRouted = demoPod\<lparr>pod_Spec := emptyPodSpec\<lparr>
     ps_NodeSelector := fmupd sandboxdNodeLabelKey sandboxdNodeLabelValue fmempty,
     ps_Tolerations := [vkToleration]\<rparr>\<rparr>"

theorem MutatePod_defaults_witness:
  "MutatePod \<lparr>defaultMode = ModeStandard\<rparr> (Some emptySandbox) (Some demoPod) = Inr demoRouted \<and>
   keepsUser demoPod demoRouted \<and>
   MutatePod \<lparr>defaultMode = ModeStandard\<rparr> (Some emptySandbox) (Some demoRouted) = Inr demoRouted \<and>
   routed sandboxdNodeLabelKey sandboxdNodeLabelValue demoRouted"
proof -
  have rm: "requestedMode demoPod ModeStandard = (ModeSandboxd, True)"
    by (simp add: requestedMode_def demoPod_def TrimSpace_modes)
  have "MutatePod \<lparr>defaultMode = ModeStandard\<rparr> (Some emptySandbox) (Some demoPod) = mutateSandboxd demoPod True"
    by (simp add: MutatePod_def rm)
  also have "\<dots> = Inr demoRouted"
    by (simp add: mutateSandboxd_def routeToVirtualNode_def sandboxdAnnotations_def
        setDefault_def withAnnotations_def demoRouted_def demoPod_def emptyPodSpec_def emptyMeta_def)
  finally have m: "MutatePod \<lparr>defaultMode = ModeStandard\<rparr> (Some emptySandbox) (Some demoPod) = Inr demoRouted" .
  from MutatePod_defaults [OF m] m rm show ?thesis by simp
qed

end
