(* ===== verification/E2b_Id.thy ===== *)
theory E2b_Id
  imports Go_Prelude
begin

text \<open>
  The sandbox ids of the e2b-compatible surface (\<^verbatim>\<open>pkg/e2bcompat/sandboxid.go\<close>): a DNS-safe
  rendering of the node-local claim id, and the test that accepts either form.
\<close>

definition isDNSSafe :: "char \<Rightarrow> bool" where
  "isDNSSafe r \<longleftrightarrow> (CHR ''a'' \<le> r \<and> r \<le> CHR ''z'') \<or> (CHR ''0'' \<le> r \<and> r \<le> CHR ''9'') \<or> r = CHR ''-''"

fun needsRewrite :: "string \<Rightarrow> bool" where
  "needsRewrite [] = False"
| "needsRewrite (r # s) = (if \<not> isDNSSafe r then True else needsRewrite s)"

fun rewriteRunes :: "string \<Rightarrow> string" where
  "rewriteRunes [] = []"
| "rewriteRunes (r # s) = (if isDNSSafe r then r # rewriteRunes s else CHR ''-'' # rewriteRunes s)"

definition publicID :: "string \<Rightarrow> string" where
  "publicID claimID = (if \<not> needsRewrite claimID then claimID else rewriteRunes (toLower claimID))"

definition matchesID :: "string \<Rightarrow> string \<Rightarrow> bool" where
  "matchesID claimID requested =
     (if claimID = [] \<or> requested = [] then False
      else claimID = requested \<or> publicID claimID = requested)"

section \<open>The rendering is safe, stable and faithful on minted ids\<close>

text \<open>The ids sandboxd mints: \<open>sb_\<close> and lower-case hexadecimal digits.\<close>

definition hexChar :: "char \<Rightarrow> bool" where
  "hexChar c \<longleftrightarrow> isDigitChar c \<or> (CHR ''a'' \<le> c \<and> c \<le> CHR ''f'')"

definition minted :: "string \<Rightarrow> bool" where
  "minted s \<longleftrightarrow> (\<exists>h. s = ''sb_'' @ h \<and> list_all hexChar h)"

lemma needsRewrite_iff: "needsRewrite s \<longleftrightarrow> \<not> list_all isDNSSafe s"
  by (induction s) auto

lemma rewriteRunes_safe: "list_all isDNSSafe (rewriteRunes s)"
  by (induction s) (auto simp: isDNSSafe_def)

lemma rewriteRunes_id: "list_all isDNSSafe s \<Longrightarrow> rewriteRunes s = s"
  by (induction s) auto

lemma publicID_safe: "list_all isDNSSafe (publicID s)"
  by (simp add: publicID_def needsRewrite_iff rewriteRunes_safe)

lemma publicID_id: "list_all isDNSSafe s \<Longrightarrow> publicID s = s"
  by (simp add: publicID_def needsRewrite_iff)

lemma toLower_safe: "list_all isDNSSafe s \<Longrightarrow> toLower s = s"
  by (induction s) (auto simp: toLower_def isDNSSafe_def toLowerChar_id isLower_def isDigitChar_def)

lemma hexChar_safe: "list_all hexChar h \<Longrightarrow> list_all isDNSSafe h"
  by (auto simp: list_all_iff hexChar_def isDNSSafe_def isDigitChar_def less_eq_char_def)

lemma publicID_minted:
  assumes "list_all hexChar h"
  shows "publicID (''sb_'' @ h) = ''sb-'' @ h"
proof -
  have "toLower (''sb_'' @ h) = ''sb_'' @ h"
    using toLower_safe [OF hexChar_safe [OF assms]]
    by (simp add: toLower_def toLowerChar_def less_eq_char_def)
  then show ?thesis
    using rewriteRunes_id [OF hexChar_safe [OF assms]]
    by (simp add: publicID_def isDNSSafe_def less_eq_char_def)
qed

text \<open>
  C35: the published id is made of DNS-label characters only, has the length of the claim id,
  and publishing is idempotent; on the ids sandboxd mints, a request carrying a published id
  matches exactly the sandbox it was published for.
\<close>

theorem publicID_faithful:
  "list_all isDNSSafe (publicID s) \<and> length (publicID s) = length s \<and> publicID (publicID s) = publicID s \<and>
   (minted a \<and> minted b \<longrightarrow> (matchesID a (publicID b) \<longleftrightarrow> a = b) \<and> (matchesID a b \<longleftrightarrow> a = b))"
proof -
  have "length (rewriteRunes s) = length s" for s by (induction s) auto
  then have "length (publicID s) = length s" by (simp add: publicID_def toLower_def)
  moreover have "(matchesID a (publicID b) \<longleftrightarrow> a = b) \<and> (matchesID a b \<longleftrightarrow> a = b)"
    if "minted a" "minted b"
  proof -
    from that obtain h k where "a = ''sb_'' @ h" "b = ''sb_'' @ k" "list_all hexChar h" "list_all hexChar k"
      unfolding minted_def by blast
    then show ?thesis
      using publicID_minted [of h] publicID_minted [of k] by (auto simp: matchesID_def)
  qed
  ultimately show ?thesis using publicID_safe publicID_id by blast
qed

lemma demo_minted: "minted ''sb_3fa9''" "minted ''sb_3fa8''"
  by (auto simp: minted_def hexChar_def isDigitChar_def less_eq_char_def)

theorem publicID_faithful_witness:
  "minted ''sb_3fa9'' \<and> minted ''sb_3fa8'' \<and> publicID ''sb_3fa9'' = ''sb-3fa9'' \<and>
   matchesID ''sb_3fa9'' (publicID ''sb_3fa9'') \<and> \<not> matchesID ''sb_3fa8'' (publicID ''sb_3fa9'')"
  using publicID_faithful [of "''sb_3fa9''" "''sb_3fa9''" "''sb_3fa9''"] demo_minted
    publicID_faithful [of "''sb_3fa9''" "''sb_3fa8''" "''sb_3fa9''"]
    publicID_minted [of "''3fa9''"]
  by (auto simp: hexChar_def isDigitChar_def less_eq_char_def)

end
