(* ===== verification/Go_Strconv.thy ===== *)
theory Go_Strconv
  imports Go_Prelude
begin

unbundle bit_operations_syntax

text \<open>
  The conversions of Go's \<open>strconv\<close>, \<open>fmt\<close>, \<open>net\<close> and \<open>hash/fnv\<close> packages that the modelled
  code calls: decimal rendering and parsing of unsigned integers, \<open>%q\<close> quoting,
  \<open>net.SplitHostPort\<close>, and the FNV-1a hashes.
\<close>

section \<open>Decimal numbers\<close>

fun decDigits :: "nat \<Rightarrow> string" where
  "decDigits n = (if n < 10 then [char_of (48 + n)] else decDigits (n div 10) @ [char_of (48 + n mod 10)])"

declare decDigits.simps [simp del]

definition FormatUint :: "64 word \<Rightarrow> string" where
  "FormatUint n = decDigits (unat n)"

definition FormatInt :: "int \<Rightarrow> string" where
  "FormatInt n = (if n < 0 then CHR ''-'' # decDigits (nat (- n)) else decDigits (nat n))"

definition digitVal :: "char \<Rightarrow> nat" where
  "digitVal c = of_char c - 48"

definition decValue :: "string \<Rightarrow> nat" where
  "decValue s = foldl (\<lambda>n c. 10 * n + digitVal c) 0 s"

text \<open>\<open>strconv.ParseUint(s, 10, 64)\<close>: digits only, at least one, within 64 bits.\<close>

definition ParseUint :: "string \<Rightarrow> 64 word option" where
  "ParseUint s =
     (if s = [] \<or> \<not> list_all isDigitChar s then None
      else if decValue s < 2 ^ 64 then Some (of_nat (decValue s)) else None)"

lemma digit_char:
  assumes "d < 10"
  shows "isDigitChar (char_of (48 + d))" "digitVal (char_of (48 + d)) = d"
  using assms by (simp_all add: isDigitChar_def digitVal_def less_eq_char_def)

lemma decDigits_ne [simp]: "decDigits n \<noteq> []"
  by (subst decDigits.simps) simp

lemma decDigits_digits: "list_all isDigitChar (decDigits n)"
  by (induction n rule: decDigits.induct) (subst decDigits.simps, auto simp: digit_char)

lemma decValue_snoc [simp]: "decValue (s @ [c]) = 10 * decValue s + digitVal c"
  by (simp add: decValue_def)

lemma decValue_decDigits [simp]: "decValue (decDigits n) = n"
proof (induction n rule: decDigits.induct)
  case (1 n)
  show ?case
  proof (cases "n < 10")
    case True
    then show ?thesis by (subst decDigits.simps) (simp add: decValue_def digit_char)
  next
    case False
    with 1 show ?thesis by (subst decDigits.simps) (simp add: digit_char)
  qed
qed

lemma decDigits_inj: "decDigits m = decDigits n \<longleftrightarrow> m = n"
  by (metis decValue_decDigits)

lemma ParseUint_FormatUint [simp]: "ParseUint (FormatUint n) = Some n"
  using unsigned_less [of n] by (simp add: ParseUint_def FormatUint_def decDigits_digits)

lemma FormatUint_inj [simp]: "FormatUint m = FormatUint n \<longleftrightarrow> m = n"
  by (simp add: FormatUint_def decDigits_inj word_unat_eq_iff)

lemma FormatUint_no_char: "\<not> isDigitChar c \<Longrightarrow> c \<notin> set (FormatUint n)"
  using decDigits_digits [of "unat n"] by (auto simp: FormatUint_def list_all_iff)

section \<open>Quoting\<close>

definition quoteChar :: "char \<Rightarrow> string" where
  "quoteChar c =
     (let n = of_char c :: nat
      in if c = CHR 0x22 then [CHR 0x5C, CHR 0x22]
         else if c = CHR 0x5C then [CHR 0x5C, CHR 0x5C]
         else if n = 7 then [CHR 0x5C, CHR ''a'']
         else if n = 8 then [CHR 0x5C, CHR ''b'']
         else if n = 12 then [CHR 0x5C, CHR ''f'']
         else if n = 10 then [CHR 0x5C, CHR ''n'']
         else if n = 13 then [CHR 0x5C, CHR ''r'']
         else if n = 9 then [CHR 0x5C, CHR ''t'']
         else if n = 11 then [CHR 0x5C, CHR ''v'']
         else if n < 32 \<or> n = 127 then [CHR 0x5C, CHR ''x'', hexDigit (n div 16), hexDigit n]
         else [c])"

definition Quote :: "string \<Rightarrow> string" where
  "Quote s = [CHR 0x22] @ concat (map quoteChar s) @ [CHR 0x22]"

section \<open>Host and port\<close>

fun lastIndex :: "char \<Rightarrow> string \<Rightarrow> nat option" where
  "lastIndex c [] = None"
| "lastIndex c (x # xs) =
     (case lastIndex c xs of Some i \<Rightarrow> Some (Suc i) | None \<Rightarrow> if x = c then Some 0 else None)"

fun firstIndex :: "char \<Rightarrow> string \<Rightarrow> nat option" where
  "firstIndex c [] = None"
| "firstIndex c (x # xs) = (if x = c then Some 0 else map_option Suc (firstIndex c xs))"

text \<open>\<open>net.SplitHostPort\<close>; \<open>None\<close> is any of its errors.\<close>

definition SplitHostPort :: "string \<Rightarrow> (string \<times> string) option" where
  "SplitHostPort s =
     (case lastIndex (CHR '':'') s of
        None \<Rightarrow> None
      | Some i \<Rightarrow>
          if hd s = CHR ''['' then
            case firstIndex (CHR '']'') s of
              None \<Rightarrow> None
            | Some e \<Rightarrow>
                if Suc e \<noteq> i then None
                else if CHR ''['' \<in> set (drop 1 s) \<or> CHR '']'' \<in> set (drop (Suc e) s) then None
                else Some (drop 1 (take e s), drop (Suc i) s)
          else if CHR '':'' \<in> set (take i s) then None
          else if CHR ''['' \<in> set s \<or> CHR '']'' \<in> set s then None
          else Some (take i s, drop (Suc i) s))"

lemma lastIndex_None_iff: "lastIndex c s = None \<longleftrightarrow> c \<notin> set s"
  by (induction s) (auto split: option.splits)

lemma lastIndex_notin [simp]: "c \<notin> set s \<Longrightarrow> lastIndex c s = None"
  by (simp add: lastIndex_None_iff)

lemma lastIndex_snoc [simp]: "c \<notin> set port \<Longrightarrow> lastIndex c (host @ c # port) = Some (length host)"
  by (induction host) auto

lemma SplitHostPort_plain:
  assumes "\<forall>c\<in>{CHR '':'', CHR ''['', CHR '']''}. c \<notin> set host \<and> c \<notin> set port"
  shows "SplitHostPort (host @ CHR '':'' # port) = Some (host, port)"
proof -
  have "hd (host @ CHR '':'' # port) \<noteq> CHR ''[''"
    using assms by (cases host) auto
  with assms show ?thesis by (simp add: SplitHostPort_def)
qed

section \<open>FNV-1a\<close>

definition fnv64a :: "string \<Rightarrow> 64 word" where
  "fnv64a s = foldl (\<lambda>h c. (h XOR of_nat (of_char c)) * 1099511628211) 14695981039346656037 s"

definition fnv32a :: "string \<Rightarrow> 32 word" where
  "fnv32a s = foldl (\<lambda>h c. (h XOR of_nat (of_char c)) * 16777619) 2166136261 s"

text \<open>\<open>%08x\<close> of a 32-bit word.\<close>

definition hex8 :: "32 word \<Rightarrow> string" where
  "hex8 w = map (\<lambda>i. hexDigit (unat w div 16 ^ (7 - i))) [0..<8]"

lemma length_hex8 [simp]: "length (hex8 w) = 8"
  by (simp add: hex8_def)

lemma hex8_class: "c \<in> set (hex8 w) \<Longrightarrow> isLower c \<or> isDigitChar c"
  using hexDigit_class by (auto simp: hex8_def)

end
