(* ===== verification/Synth_Sandbox.thy ===== *)
theory Synth_Sandbox
  imports K8s_Meta Go_Strconv Sha256
begin

unbundle bit_operations_syntax

text \<open>
  The Sandbox objects the aggregated store serves are not stored: they are synthesized from
  a node's inventory entry on every read (\<^verbatim>\<open>pkg/scale/sandboxstore_impl.go\<close>, from
  \<open>entryToSandbox\<close> to \<open>objKey\<close>).  Here are the claim reference a node echoes back, its
  parser, and the synthesis of metadata, owner references and status.
\<close>

section \<open>Constants\<close>

abbreviation "NodeLabel \<equiv> ''sandbox.cocoonstack.io/node''"
abbreviation "PhaseLabel \<equiv> ''sandbox.cocoonstack.io/phase''"
abbreviation "ClaimLabel \<equiv> ''sandbox.cocoonstack.io/claim''"
abbreviation "ClaimIDAnnotation \<equiv> ''sandbox.cocoonstack.io/claim-id''"
abbreviation "ExtGroupVersion \<equiv> ''extensions.agents.x-k8s.io/v1beta1''"

section \<open>Claim references\<close>

definition formatClaimRef :: "string \<Rightarrow> string \<Rightarrow> string \<Rightarrow> string" where
  "formatClaimRef namespace name uid =
     (let ref = namespace @ ''/'' @ name in if uid = [] then ref else ref @ ''#'' @ uid)"

definition splitNamespacedName :: "string \<Rightarrow> string \<times> string" where
  "splitNamespacedName s =
     (case split_first (CHR ''/'') s of Some (namespace, name) \<Rightarrow> (namespace, name)
      | None \<Rightarrow> (''default'', s))"

definition parseClaimRef :: "string \<Rightarrow> string \<times> string \<times> string" where
  "parseClaimRef ref =
     (if ref = [] then ([], [], [])
      else
        let (ref', uid) = (case split_first (CHR ''#'') ref of Some (r, u) \<Rightarrow> (r, u) | None \<Rightarrow> (ref, []));
            (namespace, name) = splitNamespacedName ref'
        in (namespace, name, uid))"

section \<open>Synthesized metadata\<close>

definition synthOwnerRefs :: "string \<Rightarrow> InventoryEntry \<Rightarrow> OwnerReference list" where
  "synthOwnerRefs ns e =
     (let (claimNS, claimName, uid) = parseClaimRef (ie_ClaimRef e)
      in if claimName = [] \<or> uid = [] then []
         else if claimNS \<noteq> ns then []
         else [\<lparr>or_APIVersion = ExtGroupVersion, or_Kind = ''SandboxClaim'', or_Name = claimName,
                or_UID = uid, or_Controller = True, or_BlockOwnerDeletion = True\<rparr>])"

definition uuidBytes :: "nat list \<Rightarrow> nat list" where
  "uuidBytes bs = (let s = bs[6 := (bs ! 6 AND 0x0f) OR 0x40] in s[8 := (s ! 8 AND 0x3f) OR 0x80])"

definition slice :: "nat \<Rightarrow> nat \<Rightarrow> 'a list \<Rightarrow> 'a list" where
  "slice a b xs = take (b - a) (drop a xs)"

definition sandboxUID :: "string \<Rightarrow> string \<Rightarrow> InventoryEntry \<Rightarrow> string" where
  "sandboxUID ns name e =
     (let seed = (if ie_ID e = [] then ns @ ''/'' @ name else ie_ID e);
          digest = uuidBytes (Sum256 (''cocoon-sandbox-uid|'' @ seed))
      in hexBytes (slice 0 4 digest) @ ''-'' @ hexBytes (slice 4 6 digest) @ ''-'' @
         hexBytes (slice 6 8 digest) @ ''-'' @ hexBytes (slice 8 10 digest) @ ''-'' @
         hexBytes (slice 10 16 digest))"

definition synthLabels :: "string \<Rightarrow> InventoryEntry \<Rightarrow> strmap" where
  "synthLabels node e =
     (let l0 = fmupd SandboxLaunchTypeLabel SandboxLaunchTypeWarm (fmupd NodeLabel node fmempty);
          l1 = (if ie_Phase e \<noteq> [] then fmupd PhaseLabel (ie_Phase e) l0 else l0);
          (_, claim, _) = parseClaimRef (ie_ClaimRef e)
      in if claim \<noteq> [] then fmupd ClaimLabel claim l1 else l1)"

definition synthAnnotations :: "InventoryEntry \<Rightarrow> strmap" where
  "synthAnnotations e = (if ie_ID e = [] then fmempty else fmupd ClaimIDAnnotation (ie_ID e) fmempty)"

definition EqualFold :: "string \<Rightarrow> string \<Rightarrow> bool" where
  "EqualFold s t \<longleftrightarrow> toLower s = toLower t"

definition readyStatus :: "string \<Rightarrow> string" where
  "readyStatus phase = (if EqualFold phase ''Running'' \<or> EqualFold phase ''Ready'' then ''True'' else ''False'')"

definition readyReason :: "string \<Rightarrow> string" where
  "readyReason phase = (if phase = [] then ''Unknown'' else phase)"

definition addressIPs :: "string \<Rightarrow> string list" where
  "addressIPs addr =
     (if addr = [] then []
      else case SplitHostPort addr of
             Some (host, _) \<Rightarrow> if host \<noteq> [] then [host] else [addr]
           | None \<Rightarrow> [addr])"

definition resourceVersionFor :: "string \<Rightarrow> string \<Rightarrow> InventoryEntry \<Rightarrow> string" where
  "resourceVersionFor ns name e =
     FormatUint (fnv64a (ns @ ''/'' @ name @ ''|'' @ ie_ID e @ ''|'' @ ie_Phase e @ ''|'' @
       ie_ClaimRef e @ ''|'' @ ie_Address e))"

definition entryToSandbox :: "string \<Rightarrow> InventoryEntry \<Rightarrow> Sandbox" where
  "entryToSandbox node e =
     (let (ns, name, _) = parseClaimRef (ie_Name e)
      in \<lparr>sb_Meta = emptyMeta\<lparr>om_Namespace := ns, om_Name := name, om_Labels := synthLabels node e,
            om_Annotations := synthAnnotations e, om_UID := sandboxUID ns name e,
            om_ResourceVersion := resourceVersionFor ns name e,
            om_OwnerReferences := synthOwnerRefs ns e\<rparr>,
          sb_Spec = emptySandboxSpec,
          sb_Status = emptySandboxStatus\<lparr>st_NodeName := node, st_PodIPs := addressIPs (ie_Address e),
            st_Conditions := [\<lparr>c_Type = ''Ready'', c_Status = readyStatus (ie_Phase e),
              c_ObservedGeneration = 0, c_LastTransitionTime = zeroTime,
              c_Reason = readyReason (ie_Phase e),
              c_Message = ''phase '' @ Quote (ie_Phase e) @ '' reported by node '' @ Quote node @ '' inventory''\<rparr>]\<rparr>\<rparr>)"

definition sandboxFields :: "Sandbox \<Rightarrow> strmap" where
  "sandboxFields sb =
     fmupd ''metadata.name'' (om_Name (sb_Meta sb))
       (fmupd ''metadata.namespace'' (om_Namespace (sb_Meta sb))
         (fmupd ''status.nodeName'' (st_NodeName (sb_Status sb)) fmempty))"

definition objKey :: "Sandbox \<Rightarrow> string" where
  "objKey sb = om_Namespace (sb_Meta sb) @ ''/'' @ om_Name (sb_Meta sb)"

section \<open>Reading back what was written\<close>

text \<open>Names as Kubernetes admits them: no separator characters.\<close>

definition okName :: "string \<Rightarrow> bool" where
  "okName s \<longleftrightarrow> s \<noteq> [] \<and> CHR ''/'' \<notin> set s \<and> CHR ''#'' \<notin> set s"

lemma splitNamespacedName_join [simp]:
  "CHR ''/'' \<notin> set ns \<Longrightarrow> splitNamespacedName (ns @ CHR ''/'' # name) = (ns, name)"
  by (simp add: splitNamespacedName_def)

lemma parseClaimRef_format:
  assumes "CHR ''/'' \<notin> set ns" "CHR ''#'' \<notin> set ns" "CHR ''#'' \<notin> set name"
  shows "parseClaimRef (formatClaimRef ns name uid) = (ns, name, uid)"
proof (cases "uid = []")
  case True
  with assms show ?thesis by (simp add: parseClaimRef_def formatClaimRef_def)
next
  case False
  have "split_first (CHR ''#'') ((ns @ CHR ''/'' # name) @ CHR ''#'' # uid) = Some (ns @ CHR ''/'' # name, uid)"
    by (rule split_first_append) (use assms in auto)
  with assms False show ?thesis by (simp add: parseClaimRef_def formatClaimRef_def)
qed

lemma parseClaimRef_okName:
  "okName ns \<Longrightarrow> okName name \<Longrightarrow> parseClaimRef (formatClaimRef ns name uid) = (ns, name, uid)"
  by (rule parseClaimRef_format) (simp_all add: okName_def)

lemma formatClaimRef_plain: "formatClaimRef ns name [] = ns @ ''/'' @ name"
  by (simp add: formatClaimRef_def)

lemma parseClaimRef_plain [simp]:
  "okName ns \<Longrightarrow> okName name \<Longrightarrow> parseClaimRef (ns @ CHR ''/'' # name) = (ns, name, [])"
  using parseClaimRef_okName [of ns name "[]"] by (simp add: formatClaimRef_def)

lemma entryToSandbox_names:
  assumes "parseClaimRef (ie_Name e) = (ns, name, uid)"
  shows "om_Namespace (sb_Meta (entryToSandbox node e)) = ns"
    "om_Name (sb_Meta (entryToSandbox node e)) = name"
    "st_NodeName (sb_Status (entryToSandbox node e)) = node"
    "om_Annotations (sb_Meta (entryToSandbox node e)) = synthAnnotations e"
    "om_OwnerReferences (sb_Meta (entryToSandbox node e)) = synthOwnerRefs ns e"
    "om_Labels (sb_Meta (entryToSandbox node e)) = synthLabels node e"
    "om_ResourceVersion (sb_Meta (entryToSandbox node e)) = resourceVersionFor ns name e"
  using assms by (simp_all add: entryToSandbox_def)

text \<open>
  A claim reference survives the trip through a node: formatted by the store and parsed
  back from the inventory it yields the same namespace, name and owner UID.  The UID may
  itself contain the separator, the name may contain slashes.
\<close>

theorem claimRef_roundtrip:
  assumes "CHR ''/'' \<notin> set ns" "CHR ''#'' \<notin> set ns" "CHR ''#'' \<notin> set name"
  shows "parseClaimRef (formatClaimRef ns name uid) = (ns, name, uid)"
  using assms by (rule parseClaimRef_format)

theorem claimRef_roundtrip_witness:
  "formatClaimRef ''team'' ''web'' ''7f3#1'' = ''team/web#7f3#1'' \<and>
   parseClaimRef ''team/web#7f3#1'' = (''team'', ''web'', ''7f3#1'')"
  using claimRef_roundtrip [of "''team''" "''web''" "''7f3#1''"] by (simp add: formatClaimRef_def)


definition demoEntry :: InventoryEntry where
  "demoEntry = \<lparr>ie_Name = ''team/web#7f3'', ie_ID = ''sb_01'', ie_Phase = ''Running'',
     ie_ClaimRef = ''team/web#7f3'', ie_Address = ''10.0.0.7:8080''\<rparr>"


end
