(* ===== verification/Pool_Key.thy ===== *)
theory Pool_Key
  imports K8s_Meta
begin

text \<open>
  The warm-pool key (\<^verbatim>\<open>pkg/scale/poolkey.go\<close>): template image, network mode and size class
  of a workload.  A resource quantity is its text; comparing two and testing for zero is
  \<open>k8s.io/apimachinery\<close>'s, a parameter of the model.
\<close>

record PoolKey =
  pk_Template :: string
  pk_Net :: string
  pk_Size :: string

definition NetDefault :: string where "NetDefault = ''none''"

record quantityOps =
  q_Cmp :: "string \<Rightarrow> string \<Rightarrow> int"
  q_IsZero :: "string \<Rightarrow> bool"

text \<open>
  Documented behaviour of \<open>resource.Quantity\<close>: a text denotes a number (in thousandths here),
  \<open>Cmp\<close> compares them, \<open>IsZero\<close> tests for zero.
\<close>

definition quantity_ok :: "quantityOps \<Rightarrow> (string \<Rightarrow> int) \<Rightarrow> bool" where
  "quantity_ok ops milli \<longleftrightarrow>
     (\<forall>a b. q_Cmp ops a b = (if milli a < milli b then -1 else if milli a = milli b then 0 else 1)) \<and>
     (\<forall>a. q_IsZero ops a \<longleftrightarrow> milli a = 0) \<and>
     milli ''0'' = 0 \<and> milli ''1'' = 1000 \<and> milli ''4'' = 4000 \<and>
     milli ''2Gi'' = 2 * 1024 ^ 3 * 1000 \<and> milli ''8Gi'' = 8 * 1024 ^ 3 * 1000"

text \<open>\<open>ResourceList.Cpu()\<close> and \<open>.Memory()\<close>: the entry, or a zero quantity.\<close>

definition resourceOf :: "strmap \<Rightarrow> string \<Rightarrow> string" where
  "resourceOf res name = (case fmlookup res name of None \<Rightarrow> ''0'' | Some q \<Rightarrow> q)"

definition requestOrLimit :: "quantityOps \<Rightarrow> Container \<Rightarrow> string \<Rightarrow> string" where
  "requestOrLimit ops c name =
     (let q = resourceOf (ct_Requests c) name
      in if q_IsZero ops q then resourceOf (ct_Limits c) name else q)"

definition SizeClassForContainers :: "quantityOps \<Rightarrow> Container list \<Rightarrow> string" where
  "SizeClassForContainers ops containers =
     (case containers of
        [] \<Rightarrow> ''small''
      | c # _ \<Rightarrow>
          let cpu = requestOrLimit ops c ''cpu''; mem = requestOrLimit ops c ''memory''
          in if q_Cmp ops cpu ''4'' > 0 \<or> q_Cmp ops mem ''8Gi'' > 0 then ''large''
             else if q_Cmp ops cpu ''1'' > 0 \<or> q_Cmp ops mem ''2Gi'' > 0 then ''medium''
             else ''small'')"

definition PoolKeyFor :: "quantityOps \<Rightarrow> Container list \<Rightarrow> string \<Rightarrow> PoolKey" where
  "PoolKeyFor ops containers net =
     \<lparr>pk_Template = (case containers of [] \<Rightarrow> [] | c # _ \<Rightarrow> ct_Image c),
      pk_Net = (if net = [] then NetDefault else net),
      pk_Size = SizeClassForContainers ops containers\<rparr>"

section \<open>The size class grows with the resources\<close>

definition sizeRank :: "string \<Rightarrow> nat" where
  "sizeRank s = (if s = ''large'' then 2 else if s = ''medium'' then 1 else 0)"

definition effective :: "quantityOps \<Rightarrow> (string \<Rightarrow> int) \<Rightarrow> Container \<Rightarrow> string \<Rightarrow> int" where
  "effective ops milli c name = milli (requestOrLimit ops c name)"

lemma sizeClass_rank:
  assumes "quantity_ok ops milli"
  shows "sizeRank (SizeClassForContainers ops (c # cs)) =
     (if effective ops milli c ''cpu'' > 4000 \<or> effective ops milli c ''memory'' > 8 * 1024 ^ 3 * 1000 then 2
      else if effective ops milli c ''cpu'' > 1000 \<or> effective ops milli c ''memory'' > 2 * 1024 ^ 3 * 1000 then 1
      else 0)"
  using assms by (simp add: SizeClassForContainers_def effective_def quantity_ok_def Let_def sizeRank_def)

text \<open>
  The size class is monotone: a workload whose first container asks for at least as much
  CPU and memory (request, else limit) never lands in a smaller class; the class is always
  one of \<open>small\<close>, \<open>medium\<close>, \<open>large\<close>.
\<close>

theorem sizeClass_monotone:
  assumes "quantity_ok ops milli"
    and "effective ops milli c ''cpu'' \<le> effective ops milli c' ''cpu''"
    and "effective ops milli c ''memory'' \<le> effective ops milli c' ''memory''"
  shows "sizeRank (SizeClassForContainers ops (c # cs)) \<le> sizeRank (SizeClassForContainers ops (c' # cs')) \<and>
    SizeClassForContainers ops (c # cs) \<in> {''small'', ''medium'', ''large''}"
proof -
  have "SizeClassForContainers ops (c # cs) \<in> {''small'', ''medium'', ''large''}"
    by (simp add: SizeClassForContainers_def Let_def)
  with assms show ?thesis by (simp add: sizeClass_rank)
qed

text \<open>A concrete quantity reader: plain numbers and the binary suffix \<open>Gi\<close>.\<close>

fun digitsVal :: "nat \<Rightarrow> string \<Rightarrow> nat" where
  "digitsVal n [] = n"
| "digitsVal n (c # cs) = digitsVal (10 * n + (of_char c - 48)) cs"

definition demoMilli :: "string \<Rightarrow> int" where
  "demoMilli s =
     (if drop (length s - 2) s = ''Gi'' then int (digitsVal 0 (take (length s - 2) s)) * 1024 ^ 3 * 1000
      else int (digitsVal 0 s) * 1000)"

definition demoQuantity :: quantityOps where
  "demoQuantity = \<lparr>q_Cmp = (\<lambda>a b. if demoMilli a < demoMilli b then -1
       else if demoMilli a = demoMilli b then 0 else 1),
     q_IsZero = (\<lambda>a. demoMilli a = 0)\<rparr>"

lemma demoQuantity_ok: "quantity_ok demoQuantity demoMilli"
  by (simp add: quantity_ok_def demoQuantity_def demoMilli_def numeral_eq_Suc)

definition demoContainer :: "string \<Rightarrow> Container" where
  "demoContainer mem = \<lparr>ct_Name = ''main'', ct_Image = ''rt:1'', ct_Env = [], ct_EnvFrom = [], ct_Requests = fmempty,
     ct_Limits = fmupd ''memory'' mem fmempty, ct_Rest = []\<rparr>"

lemma demo_effective:
  "effective demoQuantity demoMilli (demoContainer ''3Gi'') ''cpu'' = 0"
  "effective demoQuantity demoMilli (demoContainer ''9Gi'') ''cpu'' = 0"
  "effective demoQuantity demoMilli (demoContainer ''3Gi'') ''memory'' = 3 * 1024 ^ 3 * 1000"
  "effective demoQuantity demoMilli (demoContainer ''9Gi'') ''memory'' = 9 * 1024 ^ 3 * 1000"
  by (simp_all add: effective_def requestOrLimit_def resourceOf_def demoContainer_def demoQuantity_def
      demoMilli_def numeral_eq_Suc)

theorem sizeClass_monotone_witness:
  "SizeClassForContainers demoQuantity [demoContainer ''3Gi''] = ''medium'' \<and>
   SizeClassForContainers demoQuantity [demoContainer ''9Gi''] = ''large'' \<and>
   sizeRank (SizeClassForContainers demoQuantity [demoContainer ''3Gi''])
     \<le> sizeRank (SizeClassForContainers demoQuantity [demoContainer ''9Gi''])"
proof -
  have c: "SizeClassForContainers demoQuantity [demoContainer ''3Gi''] = ''medium''"
    "SizeClassForContainers demoQuantity [demoContainer ''9Gi''] = ''large''"
    using demo_effective demoQuantity_ok
    by (simp_all add: SizeClassForContainers_def effective_def quantity_ok_def Let_def)
  with sizeClass_monotone [OF demoQuantity_ok, of "demoContainer ''3Gi''" "demoContainer ''9Gi''" "[]" "[]"]
    demo_effective
  show ?thesis by simp
qed

end
