(* ===== verification/Sandboxd_Client.thy ===== *)
theory Sandboxd_Client
  imports Go_Strconv
begin

text \<open>
  The HTTP client of one node's sandboxd (\<^verbatim>\<open>pkg/scale/sandboxd/client.go\<close>,
  \<^verbatim>\<open>pkg/scale/sandboxd/lifecycle.go\<close>): every verb builds a request, authenticates it, and
  maps the status of the reply.  The remote service and the network are the parameter
  \<open>transport\<close>, which threads an arbitrary world \<open>'w\<close>; a request URL that does not parse is
  one of its errors.  Encoding and decoding of the JSON bodies is the parameter \<open>codec\<close>.
\<close>

section \<open>Data\<close>

datatype sdError =
    NodeAtCapacity
  | HTTPError int string
  | TransportError string
  | DecodeError string
  | MissingID string

record ClaimSpec =
  cp_Template :: string
  cp_Net :: string
  cp_Size :: string
  cp_TTLSeconds :: int
  cp_NoRedirect :: bool
  cp_ClaimRef :: string

record ClaimResult =
  cr_ID :: string
  cr_Token :: string
  cr_Deadline :: string
  cr_OwnerAddr :: string
  cr_FromCheckpoint :: string
  cr_Redirect :: "string list"

record SdPoolKey =
  sp_Template :: string
  sp_Net :: string
  sp_Size :: string
  sp_Engine :: string

record ForkSpec =
  fs_Token :: string
  fs_Count :: int
  fs_TTLSeconds :: int

record CheckpointSpec =
  ks_Token :: string
  ks_Name :: string

record Checkpoint =
  ck_ID :: string
  ck_Name :: string
  ck_SandboxID :: string
  ck_Key :: SdPoolKey
  ck_CreatedAt :: gotime

record PromoteSpec =
  pr_Token :: string
  pr_Template :: string

record SandboxSummary =
  su_ID :: string
  su_Key :: SdPoolKey
  su_Deadline :: gotime
  su_Hibernated :: bool
  su_Archived :: bool
  su_FromCheckpoint :: string
  su_ClaimRef :: string

record SdStats =
  ds_ID :: string
  ds_CPUCount :: int
  ds_MemTotalBytes :: int
  ds_MemUsedBytes :: int
  ds_Hibernated :: bool
  ds_MeasuredAt :: gotime
  ds_MemUsedMeasured :: bool

record PoolSpec =
  pl_Template :: string
  pl_Net :: string
  pl_Size :: string
  pl_Warm :: int

record PoolState =
  po_Key :: SdPoolKey
  po_Warm :: int
  po_Refilling :: int
  po_Target :: int
  po_Golden :: bool

record NodeInfo =
  nf_Pools :: "PoolState list"
  nf_Claimed :: int
  nf_Hibernated :: int
  nf_Archived :: int

record codec =
  enc_Claim :: "ClaimSpec \<Rightarrow> string"
  enc_Pools :: "PoolSpec list \<Rightarrow> string"
  enc_Fork :: "ForkSpec \<Rightarrow> string"
  enc_Checkpoint :: "CheckpointSpec \<Rightarrow> string"
  enc_CheckpointClaim :: "int \<Rightarrow> string"
  enc_Promote :: "PromoteSpec \<Rightarrow> string"
  dec_Claim :: "string \<Rightarrow> ClaimResult option"
  dec_NodeInfo :: "string \<Rightarrow> NodeInfo option"
  dec_Fork :: "string \<Rightarrow> ClaimResult list option"
  dec_Checkpoint :: "string \<Rightarrow> Checkpoint option"
  dec_Checkpoints :: "string \<Rightarrow> Checkpoint list option"
  dec_Promote :: "string \<Rightarrow> SdPoolKey option"
  dec_Summary :: "string \<Rightarrow> SandboxSummary option"
  dec_Summaries :: "string \<Rightarrow> SandboxSummary list option"
  dec_Stats :: "string \<Rightarrow> SdStats option"
  dec_Error :: "string \<Rightarrow> string"

record httpRequest =
  rq_Method :: string
  rq_URL :: string
  rq_Auth :: "string option"
  rq_Body :: "string option"

record httpResponse =
  rs_Status :: int
  rs_Body :: string

type_synonym 'w transport = "httpRequest \<Rightarrow> 'w \<Rightarrow> (string + httpResponse) \<times> 'w"

record 'w Client =
  c_baseURL :: string
  c_token :: string
  c_do :: "'w transport"
  c_codec :: codec

section \<open>Building requests\<close>

text \<open>\<open>strings.TrimRight(s, "/")\<close>.\<close>

definition trimRightSlash :: "string \<Rightarrow> string" where
  "trimRightSlash s = rev (dropWhile (\<lambda>c. c = CHR ''/'') (rev s))"

definition New :: "string \<Rightarrow> string \<Rightarrow> 'w transport \<Rightarrow> codec \<Rightarrow> 'w Client" where
  "New baseURL token tr cdc =
     \<lparr>c_baseURL = trimRightSlash baseURL, c_token = token, c_do = tr, c_codec = cdc\<rparr>"

text \<open>
  \<open>url.PathEscape\<close>: letters, digits, the unreserved marks and the characters that may
  stand for themselves in a path segment are kept, the rest becomes \<open>%XX\<close>.
\<close>

definition isUpper :: "char \<Rightarrow> bool" where
  "isUpper c \<longleftrightarrow> CHR ''A'' \<le> c \<and> c \<le> CHR ''Z''"

definition keepInSegment :: "char \<Rightarrow> bool" where
  "keepInSegment c \<longleftrightarrow> isLower c \<or> isUpper c \<or> isDigitChar c \<or> c \<in> set ''-_.~$&+=:@''"

definition upperHex :: "nat \<Rightarrow> char" where
  "upperHex n = ''0123456789ABCDEF'' ! (n mod 16)"

definition escapeChar :: "char \<Rightarrow> string" where
  "escapeChar c =
     (if keepInSegment c then [c]
      else [CHR ''%'', upperHex (of_char c div 16), upperHex (of_char c)])"

definition PathEscape :: "string \<Rightarrow> string" where
  "PathEscape s = concat (map escapeChar s)"

definition authenticate :: "string \<Rightarrow> httpRequest \<Rightarrow> httpRequest" where
  "authenticate token req = (if token \<noteq> [] then req\<lparr>rq_Auth := Some (''Bearer '' @ token)\<rparr> else req)"

definition newRequest :: "string \<Rightarrow> string \<Rightarrow> string option \<Rightarrow> httpRequest" where
  "newRequest method u body = \<lparr>rq_Method = method, rq_URL = u, rq_Auth = None, rq_Body = body\<rparr>"

definition statusError :: "codec \<Rightarrow> httpResponse \<Rightarrow> sdError" where
  "statusError cdc resp = HTTPError (rs_Status resp) (dec_Error cdc (rs_Body resp))"

text \<open>Send a request and hand the reply to the rest of the method.\<close>

definition send :: "'w Client \<Rightarrow> httpRequest \<Rightarrow> (httpResponse \<Rightarrow> sdError + 'a) \<Rightarrow> 'w \<Rightarrow> (sdError + 'a) \<times> 'w" where
  "send c req k w =
     (case c_do c req w of
        (Inl e, w') \<Rightarrow> (Inl (TransportError e), w')
      | (Inr resp, w') \<Rightarrow> (k resp, w'))"

section \<open>The verbs of client.go\<close>

definition Client_Claim :: "'w Client \<Rightarrow> ClaimSpec \<Rightarrow> 'w \<Rightarrow> (sdError + ClaimResult) \<times> 'w" where
  "Client_Claim c spec =
     send c (authenticate (c_token c)
       (newRequest ''POST'' (c_baseURL c @ ''/v1/claim'') (Some (enc_Claim (c_codec c) spec))))
       (\<lambda>resp.
          if rs_Status resp = 200 then
            case dec_Claim (c_codec c) (rs_Body resp) of
              None \<Rightarrow> Inl (DecodeError ''claim'')
            | Some r \<Rightarrow> if cr_ID r = [] then Inl NodeAtCapacity else Inr r
          else if rs_Status resp = 429 then Inl NodeAtCapacity
          else Inl (statusError (c_codec c) resp))"

definition Client_SetPools :: "'w Client \<Rightarrow> PoolSpec list \<Rightarrow> 'w \<Rightarrow> (sdError + NodeInfo) \<times> 'w" where
  "Client_SetPools c pools =
     send c (authenticate (c_token c)
       (newRequest ''PUT'' (c_baseURL c @ ''/v1/pools'') (Some (enc_Pools (c_codec c) pools))))
       (\<lambda>resp.
          if rs_Status resp \<noteq> 200 then Inl (statusError (c_codec c) resp)
          else case dec_NodeInfo (c_codec c) (rs_Body resp) of
                 None \<Rightarrow> Inl (DecodeError ''pools'')
               | Some info \<Rightarrow> Inr info)"

definition Client_Release :: "'w Client \<Rightarrow> string \<Rightarrow> string \<Rightarrow> 'w \<Rightarrow> (sdError + unit) \<times> 'w" where
  "Client_Release c sid token w =
     (if sid = [] then (Inl (MissingID ''release''), w)
      else send c (authenticate token
             (newRequest ''POST'' (c_baseURL c @ ''/v1/sandboxes/'' @ PathEscape sid @ ''/release'') None))
             (\<lambda>resp.
                if rs_Status resp = 204 then Inr ()
                else if rs_Status resp = 404 then Inr ()
                else Inl (statusError (c_codec c) resp)) w)"

section \<open>The verbs of lifecycle.go\<close>

definition postJSON :: "'w Client \<Rightarrow> string \<Rightarrow> string \<Rightarrow> (string \<Rightarrow> 'a option) \<Rightarrow> 'w \<Rightarrow> (sdError + 'a) \<times> 'w" where
  "postJSON c path payload dec =
     send c (authenticate (c_token c) (newRequest ''POST'' (c_baseURL c @ path) (Some payload)))
       (\<lambda>resp.
          if rs_Status resp div 100 \<noteq> 2 then Inl (statusError (c_codec c) resp)
          else case dec (rs_Body resp) of None \<Rightarrow> Inl (DecodeError path) | Some v \<Rightarrow> Inr v)"

definition getJSON :: "'w Client \<Rightarrow> string \<Rightarrow> (string \<Rightarrow> 'a option) \<Rightarrow> 'w \<Rightarrow> (sdError + 'a) \<times> 'w" where
  "getJSON c path dec =
     send c (authenticate (c_token c) (newRequest ''GET'' (c_baseURL c @ path) None))
       (\<lambda>resp.
          if rs_Status resp \<noteq> 200 then Inl (statusError (c_codec c) resp)
          else case dec (rs_Body resp) of None \<Rightarrow> Inl (DecodeError path) | Some v \<Rightarrow> Inr v)"

definition sandboxVerb :: "'w Client \<Rightarrow> string \<Rightarrow> string \<Rightarrow> 'w \<Rightarrow> (sdError + unit) \<times> 'w" where
  "sandboxVerb c sid verb w =
     (if sid = [] then (Inl (MissingID verb), w)
      else send c (authenticate (c_token c)
             (newRequest ''POST'' (c_baseURL c @ ''/v1/sandboxes/'' @ PathEscape sid @ ''/'' @ verb) None))
             (\<lambda>resp. if rs_Status resp \<noteq> 204 then Inl (statusError (c_codec c) resp) else Inr ()) w)"

definition Client_Hibernate :: "'w Client \<Rightarrow> string \<Rightarrow> 'w \<Rightarrow> (sdError + unit) \<times> 'w" where
  "Client_Hibernate c sid = sandboxVerb c sid ''hibernate''"

definition Client_Wake :: "'w Client \<Rightarrow> string \<Rightarrow> 'w \<Rightarrow> (sdError + unit) \<times> 'w" where
  "Client_Wake c sid = sandboxVerb c sid ''wake''"

definition Client_Fork :: "'w Client \<Rightarrow> string \<Rightarrow> ForkSpec \<Rightarrow> 'w \<Rightarrow> (sdError + ClaimResult list) \<times> 'w" where
  "Client_Fork c sid spec w =
     (if sid = [] then (Inl (MissingID ''fork''), w)
      else postJSON c (''/v1/sandboxes/'' @ PathEscape sid @ ''/fork'') (enc_Fork (c_codec c) spec)
             (dec_Fork (c_codec c)) w)"

definition Client_Checkpoint :: "'w Client \<Rightarrow> string \<Rightarrow> CheckpointSpec \<Rightarrow> 'w \<Rightarrow> (sdError + Checkpoint) \<times> 'w" where
  "Client_Checkpoint c sid spec w =
     (if sid = [] then (Inl (MissingID ''checkpoint''), w)
      else postJSON c (''/v1/sandboxes/'' @ PathEscape sid @ ''/checkpoint'')
             (enc_Checkpoint (c_codec c) spec) (dec_Checkpoint (c_codec c)) w)"

definition Client_ClaimCheckpoint :: "'w Client \<Rightarrow> string \<Rightarrow> int \<Rightarrow> 'w \<Rightarrow> (sdError + ClaimResult) \<times> 'w" where
  "Client_ClaimCheckpoint c checkpointID ttlSeconds w =
     (if checkpointID = [] then (Inl (MissingID ''claim checkpoint''), w)
      else postJSON c (''/v1/checkpoints/'' @ PathEscape checkpointID @ ''/claim'')
             (enc_CheckpointClaim (c_codec c) ttlSeconds) (dec_Claim (c_codec c)) w)"

definition Client_Checkpoints :: "'w Client \<Rightarrow> 'w \<Rightarrow> (sdError + Checkpoint list) \<times> 'w" where
  "Client_Checkpoints c = getJSON c ''/v1/checkpoints'' (dec_Checkpoints (c_codec c))"

definition Client_DeleteCheckpoint :: "'w Client \<Rightarrow> string \<Rightarrow> 'w \<Rightarrow> (sdError + unit) \<times> 'w" where
  "Client_DeleteCheckpoint c checkpointID w =
     (if checkpointID = [] then (Inl (MissingID ''delete checkpoint''), w)
      else send c (authenticate (c_token c)
             (newRequest ''DELETE'' (c_baseURL c @ ''/v1/checkpoints/'' @ PathEscape checkpointID) None))
             (\<lambda>resp. if rs_Status resp = 204 \<or> rs_Status resp = 404 then Inr ()
                     else Inl (statusError (c_codec c) resp)) w)"

definition Client_Promote :: "'w Client \<Rightarrow> string \<Rightarrow> PromoteSpec \<Rightarrow> 'w \<Rightarrow> (sdError + SdPoolKey) \<times> 'w" where
  "Client_Promote c sid spec w =
     (if sid = [] then (Inl (MissingID ''promote''), w)
      else postJSON c (''/v1/sandboxes/'' @ PathEscape sid @ ''/promote'')
             (enc_Promote (c_codec c) spec) (dec_Promote (c_codec c)) w)"

definition Client_Sandbox :: "'w Client \<Rightarrow> string \<Rightarrow> 'w \<Rightarrow> (sdError + SandboxSummary) \<times> 'w" where
  "Client_Sandbox c sid w =
     (if sid = [] then (Inl (MissingID ''sandbox read''), w)
      else getJSON c (''/v1/sandboxes/'' @ PathEscape sid) (dec_Summary (c_codec c)) w)"

definition Client_Stats :: "'w Client \<Rightarrow> string \<Rightarrow> 'w \<Rightarrow> (sdError + SdStats) \<times> 'w" where
  "Client_Stats c sid w =
     (if sid = [] then (Inl (MissingID ''stats''), w)
      else getJSON c (''/v1/sandboxes/'' @ PathEscape sid @ ''/stats'') (dec_Stats (c_codec c)) w)"

definition Client_Sandboxes :: "'w Client \<Rightarrow> 'w \<Rightarrow> (sdError + SandboxSummary list) \<times> 'w" where
  "Client_Sandboxes c = getJSON c ''/v1/sandboxes'' (dec_Summaries (c_codec c))"

text \<open>\<open>NewSandboxdClientFactory\<close>: a bare address is given the http scheme.\<close>

definition NewSandboxdClientFactory :: "'w transport \<Rightarrow> codec \<Rightarrow> string \<Rightarrow> string \<Rightarrow> 'w Client" where
  "NewSandboxdClientFactory tr cdc addr token =
     (let base = (if \<not> sublist ''://'' addr then ''http://'' @ addr else addr)
      in New base token tr cdc)"

section \<open>A path segment cannot leave its place\<close>

definition unhex :: "char \<Rightarrow> nat" where
  "unhex c = (if isDigitChar c then of_char c - 48 else of_char c - 55)"

fun PathUnescape :: "string \<Rightarrow> string" where
  "PathUnescape [] = []"
| "PathUnescape [c] = [c]"
| "PathUnescape [c, d] = [c, d]"
| "PathUnescape (c # a # b # s) =
     (if c = CHR ''%'' then char_of (16 * unhex a + unhex b) # PathUnescape s
      else c # PathUnescape (a # b # s))"

lemma upperHex_facts:
  "unhex (upperHex n) = n mod 16" "upperHex n \<noteq> CHR ''/''" "upperHex n \<noteq> CHR ''?''" "upperHex n \<noteq> CHR ''#''"
proof -
  have "list_all (\<lambda>k. unhex (upperHex k) = k \<and> upperHex k \<noteq> CHR ''/'' \<and> upperHex k \<noteq> CHR ''?'' \<and>
      upperHex k \<noteq> CHR ''#'') [0..<16]"
    by code_simp
  then have "\<forall>k<16. unhex (upperHex k) = k \<and> upperHex k \<noteq> CHR ''/'' \<and> upperHex k \<noteq> CHR ''?'' \<and>
      upperHex k \<noteq> CHR ''#''"
    by (auto simp: list_all_iff)
  moreover have "upperHex n = upperHex (n mod 16)" by (simp add: upperHex_def)
  ultimately show "unhex (upperHex n) = n mod 16" "upperHex n \<noteq> CHR ''/''" "upperHex n \<noteq> CHR ''?''"
    "upperHex n \<noteq> CHR ''#''"
    by simp_all
qed

lemma escapeChar_segment: "c \<in> set (escapeChar x) \<Longrightarrow> c \<notin> {CHR ''/'', CHR ''?'', CHR ''#''}"
  using upperHex_facts
  by (auto simp: escapeChar_def keepInSegment_def isLower_def isUpper_def isDigitChar_def less_eq_char_def
      split: if_splits)

lemma PathEscape_segment: "c \<in> set (PathEscape s) \<Longrightarrow> c \<notin> {CHR ''/'', CHR ''?'', CHR ''#''}"
  using escapeChar_segment by (auto simp: PathEscape_def)

lemma PathUnescape_cons: "c \<noteq> CHR ''%'' \<Longrightarrow> PathUnescape (c # s) = c # PathUnescape s"
  by (cases "(c, s)" rule: prod.exhaust) (cases s rule: PathUnescape.cases, auto)

lemma PathUnescape_escapeChar: "PathUnescape (escapeChar c @ s) = c # PathUnescape s"
proof (cases "keepInSegment c")
  case True
  then have "c \<noteq> CHR ''%''"
    by (auto simp: keepInSegment_def isLower_def isUpper_def isDigitChar_def less_eq_char_def)
  with True show ?thesis by (simp add: escapeChar_def PathUnescape_cons)
next
  case False
  have "of_char c div 16 < (16::nat)" by (rule less_mult_imp_div_less) simp
  then have "16 * (of_char c div 16 mod 16) + of_char c mod 16 = (of_char c :: nat)"
    by (simp add: mult_div_mod_eq)
  with False show ?thesis by (simp add: escapeChar_def upperHex_facts)
qed

lemma PathUnescape_PathEscape: "PathUnescape (PathEscape s) = s"
  by (induction s) (simp_all add: PathEscape_def PathUnescape_escapeChar)

text \<open>The transport, with a log of the requests it carried.\<close>

definition logging :: "'w transport \<Rightarrow> ('w \<times> httpRequest list) transport" where
  "logging tr req wl = (case tr req (fst wl) of (r, w') \<Rightarrow> (r, (w', snd wl @ [req])))"

text \<open>
  The log of a verb on one resource: nothing for an empty id, else one request whose URL
  holds the id as a single, decodable path segment below the collection.
\<close>

definition addresses :: "string \<Rightarrow> string \<Rightarrow> httpRequest list \<Rightarrow> bool" where
  "addresses base sid log \<longleftrightarrow>
     (if sid = [] then log = []
      else \<exists>req seg sfx. log = [req] \<and> rq_URL req = base @ seg @ sfx \<and>
             (\<forall>c\<in>set seg. c \<notin> {CHR ''/'', CHR ''?'', CHR ''#''}) \<and>
             (sfx = [] \<or> hd sfx = CHR ''/'') \<and> PathUnescape seg = sid)"

lemma snd_send_logging:
  "c_do c = logging tr \<Longrightarrow> snd (snd (send c req k (w, log))) = log @ [req]"
  by (simp add: send_def logging_def split: prod.split sum.split)

lemma authenticate_URL [simp]: "rq_URL (authenticate token req) = rq_URL req"
  by (simp add: authenticate_def)

lemma addresses_send:
  assumes "c_do c = logging tr" "sid \<noteq> []" "rq_URL req = base @ PathEscape sid @ sfx"
    and "sfx = [] \<or> hd sfx = CHR ''/''"
  shows "addresses base sid (snd (snd (send c req k (w, []))))"
proof -
  have "\<forall>c\<in>set (PathEscape sid). c \<notin> {CHR ''/'', CHR ''?'', CHR ''#''}"
    using PathEscape_segment by blast
  with assms PathUnescape_PathEscape [of sid] show ?thesis
    unfolding addresses_def snd_send_logging [OF assms(1)] by auto
qed

lemmas verb_defs = Client_Release_def Client_Hibernate_def Client_Wake_def sandboxVerb_def Client_Fork_def
  Client_Checkpoint_def Client_Promote_def Client_Stats_def Client_Sandbox_def Client_ClaimCheckpoint_def
  Client_DeleteCheckpoint_def postJSON_def getJSON_def


definition demoCodec :: codec where
  "demoCodec = \<lparr>enc_Claim = cp_ClaimRef, enc_Pools = (\<lambda>_. []), enc_Fork = (\<lambda>_. []), enc_Checkpoint = ks_Name,
     enc_CheckpointClaim = (\<lambda>_. []), enc_Promote = pr_Template,
     dec_Claim = (\<lambda>b. Some \<lparr>cr_ID = b, cr_Token = [], cr_Deadline = [], cr_OwnerAddr = [],
        cr_FromCheckpoint = [], cr_Redirect = []\<rparr>),
     dec_NodeInfo = (\<lambda>_. None), dec_Fork = (\<lambda>_. None), dec_Checkpoint = (\<lambda>_. None),
     dec_Checkpoints = (\<lambda>_. None), dec_Promote = (\<lambda>_. None), dec_Summary = (\<lambda>_. None),
     dec_Summaries = (\<lambda>_. None), dec_Stats = (\<lambda>_. None), dec_Error = (\<lambda>b. b)\<rparr>"

definition demoTransport :: "unit transport" where
  "demoTransport req w = (Inr \<lparr>rs_Status = 200, rs_Body = ''sb_1''\<rparr>, w)"

definition demoClient :: "(unit \<times> httpRequest list) Client" where
  "demoClient = New ''http://n1'' ''tok'' (logging demoTransport) demoCodec"


text \<open>
  A claim is reported delivered exactly when the node answered 200 with a non-empty id;
  an at-capacity answer (429), and a 200 that only redirects, are the capacity error that
  callers fall back on, and no other reply is.
\<close>

theorem client_claim_outcome:
  assumes "c_do c req w = (Inr resp, w')"
    and "req = authenticate (c_token c)
      (newRequest ''POST'' (c_baseURL c @ ''/v1/claim'') (Some (enc_Claim (c_codec c) spec)))"
  shows "((\<exists>r. fst (Client_Claim c spec w) = Inr r) \<longleftrightarrow>
       rs_Status resp = 200 \<and> (\<exists>r. dec_Claim (c_codec c) (rs_Body resp) = Some r \<and> cr_ID r \<noteq> []))
    \<and> (fst (Client_Claim c spec w) = Inl NodeAtCapacity \<longleftrightarrow>
       rs_Status resp = 429 \<or>
       (rs_Status resp = 200 \<and> (\<exists>r. dec_Claim (c_codec c) (rs_Body resp) = Some r \<and> cr_ID r = [])))
    \<and> snd (Client_Claim c spec w) = w'"
  using assms by (simp add: Client_Claim_def send_def statusError_def split: option.splits)

definition demoSpec :: ClaimSpec where
  "demoSpec = \<lparr>cp_Template = ''rt'', cp_Net = [], cp_Size = [], cp_TTLSeconds = 0, cp_NoRedirect = False,
     cp_ClaimRef = ''a/b''\<rparr>"

theorem client_claim_outcome_witness:
  "\<exists>r. fst (Client_Claim demoClient demoSpec ((), [])) = Inr r"
  using client_claim_outcome [of demoClient
      "authenticate (c_token demoClient) (newRequest ''POST'' (c_baseURL demoClient @ ''/v1/claim'')
         (Some (enc_Claim (c_codec demoClient) demoSpec)))" "((), [])" "\<lparr>rs_Status = 200, rs_Body = ''sb_1''\<rparr>"
      "((), [authenticate (c_token demoClient) (newRequest ''POST'' (c_baseURL demoClient @ ''/v1/claim'')
         (Some (enc_Claim (c_codec demoClient) demoSpec)))])" demoSpec]
  by (simp add: demoClient_def New_def logging_def demoTransport_def demoCodec_def)

end
