(* ===== verification/Scale_Store.thy ===== *)
theory Scale_Store
  imports Synth_Sandbox Pool_Key Sandboxd_Client "HOL-Library.AList"
begin

text \<open>
  The aggregated sandbox store (\<^verbatim>\<open>pkg/scale/sandboxstore_impl.go\<close>): reads fan out to node
  inventories and synthesize Sandboxes, \<open>Claim\<close> and \<open>Release\<close> are node-local transactions, and
  three process-local indexes bridge the publish cadence: the pending claims, the client
  overlays, and the reservations that debit warm counts.

  State is the record \<open>scatterGatherStore\<close>.  The inventory source is read at one instant per
  operation and passed as its view; the node clients thread a world \<open>'w\<close>; the clock and the
  random draw are arguments.  Go's \<open>sync.Map\<close> is an association list: \<open>Range\<close> walks it in
  list order, where Go leaves the order open.  Selector parsing belongs to apimachinery and
  is the parameter \<open>selectorLib\<close>.
\<close>

section \<open>Data\<close>

datatype scaleError =
    RoutingNotConfigured
  | EnumerateFailed string
  | BadSelector string
  | SandboxNotFound string
  | ErrClaimExists string
  | ErrNoWarmCapacity
  | NodeFailed string sdError
  | NoClaimID
  | ResolveFailed string string
  | NoAddress string
  | BadForkCount int
  | NoOwningNode string
  | NoTemplateName

text \<open>What the store reads of an \<open>InventorySource\<close> at one instant.\<close>

record InventoryView =
  iv_ListNodes :: "string + string list"
  iv_NodeInventory :: "string \<Rightarrow> string + NodeInventory"

record selectorLib =
  labels_Parse :: "string \<Rightarrow> (string + (strmap \<Rightarrow> bool))"
  fields_ParseSelector :: "string \<Rightarrow> (string + (strmap \<Rightarrow> bool))"

record ListOptions =
  lo_Namespace :: string
  lo_LabelSelector :: string
  lo_FieldSelector :: string
  lo_AllowWatchBookmarks :: bool
  lo_SendInitialEvents :: bool

record Assignment =
  as_SandboxName :: string
  as_Node :: string
  as_Address :: string
  as_Token :: string

record SandboxOverlay =
  ov_Labels :: strmap
  ov_Annotations :: strmap
  ov_Spec :: "SandboxSpec option"

record ClaimInfo =
  cf_ClaimID :: string
  cf_Namespace :: string
  cf_Name :: string
  cf_Token :: string
  cf_NodeAddr :: string

record pendingClaim =
  pd_node :: string
  pd_entry :: InventoryEntry
  pd_at :: gotime

record reservation =
  rv_generation :: string
  rv_taken :: int

text \<open>The operations of the \<open>SandboxdClient\<close> interface.\<close>

record 'w SandboxdClient =
  sdc_Claim :: "ClaimSpec \<Rightarrow> 'w \<Rightarrow> (sdError + ClaimResult) \<times> 'w"
  sdc_Release :: "string \<Rightarrow> string \<Rightarrow> 'w \<Rightarrow> (sdError + unit) \<times> 'w"
  sdc_Hibernate :: "string \<Rightarrow> 'w \<Rightarrow> (sdError + unit) \<times> 'w"
  sdc_Wake :: "string \<Rightarrow> 'w \<Rightarrow> (sdError + unit) \<times> 'w"
  sdc_Fork :: "string \<Rightarrow> ForkSpec \<Rightarrow> 'w \<Rightarrow> (sdError + ClaimResult list) \<times> 'w"
  sdc_Checkpoint :: "string \<Rightarrow> CheckpointSpec \<Rightarrow> 'w \<Rightarrow> (sdError + Checkpoint) \<times> 'w"
  sdc_Checkpoints :: "'w \<Rightarrow> (sdError + Checkpoint list) \<times> 'w"
  sdc_DeleteCheckpoint :: "string \<Rightarrow> 'w \<Rightarrow> (sdError + unit) \<times> 'w"
  sdc_ClaimCheckpoint :: "string \<Rightarrow> int \<Rightarrow> 'w \<Rightarrow> (sdError + ClaimResult) \<times> 'w"
  sdc_Promote :: "string \<Rightarrow> PromoteSpec \<Rightarrow> 'w \<Rightarrow> (sdError + SdPoolKey) \<times> 'w"
  sdc_Stats :: "string \<Rightarrow> 'w \<Rightarrow> (sdError + SdStats) \<times> 'w"

type_synonym 'w SandboxdClientFactory = "string \<Rightarrow> string \<Rightarrow> 'w SandboxdClient"

definition httpClient :: "'w Client \<Rightarrow> 'w SandboxdClient" where
  "httpClient c = \<lparr>sdc_Claim = Client_Claim c, sdc_Release = Client_Release c,
     sdc_Hibernate = Client_Hibernate c, sdc_Wake = Client_Wake c, sdc_Fork = Client_Fork c,
     sdc_Checkpoint = Client_Checkpoint c, sdc_Checkpoints = Client_Checkpoints c,
     sdc_DeleteCheckpoint = Client_DeleteCheckpoint c, sdc_ClaimCheckpoint = Client_ClaimCheckpoint c,
     sdc_Promote = Client_Promote c, sdc_Stats = Client_Stats c\<rparr>"

record 'w scatterGatherStore =
  sg_concurrency :: int
  sg_watchPoll :: int
  sg_sandboxdToken :: string
  sg_sandboxdFactory :: "'w SandboxdClientFactory option"
  sg_reservations :: "(string \<times> PoolKey) \<Rightarrow> reservation option"
  sg_pending :: "(string \<times> pendingClaim) list"
  sg_overlays :: "string \<Rightarrow> SandboxOverlay option"
  sg_pendingGen :: "64 word"
  sg_claimObserver :: bool
  sg_observed :: "ClaimInfo list"

definition NewScatterGatherStore :: "'w scatterGatherStore" where
  "NewScatterGatherStore = \<lparr>sg_concurrency = 16, sg_watchPoll = second, sg_sandboxdToken = [],
     sg_sandboxdFactory = None, sg_reservations = Map.empty, sg_pending = [], sg_overlays = Map.empty,
     sg_pendingGen = 0, sg_claimObserver = False, sg_observed = []\<rparr>"

definition WithClaimRouting :: "string \<Rightarrow> 'w SandboxdClientFactory \<Rightarrow> 'w scatterGatherStore \<Rightarrow> 'w scatterGatherStore" where
  "WithClaimRouting token fac s = s\<lparr>sg_sandboxdToken := token, sg_sandboxdFactory := Some fac\<rparr>"

definition pendingTTL :: int where "pendingTTL = 3 * 60 * second"

definition IsClaimExists :: "scaleError \<Rightarrow> bool" where
  "IsClaimExists err = (case err of ErrClaimExists _ \<Rightarrow> True | _ \<Rightarrow> False)"

definition IsNoWarmCapacity :: "scaleError \<Rightarrow> bool" where
  "IsNoWarmCapacity err = (case err of ErrNoWarmCapacity \<Rightarrow> True | _ \<Rightarrow> False)"

abbreviation nsname :: "string \<Rightarrow> string \<Rightarrow> string" where
  "nsname namespace name \<equiv> namespace @ ''/'' @ name"

section \<open>Reservations\<close>

text \<open>\<open>debit\<close>: the count for this generation, reset first if the node has published since.\<close>

definition debit :: "reservation \<Rightarrow> string \<Rightarrow> bool \<Rightarrow> int \<times> reservation" where
  "debit r generation tk =
     (let r1 = (if rv_generation r \<noteq> generation then \<lparr>rv_generation = generation, rv_taken = 0\<rparr> else r);
          r2 = (if tk then r1\<lparr>rv_taken := rv_taken r1 + 1\<rparr> else r1)
      in (rv_taken r2, r2))"

definition reservationFor :: "'w scatterGatherStore \<Rightarrow> string \<Rightarrow> PoolKey \<Rightarrow> reservation" where
  "reservationFor s node pool =
     (case sg_reservations s (node, pool) of Some r \<Rightarrow> r | None \<Rightarrow> \<lparr>rv_generation = [], rv_taken = 0\<rparr>)"

definition debitAt :: "'w scatterGatherStore \<Rightarrow> string \<Rightarrow> PoolKey \<Rightarrow> string \<Rightarrow> bool \<Rightarrow> int \<times> 'w scatterGatherStore" where
  "debitAt s node pool generation tk =
     (let (n, r) = debit (reservationFor s node pool) generation tk
      in (n, s\<lparr>sg_reservations := (sg_reservations s)((node, pool) \<mapsto> r)\<rparr>))"

section \<open>Overlays\<close>

definition Store_Overlay :: "'w scatterGatherStore \<Rightarrow> string \<Rightarrow> string \<Rightarrow> SandboxOverlay \<Rightarrow> 'w scatterGatherStore" where
  "Store_Overlay s namespace name ov = s\<lparr>sg_overlays := (sg_overlays s)(nsname namespace name \<mapsto> ov)\<rparr>"

text \<open>
  \<open>mergeOverlayMap\<close>: a written empty value removes the key.  The loop writes every key of
  \<open>written\<close> once, so its order does not matter.
\<close>

definition mergeOverlayMap :: "strmap \<Rightarrow> strmap \<Rightarrow> strmap" where
  "mergeOverlayMap base written =
     fmfilter (\<lambda>k. fmlookup written k \<noteq> Some []) (base ++\<^sub>f written)"

definition applyOverlay :: "'w scatterGatherStore \<Rightarrow> Sandbox \<Rightarrow> Sandbox" where
  "applyOverlay s sb =
     (case sg_overlays s (objKey sb) of
        None \<Rightarrow> sb
      | Some ov \<Rightarrow>
          sb\<lparr>sb_Meta := (sb_Meta sb)\<lparr>om_Labels := mergeOverlayMap (om_Labels (sb_Meta sb)) (ov_Labels ov),
               om_Annotations := mergeOverlayMap (om_Annotations (sb_Meta sb)) (ov_Annotations ov)\<rparr>,
             sb_Spec := (case ov_Spec ov of None \<Rightarrow> sb_Spec sb | Some spec \<Rightarrow> spec)\<rparr>)"

definition forgetOverlay :: "'w scatterGatherStore \<Rightarrow> string \<Rightarrow> string \<Rightarrow> 'w scatterGatherStore" where
  "forgetOverlay s namespace name = s\<lparr>sg_overlays := (sg_overlays s)(nsname namespace name := None)\<rparr>"

section \<open>Pending claims\<close>

definition rememberClaim ::
  "gotime \<Rightarrow> 'w scatterGatherStore \<Rightarrow> string \<Rightarrow> string \<Rightarrow> string \<Rightarrow> InventoryEntry \<Rightarrow> 'w scatterGatherStore" where
  "rememberClaim now s namespace name node e =
     s\<lparr>sg_pending := AList.update (nsname namespace name) \<lparr>pd_node = node, pd_entry = e, pd_at = now\<rparr> (sg_pending s),
       sg_pendingGen := sg_pendingGen s + 1\<rparr>"

text \<open>\<open>LoadAndDelete\<close> followed by the bump of the generation when something was removed.\<close>

definition forgetKey :: "'w scatterGatherStore \<Rightarrow> string \<Rightarrow> 'w scatterGatherStore" where
  "forgetKey s key =
     (if map_of (sg_pending s) key = None then s
      else s\<lparr>sg_pending := AList.delete key (sg_pending s), sg_pendingGen := sg_pendingGen s + 1\<rparr>)"

definition forgetClaim :: "'w scatterGatherStore \<Rightarrow> string \<Rightarrow> string \<Rightarrow> 'w scatterGatherStore" where
  "forgetClaim s namespace name = forgetKey s (nsname namespace name)"

definition pendingFor ::
  "gotime \<Rightarrow> 'w scatterGatherStore \<Rightarrow> string \<Rightarrow> string \<Rightarrow> pendingClaim option \<times> 'w scatterGatherStore" where
  "pendingFor now s namespace name =
     (case map_of (sg_pending s) (nsname namespace name) of
        None \<Rightarrow> (None, s)
      | Some pc \<Rightarrow>
          if timeSub now (pd_at pc) > pendingTTL then (None, forgetClaim s namespace name)
          else (Some pc, s))"

fun reconcileEntries :: "'w scatterGatherStore \<Rightarrow> InventoryEntry list \<Rightarrow> 'w scatterGatherStore" where
  "reconcileEntries s [] = s"
| "reconcileEntries s (e # es) =
     (let (ns, name, _) = parseClaimRef (ie_Name e)
      in reconcileEntries (if name \<noteq> [] then forgetClaim s ns name else s) es)"

definition reconcilePending :: "'w scatterGatherStore \<Rightarrow> NodeInventory \<Rightarrow> 'w scatterGatherStore" where
  "reconcilePending s ninv = reconcileEntries s (ni_Entries ninv)"

section \<open>Reads\<close>

definition parseSelectors ::
  "selectorLib \<Rightarrow> ListOptions \<Rightarrow> scaleError + ((strmap \<Rightarrow> bool) \<times> (strmap \<Rightarrow> bool))" where
  "parseSelectors lib opts =
     (case labels_Parse lib (lo_LabelSelector opts) of
        Inl _ \<Rightarrow> Inl (BadSelector (lo_LabelSelector opts))
      | Inr labelSel \<Rightarrow>
          case fields_ParseSelector lib (lo_FieldSelector opts) of
            Inl _ \<Rightarrow> Inl (BadSelector (lo_FieldSelector opts))
          | Inr fieldSel \<Rightarrow> Inr (labelSel, fieldSel))"

text \<open>The filter \<open>materialize\<close> and \<open>unconfirmed\<close> apply to a synthesized Sandbox.\<close>

definition visible :: "string \<Rightarrow> (strmap \<Rightarrow> bool) \<Rightarrow> (strmap \<Rightarrow> bool) \<Rightarrow> Sandbox \<Rightarrow> bool" where
  "visible namespace labelSel fieldSel sb \<longleftrightarrow>
     \<not> (namespace \<noteq> [] \<and> om_Namespace (sb_Meta sb) \<noteq> namespace) \<and>
     labelSel (om_Labels (sb_Meta sb)) \<and> fieldSel (sandboxFields sb)"

definition materialize ::
  "'w scatterGatherStore \<Rightarrow> NodeInventory \<Rightarrow> string \<Rightarrow> (strmap \<Rightarrow> bool) \<Rightarrow> (strmap \<Rightarrow> bool) \<Rightarrow> Sandbox list" where
  "materialize s ninv namespace labelSel fieldSel =
     filter (visible namespace labelSel fieldSel)
       (map (\<lambda>e. applyOverlay s (entryToSandbox (ni_Node ninv) e)) (ni_Entries ninv))"

text \<open>One step of the \<open>Range\<close> of \<open>unconfirmed\<close>: evict an expired entry, skip a seen one.\<close>

definition unconfirmedStep ::
  "gotime \<Rightarrow> string set \<Rightarrow> (Sandbox \<Rightarrow> bool) \<Rightarrow> string \<times> pendingClaim
     \<Rightarrow> Sandbox list \<times> 'w scatterGatherStore \<Rightarrow> Sandbox list \<times> 'w scatterGatherStore" where
  "unconfirmedStep now seen vis kv acc =
     (let (key, pc) = kv; (out, s) = acc
      in if timeSub now (pd_at pc) > pendingTTL then (out, forgetKey s key)
         else if key \<in> seen then (out, s)
         else let sb = applyOverlay s (entryToSandbox (pd_node pc) (pd_entry pc))
              in if vis sb then (out @ [sb], s) else (out, s))"

definition unconfirmed ::
  "gotime \<Rightarrow> 'w scatterGatherStore \<Rightarrow> string set \<Rightarrow> string \<Rightarrow> (strmap \<Rightarrow> bool) \<Rightarrow> (strmap \<Rightarrow> bool)
     \<Rightarrow> Sandbox list \<times> 'w scatterGatherStore" where
  "unconfirmed now s seen namespace labelSel fieldSel =
     fold (unconfirmedStep now seen (visible namespace labelSel fieldSel)) (sg_pending s) ([], s)"

text \<open>The fan-out of \<open>List\<close>: a node whose inventory is unavailable contributes nothing.\<close>

fun fanOut ::
  "InventoryView \<Rightarrow> string \<Rightarrow> (strmap \<Rightarrow> bool) \<Rightarrow> (strmap \<Rightarrow> bool) \<Rightarrow> string list \<Rightarrow> 'w scatterGatherStore
     \<Rightarrow> Sandbox list \<times> 'w scatterGatherStore" where
  "fanOut src namespace labelSel fieldSel [] s = ([], s)"
| "fanOut src namespace labelSel fieldSel (node # nodes) s =
     (case iv_NodeInventory src node of
        Inl _ \<Rightarrow> fanOut src namespace labelSel fieldSel nodes s
      | Inr ninv \<Rightarrow>
          let s1 = reconcilePending s ninv;
              chunk = materialize s1 ninv namespace labelSel fieldSel;
              (rest, s2) = fanOut src namespace labelSel fieldSel nodes s1
          in (chunk @ rest, s2))"

fun maxResourceVersion :: "InventoryView \<Rightarrow> string list \<Rightarrow> 64 word \<Rightarrow> 64 word" where
  "maxResourceVersion src [] m = m"
| "maxResourceVersion src (n # ns) m =
     (case iv_NodeInventory src n of
        Inl _ \<Rightarrow> maxResourceVersion src ns m
      | Inr ninv \<Rightarrow>
          if ni_ResourceVersion ninv = [] then maxResourceVersion src ns m
          else case ParseUint (ni_ResourceVersion ninv) of
                 Some v \<Rightarrow> maxResourceVersion src ns (if v > m then v else m)
               | None \<Rightarrow> maxResourceVersion src ns m)"

definition collectionResourceVersion :: "InventoryView \<Rightarrow> string list \<Rightarrow> string" where
  "collectionResourceVersion src nodes =
     (let m = maxResourceVersion src nodes 0 in if m = 0 then ''1'' else FormatUint m)"

text \<open>The loop of \<open>collectionGeneration\<close>: any unreadable inventory makes it untrusted.\<close>

fun maxGeneration :: "InventoryView \<Rightarrow> string list \<Rightarrow> 64 word \<Rightarrow> 64 word option" where
  "maxGeneration src [] m = Some m"
| "maxGeneration src (n # ns) m =
     (case iv_NodeInventory src n of
        Inl _ \<Rightarrow> None
      | Inr ninv \<Rightarrow>
          case ParseUint (ni_ResourceVersion ninv) of
            None \<Rightarrow> None
          | Some v \<Rightarrow> maxGeneration src ns (if v > m then v else m))"

definition collectionGeneration :: "InventoryView \<Rightarrow> 'w scatterGatherStore \<Rightarrow> string option" where
  "collectionGeneration src s =
     (case iv_ListNodes src of
        Inl _ \<Rightarrow> None
      | Inr nodes \<Rightarrow>
          map_option (\<lambda>m. FormatUint m @ ''@'' @ FormatUint (sg_pendingGen s)) (maxGeneration src nodes 0))"

record SandboxList =
  sl_ResourceVersion :: string
  sl_Items :: "Sandbox list"

definition Store_List ::
  "selectorLib \<Rightarrow> InventoryView \<Rightarrow> gotime \<Rightarrow> 'w scatterGatherStore \<Rightarrow> ListOptions
     \<Rightarrow> (scaleError + SandboxList) \<times> 'w scatterGatherStore" where
  "Store_List lib src now s opts =
     (case parseSelectors lib opts of
        Inl err \<Rightarrow> (Inl err, s)
      | Inr (labelSel, fieldSel) \<Rightarrow>
          case iv_ListNodes src of
            Inl err \<Rightarrow> (Inl (EnumerateFailed err), s)
          | Inr nodes \<Rightarrow>
              let (items, s1) = fanOut src (lo_Namespace opts) labelSel fieldSel nodes s;
                  seen = objKey ` set items;
                  (extra, s2) = unconfirmed now s1 seen (lo_Namespace opts) labelSel fieldSel
              in (Inr \<lparr>sl_ResourceVersion = collectionResourceVersion src nodes,
                       sl_Items = sort_key (\<lambda>sb. (om_Namespace (sb_Meta sb), om_Name (sb_Meta sb))) (items @ extra)\<rparr>,
                  s2))"

text \<open>\<open>Get\<close> walks the nodes in order and takes the first entry of that name.\<close>

definition findEntry :: "string \<Rightarrow> string \<Rightarrow> NodeInventory \<Rightarrow> InventoryEntry option" where
  "findEntry namespace name ninv =
     find (\<lambda>e. let (ens, ename, _) = parseClaimRef (ie_Name e) in ens = namespace \<and> ename = name) (ni_Entries ninv)"

fun findOwner :: "InventoryView \<Rightarrow> string \<Rightarrow> string \<Rightarrow> string list \<Rightarrow> (string \<times> InventoryEntry) option" where
  "findOwner src namespace name [] = None"
| "findOwner src namespace name (node # nodes) =
     (case iv_NodeInventory src node of
        Inl _ \<Rightarrow> findOwner src namespace name nodes
      | Inr ninv \<Rightarrow>
          case findEntry namespace name ninv of
            Some e \<Rightarrow> Some (ni_Node ninv, e)
          | None \<Rightarrow> findOwner src namespace name nodes)"

definition Store_Get ::
  "InventoryView \<Rightarrow> gotime \<Rightarrow> 'w scatterGatherStore \<Rightarrow> string \<Rightarrow> string
     \<Rightarrow> (scaleError + Sandbox) \<times> 'w scatterGatherStore" where
  "Store_Get src now s namespace name =
     (case iv_ListNodes src of
        Inl err \<Rightarrow> (Inl (EnumerateFailed err), s)
      | Inr nodes \<Rightarrow>
          case findOwner src namespace name nodes of
            Some (node, e) \<Rightarrow>
              let s1 = forgetClaim s namespace name
              in (Inr (applyOverlay s1 (entryToSandbox node e)), s1)
          | None \<Rightarrow>
              case pendingFor now s namespace name of
                (Some pc, s1) \<Rightarrow> (Inr (applyOverlay s1 (entryToSandbox (pd_node pc) (pd_entry pc))), s1)
              | (None, s1) \<Rightarrow> (Inl (SandboxNotFound name), s1))"

section \<open>Node selection\<close>

definition normNet :: "string \<Rightarrow> string" where
  "normNet s = (if s = [] then ''none'' else s)"

definition normSize :: "string \<Rightarrow> string" where
  "normSize s = (if s = [] then ''small'' else s)"

definition poolCapacityMatches :: "PoolCapacity \<Rightarrow> PoolKey \<Rightarrow> bool" where
  "poolCapacityMatches pc key \<longleftrightarrow> pc_Template pc = pk_Template key \<and>
     normNet (pc_Net pc) = normNet (pk_Net key) \<and> normSize (pc_Size pc) = normSize (pk_Size key)"

record candidate =
  cd_node :: string
  cd_addr :: string
  cd_generation :: string
  cd_available :: int

text \<open>The inner loop over a node's pools: the first match with capacity left.\<close>

fun poolCandidate ::
  "'w scatterGatherStore \<Rightarrow> PoolKey \<Rightarrow> string \<Rightarrow> NodeInventory \<Rightarrow> PoolCapacity list
     \<Rightarrow> candidate option \<times> 'w scatterGatherStore" where
  "poolCandidate s pool n ninv [] = (None, s)"
| "poolCandidate s pool n ninv (pc # pcs) =
     (if \<not> poolCapacityMatches pc pool then poolCandidate s pool n ninv pcs
      else
        let (taken, s1) = debitAt s n pool (ni_ResourceVersion ninv) False;
            available = pc_Warm pc - taken
        in if available \<le> 0 then poolCandidate s1 pool n ninv pcs
           else (Some \<lparr>cd_node = n, cd_addr = ni_Address ninv, cd_generation = ni_ResourceVersion ninv,
                       cd_available = available\<rparr>, s1))"

fun collectCandidates ::
  "InventoryView \<Rightarrow> PoolKey \<Rightarrow> string list \<Rightarrow> 'w scatterGatherStore \<Rightarrow> candidate list \<times> 'w scatterGatherStore" where
  "collectCandidates src pool [] s = ([], s)"
| "collectCandidates src pool (n # ns) s =
     (case iv_NodeInventory src n of
        Inl _ \<Rightarrow> collectCandidates src pool ns s
      | Inr ninv \<Rightarrow>
          if ni_Address ninv = [] then collectCandidates src pool ns s
          else
            let (c, s1) = poolCandidate s pool n ninv (ni_Pools ninv);
                (cs, s2) = collectCandidates src pool ns s1
            in (case c of None \<Rightarrow> cs | Some c \<Rightarrow> c # cs, s2))"

text \<open>The weighted draw: walk the candidates subtracting shares until the draw is spent.\<close>

fun drawCandidate :: "int \<Rightarrow> candidate list \<Rightarrow> candidate option" where
  "drawCandidate draw [] = None"
| "drawCandidate draw [c] = Some c"
| "drawCandidate draw (c # c' # cs) =
     (if draw < cd_available c then Some c else drawCandidate (draw - cd_available c) (c' # cs))"

definition pickWarmNode ::
  "InventoryView \<Rightarrow> (int \<Rightarrow> int) \<Rightarrow> 'w scatterGatherStore \<Rightarrow> PoolKey
     \<Rightarrow> (scaleError + (string \<times> string)) \<times> 'w scatterGatherStore" where
  "pickWarmNode src rnd s pool =
     (case iv_ListNodes src of
        Inl err \<Rightarrow> (Inl (EnumerateFailed err), s)
      | Inr nodes \<Rightarrow>
          let (candidates, s1) = collectCandidates src pool nodes s;
              total = sum_list (map cd_available candidates)
          in case drawCandidate (rnd total) (sort_key cd_node candidates) of
               None \<Rightarrow> (Inl ErrNoWarmCapacity, s1)
             | Some c \<Rightarrow>
                 let (_, s2) = debitAt s1 (cd_node c) pool (cd_generation c) True
                 in (Inr (cd_node c, cd_addr c), s2))"

section \<open>Writes\<close>

text \<open>The call of \<open>claimObserver\<close>, when one is registered.\<close>

definition observeClaim :: "'w scatterGatherStore \<Rightarrow> ClaimInfo \<Rightarrow> 'w scatterGatherStore" where
  "observeClaim s info = (if sg_claimObserver s then s\<lparr>sg_observed := sg_observed s @ [info]\<rparr> else s)"

definition Store_Claim ::
  "InventoryView \<Rightarrow> (int \<Rightarrow> int) \<Rightarrow> gotime \<Rightarrow> 'w scatterGatherStore \<Rightarrow> string \<Rightarrow> string \<Rightarrow> PoolKey \<Rightarrow> string \<Rightarrow> 'w
     \<Rightarrow> (scaleError + Assignment) \<times> 'w scatterGatherStore \<times> 'w" where
  "Store_Claim src rnd now s namespace name pool ownerUID w =
     (case sg_sandboxdFactory s of
        None \<Rightarrow> (Inl RoutingNotConfigured, s, w)
      | Some fac \<Rightarrow>
          case pendingFor now s namespace name of
            (Some pc, s1) \<Rightarrow> (Inl (ErrClaimExists (pd_node pc)), s1, w)
          | (None, s1) \<Rightarrow>
              case pickWarmNode src rnd s1 pool of
                (Inl err, s2) \<Rightarrow> (Inl err, s2, w)
              | (Inr (node, addr), s2) \<Rightarrow>
                  case sdc_Claim (fac addr (sg_sandboxdToken s))
                         \<lparr>cp_Template = pk_Template pool, cp_Net = pk_Net pool, cp_Size = pk_Size pool,
                          cp_TTLSeconds = 0, cp_NoRedirect = False,
                          cp_ClaimRef = formatClaimRef namespace name ownerUID\<rparr> w of
                    (Inl err, w') \<Rightarrow>
                      (Inl (if err = NodeAtCapacity then ErrNoWarmCapacity else NodeFailed node err), s2, w')
                  | (Inr res, w') \<Rightarrow>
                      let s3 = observeClaim s2 \<lparr>cf_ClaimID = cr_ID res, cf_Namespace = namespace, cf_Name = name,
                                 cf_Token = cr_Token res, cf_NodeAddr = cr_OwnerAddr res\<rparr>;
                          s4 = rememberClaim now s3 namespace name node
                                 \<lparr>ie_Name = nsname namespace name, ie_ID = cr_ID res, ie_Phase = ''Running'',
                                  ie_ClaimRef = formatClaimRef namespace name ownerUID,
                                  ie_Address = cr_OwnerAddr res\<rparr>
                      in (Inr \<lparr>as_SandboxName = cr_ID res, as_Node = node, as_Address = cr_OwnerAddr res,
                               as_Token = cr_Token res\<rparr>, s4, w'))"

text \<open>The \<open>Range\<close> of \<open>Release\<close> stops at the first pending entry of the released id.\<close>

definition forgetReleased :: "'w scatterGatherStore \<Rightarrow> string \<Rightarrow> 'w scatterGatherStore" where
  "forgetReleased s sid =
     (case find (\<lambda>(k, pc). ie_ID (pd_entry pc) = sid) (sg_pending s) of
        None \<Rightarrow> s
      | Some (k, _) \<Rightarrow>
          let s1 = forgetKey s k in s1\<lparr>sg_overlays := (sg_overlays s1)(k := None)\<rparr>)"

definition Store_Release ::
  "InventoryView \<Rightarrow> 'w scatterGatherStore \<Rightarrow> string \<Rightarrow> string \<Rightarrow> 'w
     \<Rightarrow> (scaleError + unit) \<times> 'w scatterGatherStore \<times> 'w" where
  "Store_Release src s node sid w =
     (case sg_sandboxdFactory s of
        None \<Rightarrow> (Inl RoutingNotConfigured, s, w)
      | Some fac \<Rightarrow>
          if sid = [] then (Inl NoClaimID, s, w)
          else case iv_NodeInventory src node of
                 Inl err \<Rightarrow> (Inl (ResolveFailed node err), s, w)
               | Inr ninv \<Rightarrow>
                   if ni_Address ninv = [] then (Inl (NoAddress node), s, w)
                   else case sdc_Release (fac (ni_Address ninv) (sg_sandboxdToken s)) sid (sg_sandboxdToken s) w of
                          (Inl err, w') \<Rightarrow> (Inl (NodeFailed node err), s, w')
                        | (Inr _, w') \<Rightarrow> (Inr (), forgetReleased s sid, w'))"

end
