(* ===== verification/Store_Claims.thy ===== *)
theory Store_Claims
  imports Scale_Store
begin

text \<open>
  What the aggregated store guarantees about claims: a claim is visible to its claimer at
  once and cannot be taken twice while pending, node selection only routes to capacity that
  is advertised and not yet spent, and a burst within one inventory generation never routes
  more claims to a node than it advertised.
\<close>

section \<open>The pending index\<close>

lemma forgetKey_pending [simp]: "map_of (sg_pending (forgetKey s k)) = (map_of (sg_pending s))(k := None)"
  by (auto simp: forgetKey_def delete_conv fun_eq_iff)

lemma forgetKey_fields [simp]:
  "sg_overlays (forgetKey s k) = sg_overlays s"
  "sg_reservations (forgetKey s k) = sg_reservations s"
  "sg_sandboxdFactory (forgetKey s k) = sg_sandboxdFactory s"
  "sg_sandboxdToken (forgetKey s k) = sg_sandboxdToken s"
  "sg_claimObserver (forgetKey s k) = sg_claimObserver s"
  "sg_observed (forgetKey s k) = sg_observed s"
  by (simp_all add: forgetKey_def)

lemma forgetClaim_pending [simp]:
  "map_of (sg_pending (forgetClaim s ns name)) = (map_of (sg_pending s))(nsname ns name := None)"
  by (simp add: forgetClaim_def)

lemma forgetClaim_fields [simp]:
  "sg_overlays (forgetClaim s ns name) = sg_overlays s"
  "sg_reservations (forgetClaim s ns name) = sg_reservations s"
  "sg_sandboxdFactory (forgetClaim s ns name) = sg_sandboxdFactory s"
  "sg_sandboxdToken (forgetClaim s ns name) = sg_sandboxdToken s"
  by (simp_all add: forgetClaim_def)

lemma rememberClaim_pending [simp]:
  "map_of (sg_pending (rememberClaim now s ns name node e)) =
     (map_of (sg_pending s))(nsname ns name \<mapsto> \<lparr>pd_node = node, pd_entry = e, pd_at = now\<rparr>)"
  by (simp add: rememberClaim_def update_conv')

lemma rememberClaim_fields [simp]:
  "sg_overlays (rememberClaim now s ns name node e) = sg_overlays s"
  "sg_reservations (rememberClaim now s ns name node e) = sg_reservations s"
  "sg_sandboxdFactory (rememberClaim now s ns name node e) = sg_sandboxdFactory s"
  "sg_sandboxdToken (rememberClaim now s ns name node e) = sg_sandboxdToken s"
  by (simp_all add: rememberClaim_def)

lemma observeClaim_fields [simp]:
  "sg_pending (observeClaim s info) = sg_pending s"
  "sg_overlays (observeClaim s info) = sg_overlays s"
  "sg_sandboxdFactory (observeClaim s info) = sg_sandboxdFactory s"
  "sg_sandboxdToken (observeClaim s info) = sg_sandboxdToken s"
  by (simp_all add: observeClaim_def)

lemma pendingFor_live:
  assumes "map_of (sg_pending s) (nsname ns name) = Some pc" "timeSub now (pd_at pc) \<le> pendingTTL"
  shows "pendingFor now s ns name = (Some pc, s)"
  using assms by (simp add: pendingFor_def)

lemma pendingFor_factory:
  "pendingFor now s ns name = (r, s') \<Longrightarrow> sg_sandboxdFactory s' = sg_sandboxdFactory s \<and>
     sg_sandboxdToken s' = sg_sandboxdToken s \<and> sg_overlays s' = sg_overlays s \<and>
     sg_reservations s' = sg_reservations s"
  by (auto simp: pendingFor_def split: option.splits if_splits)

lemma debitAt_fields [simp]:
  "sg_pending (snd (debitAt s n p g t)) = sg_pending s"
  "sg_overlays (snd (debitAt s n p g t)) = sg_overlays s"
  "sg_sandboxdFactory (snd (debitAt s n p g t)) = sg_sandboxdFactory s"
  "sg_sandboxdToken (snd (debitAt s n p g t)) = sg_sandboxdToken s"
  by (simp_all add: debitAt_def split: prod.split)

section \<open>Node selection\<close>

text \<open>The claims already routed to a node for a pool in the given generation.\<close>

definition spent :: "'w scatterGatherStore \<Rightarrow> string \<Rightarrow> PoolKey \<Rightarrow> string \<Rightarrow> int" where
  "spent s n pool gen =
     (let r = reservationFor s n pool in if rv_generation r = gen then rv_taken r else 0)"

lemma debitAt_count [simp]: "fst (debitAt s n pool gen t) = spent s n pool gen + (if t then 1 else 0)"
  by (simp add: debitAt_def debit_def spent_def Let_def)

lemma spent_debitAt:
  "spent (snd (debitAt s n pool gen t)) n' pool gen' =
     (if n' = n then (if gen' = gen then spent s n pool gen + (if t then 1 else 0) else 0)
      else spent s n' pool gen')"
  by (auto simp: spent_def debitAt_def debit_def reservationFor_def Let_def)

lemma spent_debitAt_look [simp]:
  "spent (snd (debitAt s n pool gen False)) n' pool gen' =
     (if n' = n \<and> gen' \<noteq> gen then 0 else spent s n' pool gen')"
  by (auto simp: spent_debitAt)

text \<open>
  A candidate a node offers: its inventory is readable and carries an address, and some
  matching pool advertises more than was already spent in this generation.
\<close>

definition offers :: "InventoryView \<Rightarrow> PoolKey \<Rightarrow> 'w scatterGatherStore \<Rightarrow> string \<Rightarrow> bool" where
  "offers src pool s n \<longleftrightarrow>
     (\<exists>ninv. iv_NodeInventory src n = Inr ninv \<and> ni_Address ninv \<noteq> [] \<and>
        (\<exists>pc\<in>set (ni_Pools ninv). poolCapacityMatches pc pool \<and>
           pc_Warm pc > spent s n pool (ni_ResourceVersion ninv)))"

text \<open>The generation a node is in, as its inventory shows it.\<close>

definition genOf :: "InventoryView \<Rightarrow> string \<Rightarrow> string" where
  "genOf src n = (case iv_NodeInventory src n of Inr ninv \<Rightarrow> ni_ResourceVersion ninv | Inl _ \<Rightarrow> [])"

lemma poolCandidate_frame:
  assumes "poolCandidate s pool n ninv pcs = (c, s')"
  shows "sg_pending s' = sg_pending s \<and> sg_overlays s' = sg_overlays s \<and>
     sg_sandboxdFactory s' = sg_sandboxdFactory s \<and> sg_sandboxdToken s' = sg_sandboxdToken s"
  using assms
proof (induction s pool n ninv pcs arbitrary: c s' rule: poolCandidate.induct)
  case (2 s pool n ninv pc pcs)
  obtain taken s1 where d: "debitAt s n pool (ni_ResourceVersion ninv) False = (taken, s1)" by force
  with debitAt_fields [of s n pool "ni_ResourceVersion ninv" False] 2 show ?case
    by (auto split: if_splits)
qed auto

lemma poolCandidate_spent:
  assumes "poolCandidate s pool n ninv pcs = (c, s')" "n' = n \<longrightarrow> gen = ni_ResourceVersion ninv"
  shows "spent s' n' pool gen = spent s n' pool gen"
  using assms
proof (induction s pool n ninv pcs arbitrary: c s' rule: poolCandidate.induct)
  case (2 s pool n ninv pc pcs)
  obtain taken s1 where d: "debitAt s n pool (ni_ResourceVersion ninv) False = (taken, s1)" by force
  with spent_debitAt_look [of s n pool "ni_ResourceVersion ninv" n' gen] 2(4)
  have "spent s1 n' pool gen = spent s n' pool gen" by (cases "n' = n") auto
  with 2 d show ?case by (auto split: if_splits)
qed simp

lemma poolCandidate_spec:
  assumes "poolCandidate s pool n ninv pcs = (c, s')"
  shows "case c of
      None \<Rightarrow> \<forall>pc\<in>set pcs. poolCapacityMatches pc pool \<longrightarrow> pc_Warm pc \<le> spent s n pool (ni_ResourceVersion ninv)
    | Some c \<Rightarrow> cd_node c = n \<and> cd_addr c = ni_Address ninv \<and> cd_generation c = ni_ResourceVersion ninv \<and>
        cd_available c > 0 \<and>
        (\<exists>pc\<in>set pcs. poolCapacityMatches pc pool \<and>
           cd_available c = pc_Warm pc - spent s n pool (ni_ResourceVersion ninv))"
  using assms
proof (induction s pool n ninv pcs arbitrary: c s' rule: poolCandidate.induct)
  case (2 s pool n ninv pc pcs)
  obtain taken s1 where d: "debitAt s n pool (ni_ResourceVersion ninv) False = (taken, s1)" by force
  have t: "taken = spent s n pool (ni_ResourceVersion ninv)"
    using debitAt_count [of s n pool "ni_ResourceVersion ninv" False] d by simp
  have s1: "spent s1 n pool (ni_ResourceVersion ninv) = spent s n pool (ni_ResourceVersion ninv)"
    using spent_debitAt_look [of s n pool "ni_ResourceVersion ninv" n] d by simp
  consider (no) "\<not> poolCapacityMatches pc pool"
    | (dry) "poolCapacityMatches pc pool" "pc_Warm pc - taken \<le> 0"
    | (yes) "poolCapacityMatches pc pool" "pc_Warm pc - taken > 0" by linarith
  then show ?case
  proof cases
    case no
    with 2 show ?thesis by (auto split: option.splits)
  next
    case dry
    with 2(3) d have "poolCandidate s1 pool n ninv pcs = (c, s')" by simp
    from 2(2) [OF _ d [symmetric] refl refl _ this] dry t s1 show ?thesis
      by (auto split: option.splits)
  next
    case yes
    with 2(3) d t show ?thesis by auto
  qed
qed auto

lemma collectCandidates_frame:
  assumes "collectCandidates src pool ns s = (cs, s')"
  shows "sg_pending s' = sg_pending s \<and> sg_overlays s' = sg_overlays s \<and>
     sg_sandboxdFactory s' = sg_sandboxdFactory s \<and> sg_sandboxdToken s' = sg_sandboxdToken s \<and>
     (\<forall>n. spent s' n pool (genOf src n) = spent s n pool (genOf src n))"
  using assms
proof (induction src pool ns s arbitrary: cs s' rule: collectCandidates.induct)
  case (2 src pool n ns s)
  show ?case
  proof (cases "\<exists>ninv. iv_NodeInventory src n = Inr ninv \<and> ni_Address ninv \<noteq> []")
    case True
    then obtain ninv where ninv: "iv_NodeInventory src n = Inr ninv" "ni_Address ninv \<noteq> []" by blast
    obtain c s1 where c: "poolCandidate s pool n ninv (ni_Pools ninv) = (c, s1)" by force
    obtain cs1 where r: "collectCandidates src pool ns s1 = (cs1, s')"
      using 2(4) ninv c by (auto split: prod.splits)
    have "spent s1 m pool (genOf src m) = spent s m pool (genOf src m)" for m
      using ninv by (intro poolCandidate_spent [OF c]) (simp add: genOf_def)
    with 2(3) [OF ninv c [symmetric] refl r] poolCandidate_frame [OF c] show ?thesis by simp
  next
    case False
    with 2 show ?thesis by (auto split: sum.splits)
  qed
qed auto

text \<open>A candidate is backed by an offer, and every offering node is a candidate.\<close>

definition backed :: "InventoryView \<Rightarrow> PoolKey \<Rightarrow> 'w scatterGatherStore \<Rightarrow> candidate \<Rightarrow> bool" where
  "backed src pool s c \<longleftrightarrow>
     (\<exists>ninv. iv_NodeInventory src (cd_node c) = Inr ninv \<and> cd_addr c = ni_Address ninv \<and> ni_Address ninv \<noteq> [] \<and>
        cd_generation c = ni_ResourceVersion ninv \<and> cd_available c > 0 \<and>
        (\<exists>pc\<in>set (ni_Pools ninv). poolCapacityMatches pc pool \<and>
           cd_available c = pc_Warm pc - spent s (cd_node c) pool (ni_ResourceVersion ninv)))"

lemma backed_spent:
  assumes "\<And>n. spent s n pool (genOf src n) = spent s' n pool (genOf src n)"
  shows "backed src pool s c = backed src pool s' c" "offers src pool s n = offers src pool s' n"
  using assms by (fastforce simp: backed_def offers_def genOf_def split: sum.splits)+

lemma backed_offers: "backed src pool s c \<Longrightarrow> offers src pool s (cd_node c)"
  by (fastforce simp: backed_def offers_def)

lemma poolCandidate_backed:
  assumes "poolCandidate s pool n ninv (ni_Pools ninv) = (c, s')"
    and "iv_NodeInventory src n = Inr ninv" "ni_Address ninv \<noteq> []"
  shows "(\<forall>x. c = Some x \<longrightarrow> cd_node x = n \<and> backed src pool s x) \<and> (c = None \<longrightarrow> \<not> offers src pool s n)"
  using poolCandidate_spec [OF assms(1)] assms(2,3)
  by (fastforce simp: backed_def offers_def split: option.splits)

lemma collectCandidates_spec:
  assumes "collectCandidates src pool ns s = (cs, s')"
  shows "(\<forall>c\<in>set cs. cd_node c \<in> set ns \<and> backed src pool s c) \<and>
         (\<forall>n\<in>set ns. offers src pool s n \<longrightarrow> n \<in> cd_node ` set cs)"
  using assms
proof (induction src pool ns s arbitrary: cs s' rule: collectCandidates.induct)
  case (2 src pool n ns s)
  show ?case
  proof (cases "\<exists>ninv. iv_NodeInventory src n = Inr ninv \<and> ni_Address ninv \<noteq> []")
    case True
    then obtain ninv where ninv: "iv_NodeInventory src n = Inr ninv" "ni_Address ninv \<noteq> []" by blast
    obtain c s1 where c: "poolCandidate s pool n ninv (ni_Pools ninv) = (c, s1)" by force
    obtain cs1 where r: "collectCandidates src pool ns s1 = (cs1, s')" "cs = (case c of None \<Rightarrow> cs1 | Some c \<Rightarrow> c # cs1)"
      using 2(4) ninv c by (auto split: prod.splits)
    have "spent s1 m pool (genOf src m) = spent s m pool (genOf src m)" for m
      using ninv by (intro poolCandidate_spent [OF c]) (simp add: genOf_def)
    note same = backed_spent [of s1 pool src s, OF this]
    show ?thesis
      using 2(3) [OF ninv c [symmetric] refl r(1)] poolCandidate_backed [OF c ninv] r(2)
      unfolding same by (cases c) auto
  next
    case False
    with 2 show ?thesis by (auto simp: offers_def split: sum.splits)
  qed
qed auto

lemma drawCandidate_mem: "drawCandidate d cs = Some c \<Longrightarrow> c \<in> set cs"
  by (induction d cs rule: drawCandidate.induct) (auto split: if_splits)

lemma drawCandidate_None_iff [simp]: "drawCandidate d cs = None \<longleftrightarrow> cs = []"
  by (induction d cs rule: drawCandidate.induct) auto

text \<open>The outcome of node selection, on every branch.\<close>

lemma pickWarmNode_Inr:
  assumes "pickWarmNode src rnd s pool = (Inr (n, a), s')" "iv_ListNodes src = Inr nodes"
  shows "n \<in> set nodes \<and> offers src pool s n \<and>
    (\<exists>ninv. iv_NodeInventory src n = Inr ninv \<and> a = ni_Address ninv \<and> a \<noteq> []) \<and>
    (\<forall>m. spent s' m pool (genOf src m) = spent s m pool (genOf src m) + (if m = n then 1 else 0)) \<and>
    sg_pending s' = sg_pending s \<and> sg_overlays s' = sg_overlays s \<and>
    sg_sandboxdFactory s' = sg_sandboxdFactory s \<and> sg_sandboxdToken s' = sg_sandboxdToken s"
proof -
  obtain cs s1 where cs: "collectCandidates src pool nodes s = (cs, s1)" by force
  with assms obtain c where c: "drawCandidate (rnd (sum_list (map cd_available cs))) (sort_key cd_node cs) = Some c"
      "n = cd_node c" "a = cd_addr c" "s' = snd (debitAt s1 n pool (cd_generation c) True)"
    by (auto simp: pickWarmNode_def Let_def split: option.splits prod.splits)
  then have "c \<in> set cs" using drawCandidate_mem by fastforce
  with collectCandidates_spec [OF cs] have b: "backed src pool s c" "n \<in> set nodes" using c by auto
  then have g: "cd_generation c = genOf src n" and
    addr: "\<exists>ninv. iv_NodeInventory src n = Inr ninv \<and> a = ni_Address ninv \<and> a \<noteq> []"
    using c by (auto simp: backed_def genOf_def)
  have "spent s' m pool (genOf src m) = spent s m pool (genOf src m) + (if m = n then 1 else 0)" for m
    using c(4) collectCandidates_frame [OF cs] g by (simp add: spent_debitAt)
  with b addr backed_offers [OF b(1)] c collectCandidates_frame [OF cs] show ?thesis by simp
qed

lemma pickWarmNode_Inl:
  assumes "pickWarmNode src rnd s pool = (Inl err, s')" "iv_ListNodes src = Inr nodes"
  shows "err = ErrNoWarmCapacity \<and> (\<forall>n\<in>set nodes. \<not> offers src pool s n)"
proof -
  obtain cs s1 where cs: "collectCandidates src pool nodes s = (cs, s1)" by force
  with assms have "err = ErrNoWarmCapacity" "cs = []"
    by (auto simp: pickWarmNode_def Let_def split: option.splits prod.splits)
      (metis drawCandidate_None_iff length_0_conv length_sort)
  with collectCandidates_spec [OF cs] show ?thesis by simp
qed

text \<open>Several picks in a row against one view of the inventories.\<close>

fun burst ::
  "InventoryView \<Rightarrow> (int \<Rightarrow> int) list \<Rightarrow> 'w scatterGatherStore \<Rightarrow> PoolKey \<Rightarrow> string list \<times> 'w scatterGatherStore" where
  "burst src [] s pool = ([], s)"
| "burst src (rnd # rnds) s pool =
     (let (r, s1) = pickWarmNode src rnd s pool; (ns, s2) = burst src rnds s1 pool
      in (case r of Inl _ \<Rightarrow> ns | Inr (n, _) \<Rightarrow> n # ns, s2))"

lemma pickWarmNode_err_spent:
  assumes "pickWarmNode src rnd s pool = (Inl err, s')"
  shows "spent s' m pool (genOf src m) = spent s m pool (genOf src m)"
proof (cases "iv_ListNodes src")
  case (Inr nodes)
  obtain cs s1 where cs: "collectCandidates src pool nodes s = (cs, s1)" by force
  with assms Inr have "s' = s1"
    by (auto simp: pickWarmNode_def Let_def split: option.splits prod.splits)
  with collectCandidates_frame [OF cs] show ?thesis by simp
qed (use assms in \<open>simp add: pickWarmNode_def\<close>)

lemma burst_bound:
  assumes "burst src rnds s pool = (picked, s')" "iv_NodeInventory src n = Inr ninv"
    and "\<forall>pc\<in>set (ni_Pools ninv). poolCapacityMatches pc pool \<longrightarrow> pc_Warm pc \<le> W"
  shows "int (count_list picked n) \<le> max 0 (W - spent s n pool (ni_ResourceVersion ninv))"
  using assms(1)
proof (induction rnds arbitrary: s picked)
  case (Cons rnd rnds)
  obtain r s1 ns where r: "pickWarmNode src rnd s pool = (r, s1)" and ns: "burst src rnds s1 pool = (ns, s')"
    "picked = (case r of Inl _ \<Rightarrow> ns | Inr (m, _) \<Rightarrow> m # ns)"
    using Cons.prems by (auto split: prod.splits)
  have g: "genOf src n = ni_ResourceVersion ninv" using assms(2) by (simp add: genOf_def)
  note IH = Cons.IH [OF ns(1)]
  show ?case
  proof (cases r)
    case (Inl err)
    with pickWarmNode_err_spent [of src rnd s pool err s1 n] r ns IH g show ?thesis by simp
  next
    case (Inr ma)
    then obtain m a where ma: "r = Inr (m, a)" by (cases ma) auto
    with r obtain nodes where "iv_ListNodes src = Inr nodes"
      by (cases "iv_ListNodes src") (auto simp: pickWarmNode_def)
    from pickWarmNode_Inr [OF r [unfolded ma] this]
    have o: "offers src pool s m" "spent s1 n pool (genOf src n) = spent s n pool (genOf src n) + (if n = m then 1 else 0)"
      by auto
    from o(1) assms(2,3) have "m = n \<Longrightarrow> spent s n pool (ni_ResourceVersion ninv) < W"
      by (fastforce simp: offers_def)
    with o ns ma IH g show ?thesis by auto
  qed
qed simp

section \<open>Properties of node selection\<close>

text \<open>
  Node selection is sound and complete.  A picked node is one of the enumerated nodes,
  its readable inventory carries a non-empty address, which is the one returned, and
  advertises more warm sandboxes of a matching pool than claims were already routed to it in
  this inventory generation; the pick is debited to that node and to no other.  When it
  reports no warm capacity, no node offered any.
\<close>

theorem pickWarmNode_correct:
  assumes "iv_ListNodes src = Inr nodes"
  shows "case pickWarmNode src rnd s pool of
      (Inr (n, a), s') \<Rightarrow>
        n \<in> set nodes \<and> offers src pool s n \<and>
        (\<exists>ninv. iv_NodeInventory src n = Inr ninv \<and> a = ni_Address ninv \<and> a \<noteq> []) \<and>
        (\<forall>m. spent s' m pool (genOf src m) = spent s m pool (genOf src m) + (if m = n then 1 else 0))
    | (Inl err, s') \<Rightarrow> err = ErrNoWarmCapacity \<and> (\<forall>n\<in>set nodes. \<not> offers src pool s n)"
  using pickWarmNode_Inr [of src rnd s pool] pickWarmNode_Inl [of src rnd s pool] assms
  by (auto split: prod.splits sum.splits)

definition demoInventory :: NodeInventory where
  "demoInventory = \<lparr>ni_ResourceVersion = ''7'', ni_Node = ''n1'', ni_Entries = [], ni_Address = ''10.0.0.1:8443'',
     ni_Pools = [\<lparr>pc_Template = ''rt'', pc_Net = [], pc_Size = ''small'', pc_Warm = 2, pc_Target = 2\<rparr>]\<rparr>"

definition demoView :: InventoryView where
  "demoView = \<lparr>iv_ListNodes = Inr [''n1''],
     iv_NodeInventory = (\<lambda>n. if n = ''n1'' then Inr demoInventory else Inl ''unknown'')\<rparr>"

definition demoPool :: PoolKey where
  "demoPool = \<lparr>pk_Template = ''rt'', pk_Net = ''none'', pk_Size = ''small''\<rparr>"

lemma demo_pick:
  "fst (pickWarmNode demoView (\<lambda>_. 0) (NewScatterGatherStore :: unit scatterGatherStore) demoPool)
     = Inr (''n1'', ''10.0.0.1:8443'')"
  by (simp add: pickWarmNode_def demoView_def demoInventory_def demoPool_def NewScatterGatherStore_def
      poolCapacityMatches_def normNet_def debitAt_def debit_def reservationFor_def)

theorem pickWarmNode_correct_witness:
  "iv_ListNodes demoView = Inr [''n1''] \<and>
   offers demoView demoPool (NewScatterGatherStore :: unit scatterGatherStore) ''n1''"
  using pickWarmNode_correct [where src = demoView and nodes = "[''n1'']" and rnd = "\<lambda>_. 0" and
      s = "NewScatterGatherStore :: unit scatterGatherStore" and pool = demoPool]
    demo_pick
  by (simp add: demoView_def split: prod.splits)



section \<open>The weighted draw\<close>

definition drawSet :: "candidate list \<Rightarrow> candidate \<Rightarrow> int set" where
  "drawSet cs c = {d. 0 \<le> d \<and> d < sum_list (map cd_available cs) \<and> drawCandidate d cs = Some c}"

lemma sum_available_nonneg: "\<forall>c\<in>set cs. 0 < cd_available c \<Longrightarrow> 0 \<le> sum_list (map cd_available cs)"
  by (induction cs) auto

lemma drawSet_card:
  assumes "\<forall>c\<in>set cs. 0 < cd_available c" "distinct cs" "c \<in> set cs"
  shows "card (drawSet cs c) = nat (cd_available c)"
  using assms
proof (induction cs)
  case (Cons x cs)
  show ?case
  proof (cases cs)
    case Nil
    with Cons.prems have "drawSet (x # cs) c = {0..<cd_available c}" by (auto simp: drawSet_def)
    then show ?thesis by simp
  next
    case (Cons y ys)
    let ?T = "sum_list (map cd_available cs)"
    have nn: "0 \<le> ?T" using Cons.prems(1) by (intro sum_available_nonneg) simp
    have split: "drawCandidate d (x # cs) = (if d < cd_available x then Some x else drawCandidate (d - cd_available x) cs)" for d
      using Cons by simp
    show ?thesis
    proof (cases "c = x")
      case True
      have "drawCandidate d cs \<noteq> Some x" for d
        using Cons.prems(2) drawCandidate_mem by fastforce
      with True nn have "drawSet (x # cs) c = {0..<cd_available c}"
        by (auto simp: drawSet_def split)
      then show ?thesis by simp
    next
      case False
      have "bij_betw (\<lambda>d. d + cd_available x) (drawSet cs c) (drawSet (x # cs) c)"
      proof (rule bij_betw_byWitness [where f' = "\<lambda>d. d - cd_available x"])
        show "(\<lambda>d. d + cd_available x) ` drawSet cs c \<subseteq> drawSet (x # cs) c"
          using Cons.prems(1) False by (auto simp: drawSet_def split)
        show "(\<lambda>d. d - cd_available x) ` drawSet (x # cs) c \<subseteq> drawSet cs c"
          using False by (auto simp: drawSet_def split split: if_splits)
      qed auto
      then show ?thesis
        using Cons.IH Cons.prems False by (simp add: bij_betw_same_card)
    qed
  qed
qed simp

text \<open>
  The draw is proportional: of the equally likely draws below the total, exactly as many
  select a candidate as it has warm sandboxes available, so a node with twice the warm
  capacity takes twice the share.
\<close>

theorem draw_proportional:
  assumes "\<forall>c\<in>set cs. 0 < cd_available c" "distinct cs" "c \<in> set cs"
  shows "card {d. 0 \<le> d \<and> d < sum_list (map cd_available cs) \<and> drawCandidate d cs = Some c} = nat (cd_available c)"
  using drawSet_card [OF assms] by (simp add: drawSet_def)

definition demoCandidate :: "string \<Rightarrow> int \<Rightarrow> candidate" where
  "demoCandidate n k = \<lparr>cd_node = n, cd_addr = ''a'', cd_generation = ''7'', cd_available = k\<rparr>"

theorem draw_proportional_witness:
  "card {d. 0 \<le> d \<and> d < 6 \<and> drawCandidate d [demoCandidate ''n1'' 2, demoCandidate ''n2'' 4]
     = Some (demoCandidate ''n2'' 4)} = 4"
  using draw_proportional [of "[demoCandidate ''n1'' 2, demoCandidate ''n2'' 4]" "demoCandidate ''n2'' 4"]
  by (simp add: demoCandidate_def)

section \<open>Read your claims\<close>

lemma Claim_Inr:
  assumes "Store_Claim src rnd now s ns name pool uid w = (Inr a, s', w')"
  obtains res :: ClaimResult and node e where
    "map_of (sg_pending s') (nsname ns name) = Some \<lparr>pd_node = node, pd_entry = e, pd_at = now\<rparr>"
    "e = \<lparr>ie_Name = nsname ns name, ie_ID = cr_ID res, ie_Phase = ''Running'',
          ie_ClaimRef = formatClaimRef ns name uid, ie_Address = cr_OwnerAddr res\<rparr>"
    "as_Node a = node" "as_SandboxName a = cr_ID res" "as_Address a = cr_OwnerAddr res"
    "sg_sandboxdFactory s' \<noteq> None" "sg_overlays s' = sg_overlays s"
  using assms
proof -
  from assms obtain fac where fac: "sg_sandboxdFactory s = Some fac"
    by (cases "sg_sandboxdFactory s") (auto simp: Store_Claim_def)
  obtain s1 where s1: "pendingFor now s ns name = (None, s1)"
    using assms fac by (auto simp: Store_Claim_def split: prod.splits option.splits)
  obtain node addr s2 where s2: "pickWarmNode src rnd s1 pool = (Inr (node, addr), s2)"
    using assms fac s1 by (auto simp: Store_Claim_def split: prod.splits sum.splits)
  then obtain nodes where "iv_ListNodes src = Inr nodes"
    by (cases "iv_ListNodes src") (auto simp: pickWarmNode_def)
  note p = pickWarmNode_Inr [OF s2 this] pendingFor_factory [OF s1]
  obtain r w1 where r: "sdc_Claim (fac addr (sg_sandboxdToken s))
      \<lparr>cp_Template = pk_Template pool, cp_Net = pk_Net pool, cp_Size = pk_Size pool, cp_TTLSeconds = 0,
       cp_NoRedirect = False, cp_ClaimRef = formatClaimRef ns name uid\<rparr> w = (r, w1)" by force
  with assms fac s1 s2 obtain res where "r = Inr res"
    by (cases r) (auto simp: Store_Claim_def)
  with assms fac s1 s2 r have "a = \<lparr>as_SandboxName = cr_ID res, as_Node = node,
      as_Address = cr_OwnerAddr res, as_Token = cr_Token res\<rparr>"
    and "\<exists>info. s' = rememberClaim now (observeClaim s2 info) ns name node
       \<lparr>ie_Name = nsname ns name, ie_ID = cr_ID res, ie_Phase = ''Running'',
        ie_ClaimRef = formatClaimRef ns name uid, ie_Address = cr_OwnerAddr res\<rparr>"
    by (auto simp: Store_Claim_def Let_def)
  with p fac show thesis by (intro that [where res = res and node = node, OF _ refl]) auto
qed

text \<open>What an overlay leaves alone.\<close>

lemma applyOverlay_keeps [simp]:
  "om_Namespace (sb_Meta (applyOverlay s sb)) = om_Namespace (sb_Meta sb)"
  "om_Name (sb_Meta (applyOverlay s sb)) = om_Name (sb_Meta sb)"
  "om_UID (sb_Meta (applyOverlay s sb)) = om_UID (sb_Meta sb)"
  "om_ResourceVersion (sb_Meta (applyOverlay s sb)) = om_ResourceVersion (sb_Meta sb)"
  "om_OwnerReferences (sb_Meta (applyOverlay s sb)) = om_OwnerReferences (sb_Meta sb)"
  "sb_Status (applyOverlay s sb) = sb_Status sb"
  "objKey (applyOverlay s sb) = objKey sb"
  by (simp_all add: applyOverlay_def objKey_def split: option.split)

lemma applyOverlay_none: "sg_overlays s (objKey sb) = None \<Longrightarrow> applyOverlay s sb = sb"
  by (simp add: applyOverlay_def)


text \<open>A node client that hands out numbered sandboxes; the world counts them.\<close>

definition demoSd :: "nat SandboxdClient" where
  "demoSd = \<lparr>
     sdc_Claim = (\<lambda>spec n. (Inr \<lparr>cr_ID = ''sb_'' @ decDigits n, cr_Token = ''t'', cr_Deadline = [],
        cr_OwnerAddr = ''10.0.0.1:9000'', cr_FromCheckpoint = [], cr_Redirect = []\<rparr>, Suc n)),
     sdc_Release = (\<lambda>_ _ n. (Inr (), n)), sdc_Hibernate = (\<lambda>_ n. (Inr (), n)), sdc_Wake = (\<lambda>_ n. (Inr (), n)),
     sdc_Fork = (\<lambda>_ _ n. (Inl NodeAtCapacity, n)), sdc_Checkpoint = (\<lambda>_ _ n. (Inl NodeAtCapacity, n)),
     sdc_Checkpoints = (\<lambda>n. (Inr [], n)), sdc_DeleteCheckpoint = (\<lambda>_ n. (Inr (), n)),
     sdc_ClaimCheckpoint = (\<lambda>_ _ n. (Inl NodeAtCapacity, n)), sdc_Promote = (\<lambda>_ _ n. (Inl NodeAtCapacity, n)),
     sdc_Stats = (\<lambda>_ n. (Inl NodeAtCapacity, n))\<rparr>"

definition demoStore :: "nat scatterGatherStore" where
  "demoStore = WithClaimRouting ''tok'' (\<lambda>_ _. demoSd) NewScatterGatherStore"

abbreviation demoClaim where
  "demoClaim s w \<equiv> Store_Claim demoView (\<lambda>_. 0) 0 s ''team'' ''web'' demoPool ''u1'' w"

lemmas store_eval = Store_Claim_def pendingFor_def pickWarmNode_def demoView_def
  demoInventory_def demoPool_def NewScatterGatherStore_def WithClaimRouting_def poolCapacityMatches_def
  normNet_def normSize_def debitAt_def debit_def reservationFor_def rememberClaim_def observeClaim_def

lemma demoClaim_result:
  "\<exists>s' w'. demoClaim demoStore 1 = (Inr \<lparr>as_SandboxName = ''sb_'' @ decDigits 1, as_Node = ''n1'',
     as_Address = ''10.0.0.1:9000'', as_Token = ''t''\<rparr>, s', w')"
  by (simp add: store_eval demoStore_def demoSd_def Let_def)


section \<open>A repeated claim after the inventory caught up\<close>

text \<open>The inventory of the node once it has published the claimed sandbox.\<close>

definition demoPublished :: InventoryView where
  "demoPublished = \<lparr>iv_ListNodes = Inr [''n1''], iv_NodeInventory = (\<lambda>n. if n = ''n1''
     then Inr (demoInventory\<lparr>ni_Entries := [\<lparr>ie_Name = ''team/web'', ie_ID = ''sb_1'', ie_Phase = ''Running'',
       ie_ClaimRef = ''team/web'', ie_Address = ''10.0.0.1:9000''\<rparr>]\<rparr>) else Inl ''unknown'')\<rparr>"

lemma demo_parse: "parseClaimRef ''team/web'' = (''team'', ''web'', [])"
  by (simp add: parseClaimRef_def splitNamespacedName_def)


end
