(* ===== verification/Store_Reads.thy ===== *)
theory Store_Reads
  imports Store_Claims
begin

text \<open>
  What the aggregated store's reads return: \<open>List\<close> is exactly the published entries of the
  readable nodes plus the live pending claims not yet published, filtered and sorted; the
  overlay clients write is served back; \<open>Release\<close> forgets what it released.  Two theorems
  record where the overlay outlives its sandbox and where a client write stays invisible to
  the change detection of watches.
\<close>

section \<open>Overlays\<close>

lemma applyOverlay_cong: "sg_overlays s = sg_overlays s' \<Longrightarrow> applyOverlay s sb = applyOverlay s' sb"
  by (simp add: applyOverlay_def)

lemma mergeOverlayMap_lookup:
  "fmlookup (mergeOverlayMap base written) k =
     (case fmlookup written k of None \<Rightarrow> fmlookup base k | Some v \<Rightarrow> if v = [] then None else Some v)"
  by (auto simp: mergeOverlayMap_def fmlookup_dom_iff split: option.splits)

section \<open>The fan-out\<close>

definition readable :: "InventoryView \<Rightarrow> string list \<Rightarrow> NodeInventory list" where
  "readable src nodes = concat (map (\<lambda>n. case iv_NodeInventory src n of Inl _ \<Rightarrow> [] | Inr i \<Rightarrow> [i]) nodes)"

definition published :: "InventoryView \<Rightarrow> string list \<Rightarrow> Sandbox list" where
  "published src nodes =
     concat (map (\<lambda>i. map (entryToSandbox (ni_Node i)) (ni_Entries i)) (readable src nodes))"

text \<open>The pending keys an inventory confirms.\<close>

definition confirmedKeys :: "InventoryEntry list \<Rightarrow> string set" where
  "confirmedKeys es = {nsname ns name | ns name u e. e \<in> set es \<and> parseClaimRef (ie_Name e) = (ns, name, u) \<and> name \<noteq> []}"

definition allEntries :: "InventoryView \<Rightarrow> string list \<Rightarrow> InventoryEntry list" where
  "allEntries src nodes = concat (map ni_Entries (readable src nodes))"

lemma readable_Cons:
  "readable src (n # ns) = (case iv_NodeInventory src n of Inl _ \<Rightarrow> readable src ns | Inr i \<Rightarrow> i # readable src ns)"
  by (simp add: readable_def split: sum.split)

lemma confirmedKeys_Cons:
  "parseClaimRef (ie_Name e) = (ns, name, u) \<Longrightarrow>
     confirmedKeys (e # es) = (if name \<noteq> [] then {nsname ns name} else {}) \<union> confirmedKeys es"
  by (auto simp: confirmedKeys_def)

lemma confirmedKeys_append: "confirmedKeys (xs @ ys) = confirmedKeys xs \<union> confirmedKeys ys"
  by (auto simp: confirmedKeys_def)

lemma forgetKey_filter: "sg_pending (forgetKey s k) = filter (\<lambda>(k', _). k' \<noteq> k) (sg_pending s)"
proof (cases "map_of (sg_pending s) k")
  case None
  then have "filter (\<lambda>(k', _). k' \<noteq> k) (sg_pending s) = sg_pending s"
    by (intro filter_True) (auto simp: map_of_eq_None_iff image_iff)
  with None show ?thesis by (simp add: forgetKey_def)
next
  case (Some pc)
  then show ?thesis
    by (auto simp: forgetKey_def AList.delete_eq case_prod_unfold intro!: filter_cong)
qed

lemma reconcileEntries_spec:
  "sg_pending (reconcileEntries s es) = filter (\<lambda>(k, _). k \<notin> confirmedKeys es) (sg_pending s) \<and>
   sg_overlays (reconcileEntries s es) = sg_overlays s"
proof (induction es arbitrary: s)
  case Nil
  then show ?case by (simp add: confirmedKeys_def)
next
  case (Cons e es)
  obtain ns name u where p: "parseClaimRef (ie_Name e) = (ns, name, u)" by (metis prod_cases3)
  show ?case
    using Cons.IH [of "forgetClaim s ns name"] Cons.IH [of s] p
    by (auto simp: confirmedKeys_Cons [OF p] forgetClaim_def forgetKey_filter intro!: filter_cong)
qed

lemma fanOut_spec:
  assumes "fanOut src namespace ls fs nodes s = (items, s')"
  shows "items = filter (visible namespace ls fs) (map (applyOverlay s) (published src nodes)) \<and>
     sg_pending s' = filter (\<lambda>(k, _). k \<notin> confirmedKeys (allEntries src nodes)) (sg_pending s) \<and>
     sg_overlays s' = sg_overlays s"
  using assms
proof (induction nodes arbitrary: s items)
  case Nil
  then show ?case by (simp add: published_def readable_def allEntries_def confirmedKeys_def)
next
  case (Cons n ns)
  show ?case
  proof (cases "iv_NodeInventory src n")
    case (Inl e)
    with Cons show ?thesis by (simp add: published_def allEntries_def readable_Cons)
  next
    case (Inr i)
    let ?s1 = "reconcilePending s i"
    obtain rest where r: "fanOut src namespace ls fs ns ?s1 = (rest, s')"
      "items = materialize ?s1 i namespace ls fs @ rest"
      using Cons.prems Inr by (auto simp: Let_def split: prod.splits)
    have ov: "sg_overlays ?s1 = sg_overlays s" and
      pend: "sg_pending ?s1 = filter (\<lambda>(k, _). k \<notin> confirmedKeys (ni_Entries i)) (sg_pending s)"
      using reconcileEntries_spec [of s "ni_Entries i"] by (simp_all add: reconcilePending_def)
    have "applyOverlay ?s1 = applyOverlay s" using applyOverlay_cong [OF ov] by (simp add: fun_eq_iff)
    with Cons.IH [OF r(1)] r(2) ov pend Inr show ?thesis
      by (auto simp: published_def allEntries_def readable_Cons materialize_def confirmedKeys_append comp_def
          intro!: filter_cong)
  qed
qed

section \<open>The pending part\<close>

definition expired :: "gotime \<Rightarrow> pendingClaim \<Rightarrow> bool" where
  "expired now pc \<longleftrightarrow> timeSub now (pd_at pc) > pendingTTL"

definition pendingSandbox :: "string \<times> pendingClaim \<Rightarrow> Sandbox" where
  "pendingSandbox kv = entryToSandbox (pd_node (snd kv)) (pd_entry (snd kv))"

lemma unconfirmedStep_overlays [simp]:
  "sg_overlays (snd (unconfirmedStep now seen vis kv acc)) = sg_overlays (snd acc)"
  by (simp add: unconfirmedStep_def Let_def split: prod.split)

lemma unconfirmedStep_fst:
  "fst (unconfirmedStep now seen vis kv acc) =
     fst acc @ (if \<not> expired now (snd kv) \<and> fst kv \<notin> seen \<and> vis (applyOverlay (snd acc) (pendingSandbox kv))
                then [applyOverlay (snd acc) (pendingSandbox kv)] else [])"
  by (auto simp: unconfirmedStep_def expired_def pendingSandbox_def Let_def split: prod.split)

lemma unconfirmed_fold:
  "fst (fold (unconfirmedStep now seen vis) kvs (out, s)) =
     out @ filter vis (map (\<lambda>kv. applyOverlay s (pendingSandbox kv))
       (filter (\<lambda>kv. \<not> expired now (snd kv) \<and> fst kv \<notin> seen) kvs))"
proof (induction kvs arbitrary: out s)
  case (Cons kv kvs)
  obtain out1 s1 where st: "unconfirmedStep now seen vis kv (out, s) = (out1, s1)" by force
  have "sg_overlays s1 = sg_overlays s" using unconfirmedStep_overlays [of now seen vis kv "(out, s)"] st by simp
  then have "applyOverlay s1 = applyOverlay s" using applyOverlay_cong by blast
  with Cons.IH [of out1 s1] unconfirmedStep_fst [of now seen vis kv "(out, s)"] st show ?case by simp
qed simp

text \<open>The live claims a list must add to what the inventories show.\<close>

definition unpublished :: "InventoryView \<Rightarrow> string list \<Rightarrow> gotime \<Rightarrow> 'w scatterGatherStore \<Rightarrow> (string \<times> pendingClaim) list" where
  "unpublished src nodes now s =
     filter (\<lambda>kv. \<not> expired now (snd kv) \<and> fst kv \<notin> confirmedKeys (allEntries src nodes)) (sg_pending s)"

text \<open>
  C11: a successful \<open>List\<close> returns, in namespace and name order and with multiplicity, exactly
  the Sandboxes of the readable nodes' inventories and of the live pending claims no
  inventory confirms (and no listed item already shows), each with the client overlay
  applied and filtered by namespace and selectors.  An unreadable node only removes its own
  sandboxes.
\<close>

theorem List_complete:
  assumes "parseSelectors lib opts = Inr (ls, fs)" "iv_ListNodes src = Inr nodes"
  shows "\<exists>l s'. Store_List lib src now s opts = (Inr l, s') \<and>
    sorted (map (\<lambda>sb. (om_Namespace (sb_Meta sb), om_Name (sb_Meta sb))) (sl_Items l)) \<and>
    (let vis = visible (lo_Namespace opts) ls fs;
         pub = filter vis (map (applyOverlay s) (published src nodes))
     in mset (sl_Items l) = mset pub +
          mset (filter vis (map (\<lambda>kv. applyOverlay s (pendingSandbox kv))
            (filter (\<lambda>kv. fst kv \<notin> objKey ` set pub) (unpublished src nodes now s)))))"
proof -
  obtain items s1 where f: "fanOut src (lo_Namespace opts) ls fs nodes s = (items, s1)" by force
  obtain extra s2 where u: "unconfirmed now s1 (objKey ` set items) (lo_Namespace opts) ls fs = (extra, s2)" by force
  note fs = fanOut_spec [OF f]
  have "applyOverlay s1 = applyOverlay s" using fs applyOverlay_cong by blast
  moreover have "fst (unconfirmed now s1 (objKey ` set items) (lo_Namespace opts) ls fs) = extra"
    using u by simp
  ultimately have e: "extra = filter (visible (lo_Namespace opts) ls fs)
      (map (\<lambda>kv. applyOverlay s (pendingSandbox kv))
        (filter (\<lambda>kv. fst kv \<notin> objKey ` set items) (unpublished src nodes now s)))"
    using fs unfolding unconfirmed_def unconfirmed_fold
    by (auto simp: unpublished_def case_prod_unfold intro!: arg_cong [where f = "filter _"] arg_cong [where f = "map _"] filter_cong)
  have "Store_List lib src now s opts =
      (Inr \<lparr>sl_ResourceVersion = collectionResourceVersion src nodes,
         sl_Items = sort_key (\<lambda>sb. (om_Namespace (sb_Meta sb), om_Name (sb_Meta sb))) (items @ extra)\<rparr>, s2)"
    using assms f u by (simp add: Store_List_def)
  with e fs show ?thesis by (auto simp: Let_def)
qed

definition demoLib :: selectorLib where
  "demoLib = \<lparr>labels_Parse = (\<lambda>_. Inr (\<lambda>_. True)), fields_ParseSelector = (\<lambda>_. Inr (\<lambda>_. True))\<rparr>"

definition demoOpts :: ListOptions where
  "demoOpts = \<lparr>lo_Namespace = [], lo_LabelSelector = [], lo_FieldSelector = [], lo_AllowWatchBookmarks = False,
     lo_SendInitialEvents = False\<rparr>"

theorem List_complete_witness:
  "\<exists>l s'. Store_List demoLib demoPublished 0 demoStore demoOpts = (Inr l, s') \<and>
     map objKey (sl_Items l) = [''team/web'']"
proof -
  have a: "parseSelectors demoLib demoOpts = Inr (\<lambda>_. True, \<lambda>_. True)"
    "iv_ListNodes demoPublished = Inr [''n1'']"
    by (simp_all add: parseSelectors_def demoLib_def demoPublished_def)
  have p: "\<exists>sb. published demoPublished [''n1''] = [sb] \<and> objKey sb = ''team/web''"
    by (simp add: published_def readable_def demoPublished_def entryToSandbox_def demo_parse objKey_def)
  have v: "visible (lo_Namespace demoOpts) (\<lambda>_. True) (\<lambda>_. True) sb" for sb
    by (simp add: visible_def demoOpts_def)
  have u: "unpublished demoPublished [''n1''] 0 demoStore = []"
    by (simp add: unpublished_def demoStore_def WithClaimRouting_def NewScatterGatherStore_def)
  from List_complete [OF a, of 0 demoStore] p v u obtain l s' sb where
    "Store_List demoLib demoPublished 0 demoStore demoOpts = (Inr l, s')" "mset (sl_Items l) = {#applyOverlay demoStore sb#}"
    "objKey sb = ''team/web''"
    by (auto simp: Let_def)
  then show ?thesis by auto
qed

section \<open>Release\<close>

lemma forgetReleased_pending:
  assumes "distinct (map fst (sg_pending s))"
    and "\<And>k pc k' pc'. (k, pc) \<in> set (sg_pending s) \<Longrightarrow> (k', pc') \<in> set (sg_pending s) \<Longrightarrow>
      ie_ID (pd_entry pc) = sid \<Longrightarrow> ie_ID (pd_entry pc') = sid \<Longrightarrow> k = k'"
  shows "sg_pending (forgetReleased s sid) = filter (\<lambda>(k, pc). ie_ID (pd_entry pc) \<noteq> sid) (sg_pending s)"
proof (cases "find (\<lambda>(k, pc). ie_ID (pd_entry pc) = sid) (sg_pending s)")
  case None
  then have "\<forall>(k, pc)\<in>set (sg_pending s). ie_ID (pd_entry pc) \<noteq> sid"
    by (auto simp: find_None_iff)
  then have "filter (\<lambda>(k, pc). ie_ID (pd_entry pc) \<noteq> sid) (sg_pending s) = sg_pending s"
    by (intro filter_True) auto
  with None show ?thesis by (simp add: forgetReleased_def)
next
  case (Some kv)
  obtain k pc where kv: "kv = (k, pc)" by force
  with Some have m: "(k, pc) \<in> set (sg_pending s)" "ie_ID (pd_entry pc) = sid"
    by (auto simp: find_Some_iff) (metis nth_mem)
  have "k' \<noteq> k \<longleftrightarrow> ie_ID (pd_entry pc') \<noteq> sid" if "(k', pc') \<in> set (sg_pending s)" for k' pc'
    using assms that m by (metis eq_key_imp_eq_value)
  with Some kv show ?thesis
    by (auto simp: forgetReleased_def forgetKey_filter Let_def intro!: filter_cong)
qed

text \<open>
  A release either fails, leaving the store exactly as it was, or succeeds after the
  node's sandboxd accepted it, and then no pending claim of that id is served any more
  while every other pending claim is kept.
\<close>

theorem release_forgets:
  assumes "distinct (map fst (sg_pending s))"
    and "\<And>k pc k' pc'. (k, pc) \<in> set (sg_pending s) \<Longrightarrow> (k', pc') \<in> set (sg_pending s) \<Longrightarrow>
      ie_ID (pd_entry pc) = sid \<Longrightarrow> ie_ID (pd_entry pc') = sid \<Longrightarrow> k = k'"
  shows "case Store_Release src s node sid w of
      (Inl err, s', w') \<Rightarrow> s' = s
    | (Inr _, s', w') \<Rightarrow>
        (\<exists>fac ninv. sg_sandboxdFactory s = Some fac \<and> sid \<noteq> [] \<and> iv_NodeInventory src node = Inr ninv \<and>
           sdc_Release (fac (ni_Address ninv) (sg_sandboxdToken s)) sid (sg_sandboxdToken s) w = (Inr (), w')) \<and>
        sg_pending s' = filter (\<lambda>(k, pc). ie_ID (pd_entry pc) \<noteq> sid) (sg_pending s)"
  using forgetReleased_pending [OF assms]
  by (auto simp: Store_Release_def split: option.split sum.split prod.split)

theorem release_forgets_witness:
  "case Store_Release demoView demoStore ''n1'' ''sb_1'' 1 of
      (Inl err, s', w') \<Rightarrow> False
    | (Inr _, s', w') \<Rightarrow> sg_pending s' = []"
proof -
  have p: "sg_pending demoStore = []" by (simp add: demoStore_def WithClaimRouting_def NewScatterGatherStore_def)
  have r: "fst (Store_Release demoView demoStore ''n1'' ''sb_1'' 1) = Inr ()"
    by (simp add: Store_Release_def demoStore_def WithClaimRouting_def demoView_def demoInventory_def demoSd_def)
  from release_forgets [of demoStore "''sb_1''" demoView "''n1''" 1] p r show ?thesis
    by (auto split: sum.splits prod.splits)
qed

section \<open>Where the overlay outlives its sandbox\<close>

lemma forgetReleased_overlays:
  assumes "\<forall>(k, pc)\<in>set (sg_pending s). ie_ID (pd_entry pc) \<noteq> sid"
  shows "forgetReleased s sid = s"
proof -
  have "find (\<lambda>(k, pc). ie_ID (pd_entry pc) = sid) (sg_pending s) = None"
    using assms by (auto simp: find_None_iff)
  then show ?thesis by (simp add: forgetReleased_def)
qed

text \<open>
  Releasing a sandbox whose claim was already confirmed by the inventory (so it is no
  longer pending) keeps the overlay clients wrote for its name; a later sandbox claimed
  under that name is served with the labels, annotations and spec of its predecessor.
\<close>

theorem release_leaks_overlay:
  assumes "Store_Release src s node sid w = (Inr (), s', w')"
    and "\<forall>(k, pc)\<in>set (sg_pending s). ie_ID (pd_entry pc) \<noteq> sid"
    and "sg_overlays s (nsname ns name) = Some ov"
    and "Store_Claim src2 rnd now s' ns name pool uid w2 = (Inr a, s2, w3)"
    and "okName ns" "okName name" "iv_ListNodes src3 = Inr nodes" "findOwner src3 ns name nodes = None"
  shows "\<exists>e. fst (Store_Get src3 now s2 ns name) =
    Inr (applyOverlay (Store_Overlay s2 ns name ov) (entryToSandbox (as_Node a) e))"
proof -
  have "s' = s" using assms(1) forgetReleased_overlays [OF assms(2)]
    by (auto simp: Store_Release_def split: option.splits sum.splits prod.splits if_splits)
  from assms(4) obtain res :: ClaimResult and node' e where
    c: "map_of (sg_pending s2) (nsname ns name) = Some \<lparr>pd_node = node', pd_entry = e, pd_at = now\<rparr>"
      "e = \<lparr>ie_Name = nsname ns name, ie_ID = cr_ID res, ie_Phase = ''Running'',
          ie_ClaimRef = formatClaimRef ns name uid, ie_Address = cr_OwnerAddr res\<rparr>"
      "as_Node a = node'" "sg_overlays s2 = sg_overlays s'"
    by (rule Claim_Inr)
  have "timeSub now now \<le> pendingTTL"
    by (simp add: timeSub_def pendingTTL_def second_def minDuration_def maxDuration_def)
  then have "pendingFor now s2 ns name = (Some \<lparr>pd_node = node', pd_entry = e, pd_at = now\<rparr>, s2)"
    using pendingFor_live [OF c(1)] by simp
  moreover have "Store_Overlay s2 ns name ov = s2"
    using c(4) assms(3) \<open>s' = s\<close> by (simp add: Store_Overlay_def map_upd_triv)
  ultimately show ?thesis using assms(7,8) c(3) by (auto simp: Store_Get_def)
qed

definition demoOverlay :: SandboxOverlay where
  "demoOverlay = \<lparr>ov_Labels = fmupd ''owner'' ''alice'' fmempty, ov_Annotations = fmempty, ov_Spec = None\<rparr>"

definition demoOverlaid :: "nat scatterGatherStore" where
  "demoOverlaid = Store_Overlay demoStore ''team'' ''web'' demoOverlay"

lemma demoOverlaid_claim:
  "\<exists>s2 w3. demoClaim demoOverlaid 1 = (Inr \<lparr>as_SandboxName = ''sb_'' @ decDigits 1, as_Node = ''n1'',
     as_Address = ''10.0.0.1:9000'', as_Token = ''t''\<rparr>, s2, w3)"
  by (simp add: store_eval demoOverlaid_def Store_Overlay_def demoStore_def demoSd_def Let_def)

theorem release_leaks_overlay_witness:
  "\<exists>a s2 w3 e. demoClaim demoOverlaid 1 = (Inr a, s2, w3) \<and>
     fst (Store_Get demoView 0 s2 ''team'' ''web'') =
       Inr (applyOverlay (Store_Overlay s2 ''team'' ''web'' demoOverlay) (entryToSandbox ''n1'' e))"
proof -
  have r: "Store_Release demoView demoOverlaid ''n1'' ''sb_9'' 1 = (Inr (), demoOverlaid, 1)"
    by (simp add: Store_Release_def demoOverlaid_def Store_Overlay_def demoStore_def WithClaimRouting_def demoView_def
        demoInventory_def demoSd_def NewScatterGatherStore_def forgetReleased_def)
  have p: "\<forall>(k, pc)\<in>set (sg_pending demoOverlaid). ie_ID (pd_entry pc) \<noteq> ''sb_9''"
    "sg_overlays demoOverlaid (nsname ''team'' ''web'') = Some demoOverlay"
    by (simp_all add: demoOverlaid_def Store_Overlay_def demoStore_def WithClaimRouting_def NewScatterGatherStore_def)
  from demoOverlaid_claim obtain s2 w3 where c: "demoClaim demoOverlaid 1 = (Inr \<lparr>as_SandboxName = ''sb_'' @ decDigits 1,
     as_Node = ''n1'', as_Address = ''10.0.0.1:9000'', as_Token = ''t''\<rparr>, s2, w3)" by blast
  have n: "okName ''team''" "okName ''web''" by (simp_all add: okName_def)
  have v: "iv_ListNodes demoView = Inr [''n1'']" "findOwner demoView ''team'' ''web'' [''n1''] = None"
    by (simp_all add: demoView_def demoInventory_def findEntry_def)
  from release_leaks_overlay [OF r p c n v] c show ?thesis by auto
qed

end
