(* ===== verification/Inventory.thy ===== *)
theory Inventory
  imports Store_Reads
begin

text \<open>
  The inventory side of the aggregated store (\<^verbatim>\<open>pkg/scale/sandboxstore_impl.go\<close>, from
  \<open>NodeInventoryPublisher\<close> on): the publisher that summarizes a node's live sandboxes into one
  object, the in-memory source publishers apply to and the store reads from, and the source
  backed by an API reader.  The contract the store relies on is the locale
  \<open>inventory_source\<close>.
\<close>

section \<open>The publisher\<close>

datatype publishError = LiveFailed string | ApplyFailed string

text \<open>
  \<open>Publish\<close>: the node's own live state is an argument, the applier threads its state.
\<close>

definition Publish ::
  "string \<Rightarrow> (string + InventoryEntry list) \<Rightarrow> (NodeInventory \<Rightarrow> 's \<Rightarrow> string + 's) \<Rightarrow> 's
     \<Rightarrow> (publishError + nat) \<times> 's" where
  "Publish node live applyTo st =
     (case live of
        Inl err \<Rightarrow> (Inl (LiveFailed err), st)
      | Inr entries \<Rightarrow>
          let ninv = \<lparr>ni_ResourceVersion = [], ni_Node = node, ni_Entries = entries, ni_Address = [], ni_Pools = []\<rparr>
          in case applyTo ninv st of
               Inl err \<Rightarrow> (Inl (ApplyFailed err), st)
             | Inr st' \<Rightarrow> (Inr (length entries), st'))"

text \<open>\<open>PublishPeriodically\<close> over the live states of successive ticks: failures are retried.\<close>

fun PublishPeriodically ::
  "string \<Rightarrow> (string + InventoryEntry list) list \<Rightarrow> (NodeInventory \<Rightarrow> 's \<Rightarrow> string + 's) \<Rightarrow> 's \<Rightarrow> 's" where
  "PublishPeriodically node [] applyTo st = st"
| "PublishPeriodically node (live # lives) applyTo st =
     PublishPeriodically node lives applyTo (snd (Publish node live applyTo st))"

section \<open>The in-memory source\<close>

record StaticInventorySource =
  si_inv :: "(string, NodeInventory) fmap"
  si_partition :: "string set"
  si_applies :: nat

definition NewStaticInventorySource :: StaticInventorySource where
  "NewStaticInventorySource = \<lparr>si_inv = fmempty, si_partition = {}, si_applies = 0\<rparr>"

definition Put :: "StaticInventorySource \<Rightarrow> NodeInventory \<Rightarrow> StaticInventorySource" where
  "Put st ninv = st\<lparr>si_inv := fmupd (ni_Node ninv) ninv (si_inv st)\<rparr>"

definition Static_Apply :: "StaticInventorySource \<Rightarrow> NodeInventory \<Rightarrow> StaticInventorySource" where
  "Static_Apply st ninv = st\<lparr>si_inv := fmupd (ni_Node ninv) ninv (si_inv st), si_applies := si_applies st + 1\<rparr>"

definition Partition :: "StaticInventorySource \<Rightarrow> string \<Rightarrow> StaticInventorySource" where
  "Partition st node = st\<lparr>si_partition := insert node (si_partition st)\<rparr>"

definition Static_Remove :: "StaticInventorySource \<Rightarrow> string \<Rightarrow> StaticInventorySource" where
  "Static_Remove st node = st\<lparr>si_inv := fmdrop node (si_inv st), si_partition := si_partition st - {node}\<rparr>"

definition Static_ListNodes :: "StaticInventorySource \<Rightarrow> string list" where
  "Static_ListNodes st = sorted_list_of_set (fmdom' (si_inv st))"

definition Static_NodeInventory :: "StaticInventorySource \<Rightarrow> string \<Rightarrow> string + NodeInventory" where
  "Static_NodeInventory st node =
     (if node \<in> si_partition st then Inl (''scale: node '' @ Quote node @ '' partitioned from aggregated server'')
      else case fmlookup (si_inv st) node of
             None \<Rightarrow> Inl (''scale: no inventory published for node '' @ Quote node)
           | Some ninv \<Rightarrow> Inr ninv)"

definition ObjectCount :: "StaticInventorySource \<Rightarrow> nat" where
  "ObjectCount st = card (fmdom' (si_inv st))"

definition ApplyCount :: "StaticInventorySource \<Rightarrow> nat" where
  "ApplyCount st = si_applies st"

definition staticView :: "StaticInventorySource \<Rightarrow> InventoryView" where
  "staticView st = \<lparr>iv_ListNodes = Inr (Static_ListNodes st), iv_NodeInventory = Static_NodeInventory st\<rparr>"

section \<open>The API-backed source\<close>

text \<open>The reader belongs to controller-runtime; decoding of the object is its second part.\<close>

record reader =
  rd_List :: "string + string list"
  rd_Get :: "string \<Rightarrow> string + (string + NodeInventory)"

definition Client_ListNodes :: "reader \<Rightarrow> string + string list" where
  "Client_ListNodes r = (case rd_List r of Inl err \<Rightarrow> Inl err | Inr names \<Rightarrow> Inr (sort names))"

definition Client_NodeInventory :: "reader \<Rightarrow> string \<Rightarrow> string + NodeInventory" where
  "Client_NodeInventory r node =
     (case rd_Get r node of
        Inl err \<Rightarrow> Inl (''scale: get node '' @ Quote node @ '' inventory: '' @ err)
      | Inr (Inl err) \<Rightarrow> Inl (''scale: decode node '' @ Quote node @ '' inventory: '' @ err)
      | Inr (Inr ninv) \<Rightarrow> Inr ninv)"

definition clientView :: "reader \<Rightarrow> InventoryView" where
  "clientView r = \<lparr>iv_ListNodes = Client_ListNodes r, iv_NodeInventory = Client_NodeInventory r\<rparr>"

section \<open>The contract between source and store\<close>

text \<open>
  A source enumerates every node that published, in order and once; an applied inventory is
  what a reachable node's read returns; applying one node's inventory leaves the others alone.
\<close>

locale inventory_source =
  fixes view :: "'s \<Rightarrow> InventoryView"
    and put :: "'s \<Rightarrow> NodeInventory \<Rightarrow> 's"
    and cutOff :: "'s \<Rightarrow> string \<Rightarrow> bool"
  assumes lists: "\<exists>ns. iv_ListNodes (view st) = Inr ns \<and> sorted ns \<and> distinct ns"
    and listed: "iv_ListNodes (view (put st i)) = Inr ns \<Longrightarrow> ni_Node i \<in> set ns"
    and read: "\<not> cutOff st (ni_Node i) \<Longrightarrow> iv_NodeInventory (view (put st i)) (ni_Node i) = Inr i"
    and other: "n \<noteq> ni_Node i \<Longrightarrow> iv_NodeInventory (view (put st i)) n = iv_NodeInventory (view st) n"
begin

lemma readable_put:
  assumes "\<not> cutOff st (ni_Node i)" "iv_ListNodes (view (put st i)) = Inr ns"
  shows "i \<in> set (readable (view (put st i)) ns)"
  using listed [OF assms(2)] read [OF assms(1)] by (force simp: readable_def)

lemma published_put:
  assumes "\<not> cutOff st (ni_Node i)" "iv_ListNodes (view (put st i)) = Inr ns" "e \<in> set (ni_Entries i)"
  shows "entryToSandbox (ni_Node i) e \<in> set (published (view (put st i)) ns)"
  using readable_put [OF assms(1,2)] assms(3) by (auto simp: published_def)

lemma list_after_put:
  assumes "\<not> cutOff st (ni_Node i)" "e \<in> set (ni_Entries i)"
    and "parseSelectors lib opts = Inr (ls, fs)"
    and "visible (lo_Namespace opts) ls fs (applyOverlay s (entryToSandbox (ni_Node i) e))"
  shows "\<exists>l s'. Store_List lib (view (put st i)) now s opts = (Inr l, s') \<and>
    applyOverlay s (entryToSandbox (ni_Node i) e) \<in> set (sl_Items l)"
proof -
  obtain ns where ns: "iv_ListNodes (view (put st i)) = Inr ns" using lists by blast
  obtain items s1 where f: "fanOut (view (put st i)) (lo_Namespace opts) ls fs ns s = (items, s1)" by force
  then have "applyOverlay s (entryToSandbox (ni_Node i) e) \<in> set items"
    using fanOut_spec [OF f] published_put [OF assms(1) ns assms(2)] assms(4) by auto
  with assms(3) ns f show ?thesis by (auto simp: Store_List_def Let_def split: prod.split)
qed

lemma findOwner_put:
  assumes "findOwner (view st) namespace name ns = None" "\<not> cutOff st (ni_Node i)"
    and "findEntry namespace name i = Some e" "ni_Node i \<in> set ns"
  shows "findOwner (view (put st i)) namespace name ns = Some (ni_Node i, e)"
  using assms(1,4)
proof (induction ns)
  case (Cons n ns)
  show ?case
  proof (cases "n = ni_Node i")
    case True
    with read [OF assms(2)] assms(3) show ?thesis by simp
  next
    case False
    with Cons other [OF False, of st] show ?thesis by (auto split: sum.splits option.splits)
  qed
qed simp

lemma get_after_put:
  assumes "\<not> cutOff st (ni_Node i)" "findEntry namespace name i = Some e"
    and "\<And>ns. findOwner (view st) namespace name ns = None"
  shows "Store_Get (view (put st i)) now s namespace name =
    (Inr (applyOverlay (forgetClaim s namespace name) (entryToSandbox (ni_Node i) e)), forgetClaim s namespace name)"
proof -
  obtain ns where ns: "iv_ListNodes (view (put st i)) = Inr ns" using lists by blast
  from findOwner_put [OF assms(3,1,2) listed [OF ns]] ns show ?thesis by (simp add: Store_Get_def Let_def)
qed

end

lemma si_inv_apply [simp]: "si_inv (Static_Apply st i) = fmupd (ni_Node i) i (si_inv st)"
  by (simp add: Static_Apply_def)

lemma si_partition_apply [simp]: "si_partition (Static_Apply st i) = si_partition st"
  by (simp add: Static_Apply_def)

interpretation static: inventory_source staticView Static_Apply "\<lambda>st n. n \<in> si_partition st"
proof (unfold_locales, goal_cases)
  case (1 st)
  then show ?case by (simp add: staticView_def Static_ListNodes_def)
next
  case (2 st i ns)
  then have "ns = sorted_list_of_set (fmdom' (si_inv (Static_Apply st i)))"
    by (simp add: staticView_def Static_ListNodes_def)
  moreover have "finite (fmdom' (si_inv (Static_Apply st i)))" "ni_Node i \<in> fmdom' (si_inv (Static_Apply st i))"
    by auto
  ultimately show ?case by (metis set_sorted_list_of_set)
next
  case (3 st i)
  then show ?case by (simp add: staticView_def Static_NodeInventory_def)
next
  case (4 n i st)
  then show ?case by (simp add: staticView_def Static_NodeInventory_def)
qed

text \<open>
  A sandbox a reachable node publishes is served by the next \<open>Get\<close> of its name (no other
  node having published that name) from that node's entry, the claim leaves the pending
  index, and every \<open>List\<close> whose filters admit it contains it.
\<close>

theorem published_is_served:
  assumes "ni_Node i \<notin> si_partition st" "e \<in> set (ni_Entries i)" "findEntry namespace name i = Some e"
    and "\<And>ns. findOwner (staticView st) namespace name ns = None"
    and "parseSelectors lib opts = Inr (ls, fs)"
    and "visible (lo_Namespace opts) ls fs (applyOverlay s (entryToSandbox (ni_Node i) e))"
  shows "Store_Get (staticView (Static_Apply st i)) now s namespace name =
      (Inr (applyOverlay s (entryToSandbox (ni_Node i) e)), forgetClaim s namespace name) \<and>
    (\<exists>l s'. Store_List lib (staticView (Static_Apply st i)) now s opts = (Inr l, s') \<and>
      applyOverlay s (entryToSandbox (ni_Node i) e) \<in> set (sl_Items l))"
proof -
  have "applyOverlay (forgetClaim s namespace name) = applyOverlay s"
    using applyOverlay_cong [of "forgetClaim s namespace name" s] by auto
  with static.get_after_put [OF assms(1,3,4), of now s] static.list_after_put [OF assms(1,2,5,6), of now]
  show ?thesis by auto
qed

definition demoPublishedInv :: NodeInventory where
  "demoPublishedInv = demoInventory\<lparr>ni_Entries := [demoEntry]\<rparr>"

lemma demo_parse_uid: "parseClaimRef ''team/web#7f3'' = (''team'', ''web'', ''7f3'')"
  by (simp add: parseClaimRef_def splitNamespacedName_def)

lemma findOwner_empty: "findOwner (staticView NewStaticInventorySource) ns name nodes = None"
  by (induction nodes) (simp_all add: staticView_def Static_NodeInventory_def NewStaticInventorySource_def)

theorem published_is_served_witness:
  "\<exists>sb. fst (Store_Get (staticView (Static_Apply NewStaticInventorySource demoPublishedInv)) 0 demoStore ''team'' ''web'')
     = Inr sb \<and> om_Name (sb_Meta sb) = ''web'' \<and> st_NodeName (sb_Status sb) = ''n1''"
proof -
  have a: "ni_Node demoPublishedInv \<notin> si_partition NewStaticInventorySource"
    "demoEntry \<in> set (ni_Entries demoPublishedInv)"
    "findEntry ''team'' ''web'' demoPublishedInv = Some demoEntry"
    by (simp_all add: demoPublishedInv_def NewStaticInventorySource_def findEntry_def demoEntry_def demo_parse_uid)
  have b: "parseSelectors demoLib demoOpts = Inr (\<lambda>_. True, \<lambda>_. True)"
    "visible (lo_Namespace demoOpts) (\<lambda>_. True) (\<lambda>_. True) sb" for sb
    by (simp_all add: parseSelectors_def demoLib_def visible_def demoOpts_def)
  have "om_Name (sb_Meta (entryToSandbox n demoEntry)) = ''web''" "st_NodeName (sb_Status (entryToSandbox n demoEntry)) = n" for n
    by (simp_all add: entryToSandbox_def demoEntry_def demo_parse_uid)
  with published_is_served [where s = demoStore and now = 0, OF a findOwner_empty b] show ?thesis
    by (simp add: demoPublishedInv_def demoInventory_def)
qed

end
