(* ===== verification/Store_Watch.thy ===== *)
theory Store_Watch
  imports Inventory
begin

text \<open>
  The watch of the aggregated store (\<open>runWatch\<close> in \<^verbatim>\<open>pkg/scale/sandboxstore_impl.go\<close>): an
  initial burst, then on every tick a comparison of the collection fingerprint and, when it
  moved, a fresh list whose difference to the last one is emitted as events.  One tick is
  one function on the loop's variables (\<open>known\<close>, \<open>lastGen\<close>); a stopped watcher receives a
  prefix of the events.
\<close>

section \<open>Events\<close>

datatype eventType = Added | Modified | Deleted | Bookmark

record watchEvent =
  we_Type :: eventType
  we_Object :: Sandbox

abbreviation "InitialEventsAnnotationKey \<equiv> ''k8s.io/initial-events-end''"

definition nodesOf :: "SandboxList \<Rightarrow> string list" where
  "nodesOf l = rev (fold (\<lambda>sb out. let n = st_NodeName (sb_Status sb)
     in if n = [] \<or> n \<in> set out then out else n # out) (sl_Items l) [])"

definition keyed :: "Sandbox list \<Rightarrow> (string \<times> Sandbox) list" where
  "keyed sbs = fold (\<lambda>sb m. AList.update (objKey sb) sb m) sbs []"

definition bookmarkAt :: "string \<Rightarrow> strmap \<Rightarrow> watchEvent" where
  "bookmarkAt rv anns = \<lparr>we_Type = Bookmark,
     we_Object = emptySandbox\<lparr>sb_Meta := emptyMeta\<lparr>om_ResourceVersion := rv, om_Annotations := anns\<rparr>\<rparr>\<rparr>"

text \<open>The initial synchronization; a failed list starts from nothing.\<close>

definition watchInit ::
  "selectorLib \<Rightarrow> InventoryView \<Rightarrow> gotime \<Rightarrow> 'w scatterGatherStore \<Rightarrow> ListOptions
     \<Rightarrow> watchEvent list \<times> (string \<times> Sandbox) list \<times> string \<times> 'w scatterGatherStore" where
  "watchInit lib src now s opts =
     (case Store_List lib src now s opts of
        (Inl _, s') \<Rightarrow> ([], [], ''1'', s')
      | (Inr l, s') \<Rightarrow>
          (map (\<lambda>sb. \<lparr>we_Type = Added, we_Object = sb\<rparr>) (sl_Items l) @
             (if lo_SendInitialEvents opts
              then [bookmarkAt (sl_ResourceVersion l) (fmupd InitialEventsAnnotationKey ''true'' fmempty)] else []),
           keyed (sl_Items l), sl_ResourceVersion l, s'))"

definition itemEvents :: "(string \<times> Sandbox) list \<Rightarrow> Sandbox \<Rightarrow> watchEvent list" where
  "itemEvents known sb =
     (case map_of known (objKey sb) of
        None \<Rightarrow> [\<lparr>we_Type = Added, we_Object = sb\<rparr>]
      | Some prev \<Rightarrow>
          if om_ResourceVersion (sb_Meta prev) \<noteq> om_ResourceVersion (sb_Meta sb)
          then [\<lparr>we_Type = Modified, we_Object = sb\<rparr>] else [])"

definition deletedEvents :: "(string \<times> Sandbox) list \<Rightarrow> (string \<times> Sandbox) list \<Rightarrow> watchEvent list" where
  "deletedEvents known cur =
     map (\<lambda>(k, prev). \<lparr>we_Type = Deleted, we_Object = prev\<rparr>) (filter (\<lambda>(k, prev). map_of cur k = None) known)"

definition watchTick ::
  "selectorLib \<Rightarrow> InventoryView \<Rightarrow> gotime \<Rightarrow> 'w scatterGatherStore \<Rightarrow> ListOptions \<Rightarrow> string
     \<Rightarrow> (string \<times> Sandbox) list \<Rightarrow> string
     \<Rightarrow> watchEvent list \<times> (string \<times> Sandbox) list \<times> string \<times> 'w scatterGatherStore" where
  "watchTick lib src now s opts initialRV known lastGen =
     (let gen = collectionGeneration src s
      in if gen = Some lastGen then ([], known, lastGen, s)
         else case Store_List lib src now s opts of
                (Inl _, s') \<Rightarrow> ([], known, lastGen, s')
              | (Inr l, s') \<Rightarrow>
                  let lastGen' = (case gen of Some g \<Rightarrow> g | None \<Rightarrow> lastGen);
                      cur = keyed (sl_Items l);
                      rv = collectionResourceVersion src (nodesOf l);
                      marks = (if lo_AllowWatchBookmarks opts
                               then [bookmarkAt (if rv = ''1'' then initialRV else rv) fmempty] else [])
                  in (concat (map (itemEvents known) (sl_Items l)) @ deletedEvents known cur @ marks,
                      cur, lastGen', s'))"

section \<open>The events reproduce the list\<close>

text \<open>What a client's cache makes of the events.\<close>

fun applyEvents :: "(string \<Rightarrow> Sandbox option) \<Rightarrow> watchEvent list \<Rightarrow> (string \<Rightarrow> Sandbox option)" where
  "applyEvents m [] = m"
| "applyEvents m (e # es) =
     applyEvents (case we_Type e of
         Added \<Rightarrow> m(objKey (we_Object e) \<mapsto> we_Object e)
       | Modified \<Rightarrow> m(objKey (we_Object e) \<mapsto> we_Object e)
       | Deleted \<Rightarrow> m(objKey (we_Object e) := None)
       | Bookmark \<Rightarrow> m) es"

definition sameVersions :: "(string \<Rightarrow> Sandbox option) \<Rightarrow> (string \<Rightarrow> Sandbox option) \<Rightarrow> bool" where
  "sameVersions m m' \<longleftrightarrow>
     (\<forall>k. map_option (\<lambda>sb. om_ResourceVersion (sb_Meta sb)) (m k) =
          map_option (\<lambda>sb. om_ResourceVersion (sb_Meta sb)) (m' k))"

definition keyOk :: "(string \<times> Sandbox) list \<Rightarrow> bool" where
  "keyOk known \<longleftrightarrow> (\<forall>(k, sb)\<in>set known. objKey sb = k)"

lemma applyEvents_append: "applyEvents m (xs @ ys) = applyEvents (applyEvents m xs) ys"
  by (induction m xs rule: applyEvents.induct) auto

lemma map_of_keyed_fold:
  "map_of (fold (\<lambda>sb m. AList.update (objKey sb) sb m) sbs m) k =
     (case find (\<lambda>sb. objKey sb = k) (rev sbs) of Some sb \<Rightarrow> Some sb | None \<Rightarrow> map_of m k)"
  by (induction sbs arbitrary: m rule: rev_induct) (auto simp: update_conv' split: option.splits)

lemma map_of_keyed:
  assumes "distinct (map objKey sbs)"
  shows "map_of (keyed sbs) k = Some sb \<longleftrightarrow> sb \<in> set sbs \<and> objKey sb = k"
proof -
  have "map_of (keyed sbs) k = find (\<lambda>sb. objKey sb = k) (rev sbs)"
    by (simp add: keyed_def map_of_keyed_fold split: option.split)
  also have "\<dots> = Some sb \<longleftrightarrow> sb \<in> set sbs \<and> objKey sb = k"
  proof
    assume "find (\<lambda>sb. objKey sb = k) (rev sbs) = Some sb"
    then show "sb \<in> set sbs \<and> objKey sb = k"
      by (metis (mono_tags) find_Some_iff nth_mem set_rev)
  next
    assume sb: "sb \<in> set sbs \<and> objKey sb = k"
    then obtain sb' where f: "find (\<lambda>sb. objKey sb = k) (rev sbs) = Some sb'"
      by (metis (mono_tags) find_None_iff not_None_eq set_rev)
    then have "sb' \<in> set sbs" "objKey sb' = k"
      by (metis (mono_tags) find_Some_iff nth_mem set_rev)+
    with sb assms f show "find (\<lambda>sb. objKey sb = k) (rev sbs) = Some sb"
      by (metis distinct_map inj_onD)
  qed
  finally show ?thesis .
qed

lemma in_set_update: "x \<in> set (AList.update k v al) \<Longrightarrow> x \<in> set al \<or> x = (k, v)"
  by (induction al) (auto split: if_splits)

lemma keyOk_keyed: "keyOk (keyed sbs)"
proof -
  have "keyOk m \<Longrightarrow> keyOk (fold (\<lambda>sb m. AList.update (objKey sb) sb m) sbs m)" for m
  proof (induction sbs arbitrary: m)
    case (Cons sb sbs)
    then have "keyOk (AList.update (objKey sb) sb m)"
      by (auto simp: keyOk_def dest!: in_set_update)
    with Cons.IH show ?case by simp
  qed simp
  from this [of "[]"] show ?thesis by (simp add: keyed_def keyOk_def)
qed

text \<open>The effect of events on one key.\<close>

definition eventAt :: "string \<Rightarrow> watchEvent \<Rightarrow> Sandbox option \<Rightarrow> Sandbox option" where
  "eventAt k e v =
     (if we_Type e = Bookmark \<or> objKey (we_Object e) \<noteq> k then v
      else if we_Type e = Deleted then None else Some (we_Object e))"

lemma applyEvents_at: "applyEvents m es k = fold (eventAt k) es (m k)"
  by (induction m es rule: applyEvents.induct) (auto simp: eventAt_def split: eventType.split)

lemma itemEvents_at:
  "fold (eventAt k) (itemEvents known sb) v = (if objKey sb = k \<and> itemEvents known sb \<noteq> [] then Some sb else v)"
  by (auto simp: itemEvents_def eventAt_def split: option.split)

lemma items_at:
  assumes "distinct (map objKey sbs)"
  shows "fold (eventAt k) (concat (map (itemEvents known) sbs)) v =
    (case find (\<lambda>sb. objKey sb = k) sbs of None \<Rightarrow> v | Some sb \<Rightarrow> if itemEvents known sb = [] then v else Some sb)"
  using assms
proof (induction sbs arbitrary: v)
  case (Cons sb sbs)
  have "find (\<lambda>sb. objKey sb = k) sbs = None" if "objKey sb = k"
    using that Cons.prems by (auto simp: find_None_iff image_iff)
  with Cons show ?case by (simp add: itemEvents_at)
qed simp

lemma deleted_at:
  assumes "keyOk known"
  shows "fold (eventAt k) (deletedEvents known cur) v = (if k \<in> fst ` set known \<and> map_of cur k = None then None else v)"
  using assms
proof (induction known arbitrary: v)
  case Nil
  then show ?case by (simp add: deletedEvents_def)
next
  case (Cons kv known)
  obtain k' sb where kv: "kv = (k', sb)" by force
  with Cons.prems have "objKey sb = k'" "keyOk known" by (auto simp: keyOk_def)
  with Cons.IH kv show ?case by (auto simp: deletedEvents_def eventAt_def)
qed

lemma bookmark_at [simp]: "eventAt k (bookmarkAt rv a) v = v"
  by (simp add: eventAt_def bookmarkAt_def)

lemma itemEvents_Nil:
  "itemEvents known sb = [] \<longleftrightarrow> (\<exists>prev. map_of known (objKey sb) = Some prev \<and>
     om_ResourceVersion (sb_Meta prev) = om_ResourceVersion (sb_Meta sb))"
  by (auto simp: itemEvents_def split: option.split)

lemma find_keyed:
  assumes "distinct (map objKey sbs)"
  shows "find (\<lambda>sb. objKey sb = k) sbs = map_of (keyed sbs) k"
proof (cases "find (\<lambda>sb. objKey sb = k) sbs")
  case None
  then show ?thesis using map_of_keyed [OF assms, of k]
    by (metis (mono_tags) find_None_iff not_None_eq)
next
  case (Some sb)
  then have "sb \<in> set sbs" "objKey sb = k" by (metis (mono_tags) find_Some_iff nth_mem)+
  with Some map_of_keyed [OF assms, of k sb] show ?thesis by simp
qed

lemma delta_correct:
  assumes "distinct (map objKey items)" "keyOk known" "sameVersions m (map_of known)"
    and "\<forall>e\<in>set marks. we_Type e = Bookmark"
  shows "sameVersions
    (applyEvents m (concat (map (itemEvents known) items) @ deletedEvents known (keyed items) @ marks))
    (map_of (keyed items))"
proof -
  have marks: "fold (eventAt k) marks v = v" for k v
    using assms(4) by (induction marks) (auto simp: eventAt_def)
  have known: "k \<in> fst ` set known \<longleftrightarrow> map_of known k \<noteq> None" for k
    by (auto simp: map_of_eq_None_iff image_iff)
  have same: "map_option (\<lambda>sb. om_ResourceVersion (sb_Meta sb)) (m k) =
      map_option (\<lambda>sb. om_ResourceVersion (sb_Meta sb)) (map_of known k)" for k
    using assms(3) by (simp add: sameVersions_def)
  show ?thesis
    unfolding sameVersions_def applyEvents_at fold_append comp_apply items_at [OF assms(1)] deleted_at [OF assms(2)]
      marks known find_keyed [OF assms(1)]
  proof (rule allI)
    fix k
    have "objKey sb = k" if "map_of (keyed items) k = Some sb" for sb
      using that map_of_keyed [OF assms(1)] by blast
    with same [of k]
    show "map_option (\<lambda>sb. om_ResourceVersion (sb_Meta sb))
        (if map_of known k \<noteq> None \<and> map_of (keyed items) k = None then None
         else case map_of (keyed items) k of None \<Rightarrow> m k
              | Some sb \<Rightarrow> if itemEvents known sb = [] then m k else Some sb) =
      map_option (\<lambda>sb. om_ResourceVersion (sb_Meta sb)) (map_of (keyed items) k)"
      by (auto simp: itemEvents_Nil split: option.split)
  qed
qed


lemma demo_list:
  "\<exists>l sb. fst (Store_List demoLib demoPublished 0 demoStore demoOpts) = Inr l \<and> sl_Items l = [sb] \<and> objKey sb = ''team/web''"
  by (simp add: Store_List_def parseSelectors_def demoLib_def demoOpts_def demoPublished_def materialize_def
      reconcilePending_def demo_parse visible_def forgetClaim_def forgetKey_def demoStore_def WithClaimRouting_def
      NewScatterGatherStore_def unconfirmed_def applyOverlay_def entryToSandbox_def objKey_def split: prod.split)


section \<open>What the fingerprint does not see\<close>

text \<open>
  The fingerprint that lets a tick skip the poll covers neither the client overlays nor
  the passing of time: with unchanged inventories and pending index, a tick emits nothing
  after any client write and at any later time, so a label written through the API, and the
  expiry of an unconfirmed claim, stay invisible to watchers although \<open>Get\<close> and \<open>List\<close>
  already show them.
\<close>

theorem watch_blind_to_overlay_and_time:
  assumes "collectionGeneration src s = Some g"
  shows "watchTick lib src later (Store_Overlay s ns name ov) opts irv known g = ([], known, g, Store_Overlay s ns name ov)"
proof -
  have "collectionGeneration src (Store_Overlay s ns name ov) = collectionGeneration src s"
    by (simp add: collectionGeneration_def Store_Overlay_def split: sum.split)
  with assms show ?thesis by (simp add: watchTick_def)
qed

lemma ParseUint7: "ParseUint ''7'' = Some 7" "ParseUint ''9'' = Some 9"
  by (simp_all add: ParseUint_def isDigitChar_def less_eq_char_def decValue_def digitVal_def)

lemma demo_gen: "collectionGeneration demoPublished demoStore = Some (FormatUint 7 @ ''@'' @ FormatUint 0)"
  by (simp add: collectionGeneration_def demoPublished_def demoInventory_def ParseUint7 demoStore_def
      WithClaimRouting_def NewScatterGatherStore_def)

theorem watch_blind_to_overlay_and_time_witness:
  "watchTick demoLib demoPublished 0 demoOverlaid demoOpts ''1'' [] (FormatUint 7 @ ''@'' @ FormatUint 0) =
     ([], [], FormatUint 7 @ ''@'' @ FormatUint 0, demoOverlaid) \<and>
   (\<exists>sb. fst (Store_Get demoPublished 0 demoOverlaid ''team'' ''web'') = Inr sb \<and>
      fmlookup (om_Labels (sb_Meta sb)) ''owner'' = Some ''alice'')"
proof -
  have "\<exists>sb. fst (Store_Get demoPublished 0 demoOverlaid ''team'' ''web'') = Inr sb \<and>
      fmlookup (om_Labels (sb_Meta sb)) ''owner'' = Some ''alice''"
    by (simp add: Store_Get_def demoPublished_def findEntry_def demo_parse demoOverlaid_def Store_Overlay_def
        forgetClaim_def forgetKey_def demoStore_def WithClaimRouting_def NewScatterGatherStore_def applyOverlay_def
        entryToSandbox_def objKey_def mergeOverlayMap_lookup demoOverlay_def Let_def)
  with watch_blind_to_overlay_and_time [OF demo_gen] show ?thesis by (simp add: demoOverlaid_def)
qed

text \<open>Two nodes, the older inventory holding the only sandbox.\<close>

definition twoNodes :: StaticInventorySource where
  "twoNodes = Put (Put NewStaticInventorySource (demoInventory\<lparr>ni_Entries := [demoEntry]\<rparr>))
     (demoInventory\<lparr>ni_ResourceVersion := ''9'', ni_Node := ''n2''\<rparr>)"

lemma twoNodes_lists:
  "Static_ListNodes twoNodes = [''n1'', ''n2'']" "Static_ListNodes (Static_Remove twoNodes ''n1'') = [''n2'']"
proof -
  have "fmdom' (si_inv twoNodes) = {''n1'', ''n2''}"
    by (auto simp: twoNodes_def Put_def NewStaticInventorySource_def demoInventory_def)
  then show "Static_ListNodes twoNodes = [''n1'', ''n2'']"
    by (simp add: Static_ListNodes_def less_list_code less_char_def)
  have "fmdom' (si_inv (Static_Remove twoNodes ''n1'')) = {''n2''}"
    by (auto simp: twoNodes_def Put_def NewStaticInventorySource_def demoInventory_def Static_Remove_def)
  then show "Static_ListNodes (Static_Remove twoNodes ''n1'') = [''n2'']"
    by (simp add: Static_ListNodes_def)
qed

text \<open>
  Losing one node's inventory object does not move the fingerprint when another node
  carries a newer resource version: the sandbox of the lost node leaves the list but a tick
  emits no \<open>Deleted\<close> event for it.
\<close>

theorem watch_blind_to_lost_inventory:
  "collectionGeneration (staticView (Static_Remove twoNodes ''n1'')) demoStore = collectionGeneration (staticView twoNodes) demoStore \<and>
   (\<exists>sb. fst (Store_Get (staticView twoNodes) 0 demoStore ''team'' ''web'') = Inr sb) \<and>
   fst (Store_Get (staticView (Static_Remove twoNodes ''n1'')) 0 demoStore ''team'' ''web'') = Inl (SandboxNotFound ''web'')"
proof (intro conjI)
  have v: "Static_NodeInventory twoNodes ''n1'' = Inr (demoInventory\<lparr>ni_Entries := [demoEntry]\<rparr>)"
    "Static_NodeInventory twoNodes ''n2'' = Inr (demoInventory\<lparr>ni_ResourceVersion := ''9'', ni_Node := ''n2''\<rparr>)"
    "Static_NodeInventory (Static_Remove twoNodes ''n1'') ''n2'' = Inr (demoInventory\<lparr>ni_ResourceVersion := ''9'', ni_Node := ''n2''\<rparr>)"
    by (simp_all add: Static_NodeInventory_def twoNodes_def Put_def Static_Remove_def NewStaticInventorySource_def demoInventory_def)
  show "collectionGeneration (staticView (Static_Remove twoNodes ''n1'')) demoStore = collectionGeneration (staticView twoNodes) demoStore"
    by (simp add: collectionGeneration_def staticView_def twoNodes_lists v ParseUint7 demoInventory_def)
  show "\<exists>sb. fst (Store_Get (staticView twoNodes) 0 demoStore ''team'' ''web'') = Inr sb"
    by (simp add: Store_Get_def staticView_def twoNodes_lists v findEntry_def demoEntry_def demo_parse_uid Let_def)
  show "fst (Store_Get (staticView (Static_Remove twoNodes ''n1'')) 0 demoStore ''team'' ''web'') = Inl (SandboxNotFound ''web'')"
    by (simp add: Store_Get_def staticView_def twoNodes_lists v findEntry_def demoInventory_def pendingFor_def
        demoStore_def WithClaimRouting_def NewScatterGatherStore_def)
qed

end
