(* ===== verification/Store_Lifecycle.thy ===== *)
theory Store_Lifecycle
  imports Store_Reads
begin

text \<open>
  The post-claim verbs of the store (\<^verbatim>\<open>pkg/scale/sandboxstore_lifecycle.go\<close>): each resolves the
  owning node's address and forwards to its sandboxd; none writes to the store.
\<close>

record Snapshot =
  sn_ID :: string
  sn_Name :: string
  sn_SandboxID :: string
  sn_Pool :: PoolKey
  sn_CreatedAt :: gotime
  sn_Node :: string

record SandboxStats =
  sx_CPUCount :: int
  sx_MemTotalBytes :: int
  sx_MemUsedBytes :: int
  sx_MemUsedMeasured :: bool
  sx_Paused :: bool
  sx_MeasuredAt :: gotime

definition nodeClient :: "InventoryView \<Rightarrow> 'w scatterGatherStore \<Rightarrow> string \<Rightarrow> string \<Rightarrow> scaleError + 'w SandboxdClient" where
  "nodeClient src s node verb =
     (case sg_sandboxdFactory s of
        None \<Rightarrow> Inl RoutingNotConfigured
      | Some fac \<Rightarrow>
          if node = [] then Inl (NoOwningNode verb)
          else case iv_NodeInventory src node of
                 Inl err \<Rightarrow> Inl (ResolveFailed node err)
               | Inr ninv \<Rightarrow>
                   if ni_Address ninv = [] then Inl (NoAddress node)
                   else Inr (fac (ni_Address ninv) (sg_sandboxdToken s)))"

definition snapshotFrom :: "Checkpoint \<Rightarrow> string \<Rightarrow> Snapshot" where
  "snapshotFrom ck node = \<lparr>sn_ID = ck_ID ck, sn_Name = ck_Name ck, sn_SandboxID = ck_SandboxID ck,
     sn_Pool = \<lparr>pk_Template = sp_Template (ck_Key ck), pk_Net = sp_Net (ck_Key ck), pk_Size = sp_Size (ck_Key ck)\<rparr>,
     sn_CreatedAt = ck_CreatedAt ck, sn_Node = node\<rparr>"

text \<open>Forward one verb to the resolved client; a node error is wrapped.\<close>

definition onNode ::
  "InventoryView \<Rightarrow> 'w scatterGatherStore \<Rightarrow> string \<Rightarrow> string \<Rightarrow> ('w SandboxdClient \<Rightarrow> 'w \<Rightarrow> (sdError + 'a) \<times> 'w)
     \<Rightarrow> ('a \<Rightarrow> 'b) \<Rightarrow> 'w \<Rightarrow> (scaleError + 'b) \<times> 'w" where
  "onNode src s node verb call conv w =
     (case nodeClient src s node verb of
        Inl err \<Rightarrow> (Inl err, w)
      | Inr cl \<Rightarrow>
          case call cl w of
            (Inl err, w') \<Rightarrow> (Inl (NodeFailed node err), w')
          | (Inr x, w') \<Rightarrow> (Inr (conv x), w'))"

definition assignmentFrom :: "string \<Rightarrow> ClaimResult \<Rightarrow> Assignment" where
  "assignmentFrom node c = \<lparr>as_SandboxName = cr_ID c, as_Node = node, as_Address = cr_OwnerAddr c, as_Token = cr_Token c\<rparr>"

definition Store_Pause :: "InventoryView \<Rightarrow> 'w scatterGatherStore \<Rightarrow> string \<Rightarrow> string \<Rightarrow> 'w \<Rightarrow> (scaleError + unit) \<times> 'w" where
  "Store_Pause src s node sid = onNode src s node ''pause'' (\<lambda>cl. sdc_Hibernate cl sid) (\<lambda>x. x)"

definition Store_Resume :: "InventoryView \<Rightarrow> 'w scatterGatherStore \<Rightarrow> string \<Rightarrow> string \<Rightarrow> 'w \<Rightarrow> (scaleError + unit) \<times> 'w" where
  "Store_Resume src s node sid = onNode src s node ''resume'' (\<lambda>cl. sdc_Wake cl sid) (\<lambda>x. x)"

definition Store_Fork ::
  "InventoryView \<Rightarrow> 'w scatterGatherStore \<Rightarrow> string \<Rightarrow> string \<Rightarrow> int \<Rightarrow> int \<Rightarrow> 'w \<Rightarrow> (scaleError + Assignment list) \<times> 'w" where
  "Store_Fork src s node sid cnt ttlSeconds w =
     (if cnt < 1 then (Inl (BadForkCount cnt), w)
      else onNode src s node ''fork''
             (\<lambda>cl. sdc_Fork cl sid \<lparr>fs_Token = [], fs_Count = cnt, fs_TTLSeconds = ttlSeconds\<rparr>)
             (map (assignmentFrom node)) w)"

definition Store_Snapshot ::
  "InventoryView \<Rightarrow> 'w scatterGatherStore \<Rightarrow> string \<Rightarrow> string \<Rightarrow> string \<Rightarrow> 'w \<Rightarrow> (scaleError + Snapshot) \<times> 'w" where
  "Store_Snapshot src s node sid name =
     onNode src s node ''snapshot'' (\<lambda>cl. sdc_Checkpoint cl sid \<lparr>ks_Token = [], ks_Name = name\<rparr>) (\<lambda>ck. snapshotFrom ck node)"

definition Store_Snapshots ::
  "InventoryView \<Rightarrow> 'w scatterGatherStore \<Rightarrow> string \<Rightarrow> 'w \<Rightarrow> (scaleError + Snapshot list) \<times> 'w" where
  "Store_Snapshots src s node =
     onNode src s node ''list snapshots'' sdc_Checkpoints (map (\<lambda>ck. snapshotFrom ck node))"

definition Store_DeleteSnapshot ::
  "InventoryView \<Rightarrow> 'w scatterGatherStore \<Rightarrow> string \<Rightarrow> string \<Rightarrow> 'w \<Rightarrow> (scaleError + unit) \<times> 'w" where
  "Store_DeleteSnapshot src s node snapshotID =
     onNode src s node ''delete snapshot'' (\<lambda>cl. sdc_DeleteCheckpoint cl snapshotID) (\<lambda>x. x)"

definition Store_ClaimSnapshot ::
  "InventoryView \<Rightarrow> 'w scatterGatherStore \<Rightarrow> string \<Rightarrow> string \<Rightarrow> int \<Rightarrow> 'w \<Rightarrow> (scaleError + Assignment) \<times> 'w" where
  "Store_ClaimSnapshot src s node snapshotID ttlSeconds =
     onNode src s node ''claim snapshot'' (\<lambda>cl. sdc_ClaimCheckpoint cl snapshotID ttlSeconds) (assignmentFrom node)"

definition Store_Promote ::
  "InventoryView \<Rightarrow> 'w scatterGatherStore \<Rightarrow> string \<Rightarrow> string \<Rightarrow> string \<Rightarrow> 'w \<Rightarrow> (scaleError + PoolKey) \<times> 'w" where
  "Store_Promote src s node sid template w =
     (if template = [] then (Inl NoTemplateName, w)
      else onNode src s node ''promote'' (\<lambda>cl. sdc_Promote cl sid \<lparr>pr_Token = [], pr_Template = template\<rparr>)
             (\<lambda>key. \<lparr>pk_Template = sp_Template key, pk_Net = sp_Net key, pk_Size = sp_Size key\<rparr>) w)"

definition Store_Stats ::
  "InventoryView \<Rightarrow> 'w scatterGatherStore \<Rightarrow> string \<Rightarrow> string \<Rightarrow> 'w \<Rightarrow> (scaleError + SandboxStats) \<times> 'w" where
  "Store_Stats src s node sid =
     onNode src s node ''stats'' (\<lambda>cl. sdc_Stats cl sid)
       (\<lambda>st. \<lparr>sx_CPUCount = ds_CPUCount st, sx_MemTotalBytes = ds_MemTotalBytes st,
              sx_MemUsedBytes = ds_MemUsedBytes st, sx_MemUsedMeasured = ds_MemUsedMeasured st,
              sx_Paused = ds_Hibernated st, sx_MeasuredAt = ds_MeasuredAt st\<rparr>)"

section \<open>Routing\<close>

lemma nodeClient_Inr:
  "nodeClient src s node verb = Inr cl \<longleftrightarrow>
     (\<exists>fac ninv. sg_sandboxdFactory s = Some fac \<and> node \<noteq> [] \<and> iv_NodeInventory src node = Inr ninv \<and>
        ni_Address ninv \<noteq> [] \<and> cl = fac (ni_Address ninv) (sg_sandboxdToken s))"
  by (auto simp: nodeClient_def split: option.splits sum.splits)

lemma onNode_unrouted: "nodeClient src s node verb = Inl err \<Longrightarrow> onNode src s node verb call conv w = (Inl err, w)"
  by (simp add: onNode_def)

text \<open>The condition under which a verb has a node to talk to.\<close>

definition routable :: "InventoryView \<Rightarrow> 'w scatterGatherStore \<Rightarrow> string \<Rightarrow> bool" where
  "routable src s node \<longleftrightarrow> sg_sandboxdFactory s \<noteq> None \<and> node \<noteq> [] \<and>
     (\<exists>ninv. iv_NodeInventory src node = Inr ninv \<and> ni_Address ninv \<noteq> [])"

lemma routable_iff: "routable src s node \<longleftrightarrow> (\<exists>cl. nodeClient src s node verb = Inr cl)"
  by (auto simp: routable_def nodeClient_Inr)

lemma onNode_dead [simp]:
  assumes "\<not> routable src s node"
  shows "snd (onNode src s node verb call conv w) = w" "\<exists>err. fst (onNode src s node verb call conv w) = Inl err"
  using assms routable_iff [of src s node verb] by (cases "nodeClient src s node verb"; auto simp: onNode_def)+

text \<open>
  The lifecycle verbs fail closed: when routing is not configured, the node is empty or
  unreadable, or it advertises no address, every verb reports an error and no node is
  contacted; a fork of fewer than one child and a promotion without a template name are
  refused the same way, whatever the routing.
\<close>

theorem lifecycle_fails_closed:
  assumes "\<not> routable src s node \<or> cnt < 1 \<and> template = []"
  shows "(\<not> routable src s node \<longrightarrow>
       snd (Store_Pause src s node sid w) = w \<and> snd (Store_Resume src s node sid w) = w \<and>
       snd (Store_Snapshot src s node sid nm w) = w \<and> snd (Store_Snapshots src s node w) = w \<and>
       snd (Store_DeleteSnapshot src s node sid w) = w \<and> snd (Store_ClaimSnapshot src s node sid ttl w) = w \<and>
       snd (Store_Stats src s node sid w) = w \<and> (\<exists>err. fst (Store_Pause src s node sid w) = Inl err)) \<and>
    snd (Store_Fork src s node sid cnt ttl w) = w \<and> snd (Store_Promote src s node sid template w) = w \<and>
    (\<exists>err. fst (Store_Fork src s node sid cnt ttl w) = Inl err) \<and>
    (\<exists>err. fst (Store_Promote src s node sid template w) = Inl err)"
  using assms
  by (auto simp: Store_Pause_def Store_Resume_def Store_Fork_def Store_Snapshot_def Store_Snapshots_def
      Store_DeleteSnapshot_def Store_ClaimSnapshot_def Store_Promote_def Store_Stats_def)

theorem lifecycle_fails_closed_witness:
  "\<not> routable demoView demoStore ''n9'' \<and> snd (Store_Pause demoView demoStore ''n9'' ''sb_1'' 5) = 5 \<and>
   (\<exists>err. fst (Store_Fork demoView demoStore ''n9'' ''sb_1'' 2 0 5) = Inl err)"
proof -
  have "\<not> routable demoView demoStore ''n9''" by (simp add: routable_def demoView_def)
  with lifecycle_fails_closed [of demoView demoStore "''n9''" 2 "''t''" "''sb_1''" 5 "[]" 0] show ?thesis by simp
qed

text \<open>
  A routed verb reaches exactly the owning node: it is run on the client of that node's
  advertised address with the fleet token, and a fork reports one assignment per child the
  node returned, all on that node.
\<close>

theorem fork_children_on_owner:
  assumes "Store_Fork src s node sid cnt ttl w = (Inr children, w')"
  shows "\<exists>fac ninv res. sg_sandboxdFactory s = Some fac \<and> iv_NodeInventory src node = Inr ninv \<and> cnt \<ge> 1 \<and>
    sdc_Fork (fac (ni_Address ninv) (sg_sandboxdToken s)) sid \<lparr>fs_Token = [], fs_Count = cnt, fs_TTLSeconds = ttl\<rparr> w
      = (Inr res, w') \<and>
    map as_SandboxName children = map cr_ID res \<and> (\<forall>c\<in>set children. as_Node c = node)"
proof -
  have "cnt \<ge> 1" using assms by (auto simp: Store_Fork_def split: if_splits)
  then obtain cl where cl: "nodeClient src s node ''fork'' = Inr cl"
    using assms by (cases "nodeClient src s node ''fork''") (auto simp: Store_Fork_def onNode_def)
  with assms \<open>cnt \<ge> 1\<close> obtain res where
    "sdc_Fork cl sid \<lparr>fs_Token = [], fs_Count = cnt, fs_TTLSeconds = ttl\<rparr> w = (Inr res, w')"
    "children = map (assignmentFrom node) res"
    by (auto simp: Store_Fork_def onNode_def split: prod.splits sum.splits)
  with cl \<open>cnt \<ge> 1\<close> show ?thesis by (auto simp: nodeClient_Inr assignmentFrom_def comp_def)
qed

definition demoForkSd :: "nat SandboxdClient" where
  "demoForkSd = demoSd\<lparr>sdc_Fork := (\<lambda>_ spec n. (Inr [\<lparr>cr_ID = ''sb_a'', cr_Token = [], cr_Deadline = [],
     cr_OwnerAddr = [], cr_FromCheckpoint = [], cr_Redirect = []\<rparr>], Suc n))\<rparr>"

definition demoForkStore :: "nat scatterGatherStore" where
  "demoForkStore = WithClaimRouting ''tok'' (\<lambda>_ _. demoForkSd) NewScatterGatherStore"

lemma demo_fork: "Store_Fork demoView demoForkStore ''n1'' ''sb_1'' 1 0 5 =
  (Inr [\<lparr>as_SandboxName = ''sb_a'', as_Node = ''n1'', as_Address = [], as_Token = []\<rparr>], 6)"
  by (simp add: Store_Fork_def onNode_def nodeClient_def demoForkStore_def WithClaimRouting_def demoView_def
      demoInventory_def demoForkSd_def assignmentFrom_def)

theorem fork_children_on_owner_witness:
  "\<exists>fac ninv. sg_sandboxdFactory demoForkStore = Some fac \<and> iv_NodeInventory demoView ''n1'' = Inr ninv \<and>
     fst (sdc_Fork (fac (ni_Address ninv) (sg_sandboxdToken demoForkStore)) ''sb_1''
       \<lparr>fs_Token = [], fs_Count = 1, fs_TTLSeconds = 0\<rparr> 5) \<noteq> Inl NodeAtCapacity"
  using fork_children_on_owner [OF demo_fork] by force

end
