(* ===== verification/Rest_Storage.thy ===== *)
theory Rest_Storage
  imports Store_Lifecycle
begin

text \<open>
  The REST storage of the aggregated API server (\<^verbatim>\<open>pkg/scale/apiserver/storage.go\<close>,
  \<^verbatim>\<open>pkg/scale/apiserver/lifecycle_storage.go\<close>): Create claims a warm sandbox, Update records the
  client's difference as an overlay, Delete and the lifecycle subresources act on the node
  and claim id the synthesized Sandbox carries.

  The request namespace, the admission callbacks, the name generator, the fresh UID and the
  clock are arguments, as is apimachinery's semantic equality.
\<close>

abbreviation "AddressAnnotation \<equiv> ''sandbox.cocoonstack.io/address''"
abbreviation "TokenAnnotation \<equiv> ''sandbox.cocoonstack.io/token''"
abbreviation "NetAnnotation \<equiv> ''sandbox.cocoonstack.io/net''"

datatype restError =
    BadRequest string
  | Rejected string
  | AlreadyExists string
  | ServiceUnavailable PoolKey
  | InternalError scaleError
  | NoOwner string string
  | NoClaimIDPublished string string
  | StoreError scaleError

type_synonym validation = "Sandbox \<Rightarrow> string option"

section \<open>Create\<close>

definition addressHosts :: "string \<Rightarrow> string list" where
  "addressHosts addr =
     (if addr = [] then []
      else case SplitHostPort addr of
             Some (host, _) \<Rightarrow> if host \<noteq> [] then [host] else [addr]
           | None \<Rightarrow> [addr])"

definition poolKeyForSandbox :: "quantityOps \<Rightarrow> Sandbox \<Rightarrow> PoolKey" where
  "poolKeyForSandbox ops sb =
     PoolKeyFor ops (ps_Containers (pt_Spec (bp_PodTemplate (ss_Blueprint (sb_Spec sb)))))
       (mget (om_Annotations (sb_Meta sb)) NetAnnotation)"

definition synthesizeClaimedSandbox ::
  "apimachinery \<Rightarrow> gotime \<Rightarrow> string \<Rightarrow> string \<Rightarrow> string \<Rightarrow> Sandbox \<Rightarrow> Assignment \<Rightarrow> Sandbox" where
  "synthesizeClaimedSandbox api now uid namespace name sb a =
     (let a0 = om_Annotations (sb_Meta sb);
          a1 = fmupd ClaimIDAnnotation (as_SandboxName a) a0;
          a2 = (if as_Address a \<noteq> [] then fmupd AddressAnnotation (as_Address a) a1 else a1);
          a3 = (if as_Token a \<noteq> [] then fmupd TokenAnnotation (as_Token a) a2 else a2);
          m = (sb_Meta sb)\<lparr>om_Namespace := namespace, om_Name := name, om_GenerateName := [], om_UID := uid,
                om_CreationTimestamp := now, om_ResourceVersion := [], om_Annotations := a3\<rparr>;
          conds = SetStatusCondition api now []
            \<lparr>c_Type = ''Ready'', c_Status = ''True'', c_ObservedGeneration = 0, c_LastTransitionTime = zeroTime,
             c_Reason = ''DependenciesReady'',
             c_Message = ''warm sandbox '' @ Quote (as_SandboxName a) @ '' delivered by node '' @ Quote (as_Node a)\<rparr>
      in \<lparr>sb_Meta = m, sb_Spec = sb_Spec sb,
          sb_Status = emptySandboxStatus\<lparr>st_NodeName := as_Node a, st_PodIPs := addressHosts (as_Address a),
            st_Conditions := conds\<rparr>\<rparr>)"

text \<open>The UID of the controlling claim, carried through to the node.\<close>

definition creatingClaim :: "apimachinery \<Rightarrow> Sandbox \<Rightarrow> string" where
  "creatingClaim api sb =
     (case GetControllerOf api (sb_Meta sb) of
        Some owner \<Rightarrow> if or_Kind owner = ''SandboxClaim'' then or_UID owner else []
      | None \<Rightarrow> [])"

record createEnv =
  ce_api :: apimachinery
  ce_ops :: quantityOps
  ce_src :: InventoryView
  ce_rnd :: "int \<Rightarrow> int"
  ce_now :: gotime
  ce_uid :: string
  ce_genName :: "string \<Rightarrow> string"

definition Rest_Create ::
  "createEnv \<Rightarrow> string \<Rightarrow> validation option \<Rightarrow> Sandbox option \<Rightarrow> 'w scatterGatherStore \<Rightarrow> 'w
     \<Rightarrow> (restError + Sandbox) \<times> 'w scatterGatherStore \<times> 'w" where
  "Rest_Create env reqNS validate obj s w =
     (case obj of
        None \<Rightarrow> (Inl (BadRequest ''expected a Sandbox object''), s, w)
      | Some sb \<Rightarrow>
          case (case validate of None \<Rightarrow> None | Some v \<Rightarrow> v sb) of
            Some err \<Rightarrow> (Inl (Rejected err), s, w)
          | None \<Rightarrow>
              let namespace = (if reqNS = [] then om_Namespace (sb_Meta sb) else reqNS);
                  name = (if om_Name (sb_Meta sb) = [] \<and> om_GenerateName (sb_Meta sb) \<noteq> []
                          then ce_genName env (om_GenerateName (sb_Meta sb)) else om_Name (sb_Meta sb))
              in if name = [] then (Inl (BadRequest ''Sandbox has neither metadata.name nor metadata.generateName''), s, w)
                 else
                   let pool = poolKeyForSandbox (ce_ops env) sb
                   in case Store_Claim (ce_src env) (ce_rnd env) (ce_now env) s namespace name pool
                             (creatingClaim (ce_api env) sb) w of
                        (Inl err, s', w') \<Rightarrow>
                          (Inl (if IsClaimExists err then AlreadyExists name
                                else if IsNoWarmCapacity err then ServiceUnavailable pool
                                else InternalError err), s', w')
                      | (Inr a, s', w') \<Rightarrow>
                          (Inr (synthesizeClaimedSandbox (ce_api env) (ce_now env) (ce_uid env) namespace name sb a), s', w'))"

section \<open>Update\<close>

definition diffMap :: "strmap \<Rightarrow> strmap \<Rightarrow> strmap" where
  "diffMap current updated =
     fmfilter (\<lambda>k. fmlookup current k \<noteq> fmlookup updated k) updated ++\<^sub>f
     fmmap (\<lambda>_. []) (fmfilter (\<lambda>k. fmlookup updated k = None) current)"

definition changedSpec :: "(SandboxSpec \<Rightarrow> SandboxSpec \<Rightarrow> bool) \<Rightarrow> Sandbox \<Rightarrow> Sandbox \<Rightarrow> SandboxSpec option" where
  "changedSpec semEq current updated = (if semEq (sb_Spec current) (sb_Spec updated) then None else Some (sb_Spec updated))"

definition Rest_Update ::
  "(SandboxSpec \<Rightarrow> SandboxSpec \<Rightarrow> bool) \<Rightarrow> InventoryView \<Rightarrow> gotime \<Rightarrow> string \<Rightarrow> string
     \<Rightarrow> (Sandbox \<Rightarrow> string + Sandbox) \<Rightarrow> (Sandbox \<Rightarrow> Sandbox \<Rightarrow> string option) option \<Rightarrow> 'w scatterGatherStore
     \<Rightarrow> (restError + Sandbox) \<times> 'w scatterGatherStore" where
  "Rest_Update semEq src now namespace name updatedObject validate s =
     (case Store_Get src now s namespace name of
        (Inl err, s1) \<Rightarrow> (Inl (StoreError err), s1)
      | (Inr current, s1) \<Rightarrow>
          case updatedObject current of
            Inl err \<Rightarrow> (Inl (BadRequest err), s1)
          | Inr sb \<Rightarrow>
              case (case validate of None \<Rightarrow> None | Some v \<Rightarrow> v sb current) of
                Some err \<Rightarrow> (Inl (Rejected err), s1)
              | None \<Rightarrow>
                  let ov = \<lparr>ov_Labels = diffMap (om_Labels (sb_Meta current)) (om_Labels (sb_Meta sb)),
                            ov_Annotations = diffMap (om_Annotations (sb_Meta current)) (om_Annotations (sb_Meta sb)),
                            ov_Spec = changedSpec semEq current sb\<rparr>
                  in (Inr (sb\<lparr>sb_Status := sb_Status current,
                             sb_Meta := (sb_Meta sb)\<lparr>om_ResourceVersion := om_ResourceVersion (sb_Meta current)\<rparr>\<rparr>),
                      Store_Overlay s1 namespace name ov))"

section \<open>Delete\<close>

definition Rest_Delete ::
  "InventoryView \<Rightarrow> gotime \<Rightarrow> string \<Rightarrow> string \<Rightarrow> validation option \<Rightarrow> 'w scatterGatherStore \<Rightarrow> 'w
     \<Rightarrow> (restError + Sandbox) \<times> 'w scatterGatherStore \<times> 'w" where
  "Rest_Delete src now namespace name validate s w =
     (case Store_Get src now s namespace name of
        (Inl err, s1) \<Rightarrow> (Inl (StoreError err), s1, w)
      | (Inr sb, s1) \<Rightarrow>
          case (case validate of None \<Rightarrow> None | Some v \<Rightarrow> v sb) of
            Some err \<Rightarrow> (Inl (Rejected err), s1, w)
          | None \<Rightarrow>
              let node = st_NodeName (sb_Status sb); claimID = mget (om_Annotations (sb_Meta sb)) ClaimIDAnnotation
              in if node = [] then (Inr sb, s1, w)
                 else if claimID = [] then (Inl (NoClaimIDPublished namespace name), s1, w)
                 else case Store_Release src s1 node claimID w of
                        (Inl err, s2, w') \<Rightarrow> (Inl (InternalError err), s2, w')
                      | (Inr _, s2, w') \<Rightarrow> (Inr sb, s2, w'))"

text \<open>\<open>toScaleListOptions\<close>: the selectors arrive rendered as text.\<close>

record restListOptions =
  rl_LabelSelector :: "string option"
  rl_FieldSelector :: "string option"
  rl_AllowWatchBookmarks :: bool
  rl_SendInitialEvents :: "bool option"

definition toScaleListOptions :: "string \<Rightarrow> restListOptions option \<Rightarrow> ListOptions" where
  "toScaleListOptions namespace options =
     (case options of
        None \<Rightarrow> \<lparr>lo_Namespace = namespace, lo_LabelSelector = [], lo_FieldSelector = [],
                lo_AllowWatchBookmarks = False, lo_SendInitialEvents = False\<rparr>
      | Some opt \<Rightarrow>
          \<lparr>lo_Namespace = namespace,
           lo_LabelSelector = (case rl_LabelSelector opt of None \<Rightarrow> [] | Some l \<Rightarrow> l),
           lo_FieldSelector = (case rl_FieldSelector opt of None \<Rightarrow> [] | Some f \<Rightarrow> f),
           lo_AllowWatchBookmarks = rl_AllowWatchBookmarks opt,
           lo_SendInitialEvents = (rl_SendInitialEvents opt = Some True)\<rparr>)"

section \<open>Lifecycle subresources\<close>

datatype lifecycleOptions = PauseOptions | ResumeOptions | ForkOptions "32 word" "32 word" | SnapshotOptions string

record ForkedSandbox =
  fk_SandboxID :: string
  fk_NodeName :: string
  fk_Address :: string

datatype lifecycleResult =
    PauseDone
  | ResumeDone
  | ForkResult "ForkedSandbox list"
  | SnapshotResult string string string gotime

type_synonym 'w verb =
  "InventoryView \<Rightarrow> 'w scatterGatherStore \<Rightarrow> Sandbox \<Rightarrow> lifecycleOptions \<Rightarrow> 'w \<Rightarrow> (restError + lifecycleResult) \<times> 'w"

definition claimID :: "Sandbox \<Rightarrow> string" where
  "claimID sb = mget (om_Annotations (sb_Meta sb)) ClaimIDAnnotation"

text \<open>\<open>lifecycleREST.Create\<close>, shared by the subresources.\<close>

definition Lifecycle_Create ::
  "'w verb \<Rightarrow> InventoryView \<Rightarrow> gotime \<Rightarrow> string \<Rightarrow> string \<Rightarrow> lifecycleOptions \<Rightarrow> (lifecycleOptions \<Rightarrow> string option) option
     \<Rightarrow> 'w scatterGatherStore \<Rightarrow> 'w \<Rightarrow> (restError + lifecycleResult) \<times> 'w scatterGatherStore \<times> 'w" where
  "Lifecycle_Create verb src now namespace name opts validate s w =
     (case (case validate of None \<Rightarrow> None | Some v \<Rightarrow> v opts) of
        Some err \<Rightarrow> (Inl (Rejected err), s, w)
      | None \<Rightarrow>
          case Store_Get src now s namespace name of
            (Inl err, s1) \<Rightarrow> (Inl (StoreError err), s1, w)
          | (Inr sb, s1) \<Rightarrow>
              if st_NodeName (sb_Status sb) = [] then (Inl (NoOwner namespace name), s1, w)
              else if claimID sb = [] then (Inl (NoClaimIDPublished namespace name), s1, w)
              else let (r, w') = verb src s1 sb opts w in (r, s1, w'))"

definition wrapVerb :: "('a \<Rightarrow> lifecycleResult) \<Rightarrow> (scaleError + 'a) \<times> 'w \<Rightarrow> (restError + lifecycleResult) \<times> 'w" where
  "wrapVerb f r = (case r of (Inl err, w) \<Rightarrow> (Inl (InternalError err), w) | (Inr x, w) \<Rightarrow> (Inr (f x), w))"

definition pauseVerb :: "'w verb" where
  "pauseVerb src s sb _ w =
     wrapVerb (\<lambda>_. PauseDone) (Store_Pause src s (st_NodeName (sb_Status sb)) (claimID sb) w)"

definition resumeVerb :: "'w verb" where
  "resumeVerb src s sb _ w =
     wrapVerb (\<lambda>_. ResumeDone) (Store_Resume src s (st_NodeName (sb_Status sb)) (claimID sb) w)"

definition forkVerb :: "'w verb" where
  "forkVerb src s sb obj w =
     (case obj of
        ForkOptions cnt ttl \<Rightarrow>
          let n = (if sint cnt = 0 then 1 else sint cnt)
          in if n < 0 then (Inl (BadRequest (''count must be >= 1, got '' @ FormatInt n)), w)
             else wrapVerb (\<lambda>children. ForkResult (map (\<lambda>c. \<lparr>fk_SandboxID = as_SandboxName c, fk_NodeName = as_Node c,
                      fk_Address = as_Address c\<rparr>) children))
                    (Store_Fork src s (st_NodeName (sb_Status sb)) (claimID sb) n (sint ttl) w)
      | _ \<Rightarrow> (Inl (BadRequest ''expected SandboxForkOptions''), w))"

definition snapshotVerb :: "'w verb" where
  "snapshotVerb src s sb obj w =
     (case obj of
        SnapshotOptions nm \<Rightarrow>
          wrapVerb (\<lambda>snap. SnapshotResult (sn_ID snap) (sn_Name snap) (sn_Node snap) (sn_CreatedAt snap))
            (Store_Snapshot src s (st_NodeName (sb_Status sb)) (claimID sb) nm w)
      | _ \<Rightarrow> (Inl (BadRequest ''expected SandboxSnapshotOptions''), w))"

section \<open>What Update records\<close>

lemma diffMap_lookup:
  "fmlookup (diffMap current updated) k =
     (if fmlookup updated k = fmlookup current k then None
      else case fmlookup updated k of None \<Rightarrow> Some [] | Some v \<Rightarrow> Some v)"
  by (auto simp: diffMap_def fmlookup_dom_iff split: option.splits)

lemma merge_diff_lookup:
  "fmlookup (mergeOverlayMap base (diffMap current updated)) k =
     (if fmlookup updated k = fmlookup current k then fmlookup base k
      else case fmlookup updated k of None \<Rightarrow> None | Some v \<Rightarrow> if v = [] then None else Some v)"
  by (auto simp: mergeOverlayMap_lookup diffMap_lookup split: option.splits)

text \<open>\<open>Get\<close> of a name an inventory holds.\<close>

lemma Get_owner:
  assumes "iv_ListNodes src = Inr nodes" "findOwner src ns name nodes = Some (node, e)"
  shows "Store_Get src now s ns name = (Inr (applyOverlay s (entryToSandbox node e)), forgetClaim s ns name)"
proof -
  have "applyOverlay (forgetClaim s ns name) (entryToSandbox node e) = applyOverlay s (entryToSandbox node e)"
    by (rule applyOverlay_cong) simp
  with assms show ?thesis by (simp add: Store_Get_def Let_def)
qed

lemma findOwner_parse:
  "findOwner src ns name nodes = Some (node, e) \<Longrightarrow> \<exists>u. parseClaimRef (ie_Name e) = (ns, name, u)"
proof (induction nodes)
  case (Cons n nodes)
  show ?case
  proof (cases "\<exists>ninv e'. iv_NodeInventory src n = Inr ninv \<and> findEntry ns name ninv = Some e'")
    case True
    then obtain ninv e' where n: "iv_NodeInventory src n = Inr ninv" "findEntry ns name ninv = Some e'" by blast
    then have "(let (ens, ename, _) = parseClaimRef (ie_Name e') in ens = ns \<and> ename = name)"
      unfolding findEntry_def by (metis (mono_tags) find_Some_iff)
    with Cons n show ?thesis by (cases "parseClaimRef (ie_Name e')") auto
  next
    case False
    with Cons show ?thesis by (auto split: sum.splits option.splits)
  qed
qed simp

lemma owner_key:
  assumes "findOwner src ns name nodes = Some (node, e)"
  shows "objKey (entryToSandbox node e) = nsname ns name"
  using findOwner_parse [OF assms] by (auto simp: objKey_def entryToSandbox_names)

text \<open>The Sandbox the store serves when an overlay is recorded for it.\<close>

definition overlaid :: "SandboxOverlay \<Rightarrow> Sandbox \<Rightarrow> Sandbox" where
  "overlaid ov sb =
     sb\<lparr>sb_Meta := (sb_Meta sb)\<lparr>om_Labels := mergeOverlayMap (om_Labels (sb_Meta sb)) (ov_Labels ov),
          om_Annotations := mergeOverlayMap (om_Annotations (sb_Meta sb)) (ov_Annotations ov)\<rparr>,
        sb_Spec := (case ov_Spec ov of None \<Rightarrow> sb_Spec sb | Some spec \<Rightarrow> spec)\<rparr>"

lemma applyOverlay_Some: "sg_overlays s (objKey sb) = Some ov \<Longrightarrow> applyOverlay s sb = overlaid ov sb"
  by (simp add: applyOverlay_def overlaid_def)

lemma Update_ok:
  assumes "iv_ListNodes src = Inr nodes" "findOwner src ns name nodes = Some (node, e)"
    and "upd (applyOverlay s (entryToSandbox node e)) = Inr sb"
  shows "snd (Rest_Update semEq src now ns name upd None s) =
    Store_Overlay (forgetClaim s ns name) ns name
      \<lparr>ov_Labels = diffMap (om_Labels (sb_Meta (applyOverlay s (entryToSandbox node e)))) (om_Labels (sb_Meta sb)),
       ov_Annotations = diffMap (om_Annotations (sb_Meta (applyOverlay s (entryToSandbox node e)))) (om_Annotations (sb_Meta sb)),
       ov_Spec = changedSpec semEq (applyOverlay s (entryToSandbox node e)) sb\<rparr>"
  using assms by (simp add: Rest_Update_def Get_owner Let_def)

lemma applyOverlay_Overlay:
  assumes "findOwner src ns name nodes = Some (node, e)"
  shows "applyOverlay (Store_Overlay s ns name ov) (entryToSandbox node e) = overlaid ov (entryToSandbox node e)"
  using owner_key [OF assms] by (simp add: applyOverlay_Some Store_Overlay_def)

lemma Overlay_get:
  assumes "iv_ListNodes src = Inr nodes" "findOwner src ns name nodes = Some (node, e)"
  shows "fst (Store_Get src now (Store_Overlay s ns name ov) ns name) = Inr (overlaid ov (entryToSandbox node e))"
  using assms owner_key [OF assms(2)]
  by (simp add: Get_owner applyOverlay_Some Store_Overlay_def)

text \<open>
  The first write to a sandbox is served back and does not freeze what the client merely
  echoed: after an update, a read of the (possibly changed) node state shows, for every
  label, the client's value where it changed the label, nothing where it removed it, and the
  live node value where it left it as it was.
\<close>

theorem update_read_back:
  assumes "iv_ListNodes src = Inr nodes" "findOwner src ns name nodes = Some (node, e)"
    and "sg_overlays s (nsname ns name) = None" "upd (entryToSandbox node e) = Inr sb"
    and "iv_ListNodes src' = Inr nodes'" "findOwner src' ns name nodes' = Some (node', e')"
  shows "\<exists>sb'. fst (Store_Get src' now' (snd (Rest_Update semEq src now ns name upd None s)) ns name) = Inr sb' \<and>
    (\<forall>k. fmlookup (om_Labels (sb_Meta sb')) k =
       (if fmlookup (om_Labels (sb_Meta sb)) k = fmlookup (om_Labels (sb_Meta (entryToSandbox node e))) k
        then fmlookup (om_Labels (sb_Meta (entryToSandbox node' e'))) k
        else case fmlookup (om_Labels (sb_Meta sb)) k of
               None \<Rightarrow> None | Some v \<Rightarrow> if v = [] then None else Some v)) \<and>
    sb_Status sb' = sb_Status (entryToSandbox node' e')"
proof -
  have a: "applyOverlay s (entryToSandbox node e) = entryToSandbox node e"
    using assms(3) owner_key [OF assms(2)] by (simp add: applyOverlay_none)
  note u = Update_ok [OF assms(1,2), of upd s sb semEq now, unfolded a, OF assms(4)]
  show ?thesis
    unfolding u Overlay_get [OF assms(5,6)] by (simp add: overlaid_def merge_diff_lookup)
qed

definition setLabel :: "string \<Rightarrow> string \<Rightarrow> Sandbox \<Rightarrow> string + Sandbox" where
  "setLabel k v sb = Inr (sb\<lparr>sb_Meta := (sb_Meta sb)\<lparr>om_Labels := fmupd k v (om_Labels (sb_Meta sb))\<rparr>\<rparr>)"

lemma demo_owner:
  "iv_ListNodes demoPublished = Inr [''n1'']"
  "findOwner demoPublished ''team'' ''web'' [''n1''] = Some (''n1'',
     \<lparr>ie_Name = ''team/web'', ie_ID = ''sb_1'', ie_Phase = ''Running'', ie_ClaimRef = ''team/web'', ie_Address = ''10.0.0.1:9000''\<rparr>)"
  by (simp_all add: demoPublished_def findEntry_def demo_parse demoInventory_def)

theorem update_read_back_witness:
  "\<exists>sb. fst (Store_Get demoPublished 0
       (snd (Rest_Update (=) demoPublished 0 ''team'' ''web'' (setLabel ''tier'' ''gold'') None demoStore)) ''team'' ''web'') = Inr sb \<and>
     fmlookup (om_Labels (sb_Meta sb)) ''tier'' = Some ''gold'' \<and> fmlookup (om_Labels (sb_Meta sb)) NodeLabel = Some ''n1''"
proof -
  have ov: "sg_overlays demoStore (nsname ''team'' ''web'') = None"
    by (simp add: demoStore_def WithClaimRouting_def NewScatterGatherStore_def)
  show ?thesis
    using update_read_back [where upd = "setLabel ''tier'' ''gold''" and semEq = "(=)" and now = 0 and now' = 0,
        OF demo_owner ov setLabel_def demo_owner]
    by (auto simp: entryToSandbox_def demo_parse synthLabels_def)
qed

section \<open>A second write loses the first\<close>

text \<open>
  The overlay of an update replaces the one before, and the difference is taken against
  the object with that earlier overlay applied.  So a label written by one update and
  submitted again, unchanged, by the next is no difference and is lost: the second update
  removes it although both clients asked for it.
\<close>

theorem second_update_loses_first:
  assumes "iv_ListNodes src = Inr nodes" "findOwner src ns name nodes = Some (node, e)"
    and "sg_overlays s (nsname ns name) = None"
    and "upd1 (entryToSandbox node e) = Inr sb1"
    and "s1 = snd (Rest_Update semEq src now ns name upd1 None s)"
    and "upd2 (applyOverlay s1 (entryToSandbox node e)) = Inr sb2"
    and "fmlookup (om_Labels (sb_Meta (entryToSandbox node e))) k = None"
    and "fmlookup (om_Labels (sb_Meta sb1)) k = Some v" "v \<noteq> []" "fmlookup (om_Labels (sb_Meta sb2)) k = Some v"
  shows "(\<exists>r. fst (Store_Get src now s1 ns name) = Inr r \<and> fmlookup (om_Labels (sb_Meta r)) k = Some v) \<and>
    (\<exists>r. fst (Store_Get src now (snd (Rest_Update semEq src now ns name upd2 None s1)) ns name) = Inr r \<and>
       fmlookup (om_Labels (sb_Meta r)) k = None)"
proof -
  have a: "applyOverlay s (entryToSandbox node e) = entryToSandbox node e"
    using assms(3) owner_key [OF assms(2)] by (simp add: applyOverlay_none)
  note s1 = Update_ok [OF assms(1,2), of upd1 s sb1 semEq now, unfolded a, OF assms(4)]
  have g: "fst (Store_Get src now s1 ns name) = Inr (applyOverlay s1 (entryToSandbox node e))"
    by (simp add: Get_owner [OF assms(1,2)])
  have l: "fmlookup (om_Labels (sb_Meta (applyOverlay s1 (entryToSandbox node e)))) k = Some v"
    using assms(7-9) unfolding assms(5) s1 applyOverlay_Overlay [OF assms(2)]
    by (simp add: overlaid_def merge_diff_lookup)
  note s2 = Update_ok [OF assms(1,2), of upd2 s1 sb2 semEq now, OF assms(6)]
  have "fst (Store_Get src now (snd (Rest_Update semEq src now ns name upd2 None s1)) ns name) = Inr r \<Longrightarrow>
      fmlookup (om_Labels (sb_Meta r)) k = None" for r
    unfolding s2 Overlay_get [OF assms(1,2)] using l assms(7,10) by (auto simp: overlaid_def merge_diff_lookup)
  moreover have "\<exists>r. fst (Store_Get src now (snd (Rest_Update semEq src now ns name upd2 None s1)) ns name) = Inr r"
    unfolding s2 Overlay_get [OF assms(1,2)] by simp
  ultimately show ?thesis using g l by auto
qed

theorem second_update_loses_first_witness:
  "let s1 = snd (Rest_Update (=) demoPublished 0 ''team'' ''web'' (setLabel ''tier'' ''gold'') None demoStore)
   in (\<exists>r. fst (Store_Get demoPublished 0 s1 ''team'' ''web'') = Inr r \<and> fmlookup (om_Labels (sb_Meta r)) ''tier'' = Some ''gold'') \<and>
      (\<exists>r. fst (Store_Get demoPublished 0 (snd (Rest_Update (=) demoPublished 0 ''team'' ''web'' (setLabel ''zone'' ''b'') None s1))
              ''team'' ''web'') = Inr r \<and> fmlookup (om_Labels (sb_Meta r)) ''tier'' = None)"
proof -
  let ?e = "\<lparr>ie_Name = ''team/web'', ie_ID = ''sb_1'', ie_Phase = ''Running'', ie_ClaimRef = ''team/web'', ie_Address = ''10.0.0.1:9000''\<rparr>"
  let ?s1 = "snd (Rest_Update (=) demoPublished 0 ''team'' ''web'' (setLabel ''tier'' ''gold'') None demoStore)"
  have ov: "sg_overlays demoStore (nsname ''team'' ''web'') = None"
    by (simp add: demoStore_def WithClaimRouting_def NewScatterGatherStore_def)
  then have a: "applyOverlay demoStore (entryToSandbox ''n1'' ?e) = entryToSandbox ''n1'' ?e"
    using owner_key [OF demo_owner(2)] by (simp add: applyOverlay_none)
  have n: "fmlookup (om_Labels (sb_Meta (entryToSandbox ''n1'' ?e))) ''tier'' = None"
    by (simp add: entryToSandbox_def demo_parse synthLabels_def)
  have l: "fmlookup (om_Labels (sb_Meta (applyOverlay ?s1 (entryToSandbox ''n1'' ?e)))) ''tier'' = Some ''gold''"
    unfolding Update_ok [OF demo_owner, of "setLabel ''tier'' ''gold''" demoStore, unfolded a, OF setLabel_def]
    using owner_key [OF demo_owner(2)] n
    by (simp add: Store_Overlay_def applyOverlay_Some overlaid_def merge_diff_lookup)
  from second_update_loses_first [where semEq = "(=)" and now = 0 and v = "''gold''",
      OF demo_owner ov setLabel_def [of "''tier''" "''gold''"] refl setLabel_def [of "''zone''" "''b''"] n] l
  show ?thesis by (simp add: Let_def)
qed

section \<open>Delete\<close>

lemma Delete_calls:
  assumes "iv_ListNodes src = Inr nodes" "findOwner src ns name nodes = Some (node, e)" "node \<noteq> []"
    and "sb = applyOverlay s (entryToSandbox node e)" "claimID sb \<noteq> []"
  shows "Rest_Delete src now ns name None s w =
    (case Store_Release src (forgetClaim s ns name) node (claimID sb) w of
       (Inl err, s2, w') \<Rightarrow> (Inl (InternalError err), s2, w')
     | (Inr _, s2, w') \<Rightarrow> (Inr sb, s2, w'))"
  using assms findOwner_parse [OF assms(2)]
  by (auto simp: Rest_Delete_def Get_owner claimID_def Let_def entryToSandbox_names split: prod.splits sum.splits)

text \<open>
  C18: deleting a sandbox no client has written to releases exactly the microVM its inventory
  entry names, on the node that published it; while the node has not published the id,
  deletion is refused and no node is contacted.
\<close>

theorem delete_releases_entry:
  assumes "iv_ListNodes src = Inr nodes" "findOwner src ns name nodes = Some (node, e)" "node \<noteq> []"
    and "sg_overlays s (nsname ns name) = None"
  shows "if ie_ID e = [] then Rest_Delete src now ns name None s w = (Inl (NoClaimIDPublished ns name), forgetClaim s ns name, w)
    else snd (snd (Rest_Delete src now ns name None s w)) = snd (snd (Store_Release src (forgetClaim s ns name) node (ie_ID e) w))"
proof -
  obtain u where p: "parseClaimRef (ie_Name e) = (ns, name, u)" using findOwner_parse [OF assms(2)] by blast
  have a: "applyOverlay s (entryToSandbox node e) = entryToSandbox node e"
    using assms(4) owner_key [OF assms(2)] by (simp add: applyOverlay_none)
  have c: "claimID (entryToSandbox node e) = ie_ID e"
    using entryToSandbox_names(4) [OF p] by (simp add: claimID_def synthAnnotations_def)
  show ?thesis
  proof (cases "ie_ID e = []")
    case True
    with assms c show ?thesis
      by (simp add: Rest_Delete_def Get_owner a entryToSandbox_names(3) [OF p] flip: claimID_def)
  next
    case False
    with Delete_calls [OF assms(1-3) a [symmetric], of now w] c show ?thesis
      by (simp split: prod.split sum.split)
  qed
qed

theorem delete_releases_entry_witness:
  "snd (snd (Rest_Delete demoPublished 0 ''team'' ''web'' None demoStore 4)) =
   snd (snd (Store_Release demoPublished (forgetClaim demoStore ''team'' ''web'') ''n1'' ''sb_1'' 4))"
  using delete_releases_entry [OF demo_owner, of demoStore 0 4]
  by (simp add: demoStore_def WithClaimRouting_def NewScatterGatherStore_def)

text \<open>
  C39: the claim id Delete releases is read from an annotation that clients can write.  After
  an update that sets the claim-id annotation to another sandbox's id, deleting this
  sandbox releases that other id: the node is asked to destroy a microVM the deleted object
  never stood for.
\<close>

theorem delete_releases_written_id:
  assumes "iv_ListNodes src = Inr nodes" "findOwner src ns name nodes = Some (node, e)" "node \<noteq> []"
    and "sg_overlays s (nsname ns name) = None" "upd (entryToSandbox node e) = Inr sb"
    and "fmlookup (om_Annotations (sb_Meta sb)) ClaimIDAnnotation = Some victim" "victim \<noteq> []" "victim \<noteq> ie_ID e"
  shows "snd (snd (Rest_Delete src now ns name None (snd (Rest_Update semEq src now ns name upd None s)) w)) =
    snd (snd (Store_Release src (forgetClaim (snd (Rest_Update semEq src now ns name upd None s)) ns name) node victim w))"
proof -
  let ?s1 = "snd (Rest_Update semEq src now ns name upd None s)"
  obtain u where p: "parseClaimRef (ie_Name e) = (ns, name, u)" using findOwner_parse [OF assms(2)] by blast
  have a: "applyOverlay s (entryToSandbox node e) = entryToSandbox node e"
    using assms(4) owner_key [OF assms(2)] by (simp add: applyOverlay_none)
  note s1 = Update_ok [OF assms(1,2), of upd s sb semEq now, unfolded a, OF assms(5)]
  have "fmlookup (om_Annotations (sb_Meta (entryToSandbox node e))) ClaimIDAnnotation \<noteq> Some victim"
    using entryToSandbox_names(4) [OF p] assms(8) by (simp add: synthAnnotations_def)
  then have "claimID (applyOverlay ?s1 (entryToSandbox node e)) = victim"
    unfolding s1 using owner_key [OF assms(2)] assms(6,7)
    by (simp add: claimID_def Store_Overlay_def applyOverlay_Some overlaid_def mget_def merge_diff_lookup)
  with Delete_calls [OF assms(1-3) refl, of ?s1 now w] assms(7) show ?thesis
    by (simp split: prod.split sum.split)
qed

definition setClaimID :: "string \<Rightarrow> Sandbox \<Rightarrow> string + Sandbox" where
  "setClaimID v sb = Inr (sb\<lparr>sb_Meta := (sb_Meta sb)\<lparr>om_Annotations := fmupd ClaimIDAnnotation v (om_Annotations (sb_Meta sb))\<rparr>\<rparr>)"

theorem delete_releases_written_id_witness:
  "let s1 = snd (Rest_Update (=) demoPublished 0 ''team'' ''web'' (setClaimID ''sb_77'') None demoStore)
   in snd (snd (Rest_Delete demoPublished 0 ''team'' ''web'' None s1 4)) =
      snd (snd (Store_Release demoPublished (forgetClaim s1 ''team'' ''web'') ''n1'' ''sb_77'' 4))"
  using delete_releases_written_id [OF demo_owner, of demoStore "setClaimID ''sb_77''", OF _ _ setClaimID_def, of "''sb_77''" 0 "(=)" 4]
  by (simp add: demoStore_def WithClaimRouting_def NewScatterGatherStore_def Let_def)

section \<open>Create\<close>

lemma Create_Inr:
  assumes "Rest_Create env ns None (Some sb) s w = (Inr out, s', w')" "om_Name (sb_Meta sb) = name" "name \<noteq> []" "ns \<noteq> []"
  obtains a where "Store_Claim (ce_src env) (ce_rnd env) (ce_now env) s ns name (poolKeyForSandbox (ce_ops env) sb)
      (creatingClaim (ce_api env) sb) w = (Inr a, s', w')"
    "out = synthesizeClaimedSandbox (ce_api env) (ce_now env) (ce_uid env) ns name sb a"
  using assms by (auto simp: Rest_Create_def Let_def split: prod.splits sum.splits if_splits)

lemma Claim_repeat:
  assumes "Store_Claim src rnd now s ns name pool uid w = (Inr a, s', w')" "timeSub now' now \<le> pendingTTL"
  shows "Store_Claim src' rnd' now' s' ns name pool' uid' v = (Inl (ErrClaimExists (as_Node a)), s', v)"
proof -
  from assms(1) obtain res :: ClaimResult and node e where
    "map_of (sg_pending s') (nsname ns name) = Some \<lparr>pd_node = node, pd_entry = e, pd_at = now\<rparr>"
    "as_Node a = node" "sg_sandboxdFactory s' \<noteq> None"
    by (rule Claim_Inr)
  with pendingFor_live [of s' ns name] assms(2) show ?thesis by (auto simp: Store_Claim_def)
qed


definition demoEnv :: createEnv where
  "demoEnv = \<lparr>ce_api = stdMachinery, ce_ops = demoQuantity, ce_src = demoView, ce_rnd = (\<lambda>_. 0), ce_now = 0,
     ce_uid = ''uid-1'', ce_genName = (\<lambda>p. p @ ''x'')\<rparr>"

definition demoSubmitted :: Sandbox where
  "demoSubmitted = emptySandbox\<lparr>sb_Meta := emptyMeta\<lparr>om_Name := ''web''\<rparr>,
     sb_Spec := emptySandboxSpec\<lparr>ss_Blueprint := emptyBlueprint\<lparr>bp_PodTemplate := \<lparr>
       pt_Spec = emptyPodSpec\<lparr>ps_Containers := [(demoContainer ''1Gi'')\<lparr>ct_Image := ''rt''\<rparr>]\<rparr>,
       pt_Meta = \<lparr>pm_Labels = fmempty, pm_Annotations = fmempty\<rparr>\<rparr>\<rparr>\<rparr>\<rparr>"

lemma demo_key: "poolKeyForSandbox demoQuantity demoSubmitted = demoPool"
  by (simp add: poolKeyForSandbox_def demoSubmitted_def PoolKeyFor_def demoPool_def NetDefault_def emptySandbox_def
      emptyMeta_def SizeClassForContainers_def requestOrLimit_def resourceOf_def demoContainer_def demoQuantity_def
      demoMilli_def numeral_eq_Suc)

lemma demo_create:
  "\<exists>out s' w'. Rest_Create demoEnv ''team'' None (Some demoSubmitted) demoStore 1 = (Inr out, s', w')"
proof -
  have "creatingClaim stdMachinery demoSubmitted = []" "om_Name (sb_Meta demoSubmitted) = ''web''"
    by (simp_all add: creatingClaim_def stdMachinery_def demoSubmitted_def emptyMeta_def)
  moreover have "\<exists>a s' w'. Store_Claim demoView (\<lambda>_. 0) 0 demoStore ''team'' ''web'' demoPool [] 1 = (Inr a, s', w')"
    by (simp add: store_eval demoStore_def demoSd_def Let_def)
  ultimately show ?thesis
    by (auto simp: Rest_Create_def demoEnv_def demo_key)
qed


end
