(* ===== verification/Kube_Client.thy ===== *)
theory Kube_Client
  imports K8s_Meta
begin

text \<open>
  The typed Kubernetes client the controllers call.  The client and the API server behind it
  are not part of the sources: one record \<open>kindClient\<close> per kind holds the calls the code
  makes, threading an arbitrary world \<open>'w\<close>, and \<open>kind_ok\<close> states the documented behaviour
  the proofs rely on, over a view of the stored objects: a read that succeeds returns the
  stored object, a read that reports \<open>NotFound\<close> found none, a status write that succeeds
  stores the given status and touches no other object.  Calls may fail at any time with any
  other error.
\<close>

datatype apiError =
    NotFound string \<comment> \<open>the name in the status details, empty when absent\<close>
  | AlreadyExists
  | Conflict
  | Failed string

definition IsNotFound :: "apiError \<Rightarrow> bool" where
  "IsNotFound err = (case err of NotFound _ \<Rightarrow> True | _ \<Rightarrow> False)"

type_synonym objectKey = "string \<times> string"

record ('o, 'w) kindClient =
  kc_Get :: "string \<Rightarrow> string \<Rightarrow> 'w \<Rightarrow> apiError + 'o"
  kc_List :: "'w \<Rightarrow> apiError + 'o list"
  kc_UpdateStatus :: "'o \<Rightarrow> 'w \<Rightarrow> (apiError + 'o) \<times> 'w"
  kc_PatchStatus :: "'o \<Rightarrow> 'o \<Rightarrow> 'w \<Rightarrow> (apiError + 'o) \<times> 'w"

text \<open>
  The calls that write objects: \<open>Patch\<close> takes the object before and after the change (a
  merge patch), \<open>Delete\<close> whether the deletion is in the foreground.  A successful write
  returns the stored object, as the client decodes the reply into its argument.
  \<open>ListBy\<close> lists a namespace by the value of a cache index.
\<close>

record ('o, 'w) objectClient = "('o, 'w) kindClient" +
  kc_ListBy :: "string \<Rightarrow> string \<Rightarrow> string \<Rightarrow> 'w \<Rightarrow> apiError + 'o list"
  kc_Create :: "'o \<Rightarrow> 'w \<Rightarrow> (apiError + 'o) \<times> 'w"
  kc_Update :: "'o \<Rightarrow> 'w \<Rightarrow> (apiError + 'o) \<times> 'w"
  kc_Patch :: "'o \<Rightarrow> 'o \<Rightarrow> 'w \<Rightarrow> (apiError + 'o) \<times> 'w"
  kc_Delete :: "bool \<Rightarrow> 'o \<Rightarrow> 'w \<Rightarrow> (apiError + unit) \<times> 'w"

text \<open>
  \<open>controllerutil.SetControllerReference\<close>, given the owner's API version, kind and metadata:
  it makes the owner the one controller of an object that has none, and fails on an object
  that another owner controls; when it succeeds the owner controls the object.
\<close>

type_synonym setControllerReference = "string \<Rightarrow> string \<Rightarrow> ObjectMeta \<Rightarrow> ObjectMeta \<Rightarrow> string + ObjectMeta"

abbreviation controllerOf :: "ObjectMeta \<Rightarrow> OwnerReference option" where
  "controllerOf m \<equiv> find or_Controller (om_OwnerReferences m)"

definition setref_ok :: "setControllerReference \<Rightarrow> bool" where
  "setref_ok setRef \<longleftrightarrow>
     (\<forall>av kind owner obj. controllerOf obj = None \<longrightarrow>
        (\<exists>m r. setRef av kind owner obj = Inr m \<and> m = obj\<lparr>om_OwnerReferences := om_OwnerReferences m\<rparr> \<and>
           controllerOf m = Some r \<and> or_APIVersion r = av \<and> or_Kind r = kind \<and>
           or_Name r = om_Name owner \<and> or_UID r = om_UID owner)) \<and>
     (\<forall>av kind owner obj r. controllerOf obj = Some r \<longrightarrow> or_UID r \<noteq> om_UID owner \<longrightarrow>
        (\<exists>err. setRef av kind owner obj = Inl err)) \<and>
     (\<forall>av kind owner obj m. setRef av kind owner obj = Inr m \<longrightarrow>
        (\<exists>r. controllerOf m = Some r \<and> or_UID r = om_UID owner))"

definition stdSetRef :: setControllerReference where
  "stdSetRef av kind owner obj =
     (let ref = \<lparr>or_APIVersion = av, or_Kind = kind, or_Name = om_Name owner, or_UID = om_UID owner,
                or_Controller = True, or_BlockOwnerDeletion = True\<rparr>
      in case controllerOf obj of
           None \<Rightarrow> Inr (obj\<lparr>om_OwnerReferences := om_OwnerReferences obj @ [ref]\<rparr>)
         | Some r \<Rightarrow> if or_UID r = om_UID owner then Inr obj else Inl ''already owned'')"

lemma find_append: "find P (xs @ ys) = (case find P xs of None \<Rightarrow> find P ys | Some x \<Rightarrow> Some x)"
  by (induction xs) auto

lemma stdSetRef_ok: "setref_ok stdSetRef"
  by (auto simp: setref_ok_def stdSetRef_def Let_def find_append split: option.splits if_splits)

definition get_ok :: "('w \<Rightarrow> objectKey \<rightharpoonup> 'o) \<Rightarrow> ('o, 'w) kindClient \<Rightarrow> bool" where
  "get_ok view kc \<longleftrightarrow>
     (\<forall>ns n w o'. kc_Get kc ns n w = Inr o' \<longrightarrow> view w (ns, n) = Some o') \<and>
     (\<forall>ns n w d. kc_Get kc ns n w = Inl (NotFound d) \<longrightarrow> view w (ns, n) = None)"

definition status_ok ::
  "('o \<Rightarrow> objectKey) \<Rightarrow> ('o \<Rightarrow> 's) \<Rightarrow> ('w \<Rightarrow> objectKey \<rightharpoonup> 'o) \<Rightarrow> ('o, 'w) kindClient \<Rightarrow> bool" where
  "status_ok key status view kc \<longleftrightarrow>
     (\<forall>new w o' w'. kc_UpdateStatus kc new w = (Inr o', w') \<longrightarrow>
        view w' = (view w)(key new \<mapsto> o') \<and> status o' = status new) \<and>
     (\<forall>orig new w o' w'. view w (key orig) = Some orig \<longrightarrow> kc_PatchStatus kc orig new w = (Inr o', w') \<longrightarrow>
        view w' = (view w)(key orig \<mapsto> o') \<and> status o' = status new)"

definition kind_ok ::
  "('o \<Rightarrow> objectKey) \<Rightarrow> ('o \<Rightarrow> 's) \<Rightarrow> ('w \<Rightarrow> objectKey \<rightharpoonup> 'o) \<Rightarrow> ('o, 'w) kindClient \<Rightarrow> bool" where
  "kind_ok key status view kc \<longleftrightarrow>
     (\<forall>w k o'. view w k = Some o' \<longrightarrow> key o' = k) \<and> get_ok view kc \<and> status_ok key status view kc"

lemma kind_ok_get:
  "kind_ok key status view kc \<Longrightarrow> kc_Get kc ns n w = Inr o' \<Longrightarrow> view w (ns, n) = Some o' \<and> key o' = (ns, n)"
  unfolding kind_ok_def get_ok_def by blast

lemma kind_ok_missing:
  "kind_ok key status view kc \<Longrightarrow> kc_Get kc ns n w = Inl (NotFound d) \<Longrightarrow> view w (ns, n) = None"
  unfolding kind_ok_def get_ok_def by blast

lemma kind_ok_patch:
  "kind_ok key status view kc \<Longrightarrow> view w (key orig) = Some orig \<Longrightarrow>
     kc_PatchStatus kc orig new w = (Inr o', w') \<Longrightarrow>
     view w' = (view w)(key orig \<mapsto> o') \<and> status o' = status new"
  unfolding kind_ok_def status_ok_def by blast

section \<open>A concrete instance, for witnesses\<close>

text \<open>A server that stores the objects of one kind in a map, each under its own key.\<close>

definition keyedView :: "('o \<Rightarrow> objectKey) \<Rightarrow> (objectKey \<rightharpoonup> 'o) \<Rightarrow> objectKey \<rightharpoonup> 'o" where
  "keyedView key m k = (case m k of None \<Rightarrow> None | Some x \<Rightarrow> if key x = k then Some x else None)"

definition writeStatusAt ::
  "('o \<Rightarrow> objectKey) \<Rightarrow> ('o \<Rightarrow> 'o \<Rightarrow> 'o) \<Rightarrow> objectKey \<Rightarrow> 'o \<Rightarrow> (objectKey \<rightharpoonup> 'o) \<Rightarrow> (apiError + 'o) \<times> (objectKey \<rightharpoonup> 'o)" where
  "writeStatusAt key withStatus k new m =
     (case keyedView key m k of
        None \<Rightarrow> (Inl (NotFound (snd k)), m)
      | Some x \<Rightarrow> (Inr (withStatus x new), m(k \<mapsto> withStatus x new)))"

definition memServer ::
  "('o \<Rightarrow> objectKey) \<Rightarrow> ('o \<Rightarrow> 'o \<Rightarrow> 'o) \<Rightarrow> ('o, objectKey \<rightharpoonup> 'o) kindClient" where
  "memServer key withStatus = \<lparr>
     kc_Get = (\<lambda>ns n m. case keyedView key m (ns, n) of None \<Rightarrow> Inl (NotFound n) | Some x \<Rightarrow> Inr x),
     kc_List = (\<lambda>m. Inl (Failed ''not listable'')),
     kc_UpdateStatus = (\<lambda>new. writeStatusAt key withStatus (key new) new),
     kc_PatchStatus = (\<lambda>orig. writeStatusAt key withStatus (key orig))\<rparr>"

lemma keyedView_upd: "key x = k \<Longrightarrow> keyedView key (m(k \<mapsto> x)) = (keyedView key m)(k \<mapsto> x)"
  by (auto simp: keyedView_def)

lemma writeStatusAt_ok:
  assumes "\<And>x y. key (withStatus x y) = key x" "\<And>x y. status (withStatus x y) = status y"
    and "writeStatusAt key withStatus k new m = (Inr o', m')"
  shows "keyedView key m' = (keyedView key m)(k \<mapsto> o') \<and> status o' = status new"
proof -
  obtain x where x: "keyedView key m k = Some x" "o' = withStatus x new" "m' = m(k \<mapsto> withStatus x new)"
    using assms(3) by (auto simp: writeStatusAt_def split: option.splits)
  then have "key x = k" by (auto simp: keyedView_def split: option.splits if_splits)
  with x assms(1,2) show ?thesis by (simp add: keyedView_upd)
qed

lemma memServer_ok:
  assumes "\<And>x y. key (withStatus x y) = key x" "\<And>x y. status (withStatus x y) = status y"
  shows "kind_ok key status (keyedView key) (memServer key withStatus)"
proof -
  have "key x = k" if "keyedView key m k = Some x" for m k x
    using that by (auto simp: keyedView_def split: option.splits if_splits)
  moreover have "get_ok (keyedView key) (memServer key withStatus)"
    by (auto simp: get_ok_def memServer_def split: option.splits)
  moreover have "status_ok key status (keyedView key) (memServer key withStatus)"
    using writeStatusAt_ok [of key withStatus status, OF assms]
    by (simp add: status_ok_def memServer_def)
  ultimately show ?thesis by (simp add: kind_ok_def)
qed

end
