(* ===== verification/Claim_Gateway.thy ===== *)
theory Claim_Gateway
  imports Scale_Store Kube_Client "HOL-Library.Multiset"
begin

text \<open>
  The node-local claim gateway (\<^verbatim>\<open>pkg/scale/claimgateway.go\<close>,
  \<^verbatim>\<open>pkg/scale/claimgateway_impl.go\<close>): inline authorization, delivery through sandboxd, the
  credentials of the delivered sandboxes, the asynchronous record of the binding, and the
  reconciler that heals lost records.  Request contexts, timeouts of the record job and
  logging are not modelled.  The record jobs started by \<open>go func\<close> are queued in
  \<open>gw_jobs\<close>; a scheduler may run them in any order.
\<close>

section \<open>Data\<close>

record ClaimRequest =
  cq_Namespace :: string
  cq_ClaimName :: string
  cq_WarmPool :: string
  cq_Selector :: strmap

text \<open>
  The errors of an \<open>Authorizer\<close>, with the chain \<open>errors.Is\<close> walks: \<open>AuthNoNodeCapacity\<close>
  is the sentinel \<open>ErrNoNodeCapacity\<close> itself.
\<close>

datatype authzError =
    AuthNoNodeCapacity
  | MissingIdentity
  | ReviewFailed authzError
  | NotAllowed string string string
  | QuotaFailed authzError
  | AuthzOther string

datatype gatewayError =
    ErrNoNodeCapacity
  | NotAuthorized string string authzError
  | SandboxdClaimFailed string string sdError
  | NotDelivered string string
  | SandboxdReleaseFailed string sdError

fun chainNoNodeCapacity :: "authzError \<Rightarrow> bool" where
  "chainNoNodeCapacity AuthNoNodeCapacity = True"
| "chainNoNodeCapacity (ReviewFailed err) = chainNoNodeCapacity err"
| "chainNoNodeCapacity (QuotaFailed err) = chainNoNodeCapacity err"
| "chainNoNodeCapacity _ = False"

fun IsFallback :: "gatewayError \<Rightarrow> bool" where
  "IsFallback ErrNoNodeCapacity = True"
| "IsFallback (NotAuthorized _ _ err) = chainNoNodeCapacity err"
| "IsFallback _ = False"

type_synonym 'w Authorizer = "ClaimRequest \<Rightarrow> 'w \<Rightarrow> (authzError + unit) \<times> 'w"
type_synonym 'w ClaimRecorder = "string \<Rightarrow> string \<Rightarrow> Assignment \<Rightarrow> 'w \<Rightarrow> (apiError + unit) \<times> 'w"

record 'w GatewayConfig =
  gc_Node :: string
  gc_Client :: "'w SandboxdClient"
  gc_Authorizer :: "'w Authorizer option"
  gc_Recorder :: "'w ClaimRecorder"
  gc_DefaultTemplate :: string
  gc_DefaultNet :: string
  gc_DefaultSize :: string
  gc_TTLSeconds :: int
  gc_RecordTimeout :: int

record delivered =
  dl_id :: string
  dl_token :: string

type_synonym holdings = "string \<rightharpoonup> delivered"

record 'w nodeClaimGateway =
  gw_node :: string
  gw_client :: "'w SandboxdClient"
  gw_authz :: "'w Authorizer option"
  gw_recorder :: "'w ClaimRecorder"
  gw_tmpl :: string
  gw_net :: string
  gw_size :: string
  gw_ttl :: int
  gw_recordTimeout :: int
  gw_holdings :: holdings
  gw_jobs :: "(string \<times> string \<times> Assignment) list"

abbreviation "SelectorTemplateKey \<equiv> ''sandbox.cocoonstack.io/template''"
abbreviation "SelectorNetKey \<equiv> ''sandbox.cocoonstack.io/net''"
abbreviation "SelectorSizeKey \<equiv> ''sandbox.cocoonstack.io/size''"
abbreviation "RequestUserSelectorKey \<equiv> ''authorization.cocoonstack.io/user''"

definition NewGateway :: "'w GatewayConfig \<Rightarrow> 'w nodeClaimGateway" where
  "NewGateway cfg = \<lparr>gw_node = gc_Node cfg, gw_client = gc_Client cfg, gw_authz = gc_Authorizer cfg,
     gw_recorder = gc_Recorder cfg, gw_tmpl = gc_DefaultTemplate cfg, gw_net = gc_DefaultNet cfg,
     gw_size = gc_DefaultSize cfg, gw_ttl = gc_TTLSeconds cfg,
     gw_recordTimeout = (if gc_RecordTimeout cfg \<le> 0 then 10 * second else gc_RecordTimeout cfg),
     gw_holdings = Map.empty, gw_jobs = []\<rparr>"

section \<open>Claim and Release\<close>

fun firstNonEmpty :: "string list \<Rightarrow> string" where
  "firstNonEmpty [] = []"
| "firstNonEmpty (v # vs) = (if v \<noteq> [] then v else firstNonEmpty vs)"

definition specFor :: "'w nodeClaimGateway \<Rightarrow> ClaimRequest \<Rightarrow> ClaimSpec" where
  "specFor g req = \<lparr>
     cp_Template = firstNonEmpty [mget (cq_Selector req) SelectorTemplateKey, gw_tmpl g, cq_WarmPool req],
     cp_Net = firstNonEmpty [mget (cq_Selector req) SelectorNetKey, gw_net g],
     cp_Size = firstNonEmpty [mget (cq_Selector req) SelectorSizeKey, gw_size g],
     cp_TTLSeconds = gw_ttl g, cp_NoRedirect = False, cp_ClaimRef = []\<rparr>"

text \<open>The locked regions, each an update of the holdings.\<close>

definition addHolding :: "ClaimResult \<Rightarrow> holdings \<Rightarrow> holdings" where
  "addHolding res h = h(cr_ID res \<mapsto> \<lparr>dl_id = cr_ID res, dl_token = cr_Token res\<rparr>)"

definition takeHolding :: "string \<Rightarrow> holdings \<Rightarrow> delivered option \<times> holdings" where
  "takeHolding name h = (h name, h(name := None))"

definition restoreHolding :: "string \<Rightarrow> delivered \<Rightarrow> holdings \<Rightarrow> holdings" where
  "restoreHolding name d h = h(name \<mapsto> d)"

definition enqueueRecord :: "string \<Rightarrow> string \<Rightarrow> Assignment \<Rightarrow> 'w nodeClaimGateway \<Rightarrow> 'w nodeClaimGateway" where
  "enqueueRecord ns name a g = g\<lparr>gw_jobs := gw_jobs g @ [(ns, name, a)]\<rparr>"

definition authorizeClaim :: "'w nodeClaimGateway \<Rightarrow> ClaimRequest \<Rightarrow> 'w \<Rightarrow> (authzError + unit) \<times> 'w" where
  "authorizeClaim g req w = (case gw_authz g of None \<Rightarrow> (Inr (), w) | Some authz \<Rightarrow> authz req w)"

definition Gateway_Claim ::
  "ClaimRequest \<Rightarrow> 'w nodeClaimGateway \<Rightarrow> 'w \<Rightarrow> (gatewayError + Assignment) \<times> 'w nodeClaimGateway \<times> 'w" where
  "Gateway_Claim req g w =
     (case authorizeClaim g req w of
        (Inl err, w1) \<Rightarrow> (Inl (NotAuthorized (cq_Namespace req) (cq_ClaimName req) err), g, w1)
      | (Inr _, w1) \<Rightarrow>
          case sdc_Claim (gw_client g) (specFor g req) w1 of
            (Inl err, w2) \<Rightarrow>
              (Inl (if err = NodeAtCapacity then ErrNoNodeCapacity
                    else SandboxdClaimFailed (cq_Namespace req) (cq_ClaimName req) err), g, w2)
          | (Inr res, w2) \<Rightarrow>
              let a = \<lparr>as_SandboxName = cr_ID res, as_Node = gw_node g, as_Address = cr_OwnerAddr res,
                       as_Token = cr_Token res\<rparr>;
                  g1 = g\<lparr>gw_holdings := addHolding res (gw_holdings g)\<rparr>
              in (Inr a, enqueueRecord (cq_Namespace req) (cq_ClaimName req) a g1, w2))"

definition Gateway_Release ::
  "Assignment \<Rightarrow> 'w nodeClaimGateway \<Rightarrow> 'w \<Rightarrow> (gatewayError + unit) \<times> 'w nodeClaimGateway \<times> 'w" where
  "Gateway_Release a g w =
     (case takeHolding (as_SandboxName a) (gw_holdings g) of
        (None, h) \<Rightarrow> (Inl (NotDelivered (as_SandboxName a) (gw_node g)), g\<lparr>gw_holdings := h\<rparr>, w)
      | (Some d, h) \<Rightarrow>
          case sdc_Release (gw_client g) (dl_id d) (dl_token d) w of
            (Inl err, w') \<Rightarrow>
              (Inl (SandboxdReleaseFailed (as_SandboxName a) err),
               g\<lparr>gw_holdings := restoreHolding (as_SandboxName a) d h\<rparr>, w')
          | (Inr _, w') \<Rightarrow> (Inr (), g\<lparr>gw_holdings := h\<rparr>, w'))"

section \<open>The authorizer\<close>

record accessReview =
  ar_User :: string
  ar_Namespace :: string
  ar_Verb :: string
  ar_Group :: string
  ar_Resource :: string
  ar_Name :: string

record accessDecision =
  ad_Allowed :: bool
  ad_Denied :: bool
  ad_Reason :: string

record 'w ReviewAuthorizer =
  ra_Reviewer :: "accessReview \<Rightarrow> 'w \<Rightarrow> (authzError + accessDecision) \<times> 'w"
  ra_Quota :: "(string \<Rightarrow> 'w \<Rightarrow> (authzError + unit) \<times> 'w) option"
  ra_Group :: string
  ra_Resource :: string
  ra_Verb :: string

definition claimReview :: "'w ReviewAuthorizer \<Rightarrow> ClaimRequest \<Rightarrow> accessReview" where
  "claimReview ra req = \<lparr>ar_User = mget (cq_Selector req) RequestUserSelectorKey,
     ar_Namespace = cq_Namespace req, ar_Verb = firstNonEmpty [ra_Verb ra, ''create''],
     ar_Group = firstNonEmpty [ra_Group ra, ''extensions.agents.x-k8s.io''],
     ar_Resource = firstNonEmpty [ra_Resource ra, ''sandboxclaims''], ar_Name = cq_ClaimName req\<rparr>"

definition Authorize :: "'w ReviewAuthorizer \<Rightarrow> 'w Authorizer" where
  "Authorize ra req w =
     (let user = mget (cq_Selector req) RequestUserSelectorKey
      in if user = [] then (Inl MissingIdentity, w)
         else case ra_Reviewer ra (claimReview ra req) w of
                (Inl err, w1) \<Rightarrow> (Inl (ReviewFailed err), w1)
              | (Inr got, w1) \<Rightarrow>
                  if ad_Denied got \<or> \<not> ad_Allowed got
                  then (Inl (NotAllowed user (cq_Namespace req) (ad_Reason got)), w1)
                  else case ra_Quota ra of
                         None \<Rightarrow> (Inr (), w1)
                       | Some admit \<Rightarrow>
                           case admit (cq_Namespace req) w1 of
                             (Inl err, w2) \<Rightarrow> (Inl (QuotaFailed err), w2)
                           | (Inr _, w2) \<Rightarrow> (Inr (), w2))"

section \<open>Recording the binding\<close>

abbreviation "BoundConditionType \<equiv> ''Bound''"

definition boundCondition :: "Assignment \<Rightarrow> Condition" where
  "boundCondition a = \<lparr>c_Type = BoundConditionType, c_Status = ''True'', c_ObservedGeneration = 0,
     c_LastTransitionTime = zeroTime, c_Reason = ''NodeLocalClaim'',
     c_Message = ''sandbox '' @ as_SandboxName a @ '' delivered by node-local claim gateway''\<rparr>"

definition bindClaim :: "apimachinery \<Rightarrow> gotime \<Rightarrow> Assignment \<Rightarrow> SandboxClaim \<Rightarrow> SandboxClaim" where
  "bindClaim api now a cur =
     cur\<lparr>sc_Status := \<lparr>
       cst_Conditions = SetStatusCondition api now (cst_Conditions (sc_Status cur)) (boundCondition a),
       cst_SandboxName = as_SandboxName a,
       cst_PodIPs = (if as_Address a \<noteq> [] then [as_Address a] else cst_PodIPs (sc_Status cur))\<rparr>\<rparr>"

definition RecordBound ::
  "apimachinery \<Rightarrow> gotime \<Rightarrow> (SandboxClaim, 'w) kindClient \<Rightarrow> 'w ClaimRecorder" where
  "RecordBound api now kc claimNS claimName a w =
     (case kc_Get kc claimNS claimName w of
        Inl err \<Rightarrow> (Inl err, w)
      | Inr cur \<Rightarrow>
          if cst_SandboxName (sc_Status cur) = as_SandboxName a then (Inr (), w)
          else case kc_PatchStatus kc cur (bindClaim api now a cur) w of
                 (Inl err, w') \<Rightarrow> (Inl err, w')
               | (Inr _, w') \<Rightarrow> (Inr (), w'))"

text \<open>The goroutine of job \<open>i\<close>: its error is only logged.\<close>

definition runRecordJob :: "nat \<Rightarrow> 'w nodeClaimGateway \<Rightarrow> 'w \<Rightarrow> 'w nodeClaimGateway \<times> 'w" where
  "runRecordJob i g w =
     (if i < length (gw_jobs g)
      then (case gw_jobs g ! i of (ns, name, a) \<Rightarrow>
              (g\<lparr>gw_jobs := take i (gw_jobs g) @ drop (Suc i) (gw_jobs g)\<rparr>,
               snd (gw_recorder g ns name a w)))
      else (g, w))"

section \<open>The orphan reconciler\<close>

record Delivery =
  dv_SandboxName :: string
  dv_Node :: string
  dv_Address :: string
  dv_ClaimNS :: string
  dv_ClaimName :: string

datatype orphanError =
    ListDeliveriesFailed string
  | AmbiguousNotFound string string string
  | GetClaimFailed string string apiError
  | AdoptFailed string string apiError

definition notFoundName :: "apiError \<Rightarrow> string" where
  "notFoundName err = (case err of NotFound n \<Rightarrow> n | _ \<Rightarrow> [])"

definition deliveryAssignment :: "Delivery \<Rightarrow> Assignment" where
  "deliveryAssignment d = \<lparr>as_SandboxName = dv_SandboxName d, as_Node = dv_Node d,
     as_Address = dv_Address d, as_Token = []\<rparr>"

fun adoptOrphans ::
  "(SandboxClaim, 'w) kindClient \<Rightarrow> 'w ClaimRecorder \<Rightarrow> Delivery list \<Rightarrow> nat \<Rightarrow> 'w
     \<Rightarrow> (nat \<times> orphanError option) \<times> 'w" where
  "adoptOrphans reader recorder [] reconciled w = ((reconciled, None), w)"
| "adoptOrphans reader recorder (d # ds) reconciled w =
     (case kc_Get reader (dv_ClaimNS d) (dv_ClaimName d) w of
        Inl err \<Rightarrow>
          if IsNotFound err then
            (if notFoundName err \<noteq> [] \<and> notFoundName err \<noteq> dv_ClaimName d
             then ((reconciled, Some (AmbiguousNotFound (dv_ClaimNS d) (dv_ClaimName d) (notFoundName err))), w)
             else adoptOrphans reader recorder ds reconciled w)
          else ((reconciled, Some (GetClaimFailed (dv_ClaimNS d) (dv_ClaimName d) err)), w)
      | Inr cur \<Rightarrow>
          if cst_SandboxName (sc_Status cur) \<noteq> [] then adoptOrphans reader recorder ds reconciled w
          else case recorder (dv_ClaimNS d) (dv_ClaimName d) (deliveryAssignment d) w of
                 (Inl err, w') \<Rightarrow> ((reconciled, Some (AdoptFailed (dv_ClaimNS d) (dv_ClaimName d) err)), w')
               | (Inr _, w') \<Rightarrow> adoptOrphans reader recorder ds (Suc reconciled) w')"

definition Orphan_Reconcile ::
  "(SandboxClaim, 'w) kindClient \<Rightarrow> 'w ClaimRecorder \<Rightarrow> (string + Delivery list) \<Rightarrow> 'w
     \<Rightarrow> (nat \<times> orphanError option) \<times> 'w" where
  "Orphan_Reconcile reader recorder live w =
     (case live of
        Inl err \<Rightarrow> ((0, Some (ListDeliveriesFailed err)), w)
      | Inr deliveries \<Rightarrow> adoptOrphans reader recorder deliveries 0 w)"

end
