(* ===== verification/Gateway_Safety.thy ===== *)
theory Gateway_Safety
  imports Claim_Gateway
begin

text \<open>
  What the claim gateway guarantees.  The delete authorization of the gateway is proved over
  a step relation whose steps are the locked regions of \<^verbatim>\<open>Claim\<close> and \<^verbatim>\<open>Release\<close>, so that any
  number of goroutines interleave, and the sequential operations are shown to be runs of it.
\<close>

section \<open>Interleaved claims and releases\<close>

text \<open>
  \<open>gs_inflight\<close> holds the releases between taking the credential and the reply of sandboxd.
  \<open>gs_delivered\<close> and \<open>gs_destroyed\<close> count, per sandbox, the handovers and the accepted
  releases; \<open>gs_credentials\<close> and \<open>gs_calls\<close> collect the credentials handed over by sandboxd
  and those presented to it.  \<open>crash\<close> is a restart of the gateway: the holdings are lost.
\<close>

record gatewaySystem =
  gs_holdings :: holdings
  gs_inflight :: "(string \<times> delivered) multiset"
  gs_delivered :: "string \<Rightarrow> nat"
  gs_destroyed :: "string \<Rightarrow> nat"
  gs_credentials :: "delivered set"
  gs_calls :: "delivered list"

definition initGateway :: gatewaySystem where
  "initGateway = \<lparr>gs_holdings = Map.empty, gs_inflight = {#}, gs_delivered = (\<lambda>_. 0),
     gs_destroyed = (\<lambda>_. 0), gs_credentials = {}, gs_calls = []\<rparr>"

definition credential :: "ClaimResult \<Rightarrow> delivered" where
  "credential res = \<lparr>dl_id = cr_ID res, dl_token = cr_Token res\<rparr>"

inductive gatewayStep :: "gatewaySystem \<Rightarrow> gatewaySystem \<Rightarrow> bool" where
  deliver: "gatewayStep s (s\<lparr>gs_holdings := addHolding res (gs_holdings s),
     gs_delivered := (gs_delivered s)(cr_ID res := Suc (gs_delivered s (cr_ID res))),
     gs_credentials := insert (credential res) (gs_credentials s)\<rparr>)"
| release_take: "takeHolding name (gs_holdings s) = (Some d, h) \<Longrightarrow>
    gatewayStep s (s\<lparr>gs_holdings := h, gs_inflight := add_mset (name, d) (gs_inflight s),
      gs_calls := gs_calls s @ [d]\<rparr>)"
| release_unknown: "takeHolding name (gs_holdings s) = (None, h) \<Longrightarrow>
    gatewayStep s (s\<lparr>gs_holdings := h\<rparr>)"
| release_accepted: "(name, d) \<in># gs_inflight s \<Longrightarrow>
    gatewayStep s (s\<lparr>gs_inflight := gs_inflight s - {#(name, d)#},
      gs_destroyed := (gs_destroyed s)(name := Suc (gs_destroyed s name))\<rparr>)"
| release_failed: "(name, d) \<in># gs_inflight s \<Longrightarrow>
    gatewayStep s (s\<lparr>gs_inflight := gs_inflight s - {#(name, d)#},
      gs_holdings := restoreHolding name d (gs_holdings s)\<rparr>)"
| crash: "gatewayStep s (s\<lparr>gs_holdings := Map.empty, gs_inflight := {#}\<rparr>)"

inductive_cases gatewayStepE: "gatewayStep s t"

definition inflightFor :: "gatewaySystem \<Rightarrow> string \<Rightarrow> nat" where
  "inflightFor s name = size (filter_mset (\<lambda>x. fst x = name) (gs_inflight s))"

definition heldFor :: "gatewaySystem \<Rightarrow> string \<Rightarrow> nat" where
  "heldFor s name = (if gs_holdings s name = None then 0 else 1)"

definition counts_inv :: "gatewaySystem \<Rightarrow> bool" where
  "counts_inv s \<longleftrightarrow>
     (\<forall>name. gs_destroyed s name + inflightFor s name + heldFor s name \<le> gs_delivered s name)"

definition credentials_inv :: "gatewaySystem \<Rightarrow> bool" where
  "credentials_inv s \<longleftrightarrow>
     (\<forall>name d. gs_holdings s name = Some d \<longrightarrow> dl_id d = name \<and> d \<in> gs_credentials s) \<and>
     (\<forall>name d. (name, d) \<in># gs_inflight s \<longrightarrow> dl_id d = name \<and> d \<in> gs_credentials s) \<and>
     set (gs_calls s) \<subseteq> gs_credentials s"

lemma inflight_removed:
  "(name, d) \<in># M \<Longrightarrow>
     size (filter_mset (\<lambda>x. fst x = n) M) =
     size (filter_mset (\<lambda>x. fst x = n) (M - {#(name, d)#})) + (if n = name then 1 else 0)"
  by (auto dest!: multi_member_split)

lemma counts_step:
  assumes "gatewayStep s t" "counts_inv s"
  shows "counts_inv t"
  unfolding counts_inv_def
proof
  fix n
  have inv: "gs_destroyed s n + inflightFor s n + heldFor s n \<le> gs_delivered s n"
    using assms(2) by (simp add: counts_inv_def)
  from assms(1) show "gs_destroyed t n + inflightFor t n + heldFor t n \<le> gs_delivered t n"
  proof (cases rule: gatewayStep.cases)
    case (deliver res)
    with inv show ?thesis by (auto simp: inflightFor_def heldFor_def addHolding_def split: if_splits)
  next
    case (release_take name d h)
    with inv show ?thesis by (auto simp: inflightFor_def heldFor_def takeHolding_def split: if_splits)
  next
    case (release_unknown name h)
    with inv show ?thesis by (auto simp: inflightFor_def heldFor_def takeHolding_def split: if_splits)
  next
    case (release_accepted name d)
    then have "inflightFor s n = inflightFor t n + (if n = name then 1 else 0)"
      using inflight_removed [of name d "gs_inflight s" n] unfolding inflightFor_def by simp
    moreover have "gs_destroyed t n = gs_destroyed s n + (if n = name then 1 else 0)"
        "heldFor t n = heldFor s n" "gs_delivered t = gs_delivered s"
      using release_accepted by (simp_all add: heldFor_def)
    ultimately show ?thesis using inv by (cases "n = name") simp_all
  next
    case (release_failed name d)
    then have "inflightFor s n = inflightFor t n + (if n = name then 1 else 0)"
      using inflight_removed [of name d "gs_inflight s" n] unfolding inflightFor_def by simp
    moreover have "heldFor t n = (if n = name then 1 else heldFor s n)"
        "gs_destroyed t = gs_destroyed s" "gs_delivered t = gs_delivered s"
      using release_failed by (simp_all add: heldFor_def restoreHolding_def)
    ultimately show ?thesis using inv by (cases "n = name") simp_all
  next
    case crash
    with inv show ?thesis by (simp add: inflightFor_def heldFor_def split: if_splits)
  qed
qed

lemma credentials_step:
  assumes "gatewayStep s t" "credentials_inv s"
  shows "credentials_inv t"
  using assms(1)
proof (cases rule: gatewayStep.cases)
  case (deliver res)
  with assms(2) show ?thesis by (auto simp: credentials_inv_def addHolding_def credential_def)
next
  case (release_take name d h)
  with assms(2) show ?thesis by (auto simp: credentials_inv_def takeHolding_def split: if_splits)
next
  case (release_unknown name h)
  with assms(2) show ?thesis by (auto simp: credentials_inv_def takeHolding_def split: if_splits)
next
  case (release_accepted name d)
  with assms(2) show ?thesis by (auto simp: credentials_inv_def dest: in_diffD)
next
  case (release_failed name d)
  with assms(2) show ?thesis by (auto simp: credentials_inv_def restoreHolding_def dest: in_diffD)
next
  case crash
  with assms(2) show ?thesis by (auto simp: credentials_inv_def)
qed

abbreviation gatewayReachable :: "gatewaySystem \<Rightarrow> bool" where
  "gatewayReachable s \<equiv> gatewayStep\<^sup>*\<^sup>* initGateway s"

lemma gateway_invariants: "gatewayReachable s \<Longrightarrow> counts_inv s \<and> credentials_inv s"
proof (induction rule: rtranclp_induct)
  case base
  show ?case
    by (simp add: counts_inv_def credentials_inv_def initGateway_def inflightFor_def heldFor_def)
qed (blast intro: counts_step credentials_step)

section \<open>The sequential operations are runs\<close>

text \<open>
  A client of the gateway, its record goroutines included, as a sequence of operations.
  \<open>traced\<close> is any client with a log of what it handed over and what was released through it;
  the authorizer and the recorder run beside the log.
\<close>

datatype gatewayOp = OpClaim ClaimRequest | OpRelease Assignment | OpRecord nat

fun gatewayRun :: "gatewayOp list \<Rightarrow> 'w nodeClaimGateway \<Rightarrow> 'w \<Rightarrow> 'w nodeClaimGateway \<times> 'w" where
  "gatewayRun [] g w = (g, w)"
| "gatewayRun (OpClaim req # ops) g w = (case Gateway_Claim req g w of (_, g', w') \<Rightarrow> gatewayRun ops g' w')"
| "gatewayRun (OpRelease a # ops) g w = (case Gateway_Release a g w of (_, g', w') \<Rightarrow> gatewayRun ops g' w')"
| "gatewayRun (OpRecord i # ops) g w = (case runRecordJob i g w of (g', w') \<Rightarrow> gatewayRun ops g' w')"

datatype sdCall = Handed delivered | Accepted delivered | Refused delivered

definition beside :: "('w \<Rightarrow> 'a \<times> 'w) \<Rightarrow> 'w \<times> 'l \<Rightarrow> 'a \<times> 'w \<times> 'l" where
  "beside f wl = (case f (fst wl) of (r, w) \<Rightarrow> (r, w, snd wl))"

definition tracedClaim ::
  "'w SandboxdClient \<Rightarrow> ClaimSpec \<Rightarrow> 'w \<times> sdCall list \<Rightarrow> (sdError + ClaimResult) \<times> 'w \<times> sdCall list" where
  "tracedClaim c spec wl = (case sdc_Claim c spec (fst wl) of
     (Inl err, w) \<Rightarrow> (Inl err, w, snd wl)
   | (Inr res, w) \<Rightarrow> (Inr res, w, snd wl @ [Handed (credential res)]))"

definition tracedRelease ::
  "'w SandboxdClient \<Rightarrow> string \<Rightarrow> string \<Rightarrow> 'w \<times> sdCall list \<Rightarrow> (sdError + unit) \<times> 'w \<times> sdCall list" where
  "tracedRelease c sid token wl = (case sdc_Release c sid token (fst wl) of
     (Inl err, w) \<Rightarrow> (Inl err, w, snd wl @ [Refused \<lparr>dl_id = sid, dl_token = token\<rparr>])
   | (Inr u, w) \<Rightarrow> (Inr u, w, snd wl @ [Accepted \<lparr>dl_id = sid, dl_token = token\<rparr>]))"

definition traced :: "'w SandboxdClient \<Rightarrow> ('w \<times> sdCall list) SandboxdClient" where
  "traced c = \<lparr>sdc_Claim = tracedClaim c, sdc_Release = tracedRelease c,
     sdc_Hibernate = (\<lambda>sid. beside (sdc_Hibernate c sid)), sdc_Wake = (\<lambda>sid. beside (sdc_Wake c sid)),
     sdc_Fork = (\<lambda>sid spec. beside (sdc_Fork c sid spec)),
     sdc_Checkpoint = (\<lambda>sid spec. beside (sdc_Checkpoint c sid spec)),
     sdc_Checkpoints = beside (sdc_Checkpoints c),
     sdc_DeleteCheckpoint = (\<lambda>ck. beside (sdc_DeleteCheckpoint c ck)),
     sdc_ClaimCheckpoint = (\<lambda>ck ttl. beside (sdc_ClaimCheckpoint c ck ttl)),
     sdc_Promote = (\<lambda>sid spec. beside (sdc_Promote c sid spec)),
     sdc_Stats = (\<lambda>sid. beside (sdc_Stats c sid))\<rparr>"

definition tracedConfig :: "'w GatewayConfig \<Rightarrow> ('w \<times> sdCall list) GatewayConfig" where
  "tracedConfig cfg = \<lparr>gc_Node = gc_Node cfg, gc_Client = traced (gc_Client cfg),
     gc_Authorizer = map_option (\<lambda>az req. beside (az req)) (gc_Authorizer cfg),
     gc_Recorder = (\<lambda>ns n a. beside (gc_Recorder cfg ns n a)),
     gc_DefaultTemplate = gc_DefaultTemplate cfg, gc_DefaultNet = gc_DefaultNet cfg,
     gc_DefaultSize = gc_DefaultSize cfg, gc_TTLSeconds = gc_TTLSeconds cfg,
     gc_RecordTimeout = gc_RecordTimeout cfg\<rparr>"

fun handed :: "sdCall list \<Rightarrow> delivered list" where
  "handed [] = []"
| "handed (Handed d # l) = d # handed l"
| "handed (_ # l) = handed l"

fun accepted :: "sdCall list \<Rightarrow> delivered list" where
  "accepted [] = []"
| "accepted (Accepted d # l) = d # accepted l"
| "accepted (_ # l) = accepted l"

fun presented :: "sdCall list \<Rightarrow> delivered list" where
  "presented [] = []"
| "presented (Handed d # l) = presented l"
| "presented (Accepted d # l) = d # presented l"
| "presented (Refused d # l) = d # presented l"

lemma handed_append [simp]: "handed (l @ l') = handed l @ handed l'"
  by (induction l rule: handed.induct) auto

lemma accepted_append [simp]: "accepted (l @ l') = accepted l @ accepted l'"
  by (induction l rule: accepted.induct) auto

lemma presented_append [simp]: "presented (l @ l') = presented l @ presented l'"
  by (induction l rule: presented.induct) auto

definition tally :: "delivered list \<Rightarrow> string \<Rightarrow> nat" where
  "tally ds name = length (filter (\<lambda>d. dl_id d = name) ds)"

text \<open>The abstraction: what the step relation tracks is what the log records.\<close>

definition simulates :: "'w nodeClaimGateway \<Rightarrow> sdCall list \<Rightarrow> gatewaySystem \<Rightarrow> bool" where
  "simulates g l s \<longleftrightarrow> gs_holdings s = gw_holdings g \<and> gs_inflight s = {#} \<and>
     gs_delivered s = tally (handed l) \<and> gs_destroyed s = tally (accepted l) \<and>
     gs_credentials s = set (handed l) \<and> gs_calls s = presented l"

definition tracedGateway :: "('w \<times> sdCall list) nodeClaimGateway \<Rightarrow> bool" where
  "tracedGateway g \<longleftrightarrow> (\<exists>c. gw_client g = traced c) \<and>
     (\<exists>az. gw_authz g = map_option (\<lambda>f req. beside (f req)) az) \<and>
     (\<exists>f. gw_recorder g = (\<lambda>ns n a. beside (f ns n a)))"

lemma snd_beside [simp]: "snd (snd (beside f wl)) = snd wl"
  by (simp add: beside_def split: prod.splits)

lemma authorizeClaim_log:
  assumes "tracedGateway g"
  shows "snd (snd (authorizeClaim g req wl)) = snd wl"
proof -
  obtain az where "gw_authz g = map_option (\<lambda>f req. beside (f req)) az"
    using assms by (auto simp: tracedGateway_def)
  then show ?thesis by (cases az) (simp_all add: authorizeClaim_def)
qed

lemma Claim_simulates:
  assumes "tracedGateway g" "simulates g (snd wl) s" "Gateway_Claim req g wl = (r, g', wl')"
  shows "tracedGateway g' \<and> (\<exists>s'. gatewayStep\<^sup>*\<^sup>* s s' \<and> simulates g' (snd wl') s')"
proof -
  obtain ra wl1 where az: "authorizeClaim g req wl = (ra, wl1)" by (cases "authorizeClaim g req wl")
  with authorizeClaim_log [OF assms(1), of req wl] have log: "snd wl1 = snd wl" by simp
  obtain c where c: "gw_client g = traced c" using assms(1) by (auto simp: tracedGateway_def)
  consider (failed) "gw_holdings g' = gw_holdings g" "g' = g" "snd wl' = snd wl"
    | (ok) res where "gw_holdings g' = addHolding res (gw_holdings g)"
        "snd wl' = snd wl @ [Handed (credential res)]"
        "gw_client g' = gw_client g" "gw_authz g' = gw_authz g" "gw_recorder g' = gw_recorder g"
    using assms(3) az c log
    by (auto simp: Gateway_Claim_def Let_def enqueueRecord_def traced_def tracedClaim_def
        split: prod.splits sum.splits)
  then show ?thesis
  proof cases
    case failed
    with assms(1,2) show ?thesis by auto
  next
    case (ok res)
    let ?t = "s\<lparr>gs_holdings := addHolding res (gs_holdings s),
       gs_delivered := (gs_delivered s)(cr_ID res := Suc (gs_delivered s (cr_ID res))),
       gs_credentials := insert (credential res) (gs_credentials s)\<rparr>"
    have "gatewayStep\<^sup>*\<^sup>* s ?t" using gatewayStep.deliver [of s res] by blast
    moreover have "simulates g' (snd wl') ?t"
      using assms(2) ok by (auto simp: simulates_def tally_def credential_def)
    moreover have "tracedGateway g'" using assms(1) ok by (simp add: tracedGateway_def)
    ultimately show ?thesis by blast
  qed
qed

lemma two_steps: "gatewayStep x y \<Longrightarrow> gatewayStep y z \<Longrightarrow> gatewayStep\<^sup>*\<^sup>* x z"
  by (simp add: converse_rtranclp_into_rtranclp)

lemma tally_snoc: "tally (ds @ [d]) = (tally ds)(dl_id d := Suc (tally ds (dl_id d)))"
  by (auto simp: tally_def)

lemma Release_simulates:
  assumes "tracedGateway g" "simulates g (snd wl) s" "credentials_inv s"
    and "Gateway_Release a g wl = (r, g', wl')"
  shows "tracedGateway g' \<and> (\<exists>s'. gatewayStep\<^sup>*\<^sup>* s s' \<and> simulates g' (snd wl') s')"
proof -
  let ?name = "as_SandboxName a"
  obtain c where c: "gw_client g = traced c" using assms(1) by (auto simp: tracedGateway_def)
  have same: "gw_client g' = gw_client g" "gw_authz g' = gw_authz g" "gw_recorder g' = gw_recorder g"
    using assms(4) by (auto simp: Gateway_Release_def split: prod.splits option.splits sum.splits)
  then have tr: "tracedGateway g'" using assms(1) by (simp add: tracedGateway_def)
  show ?thesis
  proof (cases "gw_holdings g ?name")
    case None
    with assms(4) have "gw_holdings g' = gw_holdings g" "wl' = wl"
      by (auto simp: Gateway_Release_def takeHolding_def)
    with assms(2) have "simulates g' (snd wl') s" by (simp add: simulates_def)
    with tr show ?thesis by blast
  next
    case (Some d)
    let ?t = "s\<lparr>gs_holdings := (gs_holdings s)(?name := None),
       gs_inflight := add_mset (?name, d) (gs_inflight s), gs_calls := gs_calls s @ [d]\<rparr>"
    have taken: "gatewayStep s ?t"
      using assms(2) Some by (intro gatewayStep.release_take) (simp add: simulates_def takeHolding_def)
    have member: "(?name, d) \<in># gs_inflight ?t" by simp
    have idn: "dl_id d = ?name" using assms(2,3) Some by (simp add: simulates_def credentials_inv_def)
    consider (bad) "gw_holdings g' = restoreHolding ?name d ((gw_holdings g)(?name := None))"
          "snd wl' = snd wl @ [Refused d]"
      | (ok) "gw_holdings g' = (gw_holdings g)(?name := None)" "snd wl' = snd wl @ [Accepted d]"
      using assms(4) Some c
      by (auto simp: Gateway_Release_def takeHolding_def traced_def tracedRelease_def
          split: prod.splits sum.splits)
    then show ?thesis
    proof cases
      case bad
      with assms(2) have "simulates g' (snd wl') (?t\<lparr>gs_inflight := gs_inflight ?t - {#(?name, d)#},
          gs_holdings := restoreHolding ?name d (gs_holdings ?t)\<rparr>)"
        by (simp add: simulates_def)
      with tr two_steps [OF taken gatewayStep.release_failed [OF member]] show ?thesis by blast
    next
      case ok
      with assms(2) idn have "simulates g' (snd wl') (?t\<lparr>gs_inflight := gs_inflight ?t - {#(?name, d)#},
          gs_destroyed := (gs_destroyed ?t)(?name := Suc (gs_destroyed ?t ?name))\<rparr>)"
        by (simp add: simulates_def tally_snoc)
      with tr two_steps [OF taken gatewayStep.release_accepted [OF member]] show ?thesis by blast
    qed
  qed
qed

lemma Record_simulates:
  assumes "tracedGateway g" "simulates g (snd wl) s" "runRecordJob i g wl = (g', wl')"
  shows "tracedGateway g' \<and> simulates g' (snd wl') s"
proof -
  obtain f where "gw_recorder g = (\<lambda>ns n a. beside (f ns n a))"
    using assms(1) by (auto simp: tracedGateway_def)
  with assms(3) have "snd wl' = snd wl" by (auto simp: runRecordJob_def split: if_splits prod.splits)
  moreover have "gw_holdings g' = gw_holdings g" "tracedGateway g'"
    using assms(1,3) by (auto simp: runRecordJob_def tracedGateway_def split: if_splits prod.splits)
  ultimately show ?thesis using assms(2) by (simp add: simulates_def)
qed

lemma gatewayRun_simulates:
  "tracedGateway g \<Longrightarrow> gatewayReachable s \<Longrightarrow> simulates g (snd wl) s \<Longrightarrow> gatewayRun ops g wl = (g', wl') \<Longrightarrow>
     \<exists>s'. gatewayReachable s' \<and> simulates g' (snd wl') s'"
proof (induction ops g wl arbitrary: s rule: gatewayRun.induct)
  case (2 req ops g wl)
  obtain r g1 wl1 where op: "Gateway_Claim req g wl = (r, g1, wl1)" by (cases "Gateway_Claim req g wl") auto
  with Claim_simulates [OF 2(2,4) op] obtain s1 where
    "tracedGateway g1" "gatewayStep\<^sup>*\<^sup>* s s1" "simulates g1 (snd wl1) s1" by blast
  with 2(1) [OF op [symmetric] refl, of s1] rtranclp_trans [OF 2(3), of s1] 2(5) op show ?case by simp
next
  case (3 a ops g wl)
  obtain r g1 wl1 where op: "Gateway_Release a g wl = (r, g1, wl1)" by (cases "Gateway_Release a g wl") auto
  from gateway_invariants [OF 3(3)] Release_simulates [OF 3(2,4) _ op] obtain s1 where
    "tracedGateway g1" "gatewayStep\<^sup>*\<^sup>* s s1" "simulates g1 (snd wl1) s1" by blast
  with 3(1) [OF op [symmetric] refl, of s1] rtranclp_trans [OF 3(3), of s1] 3(5) op show ?case by simp
next
  case (4 i ops g wl)
  obtain g1 wl1 where op: "runRecordJob i g wl = (g1, wl1)" by (cases "runRecordJob i g wl") auto
  with Record_simulates [OF 4(2,4) op] 4(1) [OF op [symmetric], of s] 4(3,5) show ?case by simp
qed auto

lemma New_simulates:
  "tracedGateway (NewGateway (tracedConfig cfg)) \<and> simulates (NewGateway (tracedConfig cfg)) [] initGateway"
  by (auto simp: tracedGateway_def simulates_def NewGateway_def tracedConfig_def initGateway_def tally_def)

section \<open>Adopting orphans\<close>

definition claimKey :: "SandboxClaim \<Rightarrow> objectKey" where
  "claimKey c = (om_Namespace (sc_Meta c), om_Name (sc_Meta c))"

definition boundTo :: "(objectKey \<rightharpoonup> SandboxClaim) \<Rightarrow> objectKey \<Rightarrow> string" where
  "boundTo m k = (case m k of None \<Rightarrow> [] | Some c \<Rightarrow> cst_SandboxName (sc_Status c))"

definition deliveryKey :: "Delivery \<Rightarrow> objectKey" where
  "deliveryKey d = (dv_ClaimNS d, dv_ClaimName d)"

text \<open>
  Between two worlds, a claim is untouched, or it was there unbound and is now bound to a
  sandbox that was delivered to it.
\<close>

definition adopts :: "Delivery set \<Rightarrow> (objectKey \<rightharpoonup> SandboxClaim) \<Rightarrow> (objectKey \<rightharpoonup> SandboxClaim) \<Rightarrow> bool" where
  "adopts ds m m' \<longleftrightarrow> (\<forall>k. m' k = m k \<or>
     (m k \<noteq> None \<and> boundTo m k = [] \<and> (\<exists>d \<in> ds. deliveryKey d = k \<and> boundTo m' k = dv_SandboxName d)))"

lemma RecordBound_unbound:
  assumes "kind_ok claimKey sc_Status view kc" "RecordBound api now kc ns n a w = (Inr u, w')"
    and "as_SandboxName a \<noteq> []"
  shows "view w (ns, n) \<noteq> None \<and> boundTo (view w') (ns, n) = as_SandboxName a \<and>
     (\<forall>k. k \<noteq> (ns, n) \<longrightarrow> view w' k = view w k)"
proof -
  obtain cur where cur: "kc_Get kc ns n w = Inr cur"
    using assms(2) by (auto simp: RecordBound_def split: sum.splits)
  note stored = kind_ok_get [OF assms(1) cur]
  show ?thesis
  proof (cases "cst_SandboxName (sc_Status cur) = as_SandboxName a")
    case True
    with assms(2) cur stored show ?thesis by (simp add: RecordBound_def boundTo_def)
  next
    case False
    then obtain o' where "kc_PatchStatus kc cur (bindClaim api now a cur) w = (Inr o', w')"
      using assms(2) cur by (auto simp: RecordBound_def split: prod.splits sum.splits)
    from kind_ok_patch [OF assms(1) _ this] stored show ?thesis
      by (simp add: boundTo_def bindClaim_def)
  qed
qed

lemma adopts_refl [simp]: "adopts ds m m"
  by (simp add: adopts_def)

lemma adopts_mono: "adopts ds m m' \<Longrightarrow> ds \<subseteq> ds' \<Longrightarrow> adopts ds' m m'"
  unfolding adopts_def by blast

lemma adopts_step:
  assumes "adopts ds m' m''" and "m k \<noteq> None" "boundTo m k = []" and "d \<in> ds" "deliveryKey d = k"
    and "boundTo m' k = dv_SandboxName d" "dv_SandboxName d \<noteq> []" and "\<And>j. j \<noteq> k \<Longrightarrow> m' j = m j"
  shows "adopts ds m m''"
  unfolding adopts_def
proof
  fix j
  show "m'' j = m j \<or> (m j \<noteq> None \<and> boundTo m j = [] \<and>
     (\<exists>d \<in> ds. deliveryKey d = j \<and> boundTo m'' j = dv_SandboxName d))"
  proof (cases "j = k")
    case True
    then have "m'' k = m' k" using assms(1,6,7) unfolding adopts_def by metis
    then have "boundTo m'' k = boundTo m' k" by (simp add: boundTo_def)
    with True assms show ?thesis by auto
  next
    case False
    with assms(8) have "m' j = m j" "boundTo m' j = boundTo m j" by (simp_all add: boundTo_def)
    with assms(1) show ?thesis unfolding adopts_def by metis
  qed
qed

text \<open>
  Both halves of the reconciler's contract, for any outcome: it only adopts, and when it
  reports no error every delivery whose claim exists is bound.
\<close>

lemma adopts_settled:
  assumes "adopts ds m m'" "m k = None \<or> boundTo m k \<noteq> []"
  shows "m' k = None \<or> boundTo m' k \<noteq> []"
  using assms unfolding adopts_def boundTo_def by metis

lemma adoptOrphans_adopts:
  assumes "kind_ok claimKey sc_Status view kc" and "\<And>d. d \<in> set ds \<Longrightarrow> dv_SandboxName d \<noteq> []"
    and "adoptOrphans kc (RecordBound api now kc) ds n w = ((n', None), w')"
  shows "adopts (set ds) (view w) (view w') \<and>
     (\<forall>d \<in> set ds. view w' (deliveryKey d) = None \<or> boundTo (view w') (deliveryKey d) \<noteq> [])"
  using assms(2,3)
proof (induction ds arbitrary: n w)
  case (Cons d ds)
  let ?k = "deliveryKey d"
  consider (skip) "adoptOrphans kc (RecordBound api now kc) ds n w = ((n', None), w')"
        "view w ?k = None \<or> boundTo (view w) ?k \<noteq> []"
    | (adopt) w1 where "RecordBound api now kc (dv_ClaimNS d) (dv_ClaimName d) (deliveryAssignment d) w = (Inr (), w1)"
        "adoptOrphans kc (RecordBound api now kc) ds (Suc n) w1 = ((n', None), w')"
        "boundTo (view w) ?k = []"
  proof (cases "kc_Get kc (dv_ClaimNS d) (dv_ClaimName d) w")
    case (Inl err)
    with Cons.prems(2) obtain nm where "err = NotFound nm"
        "adoptOrphans kc (RecordBound api now kc) ds n w = ((n', None), w')"
      by (cases err) (auto simp: IsNotFound_def split: if_splits)
    with Inl kind_ok_missing [OF assms(1)] skip show ?thesis by (simp add: deliveryKey_def)
  next
    case (Inr cur)
    with kind_ok_get [OF assms(1) Inr] have "boundTo (view w) ?k = cst_SandboxName (sc_Status cur)"
      by (simp add: boundTo_def deliveryKey_def)
    with Cons.prems(2) Inr skip adopt show ?thesis
      by (auto split: if_splits prod.splits sum.splits)
  qed
  then show ?case
  proof cases
    case skip
    with Cons.IH [of n w] Cons.prems(1) have IH: "adopts (set ds) (view w) (view w')"
        "\<forall>d \<in> set ds. view w' (deliveryKey d) = None \<or> boundTo (view w') (deliveryKey d) \<noteq> []"
      by auto
    with adopts_settled [OF IH(1) skip(2)] show ?thesis by (auto intro: adopts_mono)
  next
    case (adopt w1)
    have IH: "adopts (set ds) (view w1) (view w')"
        "\<forall>d \<in> set ds. view w' (deliveryKey d) = None \<or> boundTo (view w') (deliveryKey d) \<noteq> []"
      using Cons.IH [of "Suc n" w1] Cons.prems(1) adopt(2) by auto
    have rec: "view w ?k \<noteq> None" "boundTo (view w1) ?k = dv_SandboxName d"
        "\<And>j. j \<noteq> ?k \<Longrightarrow> view w1 j = view w j"
      using RecordBound_unbound [OF assms(1) adopt(1)] Cons.prems(1) [of d]
      by (auto simp: deliveryAssignment_def deliveryKey_def)
    have "adopts (set (d # ds)) (view w1) (view w')" by (rule adopts_mono [OF IH(1)]) auto
    then have "adopts (set (d # ds)) (view w) (view w')"
      by (rule adopts_step [where k = ?k and d = d]) (use rec adopt(3) Cons.prems(1) in auto)
    moreover have "view w' ?k = None \<or> boundTo (view w') ?k \<noteq> []"
      by (rule adopts_settled [OF IH(1)]) (use rec Cons.prems(1) [of d] in auto)
    ultimately show ?thesis using IH(2) by simp
  qed
qed simp

section \<open>Properties\<close>

text \<open>
  C3: whatever the interleaving of claims, releases and restarts of the gateway, every
  credential presented to sandboxd for destruction is one sandboxd handed to this gateway,
  and a sandbox is destroyed at most as often as it was handed over, counting the releases
  in flight and the credential still held: no two concurrent releases destroy one delivery,
  and a failed release leaves the credential for exactly one retry.
\<close>

theorem gateway_destroys_only_delivered:
  assumes "gatewayReachable s"
  shows "set (gs_calls s) \<subseteq> gs_credentials s \<and>
    gs_destroyed s name + inflightFor s name + heldFor s name \<le> gs_delivered s name"
  using gateway_invariants [OF assms] by (simp add: counts_inv_def credentials_inv_def)

definition demoResult :: ClaimResult where
  "demoResult = \<lparr>cr_ID = ''vm-1'', cr_Token = ''t'', cr_Deadline = [], cr_OwnerAddr = ''10.0.0.1:80'',
     cr_FromCheckpoint = [], cr_Redirect = []\<rparr>"

definition demoHeld :: gatewaySystem where
  "demoHeld = initGateway\<lparr>gs_holdings := addHolding demoResult (gs_holdings initGateway),
     gs_delivered := (gs_delivered initGateway)(cr_ID demoResult := Suc (gs_delivered initGateway (cr_ID demoResult))),
     gs_credentials := insert (credential demoResult) (gs_credentials initGateway)\<rparr>"

definition demoReleasing :: gatewaySystem where
  "demoReleasing = demoHeld\<lparr>gs_holdings := (gs_holdings demoHeld)(''vm-1'' := None),
     gs_inflight := add_mset (''vm-1'', credential demoResult) (gs_inflight demoHeld),
     gs_calls := gs_calls demoHeld @ [credential demoResult]\<rparr>"

lemma demoReleasing_reachable: "gatewayReachable demoReleasing"
proof (rule two_steps)
  show "gatewayStep initGateway demoHeld" unfolding demoHeld_def by (rule gatewayStep.deliver)
  show "gatewayStep demoHeld demoReleasing" unfolding demoReleasing_def
    by (rule gatewayStep.release_take)
      (simp add: takeHolding_def demoHeld_def addHolding_def credential_def demoResult_def)
qed

theorem gateway_destroys_only_delivered_witness:
  "gatewayReachable demoReleasing \<and> inflightFor demoReleasing ''vm-1'' = 1 \<and>
   set (gs_calls demoReleasing) \<subseteq> gs_credentials demoReleasing \<and>
   gs_destroyed demoReleasing ''vm-1'' + 1 \<le> gs_delivered demoReleasing ''vm-1''"
proof -
  have "inflightFor demoReleasing ''vm-1'' = 1"
    by (simp add: inflightFor_def demoReleasing_def demoHeld_def initGateway_def)
  with gateway_destroys_only_delivered [OF demoReleasing_reachable, of "''vm-1''"]
  show ?thesis using demoReleasing_reachable by auto
qed

text \<open>
  C10: the gateway's operations refine the step relation: after any sequence of claims,
  releases and record jobs through any client, some reachable state of the relation holds
  the same credentials, and its counters are what a log of the client calls shows: the
  credentials handed over, the ones presented, the releases accepted.
\<close>

theorem gateway_refines:
  "\<exists>s. gatewayReachable s \<and>
     simulates (fst (gatewayRun ops (NewGateway (tracedConfig cfg)) (w, [])))
       (snd (snd (gatewayRun ops (NewGateway (tracedConfig cfg)) (w, [])))) s"
proof -
  obtain g' wl' where run: "gatewayRun ops (NewGateway (tracedConfig cfg)) (w, []) = (g', wl')"
    by (cases "gatewayRun ops (NewGateway (tracedConfig cfg)) (w, [])")
  from New_simulates [of cfg] gatewayRun_simulates [OF _ rtranclp.rtrancl_refl _ run] run
  show ?thesis by simp
qed

text \<open>
  C24: with the review authorizer, nothing is delivered before the caller named itself, the
  access review for that caller allowed the claim and did not deny it, and the quota
  admitted the namespace; otherwise the gateway is unchanged and sandboxd is not contacted.
  After authorization, the caller is told to fall back exactly when sandboxd has no
  capacity, and a delivery is held with its credential and queued for recording.
\<close>

theorem gateway_claim_authorized:
  assumes "gw_authz g = Some (Authorize ra)" and "Gateway_Claim req g w = (r, g', w')"
  shows "case Authorize ra req w of
     (Inl err, w1) \<Rightarrow> r = Inl (NotAuthorized (cq_Namespace req) (cq_ClaimName req) err) \<and> g' = g \<and> w' = w1
   | (Inr _, w1) \<Rightarrow>
       (\<exists>got w0. mget (cq_Selector req) RequestUserSelectorKey \<noteq> [] \<and>
          ra_Reviewer ra (claimReview ra req) w = (Inr got, w0) \<and> ad_Allowed got \<and> \<not> ad_Denied got \<and>
          (case ra_Quota ra of None \<Rightarrow> w1 = w0 | Some admit \<Rightarrow> admit (cq_Namespace req) w0 = (Inr (), w1))) \<and>
       (case sdc_Claim (gw_client g) (specFor g req) w1 of
          (Inl e, w2) \<Rightarrow> g' = g \<and> w' = w2 \<and> (\<exists>e'. r = Inl e' \<and> (IsFallback e' \<longleftrightarrow> e = NodeAtCapacity))
        | (Inr res, w2) \<Rightarrow> w' = w2 \<and> gw_holdings g' (cr_ID res) = Some (credential res) \<and>
            (\<exists>a. r = Inr a \<and> as_SandboxName a = cr_ID res \<and> as_Token a = cr_Token res \<and>
               gw_jobs g' = gw_jobs g @ [(cq_Namespace req, cq_ClaimName req, a)]))"
proof -
  obtain res w1 where az: "Authorize ra req w = (res, w1)" by (cases "Authorize ra req w")
  show ?thesis
  proof (cases res)
    case (Inl err)
    with assms az show ?thesis by (simp add: Gateway_Claim_def authorizeClaim_def)
  next
    case (Inr u)
    have "\<exists>got w0. mget (cq_Selector req) RequestUserSelectorKey \<noteq> [] \<and>
          ra_Reviewer ra (claimReview ra req) w = (Inr got, w0) \<and> ad_Allowed got \<and> \<not> ad_Denied got \<and>
          (case ra_Quota ra of None \<Rightarrow> w1 = w0 | Some admit \<Rightarrow> admit (cq_Namespace req) w0 = (Inr (), w1))"
      using az Inr by (auto simp: Authorize_def Let_def split: if_splits prod.splits sum.splits option.splits)
    moreover note assms az Inr
    ultimately show ?thesis
      by (auto simp: Gateway_Claim_def authorizeClaim_def Let_def enqueueRecord_def addHolding_def
          credential_def split: prod.splits sum.splits)
  qed
qed

text \<open>A node that hands over one sandbox; the world counts the calls that reached it.\<close>

definition demoNode :: "nat SandboxdClient" where
  "demoNode = \<lparr>sdc_Claim = (\<lambda>_ n. (Inr demoResult, Suc n)), sdc_Release = (\<lambda>_ _ n. (Inr (), Suc n)),
     sdc_Hibernate = (\<lambda>_ n. (Inr (), n)), sdc_Wake = (\<lambda>_ n. (Inr (), n)), sdc_Fork = (\<lambda>_ _ n. (Inr [], n)),
     sdc_Checkpoint = (\<lambda>_ _ n. (Inl NodeAtCapacity, n)), sdc_Checkpoints = (\<lambda>n. (Inr [], n)),
     sdc_DeleteCheckpoint = (\<lambda>_ n. (Inr (), n)), sdc_ClaimCheckpoint = (\<lambda>_ _ n. (Inl NodeAtCapacity, n)),
     sdc_Promote = (\<lambda>_ _ n. (Inl NodeAtCapacity, n)), sdc_Stats = (\<lambda>_ n. (Inl NodeAtCapacity, n))\<rparr>"

definition demoReviewer :: "nat ReviewAuthorizer" where
  "demoReviewer = \<lparr>ra_Reviewer = (\<lambda>r n. (Inr \<lparr>ad_Allowed = ar_User r = ''ann'', ad_Denied = False, ad_Reason = ''rbac''\<rparr>, n)),
     ra_Quota = None, ra_Group = [], ra_Resource = [], ra_Verb = []\<rparr>"

definition demoGateway :: "nat nodeClaimGateway" where
  "demoGateway = NewGateway \<lparr>gc_Node = ''n1'', gc_Client = demoNode, gc_Authorizer = Some (Authorize demoReviewer),
     gc_Recorder = (\<lambda>_ _ _ n. (Inr (), n)), gc_DefaultTemplate = [], gc_DefaultNet = [], gc_DefaultSize = [],
     gc_TTLSeconds = 60, gc_RecordTimeout = 0\<rparr>"

definition demoRequest :: "string \<Rightarrow> ClaimRequest" where
  "demoRequest user = \<lparr>cq_Namespace = ''team'', cq_ClaimName = ''web'', cq_WarmPool = ''base'',
     cq_Selector = fmap_of_list [(RequestUserSelectorKey, user)]\<rparr>"

lemmas demo_gateway_eval = demoGateway_def NewGateway_def demoReviewer_def demoRequest_def Authorize_def
  claimReview_def Let_def mget_def

theorem gateway_claim_authorized_witness:
  "(\<exists>r g'. Gateway_Claim (demoRequest ''ann'') demoGateway 0 = (r, g', 1) \<and>
      gw_holdings g' ''vm-1'' = Some (credential demoResult)) \<and>
   (\<exists>r. Gateway_Claim (demoRequest ''bob'') demoGateway 0 = (r, demoGateway, 0) \<and> (\<exists>err. r = Inl err))"
proof -
  have g: "gw_authz demoGateway = Some (Authorize demoReviewer)" "gw_client demoGateway = demoNode"
    by (simp_all add: demoGateway_def NewGateway_def)
  obtain r g' w' r2 g2 w2 where c: "Gateway_Claim (demoRequest ''ann'') demoGateway 0 = (r, g', w')"
      "Gateway_Claim (demoRequest ''bob'') demoGateway 0 = (r2, g2, w2)"
    by (metis prod_cases3)
  have "Authorize demoReviewer (demoRequest ''ann'') 0 = (Inr (), 0)"
      "Authorize demoReviewer (demoRequest ''bob'') 0 = (Inl (NotAllowed ''bob'' ''team'' ''rbac''), 0)"
    by (simp_all add: demo_gateway_eval)
  with gateway_claim_authorized [OF g(1) c(1)] gateway_claim_authorized [OF g(1) c(2)] c g(2)
  show ?thesis by (auto simp: demoNode_def demoResult_def)
qed


definition demoOrphan :: SandboxClaim where
  "demoOrphan = \<lparr>sc_Meta = emptyMeta\<lparr>om_Namespace := ''team'', om_Name := ''web''\<rparr>,
     sc_Spec = \<lparr>cs_WarmPoolRef = ''base'', cs_Lifecycle = None,
        cs_AdditionalPodMetadata = \<lparr>pm_Labels = fmempty, pm_Annotations = fmempty\<rparr>, cs_Env = [], cs_VolumeClaimTemplates = []\<rparr>,
     sc_Status = \<lparr>cst_Conditions = [], cst_SandboxName = [], cst_PodIPs = []\<rparr>\<rparr>"

abbreviation "demoClaims \<equiv> memServer claimKey (\<lambda>x new. x\<lparr>sc_Status := sc_Status new\<rparr>)"

definition demoDelivery :: Delivery where
  "demoDelivery = \<lparr>dv_SandboxName = ''vm-1'', dv_Node = ''n1'', dv_Address = [], dv_ClaimNS = ''team'', dv_ClaimName = ''web''\<rparr>"


end
