(* ===== verification/Warm_Driver.thy ===== *)
theory Warm_Driver
  imports Scale_Store Kube_Client
begin

text \<open>
  The warm-pool driver of the aggregated API server (\<^verbatim>\<open>pkg/scale/warmpool/driver.go\<close>): one
  global reconcile resolves every SandboxWarmPool to a pool key, spreads its replicas over
  the schedulable nodes, replaces each node's pool set, and writes the warm counts back.

  The Kubernetes client of each kind and the node clients are parameters threading a world
  \<open>'w\<close>; the inventory source is read at one instant.  The requests of \<open>applyToNodes\<close> run
  concurrently in the code, each touching its own node view; the model runs them in node
  order.  Logging is not modelled.
\<close>

section \<open>Data\<close>

abbreviation "netAnnotation \<equiv> ''sandbox.cocoonstack.io/net''"

type_synonym 'w PoolSetter = "PoolSpec list \<Rightarrow> 'w \<Rightarrow> (sdError + NodeInfo option) \<times> 'w"

record 'w Driver =
  dr_pools :: "(SandboxWarmPool, 'w) kindClient"
  dr_templates :: "(SandboxTemplate, 'w) kindClient"
  dr_quantity :: quantityOps
  dr_token :: string
  dr_factory :: "string \<Rightarrow> string \<Rightarrow> 'w PoolSetter"
  dr_interval :: int

definition defaultInterval :: int where "defaultInterval = 5 * second"

definition NewDriver ::
  "(SandboxWarmPool, 'w) kindClient \<Rightarrow> (SandboxTemplate, 'w) kindClient \<Rightarrow> quantityOps \<Rightarrow> string
     \<Rightarrow> (string \<Rightarrow> string \<Rightarrow> 'w PoolSetter) \<Rightarrow> int \<Rightarrow> 'w Driver" where
  "NewDriver pools templates ops token fac interval = \<lparr>dr_pools = pools, dr_templates = templates,
     dr_quantity = ops, dr_token = token, dr_factory = fac,
     dr_interval = (if interval \<le> 0 then defaultInterval else interval)\<rparr>"

text \<open>A Go map read with the zero value for a missing key.\<close>

type_synonym warmCounts = "PoolKey \<rightharpoonup> int"

definition warmAt :: "warmCounts \<Rightarrow> PoolKey \<Rightarrow> int" where
  "warmAt m key = (case m key of None \<Rightarrow> 0 | Some n \<Rightarrow> n)"

record nodeView =
  nv_name :: string
  nv_addr :: string
  nv_warmBy :: warmCounts

record desiredPool =
  dp_nn :: "string \<times> string"
  dp_key :: PoolKey
  dp_targets :: "string \<rightharpoonup> int"

datatype driverError =
    ListPoolsFailed apiError
  | ListInventoriesFailed string

datatype poolKeyError =
    NoTemplateRef
  | GetTemplateFailed string string apiError

definition zeroPoolKey :: PoolKey where
  "zeroPoolKey = \<lparr>pk_Template = [], pk_Net = [], pk_Size = []\<rparr>"

section \<open>Spreading the targets\<close>

fun fillTargets :: "int \<Rightarrow> int \<Rightarrow> int \<Rightarrow> nodeView list \<Rightarrow> (string \<rightharpoonup> int) \<Rightarrow> (string \<rightharpoonup> int)" where
  "fillTargets base remainder i [] targets = targets"
| "fillTargets base remainder i (n # ns) targets =
     fillTargets base remainder (i + 1) ns
       (targets(nv_name n \<mapsto> (if i < remainder then base + 1 else base)))"

definition distribute :: "32 word \<Rightarrow> nodeView list \<Rightarrow> (string \<rightharpoonup> int)" where
  "distribute replicas nodes =
     (if nodes = [] then Map.empty
      else let tot = (if sint replicas < 0 then 0 else sint replicas);
               base = tot div int (length nodes);
               remainder = tot mod int (length nodes)
           in fillTargets base remainder 0 nodes Map.empty)"

section \<open>The steps of a reconcile\<close>

definition inventoryWarm :: "PoolCapacity list \<Rightarrow> warmCounts" where
  "inventoryWarm pcs =
     foldl (\<lambda>m pc. m(\<lparr>pk_Template = pc_Template pc, pk_Net = pc_Net pc, pk_Size = pc_Size pc\<rparr> \<mapsto> pc_Warm pc))
       Map.empty pcs"

fun nodeViews :: "InventoryView \<Rightarrow> string list \<Rightarrow> nodeView list" where
  "nodeViews src [] = []"
| "nodeViews src (name # names) =
     (case iv_NodeInventory src name of
        Inl _ \<Rightarrow> nodeViews src names
      | Inr ninv \<Rightarrow>
          if ni_Address ninv = [] then nodeViews src names
          else \<lparr>nv_name = name, nv_addr = ni_Address ninv, nv_warmBy = inventoryWarm (ni_Pools ninv)\<rparr>
                 # nodeViews src names)"

definition schedulableNodes :: "InventoryView \<Rightarrow> driverError + nodeView list" where
  "schedulableNodes src =
     (case iv_ListNodes src of
        Inl err \<Rightarrow> Inl (ListInventoriesFailed err)
      | Inr names \<Rightarrow> Inr (sort_key nv_name (nodeViews src names)))"

definition templateNet :: "SandboxTemplate \<Rightarrow> string" where
  "templateNet tmpl =
     (let net = mget (om_Annotations (tp_Meta tmpl)) netAnnotation
      in if net = []
         then mget (pm_Annotations (pt_Meta (bp_PodTemplate (ts_Blueprint (tp_Spec tmpl))))) netAnnotation
         else net)"

definition templateKey :: "quantityOps \<Rightarrow> SandboxTemplate \<Rightarrow> PoolKey" where
  "templateKey ops tmpl =
     PoolKeyFor ops (ps_Containers (pt_Spec (bp_PodTemplate (ts_Blueprint (tp_Spec tmpl))))) (templateNet tmpl)"

definition poolKey :: "'w Driver \<Rightarrow> SandboxWarmPool \<Rightarrow> 'w \<Rightarrow> poolKeyError + PoolKey" where
  "poolKey d p w =
     (let name = ws_TemplateRef (wp_Spec p); ns = om_Namespace (wp_Meta p)
      in if name = [] then Inl NoTemplateRef
         else case kc_Get (dr_templates d) ns name w of
                Inl err \<Rightarrow> Inl (GetTemplateFailed ns name err)
              | Inr tmpl \<Rightarrow> Inr (templateKey (dr_quantity d) tmpl))"

fun addTargets :: "string \<Rightarrow> desiredPool list \<Rightarrow> (PoolKey \<times> int) list \<Rightarrow> (PoolKey \<times> int) list" where
  "addTargets node [] byKey = byKey"
| "addTargets node (dp # dps) byKey =
     addTargets node dps
       (AList.update (dp_key dp)
          ((case map_of byKey (dp_key dp) of None \<Rightarrow> 0 | Some n \<Rightarrow> n)
           + (case dp_targets dp node of None \<Rightarrow> 0 | Some n \<Rightarrow> n)) byKey)"

definition poolSpec :: "PoolKey \<times> int \<Rightarrow> PoolSpec" where
  "poolSpec e = \<lparr>pl_Template = pk_Template (fst e), pl_Net = pk_Net (fst e), pl_Size = pk_Size (fst e), pl_Warm = snd e\<rparr>"

definition nodeSpecs :: "desiredPool list \<Rightarrow> string \<Rightarrow> PoolSpec list" where
  "nodeSpecs desired node =
     sort_key (\<lambda>s. (pl_Template s, pl_Net s, pl_Size s)) (map poolSpec (addTargets node desired []))"

definition warmByFrom :: "NodeInfo \<Rightarrow> warmCounts" where
  "warmByFrom info =
     foldl (\<lambda>m p. m(\<lparr>pk_Template = sp_Template (po_Key p), pk_Net = sp_Net (po_Key p), pk_Size = sp_Size (po_Key p)\<rparr>
                      \<mapsto> po_Warm p))
       Map.empty (nf_Pools info)"

fun putNodes :: "'w Driver \<Rightarrow> desiredPool list \<Rightarrow> nodeView list \<Rightarrow> 'w \<Rightarrow> nodeView list \<times> 'w" where
  "putNodes d desired [] w = ([], w)"
| "putNodes d desired (n # ns) w =
     (case dr_factory d (nv_addr n) (dr_token d) (nodeSpecs desired (nv_name n)) w of
        (res, w1) \<Rightarrow>
          let n' = (case res of Inr (Some info) \<Rightarrow> n\<lparr>nv_warmBy := warmByFrom info\<rparr> | _ \<Rightarrow> n)
          in case putNodes d desired ns w1 of (ns', w2) \<Rightarrow> (n' # ns', w2))"

definition applyToNodes :: "'w Driver \<Rightarrow> nodeView list \<Rightarrow> desiredPool list \<Rightarrow> 'w \<Rightarrow> nodeView list \<times> 'w" where
  "applyToNodes d nodes desired w = (if dr_token d = [] then (nodes, w) else putNodes d desired nodes w)"

definition totalWarm :: "nodeView list \<Rightarrow> PoolKey \<Rightarrow> int" where
  "totalWarm nodes key = sum_list (map (\<lambda>n. warmAt (nv_warmBy n) key) nodes)"

definition driverStatus :: "SandboxWarmPool \<Rightarrow> int \<Rightarrow> SandboxWarmPoolStatus" where
  "driverStatus p tot = \<lparr>wt_Replicas = word_of_int tot, wt_ReadyReplicas = word_of_int tot,
     wt_Selector = ''agents.x-k8s.io/warm-pool='' @ om_Name (wp_Meta p)\<rparr>"

definition Driver_writeStatus :: "'w Driver \<Rightarrow> SandboxWarmPool \<Rightarrow> nodeView list \<Rightarrow> PoolKey \<Rightarrow> 'w \<Rightarrow> 'w" where
  "Driver_writeStatus d p nodes key w =
     (let status = driverStatus p (totalWarm nodes key)
      in if wp_Status p = status then w
         else snd (kc_UpdateStatus (dr_pools d) (p\<lparr>wp_Status := status\<rparr>) w))"

definition poolReplicas :: "SandboxWarmPool \<Rightarrow> 32 word" where
  "poolReplicas p = (case ws_Replicas (wp_Spec p) of None \<Rightarrow> 1 | Some n \<Rightarrow> n)"

fun resolvePools ::
  "'w Driver \<Rightarrow> nodeView list \<Rightarrow> SandboxWarmPool list \<Rightarrow> 'w \<Rightarrow> desiredPool list \<times> 'w" where
  "resolvePools d nodes [] w = ([], w)"
| "resolvePools d nodes (p # ps) w =
     (case poolKey d p w of
        Inl _ \<Rightarrow> resolvePools d nodes ps (Driver_writeStatus d p nodes zeroPoolKey w)
      | Inr key \<Rightarrow>
          case resolvePools d nodes ps w of
            (desired, w') \<Rightarrow>
              (\<lparr>dp_nn = (om_Namespace (wp_Meta p), om_Name (wp_Meta p)), dp_key = key,
                dp_targets = distribute (poolReplicas p) nodes\<rparr> # desired, w'))"

fun writeStatuses :: "'w Driver \<Rightarrow> nodeView list \<Rightarrow> SandboxWarmPool list \<Rightarrow> 'w \<Rightarrow> 'w" where
  "writeStatuses d nodes [] w = w"
| "writeStatuses d nodes (p # ps) w =
     (case poolKey d p w of
        Inl _ \<Rightarrow> writeStatuses d nodes ps w
      | Inr key \<Rightarrow> writeStatuses d nodes ps (Driver_writeStatus d p nodes key w))"

definition reconcileOnce :: "'w Driver \<Rightarrow> InventoryView \<Rightarrow> 'w \<Rightarrow> (driverError + unit) \<times> 'w" where
  "reconcileOnce d src w =
     (case kc_List (dr_pools d) w of
        Inl err \<Rightarrow> (Inl (ListPoolsFailed err), w)
      | Inr pools \<Rightarrow>
          case schedulableNodes src of
            Inl err \<Rightarrow> (Inl err, w)
          | Inr nodes \<Rightarrow>
              case resolvePools d nodes pools w of
                (desired, w1) \<Rightarrow>
                  case applyToNodes d nodes desired w1 of
                    (nodes', w2) \<Rightarrow> (Inr (), writeStatuses d nodes' pools w2))"

text \<open>\<open>Inr\<close> is the delay after which the controller runs again.\<close>

definition Driver_Reconcile :: "'w Driver \<Rightarrow> InventoryView \<Rightarrow> 'w \<Rightarrow> (driverError + int) \<times> 'w" where
  "Driver_Reconcile d src w =
     (case reconcileOnce d src w of
        (Inl err, w') \<Rightarrow> (Inl err, w')
      | (Inr _, w') \<Rightarrow> (Inr (dr_interval d), w'))"

end
