(* ===== verification/Driver_Targets.thy ===== *)
theory Driver_Targets
  imports Warm_Driver
begin

text \<open>
  What a tick of the warm-pool driver sends to the nodes: the even spread of a pool's
  replicas, the aggregation of pools that share a key, and the fleet-wide totals.
\<close>

section \<open>The spread\<close>

lemma fillTargets_other:
  "name \<notin> nv_name ` set ns \<Longrightarrow> fillTargets b r i ns m name = m name"
  by (induction b r i ns m rule: fillTargets.induct) auto

lemma fillTargets_at:
  "distinct (map nv_name ns) \<Longrightarrow> j < length ns \<Longrightarrow>
     fillTargets b r i ns m (nv_name (ns ! j)) = Some (if i + int j < r then b + 1 else b)"
proof (induction ns arbitrary: i m j)
  case (Cons n ns)
  then show ?case
    by (cases j) (auto simp: fillTargets_other algebra_simps)
qed simp

lemma sum_targets:
  "sum_list (map (\<lambda>j. if int j < r then b + 1 else b) [0..<k]) = int k * b + (if int k < r then int k else max 0 r)"
  by (induction k) (auto simp: algebra_simps max_def)

definition targetAt :: "(string \<rightharpoonup> int) \<Rightarrow> string \<Rightarrow> int" where
  "targetAt targets name = (case targets name of None \<Rightarrow> 0 | Some n \<Rightarrow> n)"

lemma distribute_at:
  assumes "distinct (map nv_name nodes)" "j < length nodes"
  shows "targetAt (distribute r nodes) (nv_name (nodes ! j)) =
     (let t = max 0 (sint r) in t div int (length nodes) + (if int j < t mod int (length nodes) then 1 else 0))"
  using assms fillTargets_at [of nodes j _ _ 0]
  by (auto simp: distribute_def targetAt_def Let_def max_def)

lemma distribute_sum:
  assumes "distinct (map nv_name nodes)" "nodes \<noteq> []"
  shows "sum_list (map (\<lambda>n. targetAt (distribute r nodes) (nv_name n)) nodes) = max 0 (sint r)"
proof -
  let ?t = "max 0 (sint r)" and ?n = "length nodes"
  have "map (\<lambda>n. targetAt (distribute r nodes) (nv_name n)) nodes =
      map (\<lambda>j. if int j < ?t mod int ?n then ?t div int ?n + 1 else ?t div int ?n) [0..<?n]"
    by (rule nth_equalityI) (simp_all add: distribute_at [OF assms(1)] Let_def)
  moreover have "\<not> int ?n < ?t mod int ?n" "0 \<le> ?t mod int ?n"
    using assms(2) by (simp_all add: pos_mod_bound less_imp_le not_less)
  ultimately show ?thesis
    using mult_div_mod_eq [of "int ?n" ?t] by (simp only: sum_targets) (simp add: max_def)
qed

section \<open>One specification per key\<close>

definition specKey :: "PoolSpec \<Rightarrow> PoolKey" where
  "specKey s = \<lparr>pk_Template = pl_Template s, pk_Net = pl_Net s, pk_Size = pl_Size s\<rparr>"

definition warmFor :: "PoolKey \<Rightarrow> PoolSpec list \<Rightarrow> int" where
  "warmFor k specs = sum_list (map pl_Warm (filter (\<lambda>s. specKey s = k) specs))"

lemma specKey_poolSpec [simp]: "specKey (poolSpec e) = fst e" "pl_Warm (poolSpec e) = snd e"
  by (simp_all add: specKey_def poolSpec_def)

lemma addTargets_distinct:
  "distinct (map fst bk) \<Longrightarrow> distinct (map fst (addTargets node dps bk))"
  by (induction node dps bk rule: addTargets.induct) (simp_all add: distinct_update)

lemma addTargets_keys:
  "fst ` set (addTargets node dps bk) = dp_key ` set dps \<union> fst ` set bk"
  by (induction node dps bk rule: addTargets.induct) (auto simp: dom_update)

definition countAt :: "(PoolKey \<times> int) list \<Rightarrow> PoolKey \<Rightarrow> int" where
  "countAt bk k = (case map_of bk k of None \<Rightarrow> 0 | Some n \<Rightarrow> n)"

lemma addTargets_count:
  "countAt (addTargets node dps bk) k =
     countAt bk k + sum_list (map (\<lambda>dp. if dp_key dp = k then targetAt (dp_targets dp) node else 0) dps)"
  by (induction node dps bk rule: addTargets.induct)
    (auto simp: countAt_def targetAt_def update_conv')

lemma count_filter:
  "distinct (map fst bk) \<Longrightarrow> sum_list (map snd (filter (\<lambda>e. fst e = k) bk)) = countAt bk k"
proof (induction bk)
  case (Cons e bk)
  show ?case
  proof (cases "fst e = k")
    case True
    then have "k \<notin> fst ` set bk" using Cons.prems by simp
    then have "filter (\<lambda>e. fst e = k) bk = []" by (auto simp: filter_empty_conv intro: rev_image_eqI)
    with True show ?thesis by (cases e) (simp add: countAt_def)
  next
    case False
    with Cons show ?thesis by (cases e) (simp add: countAt_def)
  qed
qed (simp add: countAt_def)

lemma warmFor_sort: "warmFor k (sort_key f specs) = warmFor k specs"
  unfolding warmFor_def sum_mset_sum_list [symmetric] mset_map mset_filter mset_sort ..

lemma nodeSpecs_warm:
  "warmFor k (nodeSpecs desired node) =
     sum_list (map (\<lambda>dp. if dp_key dp = k then targetAt (dp_targets dp) node else 0) desired)"
proof -
  have "warmFor k (map poolSpec bk) = sum_list (map snd (filter (\<lambda>e. fst e = k) bk))" for bk
    by (induction bk) (simp_all add: warmFor_def)
  then have "warmFor k (nodeSpecs desired node) = countAt (addTargets node desired []) k"
    by (simp add: nodeSpecs_def warmFor_sort count_filter addTargets_distinct)
  then show ?thesis by (simp add: addTargets_count) (simp add: countAt_def)
qed

lemma nodeSpecs_keys:
  "distinct (map specKey (nodeSpecs desired node))"
  "specKey ` set (nodeSpecs desired node) = dp_key ` set desired"
proof -
  let ?specs = "map poolSpec (addTargets node desired [])"
  have "map specKey ?specs = map fst (addTargets node desired [])" by simp
  then have "distinct (map specKey ?specs)" by (simp only: addTargets_distinct list.map distinct.simps)
  moreover have "mset (map specKey (nodeSpecs desired node)) = mset (map specKey ?specs)"
    unfolding nodeSpecs_def by (simp only: mset_map mset_sort)
  ultimately show "distinct (map specKey (nodeSpecs desired node))" by (metis mset_eq_imp_distinct_iff)
  show "specKey ` set (nodeSpecs desired node) = dp_key ` set desired"
    by (simp add: nodeSpecs_def image_image addTargets_keys)
qed

section \<open>The requests of a tick\<close>

text \<open>A log of the requests, beside any world: the address and the pools of every PUT.\<close>

definition besideKind :: "('o, 'w) kindClient \<Rightarrow> ('o, 'w \<times> 'l) kindClient" where
  "besideKind kc = \<lparr>kc_Get = (\<lambda>ns n wl. kc_Get kc ns n (fst wl)), kc_List = (\<lambda>wl. kc_List kc (fst wl)),
     kc_UpdateStatus = (\<lambda>new wl. case kc_UpdateStatus kc new (fst wl) of (r, w) \<Rightarrow> (r, w, snd wl)),
     kc_PatchStatus = (\<lambda>orig new wl. case kc_PatchStatus kc orig new (fst wl) of (r, w) \<Rightarrow> (r, w, snd wl))\<rparr>"

type_synonym putLog = "(string \<times> PoolSpec list) list"

definition tracedDriver :: "'w Driver \<Rightarrow> ('w \<times> putLog) Driver" where
  "tracedDriver d = \<lparr>dr_pools = besideKind (dr_pools d), dr_templates = besideKind (dr_templates d),
     dr_quantity = dr_quantity d, dr_token = dr_token d,
     dr_factory = (\<lambda>addr token specs wl.
        case dr_factory d addr token specs (fst wl) of (r, w) \<Rightarrow> (r, w, snd wl @ [(addr, specs)])),
     dr_interval = dr_interval d\<rparr>"

text \<open>Templates and warm pools are different kinds: a status write moves no template read.\<close>

definition separateKinds :: "'w Driver \<Rightarrow> bool" where
  "separateKinds d \<longleftrightarrow> (\<forall>p w ns n. kc_Get (dr_templates d) ns n (snd (kc_UpdateStatus (dr_pools d) p w)) =
     kc_Get (dr_templates d) ns n w)"

lemma besideKind_calls [simp]:
  "kc_Get (besideKind kc) ns n wl = kc_Get kc ns n (fst wl)"
  "kc_List (besideKind kc) wl = kc_List kc (fst wl)"
  "snd (kc_UpdateStatus (besideKind kc) new wl) = (snd (kc_UpdateStatus kc new (fst wl)), snd wl)"
  by (simp_all add: besideKind_def case_prod_beta)

lemma tracedDriver_fields [simp]:
  "dr_pools (tracedDriver d) = besideKind (dr_pools d)"
  "dr_templates (tracedDriver d) = besideKind (dr_templates d)"
  "dr_quantity (tracedDriver d) = dr_quantity d" "dr_token (tracedDriver d) = dr_token d"
  "dr_factory (tracedDriver d) addr token specs wl =
     (fst (dr_factory d addr token specs (fst wl)), snd (dr_factory d addr token specs (fst wl)),
      snd wl @ [(addr, specs)])"
  by (simp_all add: tracedDriver_def case_prod_beta)

lemma tracedDriver_poolKey [simp]: "poolKey (tracedDriver d) p wl = poolKey d p (fst wl)"
  by (simp add: poolKey_def Let_def split: sum.split)

lemma tracedDriver_writeStatus:
  "Driver_writeStatus (tracedDriver d) p nodes key wl = (Driver_writeStatus d p nodes key (fst wl), snd wl)"
  by (simp add: Driver_writeStatus_def Let_def)

lemma poolKey_writeStatus:
  "separateKinds d \<Longrightarrow> poolKey d q (Driver_writeStatus d p nodes key w) = poolKey d q w"
  by (simp add: poolKey_def Driver_writeStatus_def separateKinds_def Let_def)

definition desiredFor :: "'w Driver \<Rightarrow> nodeView list \<Rightarrow> 'w \<Rightarrow> SandboxWarmPool \<Rightarrow> desiredPool list" where
  "desiredFor d nodes w p = (case poolKey d p w of
     Inl _ \<Rightarrow> []
   | Inr key \<Rightarrow> [\<lparr>dp_nn = (om_Namespace (wp_Meta p), om_Name (wp_Meta p)), dp_key = key,
       dp_targets = distribute (poolReplicas p) nodes\<rparr>])"

lemma desiredFor_writeStatus:
  "separateKinds d \<Longrightarrow> desiredFor d nodes (Driver_writeStatus d p nodes' key w) = desiredFor d nodes w"
  by (rule ext) (simp add: desiredFor_def poolKey_writeStatus)

lemma resolvePools_desired:
  "separateKinds d \<Longrightarrow> fst (resolvePools (tracedDriver d) nodes pools wl) = concat (map (desiredFor d nodes (fst wl)) pools)
     \<and> snd (snd (resolvePools (tracedDriver d) nodes pools wl)) = snd wl"
proof (induction pools arbitrary: wl)
  case (Cons p pools)
  show ?case
  proof (cases "poolKey d p (fst wl)")
    case (Inl err)
    with Cons show ?thesis
      by (simp add: tracedDriver_writeStatus desiredFor_writeStatus) (simp add: desiredFor_def)
  next
    case (Inr key)
    with Cons show ?thesis
      by (simp add: case_prod_beta) (simp add: desiredFor_def)
  qed
qed simp

lemma putNodes_log:
  "snd (snd (putNodes (tracedDriver d) desired nodes wl)) =
     snd wl @ map (\<lambda>n. (nv_addr n, nodeSpecs desired (nv_name n))) nodes"
  by (induction nodes arbitrary: wl) (simp_all add: Let_def case_prod_beta)

lemma writeStatuses_log [simp]:
  "snd (writeStatuses (tracedDriver d) nodes pools wl) = snd wl"
  by (induction pools arbitrary: wl) (simp_all add: tracedDriver_writeStatus split: sum.split)

lemma tick_log:
  assumes "Driver_Reconcile (tracedDriver d) src (w, []) = (Inr t, w', puts)" and "separateKinds d"
    and "dr_token d \<noteq> []" "kc_List (dr_pools d) w = Inr pools" "schedulableNodes src = Inr nodes"
  shows "puts = map (\<lambda>n. (nv_addr n, nodeSpecs (concat (map (desiredFor d nodes w) pools)) (nv_name n))) nodes"
proof -
  obtain desired w1 l1 where r: "resolvePools (tracedDriver d) nodes pools (w, []) = (desired, w1, l1)"
    by (cases "resolvePools (tracedDriver d) nodes pools (w, [])") auto
  with resolvePools_desired [OF assms(2), of nodes pools "(w, [])"]
  have desired: "desired = concat (map (desiredFor d nodes w) pools)" "l1 = []" by simp_all
  obtain nodes' w2 l2 where p: "putNodes (tracedDriver d) desired nodes (w1, []) = (nodes', w2, l2)"
    by (cases "putNodes (tracedDriver d) desired nodes (w1, [])") auto
  with putNodes_log [of d desired nodes "(w1, [])"]
  have "l2 = map (\<lambda>n. (nv_addr n, nodeSpecs desired (nv_name n))) nodes" by simp
  moreover have "kc_List (dr_pools (tracedDriver d)) (w, []) = Inr pools" "dr_token (tracedDriver d) \<noteq> []"
    using assms(3,4) by simp_all
  then have "snd (snd (Driver_Reconcile (tracedDriver d) src (w, []))) = l2"
    using r p desired assms(5) by (simp add: Driver_Reconcile_def reconcileOnce_def applyToNodes_def)
  ultimately show ?thesis using assms(1) desired by simp
qed

section \<open>Fleet totals\<close>

lemma nodeViews_names: "set (map nv_name (nodeViews src names)) \<subseteq> set names"
  by (induction names) (auto split: sum.split)

lemma nodeViews_distinct: "distinct names \<Longrightarrow> distinct (map nv_name (nodeViews src names))"
  by (induction names) (use nodeViews_names in \<open>fastforce split: sum.split\<close>)+

lemma schedulable_distinct:
  assumes "schedulableNodes src = Inr nodes" "iv_ListNodes src = Inr names" "distinct names"
  shows "distinct (map nv_name nodes)"
proof -
  have nodes: "nodes = sort_key nv_name (nodeViews src names)"
    using assms(1,2) by (simp add: schedulableNodes_def)
  then have "mset (map nv_name nodes) = mset (map nv_name (nodeViews src names))"
    by (simp only: mset_map mset_sort)
  with nodeViews_distinct [OF assms(3)] show ?thesis by (metis mset_eq_imp_distinct_iff)
qed

lemma desiredFor_total:
  assumes "distinct (map nv_name nodes)" "nodes \<noteq> []"
  shows "sum_list (map (\<lambda>n. warmFor k (nodeSpecs (desiredFor d nodes w p) (nv_name n))) nodes) =
    (if poolKey d p w = Inr k then max 0 (sint (poolReplicas p)) else 0)"
  using distribute_sum [OF assms] by (simp add: desiredFor_def nodeSpecs_warm split: sum.split)

lemma fleet_total:
  assumes "distinct (map nv_name nodes)" "nodes \<noteq> []"
  shows "sum_list (map (\<lambda>n. warmFor k (nodeSpecs (concat (map (desiredFor d nodes w) pools)) (nv_name n))) nodes) =
    sum_list (map (\<lambda>p. if poolKey d p w = Inr k then max 0 (sint (poolReplicas p)) else 0) pools)"
proof (induction pools)
  case Nil
  show ?case by (simp add: nodeSpecs_warm)
next
  case (Cons p pools)
  have "warmFor k (nodeSpecs (concat (map (desiredFor d nodes w) (p # pools))) n) =
      warmFor k (nodeSpecs (desiredFor d nodes w p) n) +
      warmFor k (nodeSpecs (concat (map (desiredFor d nodes w) pools)) n)" for n
    by (simp add: nodeSpecs_warm)
  with Cons desiredFor_total [OF assms, of k d w p] show ?case by (simp add: sum_list_addf)
qed

lemma desired_keys:
  "dp_key ` set (concat (map (desiredFor d nodes w) pools)) = {k. \<exists>p \<in> set pools. poolKey d p w = Inr k}"
proof -
  have "dp_key ` set (desiredFor d nodes w p) = {k. poolKey d p w = Inr k}" for p
    by (auto simp: desiredFor_def split: sum.split)
  then show ?thesis by (fastforce simp: image_UN)
qed

section \<open>Properties\<close>

text \<open>
  The spread of a pool's replicas over distinct nodes is exact and even: the targets add
  up to the requested replicas, none when negative, and no two nodes differ by more than one.
\<close>

theorem distribute_even:
  assumes "distinct (map nv_name nodes)" and "nodes \<noteq> []"
  shows "sum_list (map (\<lambda>n. targetAt (distribute r nodes) (nv_name n)) nodes) = max 0 (sint r) \<and>
    (\<forall>n \<in> set nodes. \<forall>m \<in> set nodes.
       \<bar>targetAt (distribute r nodes) (nv_name n) - targetAt (distribute r nodes) (nv_name m)\<bar> \<le> 1)"
proof (intro conjI ballI)
  show "sum_list (map (\<lambda>n. targetAt (distribute r nodes) (nv_name n)) nodes) = max 0 (sint r)"
    by (rule distribute_sum [OF assms])
next
  fix n m
  assume "n \<in> set nodes" "m \<in> set nodes"
  then show "\<bar>targetAt (distribute r nodes) (nv_name n) - targetAt (distribute r nodes) (nv_name m)\<bar> \<le> 1"
    using distribute_at [OF assms(1)] by (auto simp: in_set_conv_nth Let_def)
qed

abbreviation demoNodeView :: "string \<Rightarrow> nodeView" where
  "demoNodeView name \<equiv> \<lparr>nv_name = name, nv_addr = name @ '':80'', nv_warmBy = Map.empty\<rparr>"

theorem distribute_even_witness:
  "targetAt (distribute 5 [demoNodeView ''a'', demoNodeView ''b'']) ''a'' +
   targetAt (distribute 5 [demoNodeView ''a'', demoNodeView ''b'']) ''b'' = 5 \<and>
   \<bar>targetAt (distribute 5 [demoNodeView ''a'', demoNodeView ''b'']) ''a'' -
    targetAt (distribute 5 [demoNodeView ''a'', demoNodeView ''b'']) ''b''\<bar> \<le> 1"
  using distribute_even [of "[demoNodeView ''a'', demoNodeView ''b'']" 5] by simp

text \<open>
  C27: a tick sends every schedulable node one request; each request names every resolved
  pool key exactly once, pools that share a key being merged, and over the fleet the warm
  targets of a key add up to the replicas of the pools that resolve to it.
\<close>

theorem driver_tick_exact:
  assumes "Driver_Reconcile (tracedDriver d) src (w, []) = (Inr t, w', puts)" and "separateKinds d"
    and "dr_token d \<noteq> []" and "kc_List (dr_pools d) w = Inr pools"
    and "schedulableNodes src = Inr nodes" and "nodes \<noteq> []"
    and "iv_ListNodes src = Inr names" and "distinct names"
  shows "map fst puts = map nv_addr nodes \<and>
    (\<forall>(addr, specs) \<in> set puts. distinct (map specKey specs) \<and>
       specKey ` set specs = {k. \<exists>p \<in> set pools. poolKey d p w = Inr k}) \<and>
    sum_list (map (\<lambda>(addr, specs). warmFor k specs) puts) =
      sum_list (map (\<lambda>p. if poolKey d p w = Inr k then max 0 (sint (poolReplicas p)) else 0) pools)"
proof -
  note log = tick_log [OF assms(1-5)]
  note distinct = schedulable_distinct [OF assms(5,7,8)]
  have keys: "distinct (map specKey specs) \<and> specKey ` set specs = {k. \<exists>p \<in> set pools. poolKey d p w = Inr k}"
    if "(addr, specs) \<in> set puts" for addr specs
  proof -
    from that obtain node where "specs = nodeSpecs (concat (map (desiredFor d nodes w) pools)) node"
      unfolding log by auto
    then show ?thesis by (simp only: nodeSpecs_keys desired_keys)
  qed
  have addrs: "map fst puts = map nv_addr nodes" by (simp add: log)
  have sums: "sum_list (map (\<lambda>(addr, specs). warmFor k specs) puts) =
      sum_list (map (\<lambda>p. if poolKey d p w = Inr k then max 0 (sint (poolReplicas p)) else 0) pools)"
    using fleet_total [OF distinct assms(6), of k d w pools] by (simp add: log comp_def)
  show ?thesis
    unfolding Ball_def split_paired_All prod.case using keys addrs sums by blast
qed

text \<open>Two nodes, two pools that resolve to one key, one with no replicas given.\<close>

definition demoTemplate :: SandboxTemplate where
  "demoTemplate = \<lparr>tp_Meta = emptyMeta\<lparr>om_Namespace := ''team'', om_Name := ''rt''\<rparr>,
     tp_Spec = \<lparr>ts_Blueprint = emptyBlueprint\<lparr>bp_PodTemplate := \<lparr>pt_Spec = emptyPodSpec\<lparr>ps_Containers := [demoContainer ''3Gi'']\<rparr>,
         pt_Meta = \<lparr>pm_Labels = fmempty, pm_Annotations = fmempty\<rparr>\<rparr>\<rparr>,
       ts_NetworkPolicy = None, ts_NetworkPolicyManagement = [], ts_EnvVarsInjectionPolicy = [],
       ts_VolumeClaimTemplatesPolicy = []\<rparr>\<rparr>"

definition demoWarmPool :: "string \<Rightarrow> 32 word option \<Rightarrow> SandboxWarmPool" where
  "demoWarmPool name replicas = \<lparr>wp_Meta = emptyMeta\<lparr>om_Namespace := ''team'', om_Name := name\<rparr>,
     wp_Spec = \<lparr>ws_Replicas = replicas, ws_TemplateRef = ''rt'', ws_UpdateStrategy = None\<rparr>,
     wp_Status = \<lparr>wt_Replicas = 0, wt_ReadyReplicas = 0, wt_Selector = []\<rparr>\<rparr>"

definition demoDriver :: "(apiError + SandboxTemplate) \<Rightarrow> unit Driver" where
  "demoDriver tmpl = NewDriver
     \<lparr>kc_Get = (\<lambda>_ _ _. Inl (Failed [])), kc_List = (\<lambda>_. Inr [demoWarmPool ''p'' (Some 4), demoWarmPool ''q'' None]),
      kc_UpdateStatus = (\<lambda>p _. (Inr p, ())), kc_PatchStatus = (\<lambda>_ p _. (Inr p, ()))\<rparr>
     \<lparr>kc_Get = (\<lambda>_ _ _. tmpl), kc_List = (\<lambda>_. Inr []), kc_UpdateStatus = (\<lambda>p _. (Inr p, ())), kc_PatchStatus = (\<lambda>_ p _. (Inr p, ()))\<rparr>
     demoQuantity ''tok'' (\<lambda>_ _ _ _. (Inr None, ())) 0"

definition demoNodes :: InventoryView where
  "demoNodes = \<lparr>iv_ListNodes = Inr [''a'', ''b''],
     iv_NodeInventory = (\<lambda>n. Inr \<lparr>ni_ResourceVersion = ''1'', ni_Node = n, ni_Entries = [], ni_Address = n @ '':80'', ni_Pools = []\<rparr>)\<rparr>"

theorem driver_tick_exact_witness:
  "\<exists>t w' puts. Driver_Reconcile (tracedDriver (demoDriver (Inr demoTemplate))) demoNodes ((), []) = (Inr t, w', puts) \<and>
     length puts = 2 \<and> sum_list (map (\<lambda>(addr, specs). warmFor (templateKey demoQuantity demoTemplate) specs) puts) = 5"
proof -
  let ?d = "demoDriver (Inr demoTemplate)" and ?k = "templateKey demoQuantity demoTemplate"
  let ?pools = "[demoWarmPool ''p'' (Some 4), demoWarmPool ''q'' None]"
  let ?nodes = "[\<lparr>nv_name = ''a'', nv_addr = ''a:80'', nv_warmBy = Map.empty\<rparr>, \<lparr>nv_name = ''b'', nv_addr = ''b:80'', nv_warmBy = Map.empty\<rparr>]"
  have d: "kc_List (dr_pools ?d) () = Inr ?pools" "dr_token ?d \<noteq> []" "separateKinds ?d"
      "kc_Get (dr_templates ?d) ns n () = Inr demoTemplate" "dr_quantity ?d = demoQuantity" for ns n
    by (simp_all add: demoDriver_def NewDriver_def separateKinds_def)
  have names: "iv_ListNodes demoNodes = Inr [''a'', ''b'']" by (simp add: demoNodes_def)
  have nodes: "schedulableNodes demoNodes = Inr ?nodes"
    by (simp add: schedulableNodes_def demoNodes_def inventoryWarm_def insort_key_def)
  have keys: "poolKey ?d p () = Inr ?k" if "p \<in> set ?pools" for p
    using that d by (auto simp: poolKey_def demoWarmPool_def)
  have reps: "poolReplicas (demoWarmPool ''p'' (Some 4)) = 4" "poolReplicas (demoWarmPool ''q'' None) = 1"
    by (simp_all add: poolReplicas_def demoWarmPool_def)
  obtain r w' puts where run: "Driver_Reconcile (tracedDriver ?d) demoNodes ((), []) = (r, w', puts)"
    by (metis prod_cases3)
  have "\<exists>t. r = Inr t"
    using run d(1) nodes by (auto simp: Driver_Reconcile_def reconcileOnce_def split: prod.splits)
  then obtain t where r: "r = Inr t" by blast
  from driver_tick_exact [OF run [unfolded r] d(3,2,1) nodes _ names, of ?k] keys reps
  show ?thesis using run r by (auto dest: map_eq_imp_length_eq)
qed

text \<open>
  A warm pool whose template cannot be read this tick is left out of every node's pool
  set, which drains it, and its status is reset to zero replicas, whatever warm capacity the
  nodes report for it: the status is computed for the empty key.
\<close>

theorem unresolved_pool_zeroed:
  assumes "poolKey d p w = Inl err" and "\<And>n. n \<in> set nodes \<Longrightarrow> nv_warmBy n zeroPoolKey = None"
    and "wp_Status p \<noteq> driverStatus p 0"
  shows "resolvePools d nodes [p] w =
      ([], snd (kc_UpdateStatus (dr_pools d) (p\<lparr>wp_Status := driverStatus p 0\<rparr>) w)) \<and>
    nodeSpecs (fst (resolvePools d nodes [p] w)) node = []"
proof -
  have "totalWarm nodes zeroPoolKey = 0"
    using assms(2) by (induction nodes) (simp_all add: totalWarm_def warmAt_def)
  with assms(1,3) show ?thesis by (simp add: Driver_writeStatus_def Let_def nodeSpecs_def)
qed

definition demoWarmNode :: nodeView where
  "demoWarmNode = \<lparr>nv_name = ''a'', nv_addr = ''a:80'', nv_warmBy = [templateKey demoQuantity demoTemplate \<mapsto> 4]\<rparr>"

definition demoRecording :: "(SandboxWarmPool list) Driver" where
  "demoRecording = NewDriver
     \<lparr>kc_Get = (\<lambda>_ _ _. Inl (Failed [])), kc_List = (\<lambda>_. Inr []),
      kc_UpdateStatus = (\<lambda>p l. (Inr p, l @ [p])), kc_PatchStatus = (\<lambda>_ p l. (Inr p, l))\<rparr>
     \<lparr>kc_Get = (\<lambda>_ _ _. Inl (Failed ''timeout'')), kc_List = (\<lambda>_. Inr []), kc_UpdateStatus = (\<lambda>p l. (Inr p, l)), kc_PatchStatus = (\<lambda>_ p l. (Inr p, l))\<rparr>
     demoQuantity ''tok'' (\<lambda>_ _ _ l. (Inr None, l)) 0"

theorem unresolved_pool_zeroed_witness:
  "totalWarm [demoWarmNode] (templateKey demoQuantity demoTemplate) = 4 \<and>
   map (wt_Replicas \<circ> wp_Status) (snd (resolvePools demoRecording [demoWarmNode] [demoWarmPool ''p'' (Some 4)] [])) = [0]"
proof -
  let ?p = "demoWarmPool ''p'' (Some 4)"
  have f: "poolKey demoRecording ?p [] = Inl (GetTemplateFailed ''team'' ''rt'' (Failed ''timeout''))"
    by (simp add: poolKey_def demoRecording_def NewDriver_def demoWarmPool_def)
  have k: "templateKey demoQuantity demoTemplate \<noteq> zeroPoolKey"
    by (simp add: templateKey_def PoolKeyFor_def zeroPoolKey_def demoTemplate_def demoContainer_def)
  have s: "wp_Status ?p \<noteq> driverStatus ?p 0"
    by (simp add: demoWarmPool_def driverStatus_def)
  from unresolved_pool_zeroed [OF f _ s, of "[demoWarmNode]"] k
  show ?thesis
    by (simp add: demoWarmNode_def totalWarm_def warmAt_def demoRecording_def NewDriver_def driverStatus_def)
qed

end
