(* ===== verification/Pod_Metadata.thy ===== *)
theory Pod_Metadata
  imports Kube_Client Go_Strconv
begin

text \<open>
  How the sandbox controller stamps labels and annotations on Pods
  (\<^verbatim>\<open>controllers/sandbox_controller.go\<close>, \<^verbatim>\<open>internal/metrics/metrics.go\<close>): which keys are
  reserved, what a new Pod carries, and how an existing Pod is brought in line.

  Go's iteration over a string map is a fold over its keys in order; the code sorts what it
  collects, and each key is handled independently of the others.  The group of an API version
  (\<^verbatim>\<open>schema.FromAPIVersionAndKind\<close>) is the parameter \<open>groupOf\<close>.
\<close>

section \<open>Strings\<close>

definition hasPrefix :: "string \<Rightarrow> string \<Rightarrow> bool" where
  "hasPrefix s p \<longleftrightarrow> take (length p) s = p"

text \<open>\<open>strings.Split\<close> and \<open>strings.Join\<close> with a one-character separator.\<close>

fun splitOn :: "char \<Rightarrow> string \<Rightarrow> string list" where
  "splitOn c [] = [[]]"
| "splitOn c (x # xs) =
     (if x = c then [] # splitOn c xs
      else case splitOn c xs of [] \<Rightarrow> [[x]] | y # ys \<Rightarrow> (x # y) # ys)"

fun joinWith :: "char \<Rightarrow> string list \<Rightarrow> string" where
  "joinWith c [] = []"
| "joinWith c [s] = s"
| "joinWith c (s # ss) = s @ c # joinWith c ss"

section \<open>Names and reserved keys\<close>

abbreviation "sandboxLabel \<equiv> ''agents.x-k8s.io/sandbox-name-hash''"
abbreviation "TraceContextAnnotation \<equiv> ''opentelemetry.io/trace-context''"
abbreviation "extensionsGroup \<equiv> ''extensions.agents.x-k8s.io''"

definition GetNumericHash :: "string \<Rightarrow> 32 word" where
  "GetNumericHash input = fnv32a input"

definition NameHash :: "string \<Rightarrow> string" where
  "NameHash objectName = hex8 (GetNumericHash objectName)"

definition hasSystemReservedPrefix :: "string \<Rightarrow> bool" where
  "hasSystemReservedPrefix key \<longleftrightarrow>
     hasPrefix key ''agents.x-k8s.io/'' \<or> hasPrefix key ''extensions.agents.x-k8s.io/''"

definition isSystemLabel :: "string \<Rightarrow> bool" where
  "isSystemLabel key \<longleftrightarrow> hasSystemReservedPrefix key"

definition isSystemAnnotation :: "string \<Rightarrow> bool" where
  "isSystemAnnotation key \<longleftrightarrow> hasSystemReservedPrefix key \<or> key = TraceContextAnnotation"

definition isControllerManagedPodAnnotation :: "string \<Rightarrow> bool" where
  "isControllerManagedPodAnnotation key \<longleftrightarrow>
     key = SandboxPropagatedLabelsAnnotation \<or> key = SandboxPropagatedAnnotationsAnnotation"

definition NormalizeCreatedBy :: "string \<Rightarrow> string" where
  "NormalizeCreatedBy createdBy =
     (if createdBy \<in> {''go-client'', ''python-client'', ''controller'', ''loadgen''} then createdBy else ''unknown'')"

section \<open>The labels the controller owns\<close>

definition extensionOwner :: "apimachinery \<Rightarrow> (string \<Rightarrow> string) \<Rightarrow> Sandbox \<Rightarrow> string option" where
  "extensionOwner api groupOf sandbox =
     (case GetControllerOf api (sb_Meta sandbox) of
        None \<Rightarrow> None
      | Some ref \<Rightarrow> if groupOf (or_APIVersion ref) = extensionsGroup then Some (or_Kind ref) else None)"

definition expectedWarmPoolHash :: "apimachinery \<Rightarrow> (string \<Rightarrow> string) \<Rightarrow> Sandbox \<Rightarrow> string" where
  "expectedWarmPoolHash api groupOf sandbox =
     (if extensionOwner api groupOf sandbox = Some ''SandboxWarmPool''
      then mget (om_Labels (sb_Meta sandbox)) SandboxWarmPoolLabel else [])"

definition expectedTemplateRefHash :: "apimachinery \<Rightarrow> (string \<Rightarrow> string) \<Rightarrow> Sandbox \<Rightarrow> string" where
  "expectedTemplateRefHash api groupOf sandbox =
     (if extensionOwner api groupOf sandbox \<noteq> None
      then mget (om_Labels (sb_Meta sandbox)) SandboxTemplateRefHashLabel else [])"

definition expectedCreatedBy :: "Sandbox \<Rightarrow> string" where
  "expectedCreatedBy sandbox =
     (case fmlookup (om_Labels (sb_Meta sandbox)) CreatedByLabel of
        Some val \<Rightarrow> if val \<noteq> [] then NormalizeCreatedBy val else []
      | None \<Rightarrow> [])"

abbreviation podTemplateLabels :: "Sandbox \<Rightarrow> strmap" where
  "podTemplateLabels sandbox \<equiv> pm_Labels (pt_Meta (bp_PodTemplate (ss_Blueprint (sb_Spec sandbox))))"

abbreviation podTemplateAnnotations :: "Sandbox \<Rightarrow> strmap" where
  "podTemplateAnnotations sandbox \<equiv> pm_Annotations (pt_Meta (bp_PodTemplate (ss_Blueprint (sb_Spec sandbox))))"

text \<open>The keys a template may set, sorted.\<close>

definition managedKeys :: "(string \<Rightarrow> bool) \<Rightarrow> strmap \<Rightarrow> string list" where
  "managedKeys isSystem m = sorted_list_of_fset (fmdom (fmfilter (\<lambda>k. \<not> isSystem k) m))"

section \<open>A new Pod\<close>

definition copyLabel :: "strmap \<Rightarrow> string \<Rightarrow> strmap \<Rightarrow> strmap" where
  "copyLabel from key m = (case fmlookup from key of None \<Rightarrow> m | Some val \<Rightarrow> fmupd key val m)"

definition newPodLabels :: "apimachinery \<Rightarrow> (string \<Rightarrow> string) \<Rightarrow> Sandbox \<Rightarrow> string \<Rightarrow> strmap" where
  "newPodLabels api groupOf sandbox nameHash =
     (let labels = om_Labels (sb_Meta sandbox);
          l1 = fmupd sandboxLabel nameHash (fmfilter (\<lambda>k. \<not> isSystemLabel k) (podTemplateLabels sandbox));
          l2 = (case extensionOwner api groupOf sandbox of
                  None \<Rightarrow> l1
                | Some kind \<Rightarrow>
                    copyLabel labels SandboxTemplateRefHashLabel
                      (if kind = ''SandboxWarmPool'' then copyLabel labels SandboxWarmPoolLabel l1 else l1))
      in if expectedCreatedBy sandbox \<noteq> [] then fmupd CreatedByLabel (expectedCreatedBy sandbox) l2 else l2)"

definition newPodAnnotations :: "Sandbox \<Rightarrow> strmap" where
  "newPodAnnotations sandbox =
     (let lks = managedKeys isSystemLabel (podTemplateLabels sandbox);
          aks = managedKeys isSystemAnnotation (podTemplateAnnotations sandbox);
          a1 = fmfilter (\<lambda>k. \<not> isSystemAnnotation k) (podTemplateAnnotations sandbox);
          a2 = (if lks \<noteq> [] then fmupd SandboxPropagatedLabelsAnnotation (joinWith CHR '','' lks) a1 else a1)
      in if aks \<noteq> [] then fmupd SandboxPropagatedAnnotationsAnnotation (joinWith CHR '','' aks) a2 else a2)"

section \<open>An existing Pod\<close>

text \<open>A map under update, with the flag that records a change.\<close>

type_synonym tracked = "bool \<times> strmap"

definition setTracked :: "string \<Rightarrow> string \<Rightarrow> tracked \<Rightarrow> tracked" where
  "setTracked k v acc = (if mget (snd acc) k \<noteq> v then (True, fmupd k v (snd acc)) else acc)"

definition dropTracked :: "string \<Rightarrow> tracked \<Rightarrow> tracked" where
  "dropTracked k acc = (if k |\<in>| fmdom (snd acc) then (True, fmdrop k (snd acc)) else acc)"

definition syncTracked :: "string \<Rightarrow> string \<Rightarrow> tracked \<Rightarrow> tracked" where
  "syncTracked k expected acc = (if expected \<noteq> [] then setTracked k expected acc else dropTracked k acc)"

definition propagate :: "(string \<Rightarrow> bool) \<Rightarrow> strmap \<Rightarrow> tracked \<Rightarrow> tracked" where
  "propagate isSystem tmpl acc = fold (\<lambda>k. setTracked k (mget tmpl k)) (managedKeys isSystem tmpl) acc"

definition scrubKey :: "(string \<Rightarrow> bool) \<Rightarrow> (string \<Rightarrow> bool) \<Rightarrow> strmap \<Rightarrow> string \<Rightarrow> tracked \<Rightarrow> tracked" where
  "scrubKey isSystem keep tmpl k acc =
     (if k = [] then acc
      else if isSystem k then (if keep k then acc else dropTracked k acc)
      else if k |\<in>| fmdom tmpl then acc
      else (True, fmdrop k (snd acc)))"

definition scrub :: "(string \<Rightarrow> bool) \<Rightarrow> (string \<Rightarrow> bool) \<Rightarrow> strmap \<Rightarrow> string \<Rightarrow> tracked \<Rightarrow> tracked" where
  "scrub isSystem keep tmpl recorded acc =
     (if recorded = [] then acc else fold (scrubKey isSystem keep tmpl) (splitOn CHR '','' recorded) acc)"

definition updatePodMetadata ::
  "apimachinery \<Rightarrow> (string \<Rightarrow> string) \<Rightarrow> Sandbox \<Rightarrow> string \<Rightarrow> Pod \<Rightarrow> bool \<times> Pod" where
  "updatePodMetadata api groupOf sandbox nameHash pod =
     (let tl = podTemplateLabels sandbox; ta = podTemplateAnnotations sandbox;
          labels0 = setTracked sandboxLabel nameHash (False, om_Labels (pod_Meta pod));
          labels1 = propagate isSystemLabel tl labels0;
          labels2 = scrub isSystemLabel (\<lambda>k. k = sandboxLabel) tl
                      (mget (om_Annotations (pod_Meta pod)) SandboxPropagatedLabelsAnnotation) labels1;
          labels3 = syncTracked SandboxWarmPoolLabel (expectedWarmPoolHash api groupOf sandbox) labels2;
          labels4 = syncTracked SandboxTemplateRefHashLabel (expectedTemplateRefHash api groupOf sandbox) labels3;
          labels5 = syncTracked CreatedByLabel (expectedCreatedBy sandbox) labels4;
          anns1 = propagate isSystemAnnotation ta (fst labels5, om_Annotations (pod_Meta pod));
          anns2 = scrub isSystemAnnotation isControllerManagedPodAnnotation ta
                    (mget (snd anns1) SandboxPropagatedAnnotationsAnnotation) anns1;
          anns3 = setTracked SandboxPropagatedLabelsAnnotation (joinWith CHR '','' (managedKeys isSystemLabel tl)) anns2;
          anns4 = setTracked SandboxPropagatedAnnotationsAnnotation
                    (joinWith CHR '','' (managedKeys isSystemAnnotation ta)) anns3
      in (fst anns4, pod\<lparr>pod_Meta := (pod_Meta pod)\<lparr>om_Labels := snd labels5, om_Annotations := snd anns4\<rparr>\<rparr>))"

end
