(* ===== verification/Pod_Metadata_Props.thy ===== *)
theory Pod_Metadata_Props
  imports Pod_Metadata
begin

text \<open>
  Bringing a Pod's metadata in line converges in one pass, and a Pod template cannot forge
  the labels the controller owns.
\<close>

section \<open>Splitting what was joined\<close>

lemma splitOn_ne [simp]: "splitOn c s \<noteq> []"
  by (induction s) (auto split: list.splits)

lemma splitOn_plain: "c \<notin> set s \<Longrightarrow> splitOn c s = [s]"
  by (induction s) auto

lemma splitOn_append: "c \<notin> set s \<Longrightarrow> splitOn c (s @ c # t) = s # splitOn c t"
  by (induction s) auto

lemma splitOn_joinWith:
  "ks \<noteq> [] \<Longrightarrow> (\<And>k. k \<in> set ks \<Longrightarrow> c \<notin> set k) \<Longrightarrow> splitOn c (joinWith c ks) = ks"
  by (induction c ks rule: joinWith.induct) (simp_all add: splitOn_plain splitOn_append)

section \<open>Tracked updates\<close>

lemma set_managedKeys: "set (managedKeys isSystem m) = {k. \<not> isSystem k \<and> k |\<in>| fmdom m}"
  by (auto simp: managedKeys_def)

lemma setTracked_get [simp]:
  "mget (snd (setTracked k v acc)) k' = (if k' = k then v else mget (snd acc) k')"
  by (simp add: setTracked_def)

lemma dropTracked_get [simp]:
  "mget (snd (dropTracked k acc)) k' = (if k' = k then [] else mget (snd acc) k')"
  by (auto simp: dropTracked_def mget_def fmlookup_dom_iff split: option.splits)

lemma setTracked_dom: "k' \<noteq> k \<Longrightarrow> k' |\<in>| fmdom (snd (setTracked k v acc)) \<longleftrightarrow> k' |\<in>| fmdom (snd acc)"
  by (simp add: setTracked_def)

lemma dropTracked_dom: "k' |\<in>| fmdom (snd (dropTracked k acc)) \<longleftrightarrow> k' \<noteq> k \<and> k' |\<in>| fmdom (snd acc)"
  by (auto simp: dropTracked_def)

lemma syncTracked_get [simp]:
  "mget (snd (syncTracked k e acc)) k' = (if k' = k then e else mget (snd acc) k')"
  by (simp add: syncTracked_def)

lemma syncTracked_dom: "k' \<noteq> k \<Longrightarrow> k' |\<in>| fmdom (snd (syncTracked k e acc)) \<longleftrightarrow> k' |\<in>| fmdom (snd acc)"
  by (simp add: syncTracked_def setTracked_dom dropTracked_dom)

lemma syncTracked_absent: "k |\<notin>| fmdom (snd (syncTracked k [] acc))"
  by (simp add: syncTracked_def dropTracked_dom)

lemma propagate_get:
  "mget (snd (propagate isSystem tmpl acc)) k' =
     (if \<not> isSystem k' \<and> k' |\<in>| fmdom tmpl then mget tmpl k' else mget (snd acc) k')"
proof -
  have "mget (snd (fold (\<lambda>k. setTracked k (mget tmpl k)) ks acc)) k' =
      (if k' \<in> set ks then mget tmpl k' else mget (snd acc) k')" for ks
    by (induction ks arbitrary: acc) auto
  then show ?thesis by (simp add: propagate_def set_managedKeys)
qed

lemma scrub_get:
  assumes "if isSystem k' then keep k' else k' |\<in>| fmdom tmpl"
  shows "mget (snd (scrub isSystem keep tmpl recorded acc)) k' = mget (snd acc) k'"
proof -
  have "mget (snd (fold (scrubKey isSystem keep tmpl) ks acc)) k' = mget (snd acc) k'" for ks
    using assms
  proof (induction ks arbitrary: acc)
    case (Cons k ks)
    then have "mget (snd (scrubKey isSystem keep tmpl k acc)) k' = mget (snd acc) k'"
      by (auto simp: scrubKey_def split: if_splits)
    with Cons show ?case by simp
  qed simp
  then show ?thesis by (simp add: scrub_def)
qed

section \<open>Passes that change nothing\<close>

lemma setTracked_stable: "mget (snd acc) k = v \<Longrightarrow> setTracked k v acc = acc"
  by (simp add: setTracked_def)

lemma syncTracked_stable:
  "mget (snd acc) k = e \<Longrightarrow> (e = [] \<Longrightarrow> k |\<notin>| fmdom (snd acc)) \<Longrightarrow> syncTracked k e acc = acc"
  by (simp add: syncTracked_def setTracked_def dropTracked_def)

lemma propagate_stable:
  assumes "\<And>k. \<not> isSystem k \<Longrightarrow> k |\<in>| fmdom tmpl \<Longrightarrow> mget (snd acc) k = mget tmpl k"
  shows "propagate isSystem tmpl acc = acc"
proof -
  have fixed: "fold (\<lambda>k. setTracked k (mget tmpl k)) ks acc = acc"
    if "\<And>k. k \<in> set ks \<Longrightarrow> mget (snd acc) k = mget tmpl k" for ks
    using that by (induction ks) (simp_all add: setTracked_stable)
  show ?thesis unfolding propagate_def by (rule fixed) (use assms in \<open>simp add: set_managedKeys\<close>)
qed

lemma scrub_stable:
  assumes "recorded = joinWith CHR '','' (managedKeys isSystem tmpl)"
    and "\<And>k. k |\<in>| fmdom tmpl \<Longrightarrow> CHR '','' \<notin> set k"
  shows "scrub isSystem keep tmpl recorded acc = acc"
proof (cases "managedKeys isSystem tmpl = []")
  case True
  with assms(1) show ?thesis by (simp add: scrub_def)
next
  case False
  have "fold (scrubKey isSystem keep tmpl) ks acc = acc"
    if "set ks \<subseteq> set (managedKeys isSystem tmpl)" for ks
    using that by (induction ks) (auto simp: scrubKey_def set_managedKeys)
  moreover have "splitOn CHR '','' recorded = managedKeys isSystem tmpl"
    unfolding assms(1) by (rule splitOn_joinWith [OF False]) (use assms(2) in \<open>simp add: set_managedKeys\<close>)
  ultimately show ?thesis by (simp add: scrub_def)
qed

section \<open>One pass settles the metadata\<close>

text \<open>The keys the proofs compare, and which of them are reserved.\<close>

lemma reserved_keys [simp]:
  "isSystemLabel sandboxLabel" "isSystemLabel SandboxWarmPoolLabel" "isSystemLabel SandboxTemplateRefHashLabel"
  "isSystemLabel CreatedByLabel"
  "isSystemAnnotation SandboxPropagatedLabelsAnnotation" "isSystemAnnotation SandboxPropagatedAnnotationsAnnotation"
  "isControllerManagedPodAnnotation SandboxPropagatedLabelsAnnotation"
  "isControllerManagedPodAnnotation SandboxPropagatedAnnotationsAnnotation"
  by (simp_all add: isSystemLabel_def isSystemAnnotation_def hasSystemReservedPrefix_def hasPrefix_def
      isControllerManagedPodAnnotation_def)

definition settledLabels :: "apimachinery \<Rightarrow> (string \<Rightarrow> string) \<Rightarrow> Sandbox \<Rightarrow> string \<Rightarrow> strmap \<Rightarrow> bool" where
  "settledLabels api groupOf sandbox nameHash m \<longleftrightarrow>
     mget m sandboxLabel = nameHash \<and>
     (\<forall>k. \<not> isSystemLabel k \<longrightarrow> k |\<in>| fmdom (podTemplateLabels sandbox) \<longrightarrow> mget m k = mget (podTemplateLabels sandbox) k) \<and>
     (\<forall>(k, e) \<in> {(SandboxWarmPoolLabel, expectedWarmPoolHash api groupOf sandbox),
        (SandboxTemplateRefHashLabel, expectedTemplateRefHash api groupOf sandbox),
        (CreatedByLabel, expectedCreatedBy sandbox)}. mget m k = e \<and> (e = [] \<longrightarrow> k |\<notin>| fmdom m))"

definition settledAnnotations :: "Sandbox \<Rightarrow> strmap \<Rightarrow> bool" where
  "settledAnnotations sandbox m \<longleftrightarrow>
     (\<forall>k. \<not> isSystemAnnotation k \<longrightarrow> k |\<in>| fmdom (podTemplateAnnotations sandbox) \<longrightarrow>
        mget m k = mget (podTemplateAnnotations sandbox) k) \<and>
     mget m SandboxPropagatedLabelsAnnotation = joinWith CHR '','' (managedKeys isSystemLabel (podTemplateLabels sandbox)) \<and>
     mget m SandboxPropagatedAnnotationsAnnotation =
       joinWith CHR '','' (managedKeys isSystemAnnotation (podTemplateAnnotations sandbox))"

lemma updatePodMetadata_settles:
  "settledLabels api groupOf sandbox nameHash (om_Labels (pod_Meta (snd (updatePodMetadata api groupOf sandbox nameHash pod))))"
  "settledAnnotations sandbox (om_Annotations (pod_Meta (snd (updatePodMetadata api groupOf sandbox nameHash pod))))"
proof -
  have user: "k \<noteq> sandboxLabel" "k \<noteq> SandboxWarmPoolLabel" "k \<noteq> SandboxTemplateRefHashLabel" "k \<noteq> CreatedByLabel"
    if "\<not> isSystemLabel k" for k
    using that reserved_keys by blast+
  show "settledLabels api groupOf sandbox nameHash (om_Labels (pod_Meta (snd (updatePodMetadata api groupOf sandbox nameHash pod))))"
    unfolding settledLabels_def updatePodMetadata_def Let_def
    by (simp add: scrub_get propagate_get user syncTracked_dom syncTracked_absent)
  have anns: "k \<noteq> SandboxPropagatedLabelsAnnotation" "k \<noteq> SandboxPropagatedAnnotationsAnnotation"
    if "\<not> isSystemAnnotation k" for k
    using that reserved_keys by blast+
  show "settledAnnotations sandbox (om_Annotations (pod_Meta (snd (updatePodMetadata api groupOf sandbox nameHash pod))))"
    unfolding settledAnnotations_def updatePodMetadata_def Let_def
    by (simp add: scrub_get propagate_get anns)
qed

lemma updatePodMetadata_stable:
  assumes "settledLabels api groupOf sandbox nameHash (om_Labels (pod_Meta pod))"
    and "settledAnnotations sandbox (om_Annotations (pod_Meta pod))"
    and "\<And>k. k |\<in>| fmdom (podTemplateLabels sandbox) \<Longrightarrow> CHR '','' \<notin> set k"
    and "\<And>k. k |\<in>| fmdom (podTemplateAnnotations sandbox) \<Longrightarrow> CHR '','' \<notin> set k"
  shows "updatePodMetadata api groupOf sandbox nameHash pod = (False, pod)"
proof -
  let ?acc = "(False, om_Labels (pod_Meta pod))" and ?ann = "(False, om_Annotations (pod_Meta pod))"
  have l: "setTracked sandboxLabel nameHash ?acc = ?acc"
      "propagate isSystemLabel (podTemplateLabels sandbox) ?acc = ?acc"
      "syncTracked SandboxWarmPoolLabel (expectedWarmPoolHash api groupOf sandbox) ?acc = ?acc"
      "syncTracked SandboxTemplateRefHashLabel (expectedTemplateRefHash api groupOf sandbox) ?acc = ?acc"
      "syncTracked CreatedByLabel (expectedCreatedBy sandbox) ?acc = ?acc"
    using assms(1)
    by (auto simp: settledLabels_def intro!: setTracked_stable propagate_stable syncTracked_stable)
  have s: "scrub isSystemLabel (\<lambda>k. k = sandboxLabel) (podTemplateLabels sandbox)
      (mget (om_Annotations (pod_Meta pod)) SandboxPropagatedLabelsAnnotation) ?acc = ?acc"
    by (rule scrub_stable) (use assms(2,3) in \<open>auto simp: settledAnnotations_def\<close>)
  have a: "propagate isSystemAnnotation (podTemplateAnnotations sandbox) ?ann = ?ann"
      "setTracked SandboxPropagatedLabelsAnnotation
         (joinWith CHR '','' (managedKeys isSystemLabel (podTemplateLabels sandbox))) ?ann = ?ann"
      "setTracked SandboxPropagatedAnnotationsAnnotation
         (joinWith CHR '','' (managedKeys isSystemAnnotation (podTemplateAnnotations sandbox))) ?ann = ?ann"
    using assms(2) by (auto simp: settledAnnotations_def intro!: setTracked_stable propagate_stable)
  have t: "scrub isSystemAnnotation isControllerManagedPodAnnotation (podTemplateAnnotations sandbox)
      (mget (om_Annotations (pod_Meta pod)) SandboxPropagatedAnnotationsAnnotation) ?ann = ?ann"
    by (rule scrub_stable) (use assms(2,4) in \<open>auto simp: settledAnnotations_def\<close>)
  show ?thesis
    unfolding updatePodMetadata_def Let_def l s by (simp add: a t)
qed

section \<open>Properties\<close>

text \<open>
  Aligning a Pod's metadata converges in one pass: a second pass over the result reports
  no change and changes nothing, so the controller does not patch a Pod forever.  Label and
  annotation keys contain no comma, which Kubernetes enforces.
\<close>

theorem metadata_converges:
  assumes "\<And>k. k |\<in>| fmdom (podTemplateLabels sandbox) \<Longrightarrow> CHR '','' \<notin> set k"
    and "\<And>k. k |\<in>| fmdom (podTemplateAnnotations sandbox) \<Longrightarrow> CHR '','' \<notin> set k"
  shows "updatePodMetadata api groupOf sandbox nameHash (snd (updatePodMetadata api groupOf sandbox nameHash pod)) =
    (False, snd (updatePodMetadata api groupOf sandbox nameHash pod))"
  by (rule updatePodMetadata_stable [OF updatePodMetadata_settles assms])

definition demoStamped :: Sandbox where
  "demoStamped = emptySandbox\<lparr>sb_Meta := emptyMeta\<lparr>om_Name := ''web'', om_Labels := fmap_of_list [(CreatedByLabel, ''loadgen'')]\<rparr>,
     sb_Spec := emptySandboxSpec\<lparr>ss_Blueprint := emptyBlueprint\<lparr>bp_PodTemplate := \<lparr>pt_Spec = emptyPodSpec,
       pt_Meta = \<lparr>pm_Labels = fmap_of_list [(''app'', ''x''), (sandboxLabel, ''forged'')], pm_Annotations = fmempty\<rparr>\<rparr>\<rparr>\<rparr>\<rparr>"

definition demoMetaPod :: Pod where
  "demoMetaPod = \<lparr>pod_Meta = emptyMeta\<lparr>om_Name := ''web'', om_Labels := fmap_of_list [(SandboxWarmPoolLabel, ''old'')]\<rparr>,
     pod_Spec = emptyPodSpec, pod_Phase = ''Running'', pod_Conditions = [], pod_IPs = []\<rparr>"

lemma demoStamped_fields [simp]:
  "fmdom (podTemplateLabels demoStamped) = {|''app'', sandboxLabel|}" "podTemplateAnnotations demoStamped = fmempty"
  by (simp_all add: demoStamped_def)

theorem metadata_converges_witness:
  "updatePodMetadata stdMachinery (\<lambda>av. av) demoStamped (NameHash ''web'')
     (snd (updatePodMetadata stdMachinery (\<lambda>av. av) demoStamped (NameHash ''web'') demoMetaPod)) =
   (False, snd (updatePodMetadata stdMachinery (\<lambda>av. av) demoStamped (NameHash ''web'') demoMetaPod))"
  by (rule metadata_converges) auto



end
