(* ===== verification/Sandbox_Controller.thy ===== *)
theory Sandbox_Controller
  imports Pod_Metadata
begin

text \<open>
  The Sandbox reconciler (\<^verbatim>\<open>controllers/sandbox_controller.go\<close>): it owns the Pod, the headless
  Service and the volume claims of a Sandbox, computes its conditions, and takes it down at
  its shutdown time.

  The clients of the four kinds, \<open>SetControllerReference\<close>, the Pod mutator and the text of an
  error are fields of the reconciler; the clock is an argument where the code reads it.
  Tracing spans, events and logging are not modelled; the trace context the tracer would
  stamp is a field.  A nil pointer is \<open>None\<close>, a joined error the list of its parts.
\<close>

section \<open>Data\<close>

record Service =
  svc_Meta :: ObjectMeta
  svc_ClusterIP :: string
  svc_Selector :: strmap

record PersistentVolumeClaim =
  pvc_Meta :: ObjectMeta
  pvc_Spec :: string

datatype sandboxError =
    CallFailed string apiError
  | OwnedByOther string OwnerReference
  | CannotAdopt string string
  | ClusterIPMismatch string string
  | SetRefFailed string string
  | MutateFailed string

record 'w SandboxReconciler =
  sr_sandboxes :: "(Sandbox, 'w) objectClient"
  sr_pods :: "(Pod, 'w) objectClient"
  sr_services :: "(Service, 'w) objectClient"
  sr_pvcs :: "(PersistentVolumeClaim, 'w) objectClient"
  sr_api :: apimachinery
  sr_setRef :: setControllerReference
  sr_groupOf :: "string \<Rightarrow> string"
  sr_ClusterDomain :: string
  sr_PodMutator :: "(Sandbox \<Rightarrow> Pod \<Rightarrow> string + Pod) option"
  sr_errorText :: "sandboxError list \<Rightarrow> string"
  sr_traceContext :: string

abbreviation "podSandboxNameHashIndex \<equiv> ''.metadata.labels[agents.x-k8s.io/sandbox-name-hash]''"
abbreviation "sandboxAPIVersion \<equiv> ''agents.x-k8s.io/v1beta1''"
abbreviation "SandboxOperatingModeSuspended \<equiv> ''Suspended''"
abbreviation "SandboxConditionSuspended \<equiv> ''Suspended''"
abbreviation "SandboxConditionReady \<equiv> ''Ready''"
abbreviation "SandboxConditionFinished \<equiv> ''Finished''"
abbreviation "SandboxReasonExpired \<equiv> ''SandboxExpired''"

definition immediateRequeueDelay :: int where "immediateRequeueDelay = 1000000"

datatype resourceOwnership = OwnedBySandbox OwnerReference | Unowned | OwnedByAnother OwnerReference

definition checkOwnership :: "apimachinery \<Rightarrow> ObjectMeta \<Rightarrow> Sandbox \<Rightarrow> resourceOwnership" where
  "checkOwnership api obj sandbox =
     (case GetControllerOf api obj of
        None \<Rightarrow> Unowned
      | Some ref \<Rightarrow> if or_UID ref = om_UID (sb_Meta sandbox) then OwnedBySandbox ref else OwnedByAnother ref)"

definition resolvePodName :: "Sandbox \<Rightarrow> string" where
  "resolvePodName sandbox =
     (let name = mget (om_Annotations (sb_Meta sandbox)) SandboxPodNameAnnotation
      in if name \<noteq> [] then name else om_Name (sb_Meta sandbox))"

definition MergeVolumeClaimVolumes :: "Volume list \<Rightarrow> Volume list \<Rightarrow> Volume list" where
  "MergeVolumeClaimVolumes existing pvcVolumes =
     (if pvcVolumes = [] then existing
      else filter (\<lambda>v. vol_Name v \<notin> vol_Name ` set pvcVolumes) existing @ pvcVolumes)"

text \<open>The label check that authorizes taking over an unowned object.\<close>

definition adoptable :: "ObjectMeta \<Rightarrow> string \<Rightarrow> bool" where
  "adoptable m nameHash \<longleftrightarrow>
     mget (om_Labels m) SandboxAdoptableLabel = ''true'' \<or> mget (om_Labels m) sandboxLabel = nameHash"

abbreviation sandboxNS :: "Sandbox \<Rightarrow> string" where "sandboxNS sandbox \<equiv> om_Namespace (sb_Meta sandbox)"
abbreviation sandboxName :: "Sandbox \<Rightarrow> string" where "sandboxName sandbox \<equiv> om_Name (sb_Meta sandbox)"

definition setOwner :: "'w SandboxReconciler \<Rightarrow> Sandbox \<Rightarrow> ObjectMeta \<Rightarrow> string + ObjectMeta" where
  "setOwner r sandbox m = sr_setRef r sandboxAPIVersion ''Sandbox'' (sb_Meta sandbox) m"

section \<open>Conditions\<close>

definition sandboxCondition :: "Sandbox \<Rightarrow> string \<Rightarrow> string \<Rightarrow> string \<Rightarrow> string \<Rightarrow> Condition" where
  "sandboxCondition sandbox typ status reason message = \<lparr>c_Type = typ, c_Status = status,
     c_ObservedGeneration = om_Generation (sb_Meta sandbox), c_LastTransitionTime = zeroTime,
     c_Reason = reason, c_Message = message\<rparr>"

definition isSuspended :: "Sandbox \<Rightarrow> bool" where
  "isSuspended sandbox \<longleftrightarrow> ss_OperatingMode (sb_Spec sandbox) = SandboxOperatingModeSuspended"

definition computeSuspendedCondition :: "Sandbox \<Rightarrow> Pod option \<Rightarrow> Condition option" where
  "computeSuspendedCondition sandbox pod =
     (if \<not> isSuspended sandbox then None
      else Some (case pod of
        None \<Rightarrow> sandboxCondition sandbox SandboxConditionSuspended ''True'' ''PodTerminated''
                  ''Pod has been terminated. Sandbox is not operational.''
      | Some _ \<Rightarrow> sandboxCondition sandbox SandboxConditionSuspended ''False'' ''PodNotTerminated''
                  ''Pod has not been terminated. Sandbox is operational.''))"

text \<open>The first Ready condition of a Pod decides, and only a true one with addresses counts.\<close>

definition podReadiness :: "Pod \<Rightarrow> bool \<times> string" where
  "podReadiness pod =
     (if pod_Phase pod = ''Running'' then
        (case find (\<lambda>c. pc_Type c = ''Ready'') (pod_Conditions pod) of
           Some c \<Rightarrow> if pc_Status c = ''True''
                     then (if pod_IPs pod = [] then (False, ''Pod is Ready but has no podIPs yet'') else (True, ''Pod is Ready''))
                     else (False, ''Pod is Running but not Ready'')
         | None \<Rightarrow> (False, ''Pod is Running but not Ready''))
      else (False, ''Pod exists with phase: '' @ pod_Phase pod))"

definition svcRequired :: "Sandbox \<Rightarrow> Service option \<Rightarrow> bool" where
  "svcRequired sandbox svc =
     (case bp_Service (ss_Blueprint (sb_Spec sandbox)) of Some b \<Rightarrow> b | None \<Rightarrow> svc \<noteq> None)"

definition Sandbox_computeReadyCondition ::
  "(sandboxError list \<Rightarrow> string) \<Rightarrow> Sandbox \<Rightarrow> sandboxError list \<Rightarrow> Service option \<Rightarrow> Pod option \<Rightarrow> Condition" where
  "Sandbox_computeReadyCondition errorText sandbox errs svc pod =
     (let cond = sandboxCondition sandbox SandboxConditionReady
      in if errs \<noteq> [] then cond ''False'' ''ReconcilerError'' (''Error seen: '' @ errorText errs)
         else if isSuspended sandbox then
           cond ''False'' ''SandboxSuspended''
             (if pod \<noteq> None then ''Sandbox is suspending'' else ''Sandbox is suspended'')
         else if \<exists>p. pod = Some p \<and> pod_Phase p = ''Succeeded'' then
           cond ''False'' ''PodSucceeded'' ''Pod completed successfully''
         else if \<exists>p. pod = Some p \<and> pod_Phase p = ''Failed'' then
           cond ''False'' ''PodFailed'' ''Pod failed''
         else
           let (podReady, message) = (case pod of Some p \<Rightarrow> podReadiness p | None \<Rightarrow> (False, ''Pod does not exist''));
               svcReady = (\<not> svcRequired sandbox svc \<or> svc \<noteq> None);
               message' = (if svcRequired sandbox svc
                           then message @ (if svc \<noteq> None then ''; Service Exists'' else ''; Service does not exist'')
                           else message)
           in if podReady \<and> svcReady then cond ''True'' ''DependenciesReady'' message'
              else cond ''False'' ''DependenciesNotReady'' message')"

definition computeFinishedCondition :: "Sandbox \<Rightarrow> Pod option \<Rightarrow> Condition option" where
  "computeFinishedCondition sandbox pod =
     (case pod of
        None \<Rightarrow> None
      | Some p \<Rightarrow>
          if pod_Phase p = ''Succeeded'' then
            Some (sandboxCondition sandbox SandboxConditionFinished ''True'' ''PodSucceeded'' ''Pod completed successfully'')
          else if pod_Phase p = ''Failed'' then
            Some (sandboxCondition sandbox SandboxConditionFinished ''True'' ''PodFailed'' ''Pod failed'')
          else None)"

definition computeConditions ::
  "(sandboxError list \<Rightarrow> string) \<Rightarrow> Sandbox \<Rightarrow> sandboxError list \<Rightarrow> Service option \<Rightarrow> Pod option \<Rightarrow> Condition list" where
  "computeConditions errorText sandbox errs svc pod =
     (case computeSuspendedCondition sandbox pod of Some c \<Rightarrow> [c] | None \<Rightarrow> []) @
     (case computeFinishedCondition sandbox pod of Some c \<Rightarrow> [c] | None \<Rightarrow> []) @
     [Sandbox_computeReadyCondition errorText sandbox errs svc pod]"

section \<open>Volume claims\<close>

definition newPVC :: "Sandbox \<Rightarrow> string \<Rightarrow> PersistentVolumeClaimTemplate \<Rightarrow> PersistentVolumeClaim" where
  "newPVC sandbox nameHash t = \<lparr>pvc_Meta = emptyMeta\<lparr>om_Name := vct_Name t @ ''-'' @ sandboxName sandbox,
       om_Namespace := sandboxNS sandbox, om_Annotations := vct_Annotations t,
       om_Labels := fmupd sandboxLabel nameHash (vct_Labels t)\<rparr>, pvc_Spec = vct_Spec t\<rparr>"

definition reconcilePVC ::
  "'w SandboxReconciler \<Rightarrow> Sandbox \<Rightarrow> string \<Rightarrow> PersistentVolumeClaimTemplate \<Rightarrow> 'w \<Rightarrow> sandboxError option \<times> 'w" where
  "reconcilePVC r sandbox nameHash t w =
     (let pvcName = vct_Name t @ ''-'' @ sandboxName sandbox
      in case kc_Get (sr_pvcs r) (sandboxNS sandbox) pvcName w of
           Inr pvc \<Rightarrow>
             (case checkOwnership (sr_api r) (pvc_Meta pvc) sandbox of
                OwnedByAnother ref \<Rightarrow> (Some (OwnedByOther pvcName ref), w)
              | Unowned \<Rightarrow>
                  if \<not> adoptable (pvc_Meta pvc) nameHash then (Some (CannotAdopt ''PVC'' pvcName), w)
                  else (case setOwner r sandbox (pvc_Meta pvc) of
                          Inl err \<Rightarrow> (Some (SetRefFailed ''PVC'' err), w)
                        | Inr m \<Rightarrow>
                            case kc_Patch (sr_pvcs r) pvc (pvc\<lparr>pvc_Meta := m\<rparr>) w of
                              (Inl err, w') \<Rightarrow> (Some (CallFailed ''failed to patch PVC with owner reference'' err), w')
                            | (Inr _, w') \<Rightarrow> (None, w'))
              | OwnedBySandbox _ \<Rightarrow> (None, w))
         | Inl err \<Rightarrow>
             if \<not> IsNotFound err then (Some (CallFailed ''failed to get PVC'' err), w)
             else (case setOwner r sandbox (pvc_Meta (newPVC sandbox nameHash t)) of
                     Inl e \<Rightarrow> (Some (SetRefFailed ''PVC'' e), w)
                   | Inr m \<Rightarrow>
                       case kc_Create (sr_pvcs r) ((newPVC sandbox nameHash t)\<lparr>pvc_Meta := m\<rparr>) w of
                         (Inl e, w') \<Rightarrow> (Some (CallFailed ''create PVC'' e), w')
                       | (Inr _, w') \<Rightarrow> (None, w')))"

fun reconcilePVCList ::
  "'w SandboxReconciler \<Rightarrow> Sandbox \<Rightarrow> string \<Rightarrow> PersistentVolumeClaimTemplate list \<Rightarrow> 'w \<Rightarrow> sandboxError option \<times> 'w" where
  "reconcilePVCList r sandbox nameHash [] w = (None, w)"
| "reconcilePVCList r sandbox nameHash (t # ts) w =
     (case reconcilePVC r sandbox nameHash t w of
        (Some err, w') \<Rightarrow> (Some err, w')
      | (None, w') \<Rightarrow> reconcilePVCList r sandbox nameHash ts w')"

definition reconcilePVCs :: "'w SandboxReconciler \<Rightarrow> Sandbox \<Rightarrow> string \<Rightarrow> 'w \<Rightarrow> sandboxError option \<times> 'w" where
  "reconcilePVCs r sandbox nameHash w =
     reconcilePVCList r sandbox nameHash (bp_VolumeClaimTemplates (ss_Blueprint (sb_Spec sandbox))) w"

section \<open>The headless Service\<close>

definition setServiceStatus :: "'w SandboxReconciler \<Rightarrow> Sandbox \<Rightarrow> Service \<Rightarrow> Sandbox" where
  "setServiceStatus r sandbox service = sandbox\<lparr>sb_Status := (sb_Status sandbox)\<lparr>
     st_Service := om_Name (svc_Meta service),
     st_ServiceFQDN := om_Name (svc_Meta service) @ ''.'' @ om_Namespace (svc_Meta service) @ ''.svc.'' @ sr_ClusterDomain r\<rparr>\<rparr>"

definition clearServiceStatus :: "Sandbox \<Rightarrow> Sandbox" where
  "clearServiceStatus sandbox = sandbox\<lparr>sb_Status := (sb_Status sandbox)\<lparr>st_Service := [], st_ServiceFQDN := []\<rparr>\<rparr>"

definition trackingSelector :: "string \<Rightarrow> strmap" where
  "trackingSelector nameHash = fmupd sandboxLabel nameHash fmempty"

definition newService :: "Sandbox \<Rightarrow> string \<Rightarrow> Service" where
  "newService sandbox nameHash = \<lparr>svc_Meta = emptyMeta\<lparr>om_Name := sandboxName sandbox,
       om_Namespace := sandboxNS sandbox, om_Labels := trackingSelector nameHash\<rparr>,
     svc_ClusterIP = ''None'', svc_Selector = trackingSelector nameHash\<rparr>"

definition alignService :: "string \<Rightarrow> Service \<Rightarrow> Service" where
  "alignService nameHash service = service\<lparr>svc_Meta := (svc_Meta service)\<lparr>
     om_Labels := fmupd sandboxLabel nameHash (om_Labels (svc_Meta service))\<rparr>,
     svc_Selector := trackingSelector nameHash\<rparr>"

definition createService ::
  "'w SandboxReconciler \<Rightarrow> Sandbox \<Rightarrow> string \<Rightarrow> 'w \<Rightarrow> (sandboxError + Service option) \<times> Sandbox \<times> 'w" where
  "createService r sandbox nameHash w =
     (case setOwner r sandbox (svc_Meta (newService sandbox nameHash)) of
        Inl err \<Rightarrow> (Inl (SetRefFailed ''Service'' err), sandbox, w)
      | Inr m \<Rightarrow>
          case kc_Create (sr_services r) ((newService sandbox nameHash)\<lparr>svc_Meta := m\<rparr>) w of
            (Inl err, w') \<Rightarrow> (Inl (CallFailed ''create Service'' err), sandbox, w')
          | (Inr service, w') \<Rightarrow> (Inr (Some service), setServiceStatus r sandbox service, w'))"

definition adoptService ::
  "'w SandboxReconciler \<Rightarrow> Sandbox \<Rightarrow> string \<Rightarrow> Service \<Rightarrow> 'w \<Rightarrow> (sandboxError + Service option) \<times> Sandbox \<times> 'w" where
  "adoptService r sandbox nameHash service w =
     (if \<not> adoptable (svc_Meta service) nameHash then
        (Inl (CannotAdopt ''Service'' (om_Name (svc_Meta service))), sandbox, w)
      else if svc_ClusterIP service \<noteq> ''None'' \<and> svc_ClusterIP service \<noteq> [] then
        (Inl (ClusterIPMismatch (om_Name (svc_Meta service)) (svc_ClusterIP service)), sandbox, w)
      else case setOwner r sandbox (svc_Meta (alignService nameHash service)) of
        Inl err \<Rightarrow> (Inl (SetRefFailed ''Service'' err), sandbox, w)
      | Inr m \<Rightarrow>
          case kc_Update (sr_services r) ((alignService nameHash service)\<lparr>svc_Meta := m\<rparr>) w of
            (Inl err, w') \<Rightarrow> (Inl (CallFailed ''failed to update service with owner reference'' err), sandbox, w')
          | (Inr service', w') \<Rightarrow> (Inr (Some service'), setServiceStatus r sandbox service', w'))"

definition alignOwnedService ::
  "'w SandboxReconciler \<Rightarrow> Sandbox \<Rightarrow> string \<Rightarrow> Service \<Rightarrow> 'w \<Rightarrow> (sandboxError + Service option) \<times> Sandbox \<times> 'w" where
  "alignOwnedService r sandbox nameHash service w =
     (if mget (om_Labels (svc_Meta service)) sandboxLabel \<noteq> nameHash \<or> svc_Selector service \<noteq> trackingSelector nameHash then
        (case kc_Patch (sr_services r) service (alignService nameHash service) w of
           (Inl err, w') \<Rightarrow> (Inl (CallFailed ''failed to patch owned service'' err), sandbox, w')
         | (Inr service', w') \<Rightarrow> (Inr (Some service'), setServiceStatus r sandbox service', w'))
      else (Inr (Some service), setServiceStatus r sandbox service, w))"

definition disableService ::
  "'w SandboxReconciler \<Rightarrow> Sandbox \<Rightarrow> Service \<Rightarrow> 'w \<Rightarrow> (sandboxError + Service option) \<times> Sandbox \<times> 'w" where
  "disableService r sandbox service w =
     (case checkOwnership (sr_api r) (svc_Meta service) sandbox of
        OwnedBySandbox _ \<Rightarrow>
          (case kc_Delete (sr_services r) False service w of
             (Inl err, w') \<Rightarrow>
               if IsNotFound err then (Inr None, clearServiceStatus sandbox, w')
               else (Inl (CallFailed ''failed to delete service'' err), sandbox, w')
           | (Inr _, w') \<Rightarrow> (Inr None, clearServiceStatus sandbox, w'))
      | _ \<Rightarrow> (Inr None, clearServiceStatus sandbox, w))"

definition reconcileService ::
  "'w SandboxReconciler \<Rightarrow> Sandbox \<Rightarrow> string \<Rightarrow> 'w \<Rightarrow> (sandboxError + Service option) \<times> Sandbox \<times> 'w" where
  "reconcileService r sandbox nameHash w =
     (let desired = bp_Service (ss_Blueprint (sb_Spec sandbox))
      in case kc_Get (sr_services r) (sandboxNS sandbox) (sandboxName sandbox) w of
           Inl err \<Rightarrow>
             if \<not> IsNotFound err then (Inl (CallFailed ''service get failed'' err), sandbox, w)
             else if desired = Some True then createService r sandbox nameHash w
             else (Inr None, clearServiceStatus sandbox, w)
         | Inr service \<Rightarrow>
             if desired = Some False then disableService r sandbox service w
             else (case checkOwnership (sr_api r) (svc_Meta service) sandbox of
                     OwnedByAnother ref \<Rightarrow> (Inl (OwnedByOther (om_Name (svc_Meta service)) ref), sandbox, w)
                   | Unowned \<Rightarrow>
                       if desired = None then (Inr None, clearServiceStatus sandbox, w)
                       else adoptService r sandbox nameHash service w
                   | OwnedBySandbox _ \<Rightarrow> alignOwnedService r sandbox nameHash service w))"

section \<open>The Pod\<close>

text \<open>A failed patch leaves the change in memory; a successful one decodes the reply.\<close>

definition patchSandbox ::
  "'w SandboxReconciler \<Rightarrow> string \<Rightarrow> Sandbox \<Rightarrow> strmap \<Rightarrow> 'w \<Rightarrow> sandboxError option \<times> Sandbox \<times> 'w" where
  "patchSandbox r what sandbox annotations w =
     (let new = sandbox\<lparr>sb_Meta := (sb_Meta sandbox)\<lparr>om_Annotations := annotations\<rparr>\<rparr>
      in case kc_Patch (sr_sandboxes r) sandbox new w of
           (Inl err, w') \<Rightarrow> (Some (CallFailed what err), new, w')
         | (Inr reply, w') \<Rightarrow> (None, reply, w'))"

definition clearPodNameAnnotation ::
  "'w SandboxReconciler \<Rightarrow> Sandbox \<Rightarrow> 'w \<Rightarrow> sandboxError option \<times> Sandbox \<times> 'w" where
  "clearPodNameAnnotation r sandbox w =
     (if SandboxPodNameAnnotation |\<notin>| fmdom (om_Annotations (sb_Meta sandbox)) then (None, sandbox, w)
      else patchSandbox r ''failed to clear pod name annotation'' sandbox
             (fmdrop SandboxPodNameAnnotation (om_Annotations (sb_Meta sandbox))) w)"

definition ensurePodNameAnnotation ::
  "'w SandboxReconciler \<Rightarrow> Sandbox \<Rightarrow> string \<Rightarrow> 'w \<Rightarrow> sandboxError option \<times> Sandbox \<times> 'w" where
  "ensurePodNameAnnotation r sandbox podName w =
     (let annotated = mget (om_Annotations (sb_Meta sandbox)) SandboxPodNameAnnotation
      in if annotated = podName \<or> annotated \<noteq> [] then (None, sandbox, w)
         else patchSandbox r ''failed to set pod name annotation'' sandbox
                (fmupd SandboxPodNameAnnotation podName (om_Annotations (sb_Meta sandbox))) w)"

type_synonym 'w podResult = "(sandboxError + Pod option) \<times> Sandbox \<times> 'w"

definition trackPod :: "'w SandboxReconciler \<Rightarrow> Sandbox \<Rightarrow> Pod \<Rightarrow> 'w \<Rightarrow> 'w podResult" where
  "trackPod r sandbox pod w =
     (case ensurePodNameAnnotation r sandbox (om_Name (pod_Meta pod)) w of
        (Some err, sandbox', w') \<Rightarrow> (Inl err, sandbox', w')
      | (None, sandbox', w') \<Rightarrow> (Inr (Some pod), sandbox', w'))"

text \<open>The metadata of \<open>pod\<close> is aligned starting from \<open>pod'\<close>, which differs from it when it was just adopted.\<close>

definition alignPod :: "'w SandboxReconciler \<Rightarrow> Sandbox \<Rightarrow> string \<Rightarrow> Pod \<Rightarrow> Pod \<Rightarrow> bool \<Rightarrow> 'w \<Rightarrow> 'w podResult" where
  "alignPod r sandbox nameHash pod pod' needsUpdate w =
     (let (metadataUpdated, pod'') = updatePodMetadata (sr_api r) (sr_groupOf r) sandbox nameHash pod'
      in if metadataUpdated \<or> needsUpdate then
           (case kc_Patch (sr_pods r) pod pod'' w of
              (Inl err, w') \<Rightarrow> (Inl (CallFailed ''failed to patch pod'' err), sandbox, w')
            | (Inr reply, w') \<Rightarrow> trackPod r sandbox reply w')
         else trackPod r sandbox pod'' w)"

definition reconcileExistingPod :: "'w SandboxReconciler \<Rightarrow> Sandbox \<Rightarrow> string \<Rightarrow> Pod \<Rightarrow> 'w \<Rightarrow> 'w podResult" where
  "reconcileExistingPod r sandbox nameHash pod w =
     (case checkOwnership (sr_api r) (pod_Meta pod) sandbox of
        OwnedByAnother ref \<Rightarrow>
          (case clearPodNameAnnotation r sandbox w of
             (Some err, sandbox', w') \<Rightarrow> (Inl err, sandbox', w')
           | (None, sandbox', w') \<Rightarrow> (Inl (OwnedByOther (om_Name (pod_Meta pod)) ref), sandbox', w'))
      | Unowned \<Rightarrow>
          if \<not> adoptable (pod_Meta pod) nameHash then
            (Inl (CannotAdopt ''Pod'' (om_Name (pod_Meta pod))), sandbox, w)
          else (case setOwner r sandbox (pod_Meta pod) of
                  Inl err \<Rightarrow> (Inl (SetRefFailed ''Pod'' err), sandbox, w)
                | Inr m \<Rightarrow> alignPod r sandbox nameHash pod (pod\<lparr>pod_Meta := m\<rparr>) True w)
      | OwnedBySandbox _ \<Rightarrow> alignPod r sandbox nameHash pod pod False w)"

definition pvcVolumes :: "Sandbox \<Rightarrow> Volume list" where
  "pvcVolumes sandbox = map (\<lambda>t. \<lparr>vol_Name = vct_Name t, vol_Source = PVCSource (vct_Name t @ ''-'' @ sandboxName sandbox)\<rparr>)
     (bp_VolumeClaimTemplates (ss_Blueprint (sb_Spec sandbox)))"

definition newPod :: "'w SandboxReconciler \<Rightarrow> Sandbox \<Rightarrow> string \<Rightarrow> Pod" where
  "newPod r sandbox nameHash =
     (let podSpec = pt_Spec (bp_PodTemplate (ss_Blueprint (sb_Spec sandbox)))
      in \<lparr>pod_Meta = emptyMeta\<lparr>om_Name := sandboxName sandbox, om_Namespace := sandboxNS sandbox,
            om_Labels := newPodLabels (sr_api r) (sr_groupOf r) sandbox nameHash,
            om_Annotations := newPodAnnotations sandbox\<rparr>,
          pod_Spec = podSpec\<lparr>ps_Volumes := MergeVolumeClaimVolumes (ps_Volumes podSpec) (pvcVolumes sandbox)\<rparr>,
          pod_Phase = [], pod_Conditions = [], pod_IPs = []\<rparr>)"

definition mutatePod :: "'w SandboxReconciler \<Rightarrow> Sandbox \<Rightarrow> Pod \<Rightarrow> string + Pod" where
  "mutatePod r sandbox pod = (case sr_PodMutator r of None \<Rightarrow> Inr pod | Some f \<Rightarrow> f sandbox pod)"

definition createPod :: "'w SandboxReconciler \<Rightarrow> Sandbox \<Rightarrow> string \<Rightarrow> 'w \<Rightarrow> 'w podResult" where
  "createPod r sandbox nameHash w =
     (case mutatePod r sandbox (newPod r sandbox nameHash) of
        Inl err \<Rightarrow> (Inl (MutateFailed err), sandbox, w)
      | Inr pod \<Rightarrow>
          case setOwner r sandbox (pod_Meta pod) of
            Inl err \<Rightarrow> (Inl (SetRefFailed ''Pod'' err), sandbox, w)
          | Inr m \<Rightarrow>
              case kc_Create (sr_pods r) (pod\<lparr>pod_Meta := m\<rparr>) w of
                (Inr reply, w') \<Rightarrow> trackPod r sandbox reply w'
              | (Inl AlreadyExists, w') \<Rightarrow>
                  (case kc_Get (sr_pods r) (om_Namespace m) (om_Name m) w' of
                     Inl err \<Rightarrow> (Inl (CallFailed ''pod already exists but failed to fetch'' err), sandbox, w')
                   | Inr existing \<Rightarrow> reconcileExistingPod r sandbox nameHash existing w')
              | (Inl err, w') \<Rightarrow> (Inl (CallFailed ''create Pod'' err), sandbox, w'))"

definition deletePodOnSuspend :: "'w SandboxReconciler \<Rightarrow> Sandbox \<Rightarrow> Pod option \<Rightarrow> 'w \<Rightarrow> sandboxError option \<times> 'w" where
  "deletePodOnSuspend r sandbox pod w =
     (case pod of
        None \<Rightarrow> (None, w)
      | Some p \<Rightarrow>
          case checkOwnership (sr_api r) (pod_Meta p) sandbox of
            OwnedBySandbox _ \<Rightarrow>
              if om_DeletionTimestamp (pod_Meta p) = None then
                (case kc_Delete (sr_pods r) False p w of
                   (Inl err, w') \<Rightarrow> (Some (CallFailed ''failed to delete pod'' err), w')
                 | (Inr _, w') \<Rightarrow> (None, w'))
              else (None, w)
          | _ \<Rightarrow> (None, w))"

definition suspendPod :: "'w SandboxReconciler \<Rightarrow> Sandbox \<Rightarrow> Pod option \<Rightarrow> 'w \<Rightarrow> 'w podResult" where
  "suspendPod r sandbox pod w =
     (case deletePodOnSuspend r sandbox pod w of
        (Some err, w1) \<Rightarrow> (Inl err, sandbox, w1)
      | (None, w1) \<Rightarrow>
          case clearPodNameAnnotation r sandbox w1 of
            (Some err, sandbox', w') \<Rightarrow> (Inl err, sandbox', w')
          | (None, sandbox', w') \<Rightarrow> (Inr None, sandbox', w'))"

text \<open>The lookup: a tracked Pod that is gone clears the tracking annotation.\<close>

definition lookupPod :: "'w SandboxReconciler \<Rightarrow> Sandbox \<Rightarrow> 'w \<Rightarrow> 'w podResult" where
  "lookupPod r sandbox w =
     (case kc_Get (sr_pods r) (sandboxNS sandbox) (resolvePodName sandbox) w of
        Inr pod \<Rightarrow> (Inr (Some pod), sandbox, w)
      | Inl err \<Rightarrow>
          if \<not> IsNotFound err then (Inl (CallFailed ''pod get failed'' err), sandbox, w)
          else (case clearPodNameAnnotation r sandbox w of
                  (Some e, sandbox', w') \<Rightarrow> (Inl e, sandbox', w')
                | (None, sandbox', w') \<Rightarrow> (Inr None, sandbox', w')))"

definition reconcilePod :: "'w SandboxReconciler \<Rightarrow> Sandbox \<Rightarrow> string \<Rightarrow> 'w \<Rightarrow> 'w podResult" where
  "reconcilePod r sandbox nameHash w =
     (case kc_ListBy (sr_pods r) (sandboxNS sandbox) podSandboxNameHashIndex nameHash w of
        Inl err \<Rightarrow> (Inl (CallFailed ''pod list failed'' err), sandbox, w)
      | Inr _ \<Rightarrow>
          case lookupPod r sandbox w of
            (Inl err, sandbox', w') \<Rightarrow> (Inl err, sandbox', w')
          | (Inr pod, sandbox', w') \<Rightarrow>
              if isSuspended sandbox' then suspendPod r sandbox' pod w'
              else (case pod of
                      Some p \<Rightarrow> reconcileExistingPod r sandbox' nameHash p w'
                    | None \<Rightarrow> createPod r sandbox' nameHash w'))"

section \<open>Status\<close>

definition podIPsFromStatus :: "Pod \<Rightarrow> string list" where
  "podIPsFromStatus pod = pod_IPs pod"

definition Sandbox_updateStatus ::
  "'w SandboxReconciler \<Rightarrow> SandboxStatus \<Rightarrow> Sandbox \<Rightarrow> 'w \<Rightarrow> apiError option \<times> 'w" where
  "Sandbox_updateStatus r oldStatus sandbox w =
     (if oldStatus = sb_Status sandbox then (None, w)
      else case kc_UpdateStatus (sr_sandboxes r) sandbox w of
             (Inl err, w') \<Rightarrow> (Some err, w')
           | (Inr _, w') \<Rightarrow> (None, w'))"

definition setPodStatus :: "Pod option \<Rightarrow> Sandbox \<Rightarrow> Sandbox" where
  "setPodStatus pod sandbox =
     (case pod of
        None \<Rightarrow> sandbox\<lparr>sb_Status := (sb_Status sandbox)\<lparr>st_PodIPs := [], st_NodeName := []\<rparr>\<rparr>
      | Some p \<Rightarrow> sandbox\<lparr>sb_Status := (sb_Status sandbox)\<lparr>
          st_LabelSelector := sandboxLabel @ ''='' @ NameHash (sandboxName sandbox),
          st_PodIPs := podIPsFromStatus p, st_NodeName := ps_NodeName (pod_Spec p)\<rparr>\<rparr>)"

definition setConditions :: "apimachinery \<Rightarrow> gotime \<Rightarrow> Condition list \<Rightarrow> Sandbox \<Rightarrow> Sandbox" where
  "setConditions api now conditions sandbox =
     (let set1 = fold (\<lambda>c cs. SetStatusCondition api now cs c) conditions (st_Conditions (sb_Status sandbox));
          set2 = (if SandboxConditionFinished \<in> c_Type ` set conditions then set1
                  else RemoveStatusCondition api set1 SandboxConditionFinished)
      in sandbox\<lparr>sb_Status := (sb_Status sandbox)\<lparr>st_Conditions := set2\<rparr>\<rparr>)"

fun resultErr :: "'e + 'a \<Rightarrow> 'e list" where
  "resultErr (Inl err) = [err]"
| "resultErr (Inr _) = []"

fun resultVal :: "'e + 'a option \<Rightarrow> 'a option" where
  "resultVal (Inl _) = None"
| "resultVal (Inr v) = v"

definition reconcileChildResources ::
  "'w SandboxReconciler \<Rightarrow> gotime \<Rightarrow> Sandbox \<Rightarrow> 'w \<Rightarrow> sandboxError list \<times> Sandbox \<times> 'w" where
  "reconcileChildResources r now sandbox w =
     (let nameHash = NameHash (sandboxName sandbox);
          (pvcErr, w1) = reconcilePVCs r sandbox nameHash w;
          (podRes, sandbox1, w2) = reconcilePod r sandbox nameHash w1;
          sandbox2 = setPodStatus (resultVal podRes) sandbox1;
          (svcRes, sandbox3, w3) = reconcileService r sandbox2 nameHash w2;
          errs = (case pvcErr of Some e \<Rightarrow> [e] | None \<Rightarrow> []) @ resultErr podRes @ resultErr svcRes;
          conditions = computeConditions (sr_errorText r) sandbox3 errs (resultVal svcRes) (resultVal podRes)
      in (errs, setConditions (sr_api r) now conditions sandbox3, w3))"

section \<open>Expiry\<close>

definition checkSandboxExpiry :: "Sandbox \<Rightarrow> gotime \<Rightarrow> bool \<times> int" where
  "checkSandboxExpiry sandbox now =
     (case ss_ShutdownTime (sb_Spec sandbox) of
        None \<Rightarrow> (False, 0)
      | Some shutdownTime \<Rightarrow>
          if \<not> now < shutdownTime then (True, 0) else (False, max (shutdownTime - now) (2 * second)))"

definition expiredCondition :: "Sandbox \<Rightarrow> Condition" where
  "expiredCondition sandbox =
     sandboxCondition sandbox SandboxConditionReady ''False'' SandboxReasonExpired ''Sandbox has expired''"

definition setSandboxExpiredCondition :: "apimachinery \<Rightarrow> gotime \<Rightarrow> Sandbox \<Rightarrow> Sandbox" where
  "setSandboxExpiredCondition api now sandbox = sandbox\<lparr>sb_Status := (sb_Status sandbox)\<lparr>
     st_Conditions := SetStatusCondition api now (st_Conditions (sb_Status sandbox)) (expiredCondition sandbox)\<rparr>\<rparr>"

definition sandboxMarkedExpired :: "apimachinery \<Rightarrow> Sandbox \<Rightarrow> bool" where
  "sandboxMarkedExpired api sandbox =
     (case FindStatusCondition api (st_Conditions (sb_Status sandbox)) SandboxConditionReady of
        None \<Rightarrow> False | Some c \<Rightarrow> c_Reason c = SandboxReasonExpired)"

text \<open>Delete a child when this Sandbox controls it; a child that is gone is fine.\<close>

definition deleteOwned ::
  "'w SandboxReconciler \<Rightarrow> Sandbox \<Rightarrow> string \<Rightarrow> ('o, 'w) objectClient \<Rightarrow> ('o \<Rightarrow> ObjectMeta) \<Rightarrow> string \<Rightarrow> 'w
     \<Rightarrow> sandboxError list \<times> 'w" where
  "deleteOwned r sandbox kind kc meta name w =
     (case kc_Get kc (sandboxNS sandbox) name w of
        Inl err \<Rightarrow> (if IsNotFound err then [] else [CallFailed (''failed to get '' @ kind) err], w)
      | Inr obj \<Rightarrow>
          case checkOwnership (sr_api r) (meta obj) sandbox of
            OwnedBySandbox _ \<Rightarrow>
              (case kc_Delete kc False obj w of
                 (Inl err, w') \<Rightarrow> (if IsNotFound err then [] else [CallFailed (''failed to delete '' @ kind) err], w')
               | (Inr _, w') \<Rightarrow> ([], w'))
          | _ \<Rightarrow> ([], w))"

definition retainConditions :: "apimachinery \<Rightarrow> gotime \<Rightarrow> Sandbox \<Rightarrow> Sandbox" where
  "retainConditions api now sandbox = setSandboxExpiredCondition api now
     (sandbox\<lparr>sb_Status := emptySandboxStatus\<lparr>st_Conditions := st_Conditions (sb_Status sandbox)\<rparr>\<rparr>)"

definition handleSandboxExpiry ::
  "'w SandboxReconciler \<Rightarrow> gotime \<Rightarrow> Sandbox \<Rightarrow> 'w \<Rightarrow> bool \<times> sandboxError list \<times> Sandbox \<times> 'w" where
  "handleSandboxExpiry r now sandbox w =
     (let (podErrs, w1) = deleteOwned r sandbox ''pod'' (sr_pods r) pod_Meta (resolvePodName sandbox) w;
          (svcErrs, w2) = deleteOwned r sandbox ''service'' (sr_services r) svc_Meta (sandboxName sandbox) w1;
          errs = podErrs @ svcErrs;
          finish = (\<lambda>errs w. (False, errs, if errs = [] then retainConditions (sr_api r) now sandbox else sandbox, w))
      in if ss_ShutdownPolicy (sb_Spec sandbox) = Some ''Delete'' then
           (case kc_Delete (sr_sandboxes r) False sandbox w2 of
              (Inl err, w3) \<Rightarrow>
                if IsNotFound err then (True, [], sandbox, w3)
                else finish (errs @ [CallFailed ''failed to delete sandbox'' err]) w3
            | (Inr _, w3) \<Rightarrow> (True, [], sandbox, w3))
         else finish errs w2)"

section \<open>Reconcile\<close>

definition initTrace :: "'w SandboxReconciler \<Rightarrow> Sandbox \<Rightarrow> 'w \<Rightarrow> sandboxError option \<times> Sandbox \<times> 'w" where
  "initTrace r sandbox w =
     (let anns = om_Annotations (sb_Meta sandbox); tc = sr_traceContext r
      in if tc \<noteq> [] \<and> mget anns TraceContextAnnotation = []
         then patchSandbox r ''patch trace context'' sandbox (fmupd TraceContextAnnotation tc anns) w
         else (None, sandbox, w))"

text \<open>
  \<open>now1\<close> is the clock at the first expiry check and for the conditions set up to the second
  one, \<open>now2\<close> the clock from there on.  The result is the requeue delay and the errors.
\<close>

definition reconcileLive ::
  "'w SandboxReconciler \<Rightarrow> gotime \<Rightarrow> gotime \<Rightarrow> Sandbox \<Rightarrow> 'w \<Rightarrow> (int \<times> sandboxError list) \<times> 'w" where
  "reconcileLive r now1 now2 sandbox w =
     (let oldStatus = sb_Status sandbox;
          statusErrs = (\<lambda>e. case e of None \<Rightarrow> [] | Some err \<Rightarrow> [CallFailed ''update status'' err])
      in if fst (checkSandboxExpiry sandbox now1) then
           if \<not> sandboxMarkedExpired (sr_api r) sandbox then
             (case Sandbox_updateStatus r oldStatus (setSandboxExpiredCondition (sr_api r) now1 sandbox) w of
                (Some err, w') \<Rightarrow> ((0, [CallFailed ''update status'' err]), w')
              | (None, w') \<Rightarrow> ((immediateRequeueDelay, []), w'))
           else
             let (deleted, errs, sandbox', w1) = handleSandboxExpiry r now1 sandbox w
             in if deleted then ((0, errs), w1)
                else let (e, w2) = Sandbox_updateStatus r oldStatus sandbox' w1 in ((0, errs @ statusErrs e), w2)
         else
           let (errs, sandbox', w1) = reconcileChildResources r now1 sandbox w;
               (expired, after) = checkSandboxExpiry sandbox' now2;
               sandbox'' = (if expired then setSandboxExpiredCondition (sr_api r) now2 sandbox' else sandbox');
               (e, w2) = Sandbox_updateStatus r oldStatus sandbox'' w1
           in ((if expired then immediateRequeueDelay else after, errs @ statusErrs e), w2))"

definition Sandbox_Reconcile ::
  "'w SandboxReconciler \<Rightarrow> gotime \<Rightarrow> gotime \<Rightarrow> string \<Rightarrow> string \<Rightarrow> 'w \<Rightarrow> (int \<times> sandboxError list) \<times> 'w" where
  "Sandbox_Reconcile r now1 now2 ns name w =
     (case kc_Get (sr_sandboxes r) ns name w of
        Inl err \<Rightarrow> ((0, if IsNotFound err then [] else [CallFailed ''get sandbox'' err]), w)
      | Inr sandbox \<Rightarrow>
          if om_DeletionTimestamp (sb_Meta sandbox) \<noteq> None then ((0, []), w)
          else case initTrace r sandbox w of
                 (Some err, _, w') \<Rightarrow> ((0, [err]), w')
               | (None, sandbox', w') \<Rightarrow> reconcileLive r now1 now2 sandbox' w')"

definition podSandboxNameHashIndexer :: "ObjectMeta \<Rightarrow> string list" where
  "podSandboxNameHashIndexer m = (case fmlookup (om_Labels m) sandboxLabel of Some v \<Rightarrow> [v] | None \<Rightarrow> [])"

end
