(* ===== verification/Kube_Trace.thy ===== *)
theory Kube_Trace
  imports Kube_Client
begin

text \<open>
  Recording what a controller writes.  \<open>tracedClient\<close> runs any client beside a log that
  holds, for every write the controller issues, the world it was issued in and the write
  itself, whether or not the server accepts it.  The locale \<open>guarded_kind\<close> is the contract
  the controllers' safety proofs use: a condition on the writes of a kind under which every
  write keeps an invariant of the world.  The traced client meets it for the invariant that
  every logged write is allowed.
\<close>

datatype 'o kubeWrite =
    Created 'o
  | Updated 'o
  | Patched 'o 'o
  | Deleted bool 'o
  | StatusUpdated 'o
  | StatusPatched 'o 'o

locale guarded_kind =
  fixes kc :: "('o, 'w) objectClient" and ok :: "'w \<Rightarrow> 'o kubeWrite \<Rightarrow> bool" and I :: "'w \<Rightarrow> bool"
  assumes create_guard: "I w \<Longrightarrow> ok w (Created x) \<Longrightarrow> kc_Create kc x w = (res, w') \<Longrightarrow> I w'"
    and update_guard: "I w \<Longrightarrow> ok w (Updated x) \<Longrightarrow> kc_Update kc x w = (res, w') \<Longrightarrow> I w'"
    and patch_guard: "I w \<Longrightarrow> ok w (Patched x y) \<Longrightarrow> kc_Patch kc x y w = (res, w') \<Longrightarrow> I w'"
    and delete_guard: "I w \<Longrightarrow> ok w (Deleted fg x) \<Longrightarrow> kc_Delete kc fg x w = (dres, w') \<Longrightarrow> I w'"
    and status_guard: "I w \<Longrightarrow> ok w (StatusUpdated x) \<Longrightarrow> kc_UpdateStatus kc x w = (res, w') \<Longrightarrow> I w'"
    and patch_status_guard: "I w \<Longrightarrow> ok w (StatusPatched x y) \<Longrightarrow> kc_PatchStatus kc x y w = (res, w') \<Longrightarrow> I w'"

section \<open>The traced client\<close>

type_synonym ('w, 'e) writeLog = "('w \<times> 'e) list"

definition recorded :: "('w \<Rightarrow> 'a \<times> 'w) \<Rightarrow> 'e \<Rightarrow> 'w \<times> ('w, 'e) writeLog \<Rightarrow> 'a \<times> 'w \<times> ('w, 'e) writeLog" where
  "recorded call e wl = (case call (fst wl) of (x, w') \<Rightarrow> (x, w', snd wl @ [(fst wl, e)]))"

definition tracedClient ::
  "('o kubeWrite \<Rightarrow> 'e) \<Rightarrow> ('o, 'w) objectClient \<Rightarrow> ('o, 'w \<times> ('w, 'e) writeLog) objectClient" where
  "tracedClient wrap kc = \<lparr>kc_Get = (\<lambda>ns n wl. kc_Get kc ns n (fst wl)), kc_List = (\<lambda>wl. kc_List kc (fst wl)),
     kc_UpdateStatus = (\<lambda>x. recorded (kc_UpdateStatus kc x) (wrap (StatusUpdated x))),
     kc_PatchStatus = (\<lambda>x y. recorded (kc_PatchStatus kc x y) (wrap (StatusPatched x y))),
     kc_ListBy = (\<lambda>ns i v wl. kc_ListBy kc ns i v (fst wl)),
     kc_Create = (\<lambda>x. recorded (kc_Create kc x) (wrap (Created x))),
     kc_Update = (\<lambda>x. recorded (kc_Update kc x) (wrap (Updated x))),
     kc_Patch = (\<lambda>x y. recorded (kc_Patch kc x y) (wrap (Patched x y))),
     kc_Delete = (\<lambda>fg x. recorded (kc_Delete kc fg x) (wrap (Deleted fg x)))\<rparr>"

definition allLogged :: "('w \<Rightarrow> 'e \<Rightarrow> bool) \<Rightarrow> 'w \<times> ('w, 'e) writeLog \<Rightarrow> bool" where
  "allLogged P wl \<longleftrightarrow> (\<forall>we \<in> set (snd wl). P (fst we) (snd we))"

lemma allLogged_Nil [simp]: "allLogged P (w, [])"
  by (simp add: allLogged_def)

lemma recorded_allLogged:
  "allLogged P wl \<Longrightarrow> P (fst wl) e \<Longrightarrow> recorded call e wl = (res, wl') \<Longrightarrow> allLogged P wl'"
  by (auto simp: allLogged_def recorded_def split: prod.splits)

lemma tracedClient_reads [simp]:
  "kc_Get (tracedClient wrap kc) ns n wl = kc_Get kc ns n (fst wl)"
  "kc_List (tracedClient wrap kc) wl = kc_List kc (fst wl)"
  "kc_ListBy (tracedClient wrap kc) ns i v wl = kc_ListBy kc ns i v (fst wl)"
  by (simp_all add: tracedClient_def)

lemma tracedClient_patch:
  "kc_Patch (tracedClient wrap kc) x y wl = (res, wl') \<Longrightarrow> kc_Patch kc x y (fst wl) = (res, fst wl')"
  by (auto simp: tracedClient_def recorded_def split: prod.splits)

interpretation traced_kind: guarded_kind "tracedClient wrap kc" "\<lambda>wl e. P (fst wl) (wrap e)" "\<lambda>wl. C \<and> allLogged P wl"
  for wrap kc P C
  by unfold_locales (auto simp: tracedClient_def elim: recorded_allLogged [rotated 2])

section \<open>Identity\<close>

text \<open>Name, namespace and UID of a stored object are immutable: the reply to a patch carries them unchanged.\<close>

definition identity :: "ObjectMeta \<Rightarrow> string \<times> string \<times> string" where
  "identity m = (om_Namespace m, om_Name m, om_UID m)"

definition patch_keeps :: "('o \<Rightarrow> ObjectMeta) \<Rightarrow> ('o, 'w) objectClient \<Rightarrow> bool" where
  "patch_keeps meta kc \<longleftrightarrow> (\<forall>x y w z w'. kc_Patch kc x y w = (Inr z, w') \<longrightarrow> identity (meta z) = identity (meta x))"

lemma patch_keeps_traced: "patch_keeps meta kc \<Longrightarrow> patch_keeps meta (tracedClient wrap kc)"
  unfolding patch_keeps_def by (metis tracedClient_patch surj_pair)

section \<open>Control\<close>

definition ownedBy :: "string \<Rightarrow> ObjectMeta \<Rightarrow> bool" where
  "ownedBy uid m \<longleftrightarrow> (\<exists>ref. controllerOf m = Some ref \<and> or_UID ref = uid)"

lemma setref_ownedBy: "setref_ok setRef \<Longrightarrow> setRef av kind owner m = Inr m' \<Longrightarrow> ownedBy (om_UID owner) m'"
  unfolding setref_ok_def ownedBy_def by blast

lemma setref_keeps:
  "setref_ok setRef \<Longrightarrow> controllerOf m = None \<Longrightarrow> setRef av kind owner m = Inr m' \<Longrightarrow>
     om_Namespace m' = om_Namespace m \<and> om_Name m' = om_Name m \<and> om_Labels m' = om_Labels m"
proof -
  assume a: "setref_ok setRef" "controllerOf m = None" "setRef av kind owner m = Inr m'"
  then have "m' = m\<lparr>om_OwnerReferences := om_OwnerReferences m'\<rparr>"
    unfolding setref_ok_def by (metis Inr_inject)
  then show ?thesis by (metis ObjectMeta.select_convs ObjectMeta.surjective ObjectMeta.update_convs(11))
qed

lemma identity_upd [simp]:
  "identity (m\<lparr>om_Annotations := a\<rparr>) = identity m" "identity (m\<lparr>om_Labels := l\<rparr>) = identity m"
  by (simp_all add: identity_def)

lemma setref_identity:
  "setref_ok setRef \<Longrightarrow> controllerOf m = None \<Longrightarrow> setRef av kind owner m = Inr m' \<Longrightarrow> identity m' = identity m"
proof -
  assume a: "setref_ok setRef" "controllerOf m = None" "setRef av kind owner m = Inr m'"
  then have "m' = m\<lparr>om_OwnerReferences := om_OwnerReferences m'\<rparr>"
    unfolding setref_ok_def by (metis Inr_inject)
  then have "identity m' = identity (m\<lparr>om_OwnerReferences := om_OwnerReferences m'\<rparr>)" by (rule arg_cong)
  then show ?thesis by (simp add: identity_def)
qed

section \<open>A concrete instance, for witnesses\<close>

text \<open>A server with a fixed answer to every read that accepts every write.\<close>

definition echoClient :: "('o \<Rightarrow> ObjectMeta) \<Rightarrow> (string \<Rightarrow> string \<Rightarrow> apiError + 'o) \<Rightarrow> 'o list \<Rightarrow> ('o, unit) objectClient" where
  "echoClient meta get items = \<lparr>kc_Get = (\<lambda>ns n w. get ns n), kc_List = (\<lambda>w. Inr items),
     kc_UpdateStatus = (\<lambda>x w. (Inr x, w)), kc_PatchStatus = (\<lambda>x y w. (Inr y, w)),
     kc_ListBy = (\<lambda>ns i v w. Inr items), kc_Create = (\<lambda>x w. (Inr x, w)), kc_Update = (\<lambda>x w. (Inr x, w)),
     kc_Patch = (\<lambda>x y w. (if identity (meta y) = identity (meta x) then Inr y else Inl Conflict, w)),
     kc_Delete = (\<lambda>fg x w. (Inr (), w))\<rparr>"

lemma echoClient_keeps: "patch_keeps meta (echoClient meta get items)"
  by (simp add: patch_keeps_def echoClient_def)

end
