(* ===== verification/Sandbox_Ownership.thy ===== *)
theory Sandbox_Ownership
  imports Sandbox_Controller Kube_Trace
begin

text \<open>
  What the Sandbox reconciler may write.  \<open>ownWrite\<close> is the contract: children are created
  under the Sandbox's control, an object another controller owns is never written, an
  unowned one is only taken over when its labels authorize it, and only what the Sandbox
  controls is deleted.  The locale \<open>sandbox_guard\<close> proves every step of the reconciler
  against it; its interpretation on the traced clients gives the property.
\<close>

datatype clusterWrite =
    PodWrite "Pod kubeWrite"
  | ServiceWrite "Service kubeWrite"
  | PVCWrite "PersistentVolumeClaim kubeWrite"
  | SandboxWrite "Sandbox kubeWrite"

definition mayAdopt :: "string \<Rightarrow> ObjectMeta \<Rightarrow> bool" where
  "mayAdopt nameHash m \<longleftrightarrow> controllerOf m = None \<and> adoptable m nameHash"

fun ownWrite :: "(string \<Rightarrow> string \<Rightarrow> apiError + Service) \<Rightarrow> string \<times> string \<times> string \<Rightarrow> clusterWrite \<Rightarrow> bool" where
  "ownWrite stored (ns, name, uid) (PodWrite (Created p)) = ownedBy uid (pod_Meta p)"
| "ownWrite stored (ns, name, uid) (PodWrite (Patched p p')) =
     ((ownedBy uid (pod_Meta p) \<or> mayAdopt (NameHash name) (pod_Meta p)) \<and> ownedBy uid (pod_Meta p'))"
| "ownWrite stored (ns, name, uid) (PodWrite (Deleted fg p)) = ownedBy uid (pod_Meta p)"
| "ownWrite stored (ns, name, uid) (ServiceWrite (Created s)) =
     (ownedBy uid (svc_Meta s) \<and> om_Namespace (svc_Meta s) = ns \<and> om_Name (svc_Meta s) = name)"
| "ownWrite stored (ns, name, uid) (ServiceWrite (Updated s)) =
     (ownedBy uid (svc_Meta s) \<and> (\<exists>s0. stored ns name = Inr s0 \<and> mayAdopt (NameHash name) (svc_Meta s0)))"
| "ownWrite stored (ns, name, uid) (ServiceWrite (Patched s s')) = (ownedBy uid (svc_Meta s) \<and> ownedBy uid (svc_Meta s'))"
| "ownWrite stored (ns, name, uid) (ServiceWrite (Deleted fg s)) = ownedBy uid (svc_Meta s)"
| "ownWrite stored (ns, name, uid) (PVCWrite (Created c)) =
     (ownedBy uid (pvc_Meta c) \<and> om_Namespace (pvc_Meta c) = ns)"
| "ownWrite stored (ns, name, uid) (PVCWrite (Patched c c')) =
     (mayAdopt (NameHash name) (pvc_Meta c) \<and> ownedBy uid (pvc_Meta c'))"
| "ownWrite stored i (SandboxWrite (Patched s s')) = (identity (sb_Meta s) = i)"
| "ownWrite stored i (SandboxWrite (StatusUpdated s)) = (identity (sb_Meta s) = i)"
| "ownWrite stored i (SandboxWrite (Deleted fg s)) = (identity (sb_Meta s) = i)"
| "ownWrite stored i _ = False"

lemma checkOwnership_iff:
  assumes "apimachinery_ok api"
  shows "checkOwnership api m sandbox = OwnedBySandbox ref \<Longrightarrow> ownedBy (om_UID (sb_Meta sandbox)) m"
    and "checkOwnership api m sandbox = Unowned \<longleftrightarrow> controllerOf m = None"
  using assms by (auto simp: checkOwnership_def ownedBy_def split: option.splits if_splits)

lemma updatePodMetadata_owned: "ownedBy uid (pod_Meta (snd (updatePodMetadata api g sandbox h pod))) = ownedBy uid (pod_Meta pod)"
  by (simp add: updatePodMetadata_def Let_def ownedBy_def)

lemma alignService_owned [simp]: "ownedBy uid (svc_Meta (alignService h s)) = ownedBy uid (svc_Meta s)"
  by (simp add: alignService_def ownedBy_def)

text \<open>What the reconciler relies on: the apimachinery helpers, and that patches keep a Sandbox's identity.\<close>

definition cluster_ok :: "'w SandboxReconciler \<Rightarrow> bool" where
  "cluster_ok r \<longleftrightarrow> apimachinery_ok (sr_api r) \<and> setref_ok (sr_setRef r) \<and> patch_keeps sb_Meta (sr_sandboxes r)"

locale sandbox_guard =
  pods: guarded_kind "sr_pods r" "\<lambda>w e. ownWrite (\<lambda>ns n. kc_Get (sr_services r) ns n w) i (PodWrite e)" I +
  services: guarded_kind "sr_services r" "\<lambda>w e. ownWrite (\<lambda>ns n. kc_Get (sr_services r) ns n w) i (ServiceWrite e)" I +
  pvcs: guarded_kind "sr_pvcs r" "\<lambda>w e. ownWrite (\<lambda>ns n. kc_Get (sr_services r) ns n w) i (PVCWrite e)" I +
  sandboxes: guarded_kind "sr_sandboxes r" "\<lambda>w e. ownWrite (\<lambda>ns n. kc_Get (sr_services r) ns n w) i (SandboxWrite e)" I
  for r :: "'w SandboxReconciler" and i :: "string \<times> string \<times> string" and I :: "'w \<Rightarrow> bool" +
  assumes cluster: "I w \<Longrightarrow> cluster_ok r"
begin

lemma ident: "i = identity (sb_Meta sandbox) \<Longrightarrow>
    i = (sandboxNS sandbox, sandboxName sandbox, om_UID (sb_Meta sandbox))"
  by (simp add: identity_def)

lemma owned_by:
  "I w \<Longrightarrow> checkOwnership (sr_api r) m sandbox = OwnedBySandbox ref \<Longrightarrow> ownedBy (om_UID (sb_Meta sandbox)) m"
  using cluster checkOwnership_iff(1) unfolding cluster_ok_def by blast

lemma unowned: "I w \<Longrightarrow> checkOwnership (sr_api r) m sandbox = Unowned \<Longrightarrow> controllerOf m = None"
  using cluster checkOwnership_iff(2) unfolding cluster_ok_def by blast

lemma setOwner_owned: "I w \<Longrightarrow> setOwner r sandbox m = Inr m' \<Longrightarrow> ownedBy (om_UID (sb_Meta sandbox)) m'"
  using cluster setref_ownedBy unfolding setOwner_def cluster_ok_def by blast

lemma setOwner_keeps:
  "I w \<Longrightarrow> controllerOf m = None \<Longrightarrow> setOwner r sandbox m = Inr m' \<Longrightarrow>
     om_Namespace m' = om_Namespace m \<and> om_Name m' = om_Name m \<and> om_Labels m' = om_Labels m"
  using cluster setref_keeps unfolding setOwner_def cluster_ok_def by blast

lemma patchSandbox_guard:
  assumes "I w" "i = identity (sb_Meta sandbox)" "patchSandbox r what sandbox anns w = (e, sandbox', w')"
  shows "I w' \<and> i = identity (sb_Meta sandbox')"
proof -
  let ?new = "sandbox\<lparr>sb_Meta := (sb_Meta sandbox)\<lparr>om_Annotations := anns\<rparr>\<rparr>"
  obtain res w1 where p: "kc_Patch (sr_sandboxes r) sandbox ?new w = (res, w1)" by fastforce
  then have "I w1" using sandboxes.patch_guard [OF assms(1) _ p] assms(2) by simp
  moreover have "identity (sb_Meta z) = identity (sb_Meta sandbox)" if "res = Inr z" for z
    using cluster [OF assms(1)] p that unfolding cluster_ok_def patch_keeps_def by blast
  ultimately show ?thesis
    using assms(2,3) p by (auto simp: patchSandbox_def Let_def split: sum.splits)
qed

lemma clearPodName_guard:
  "I w \<Longrightarrow> i = identity (sb_Meta sandbox) \<Longrightarrow> clearPodNameAnnotation r sandbox w = (e, sandbox', w') \<Longrightarrow>
     I w' \<and> i = identity (sb_Meta sandbox')"
  unfolding clearPodNameAnnotation_def by (auto split: if_splits dest: patchSandbox_guard)

lemma ensurePodName_guard:
  "I w \<Longrightarrow> i = identity (sb_Meta sandbox) \<Longrightarrow> ensurePodNameAnnotation r sandbox n w = (e, sandbox', w') \<Longrightarrow>
     I w' \<and> i = identity (sb_Meta sandbox')"
  unfolding ensurePodNameAnnotation_def Let_def by (auto split: if_splits dest: patchSandbox_guard)

lemma trackPod_guard:
  "I w \<Longrightarrow> i = identity (sb_Meta sandbox) \<Longrightarrow> trackPod r sandbox pod w = (res, sandbox', w') \<Longrightarrow>
     I w' \<and> i = identity (sb_Meta sandbox')"
  unfolding trackPod_def by (auto split: prod.splits option.splits dest: ensurePodName_guard)

lemma alignPod_guard:
  assumes "I w" "i = identity (sb_Meta sandbox)" "nameHash = NameHash (sandboxName sandbox)"
    and touch: "ownedBy (om_UID (sb_Meta sandbox)) (pod_Meta pod) \<or> mayAdopt nameHash (pod_Meta pod)"
    and own: "ownedBy (om_UID (sb_Meta sandbox)) (pod_Meta pod')"
    and run: "alignPod r sandbox nameHash pod pod' needsUpdate w = (res, sandbox', w')"
  shows "I w' \<and> i = identity (sb_Meta sandbox')"
proof -
  obtain u pod'' where u: "updatePodMetadata (sr_api r) (sr_groupOf r) sandbox nameHash pod' = (u, pod'')" by fastforce
  obtain res1 w1 where p: "kc_Patch (sr_pods r) pod pod'' w = (res1, w1)" by fastforce
  have "ownedBy (om_UID (sb_Meta sandbox)) (pod_Meta pod'')"
    using updatePodMetadata_owned own by (metis u snd_conv)
  then have "I w1"
    using pods.patch_guard [OF assms(1) _ p] touch assms(3) by (simp add: ident [OF assms(2)])
  with run u p assms(1,2) show ?thesis
    unfolding alignPod_def by (auto split: if_splits sum.splits dest: trackPod_guard)
qed

lemma existingPod_guard:
  assumes "I w" "i = identity (sb_Meta sandbox)" "nameHash = NameHash (sandboxName sandbox)"
    and run: "reconcileExistingPod r sandbox nameHash pod w = (res, sandbox', w')"
  shows "I w' \<and> i = identity (sb_Meta sandbox')"
proof (cases "checkOwnership (sr_api r) (pod_Meta pod) sandbox")
  case (OwnedBySandbox ref)
  with run have "alignPod r sandbox nameHash pod pod False w = (res, sandbox', w')"
    by (simp add: reconcileExistingPod_def)
  then show ?thesis
    using alignPod_guard [OF assms(1-3)] owned_by [OF assms(1) OwnedBySandbox] by blast
next
  case Unowned
  then have n: "controllerOf (pod_Meta pod) = None" by (rule unowned [OF assms(1)])
  show ?thesis
  proof (cases "adoptable (pod_Meta pod) nameHash")
    case True
    with n have adopt: "mayAdopt nameHash (pod_Meta pod)" by (simp add: mayAdopt_def)
    show ?thesis
    proof (cases "setOwner r sandbox (pod_Meta pod)")
      case (Inr m)
      with True Unowned run have "alignPod r sandbox nameHash pod (pod\<lparr>pod_Meta := m\<rparr>) True w = (res, sandbox', w')"
        by (simp add: reconcileExistingPod_def)
      then show ?thesis
        using alignPod_guard [OF assms(1-3) disjI2 [OF adopt], of "pod\<lparr>pod_Meta := m\<rparr>"] setOwner_owned [OF assms(1) Inr] by simp
    qed (use Unowned True run assms in \<open>simp add: reconcileExistingPod_def\<close>)
  qed (use Unowned run assms in \<open>simp add: reconcileExistingPod_def\<close>)
next
  case (OwnedByAnother ref)
  with run assms(1,2) show ?thesis
    by (auto simp: reconcileExistingPod_def split: prod.splits option.splits dest: clearPodName_guard)
qed

lemma createPod_guard:
  assumes "I w" "i = identity (sb_Meta sandbox)" "nameHash = NameHash (sandboxName sandbox)"
    and run: "createPod r sandbox nameHash w = (res, sandbox', w')"
  shows "I w' \<and> i = identity (sb_Meta sandbox')"
proof (cases "mutatePod r sandbox (newPod r sandbox nameHash)")
  case (Inr pod)
  show ?thesis
  proof (cases "setOwner r sandbox (pod_Meta pod)")
    case owner: (Inr m)
    obtain res1 w1 where c: "kc_Create (sr_pods r) (pod\<lparr>pod_Meta := m\<rparr>) w = (res1, w1)" by fastforce
    have w1: "I w1"
      using pods.create_guard [OF assms(1) _ c] setOwner_owned [OF assms(1) owner] by (simp add: ident [OF assms(2)])
    show ?thesis
      using run Inr owner c w1 assms(2) existingPod_guard [OF w1 assms(2,3)] trackPod_guard [OF w1 assms(2)]
      by (auto simp: createPod_def split: sum.splits apiError.splits)
  qed (use run Inr assms in \<open>simp add: createPod_def\<close>)
qed (use run assms in \<open>simp add: createPod_def\<close>)

lemma suspendPod_guard:
  assumes "I w" "i = identity (sb_Meta sandbox)" "suspendPod r sandbox pod w = (res, sandbox', w')"
  shows "I w' \<and> i = identity (sb_Meta sandbox')"
proof -
  obtain e w1 where d: "deletePodOnSuspend r sandbox pod w = (e, w1)" by fastforce
  have "I w2" if "checkOwnership (sr_api r) (pod_Meta p) sandbox = OwnedBySandbox ref"
      "kc_Delete (sr_pods r) False p w = (res1, w2)" for p ref res1 w2
    using pods.delete_guard [OF assms(1) _ that(2)] owned_by [OF assms(1) that(1)] by (simp add: ident [OF assms(2)])
  with d assms(1) have "I w1"
    by (auto simp: deletePodOnSuspend_def split: option.splits prod.splits resourceOwnership.splits if_splits sum.splits)
  with d assms(2,3) show ?thesis
    by (auto simp: suspendPod_def split: option.splits prod.splits dest: clearPodName_guard)
qed

lemma lookupPod_guard:
  "I w \<Longrightarrow> i = identity (sb_Meta sandbox) \<Longrightarrow> lookupPod r sandbox w = (res, sandbox', w') \<Longrightarrow>
     I w' \<and> i = identity (sb_Meta sandbox')"
  unfolding lookupPod_def
  by (auto split: sum.splits if_splits prod.splits option.splits dest: clearPodName_guard)

lemma reconcilePod_guard:
  assumes "I w" "i = identity (sb_Meta sandbox)" "nameHash = NameHash (sandboxName sandbox)"
    and run: "reconcilePod r sandbox nameHash w = (res, sandbox', w')"
  shows "I w' \<and> i = identity (sb_Meta sandbox')"
proof (cases "kc_ListBy (sr_pods r) (sandboxNS sandbox) podSandboxNameHashIndex nameHash w")
  case (Inr l)
  obtain pod sandbox1 w1 where l: "lookupPod r sandbox w = (pod, sandbox1, w1)" by (metis surj_pair)
  then have 1: "I w1" "i = identity (sb_Meta sandbox1)" using lookupPod_guard [OF assms(1,2)] by blast+
  then have "nameHash = NameHash (sandboxName sandbox1)" using assms(2,3) by (simp add: identity_def)
  then show ?thesis
    using run Inr l 1 suspendPod_guard [OF 1] existingPod_guard [OF 1] createPod_guard [OF 1]
    by (auto simp: reconcilePod_def split: sum.splits if_splits option.splits)
qed (use run assms in \<open>simp add: reconcilePod_def\<close>)

lemma createService_guard:
  assumes "I w" "i = identity (sb_Meta sandbox)" "createService r sandbox nameHash w = (res, sandbox', w')"
  shows "I w' \<and> i = identity (sb_Meta sandbox')"
proof (cases "setOwner r sandbox (svc_Meta (newService sandbox nameHash))")
  case (Inr m)
  obtain res1 w1 where c: "kc_Create (sr_services r) ((newService sandbox nameHash)\<lparr>svc_Meta := m\<rparr>) w = (res1, w1)"
    by fastforce
  have "om_Namespace m = sandboxNS sandbox \<and> om_Name m = sandboxName sandbox"
    using setOwner_keeps [OF assms(1) _ Inr] by (simp add: newService_def emptyMeta_def)
  then have "I w1"
    using services.create_guard [OF assms(1) _ c] setOwner_owned [OF assms(1) Inr] by (simp add: ident [OF assms(2)])
  with Inr c assms(2,3) show ?thesis
    by (auto simp: createService_def setServiceStatus_def split: sum.splits)
qed (use assms in \<open>simp add: createService_def\<close>)

lemma adoptService_guard:
  assumes "I w" "i = identity (sb_Meta sandbox)" "nameHash = NameHash (sandboxName sandbox)"
    and stored: "kc_Get (sr_services r) (sandboxNS sandbox) (sandboxName sandbox) w = Inr service"
    and none: "controllerOf (svc_Meta service) = None"
    and run: "adoptService r sandbox nameHash service w = (res, sandbox', w')"
  shows "I w' \<and> i = identity (sb_Meta sandbox')"
proof (cases "adoptable (svc_Meta service) nameHash")
  case True
  show ?thesis
  proof (cases "setOwner r sandbox (svc_Meta (alignService nameHash service))")
    case (Inr m)
    obtain res1 w1 where u: "kc_Update (sr_services r) ((alignService nameHash service)\<lparr>svc_Meta := m\<rparr>) w = (res1, w1)"
      by fastforce
    have "I w1"
      using services.update_guard [OF assms(1) _ u] setOwner_owned [OF assms(1) Inr] stored none True assms(3)
      by (simp add: ident [OF assms(2)] mayAdopt_def)
    with True Inr u run assms(1,2) show ?thesis
      by (auto simp: adoptService_def setServiceStatus_def split: sum.splits if_splits)
  qed (use True run assms in \<open>simp add: adoptService_def split: if_splits\<close>)
qed (use run assms in \<open>simp add: adoptService_def\<close>)

lemma ownedService_guard:
  assumes "I w" "i = identity (sb_Meta sandbox)" "ownedBy (om_UID (sb_Meta sandbox)) (svc_Meta service)"
    and run: "alignOwnedService r sandbox nameHash service w = (res, sandbox', w')"
  shows "I w' \<and> i = identity (sb_Meta sandbox')"
proof -
  obtain res1 w1 where p: "kc_Patch (sr_services r) service (alignService nameHash service) w = (res1, w1)" by fastforce
  have "I w1" using services.patch_guard [OF assms(1) _ p] assms(3) by (simp add: ident [OF assms(2)])
  with p run assms(1,2) show ?thesis
    by (auto simp: alignOwnedService_def setServiceStatus_def split: sum.splits if_splits)
qed

lemma disableService_guard:
  assumes "I w" "i = identity (sb_Meta sandbox)" "disableService r sandbox service w = (res, sandbox', w')"
  shows "I w' \<and> i = identity (sb_Meta sandbox')"
proof (cases "checkOwnership (sr_api r) (svc_Meta service) sandbox")
  case (OwnedBySandbox ref)
  obtain res1 w1 where d: "kc_Delete (sr_services r) False service w = (res1, w1)" by fastforce
  have "I w1" using services.delete_guard [OF assms(1) _ d] owned_by [OF assms(1) OwnedBySandbox] by (simp add: ident [OF assms(2)])
  with OwnedBySandbox d assms(2,3) show ?thesis
    by (auto simp: disableService_def clearServiceStatus_def split: sum.splits if_splits)
qed (use assms in \<open>auto simp: disableService_def clearServiceStatus_def\<close>)

lemma reconcileService_guard:
  assumes "I w" "i = identity (sb_Meta sandbox)" "nameHash = NameHash (sandboxName sandbox)"
    and run: "reconcileService r sandbox nameHash w = (res, sandbox', w')"
  shows "I w' \<and> i = identity (sb_Meta sandbox')"
proof (cases "kc_Get (sr_services r) (sandboxNS sandbox) (sandboxName sandbox) w")
  case (Inl err)
  with run assms(1,2) createService_guard [OF assms(1,2)] show ?thesis
    by (auto simp: reconcileService_def clearServiceStatus_def Let_def split: if_splits)
next
  case (Inr service)
  show ?thesis
  proof (cases "checkOwnership (sr_api r) (svc_Meta service) sandbox")
    case (OwnedBySandbox ref)
    with run Inr disableService_guard [OF assms(1,2)] ownedService_guard [OF assms(1,2) owned_by [OF assms(1) OwnedBySandbox]]
    show ?thesis by (simp add: reconcileService_def Let_def split: if_splits)
  next
    case Unowned
    with run Inr assms(1,2) disableService_guard [OF assms(1,2)] adoptService_guard [OF assms(1-3) Inr unowned [OF assms(1) Unowned]]
    show ?thesis by (auto simp: reconcileService_def Let_def clearServiceStatus_def split: if_splits)
  next
    case (OwnedByAnother ref)
    with run Inr assms(1,2) disableService_guard [OF assms(1,2)]
    show ?thesis by (simp add: reconcileService_def Let_def split: if_splits)
  qed
qed

lemma reconcilePVC_guard:
  assumes "I w" "i = identity (sb_Meta sandbox)" "nameHash = NameHash (sandboxName sandbox)"
    and run: "reconcilePVC r sandbox nameHash t w = (e, w')"
  shows "I w'"
proof (cases "kc_Get (sr_pvcs r) (sandboxNS sandbox) (vct_Name t @ ''-'' @ sandboxName sandbox) w")
  case (Inl err)
  have "I w1" if o: "setOwner r sandbox (pvc_Meta (newPVC sandbox nameHash t)) = Inr m"
      and c: "kc_Create (sr_pvcs r) ((newPVC sandbox nameHash t)\<lparr>pvc_Meta := m\<rparr>) w = (res1, w1)" for m res1 w1
  proof -
    have "om_Namespace m = sandboxNS sandbox"
      using setOwner_keeps [OF assms(1) _ o] by (simp add: newPVC_def emptyMeta_def)
    then show ?thesis
      using pvcs.create_guard [OF assms(1) _ c] setOwner_owned [OF assms(1) o] by (simp add: ident [OF assms(2)])
  qed
  with run Inl assms(1) show ?thesis
    by (auto simp: reconcilePVC_def Let_def split: if_splits sum.splits prod.splits)
next
  case (Inr pvc)
  have "I w1" if u: "checkOwnership (sr_api r) (pvc_Meta pvc) sandbox = Unowned" "adoptable (pvc_Meta pvc) nameHash"
      and o: "setOwner r sandbox (pvc_Meta pvc) = Inr m"
      and p: "kc_Patch (sr_pvcs r) pvc (pvc\<lparr>pvc_Meta := m\<rparr>) w = (res1, w1)" for m res1 w1
    using pvcs.patch_guard [OF assms(1) _ p] setOwner_owned [OF assms(1) o] unowned [OF assms(1) u(1)] u(2) assms(3)
    by (simp add: ident [OF assms(2)] mayAdopt_def)
  with run Inr assms(1) show ?thesis
    by (auto simp: reconcilePVC_def Let_def split: if_splits sum.splits prod.splits resourceOwnership.splits)
qed

lemma reconcilePVCs_guard:
  assumes "i = identity (sb_Meta sandbox)" "nameHash = NameHash (sandboxName sandbox)"
  shows "I w \<Longrightarrow> reconcilePVCs r sandbox nameHash w = (e, w') \<Longrightarrow> I w'"
proof -
  have "I w \<Longrightarrow> reconcilePVCList r sandbox nameHash ts w = (e, w') \<Longrightarrow> I w'" for ts
  proof (induction ts arbitrary: w)
    case (Cons t ts)
    obtain e1 w1 where 1: "reconcilePVC r sandbox nameHash t w = (e1, w1)" by fastforce
    then have "I w1" using reconcilePVC_guard [OF Cons.prems(1) assms] by blast
    with Cons 1 show ?case by (auto split: option.splits)
  qed simp
  then show "I w \<Longrightarrow> reconcilePVCs r sandbox nameHash w = (e, w') \<Longrightarrow> I w'"
    unfolding reconcilePVCs_def .
qed

lemma children_guard:
  assumes "I w" "i = identity (sb_Meta sandbox)" "reconcileChildResources r now sandbox w = (errs, sandbox', w')"
  shows "I w' \<and> i = identity (sb_Meta sandbox')"
proof -
  let ?h = "NameHash (sandboxName sandbox)"
  obtain pvcErr w1 where 1: "reconcilePVCs r sandbox ?h w = (pvcErr, w1)" by fastforce
  obtain podRes sandbox1 w2 where 2: "reconcilePod r sandbox ?h w1 = (podRes, sandbox1, w2)" by (metis surj_pair)
  let ?sandbox2 = "setPodStatus (resultVal podRes) sandbox1"
  obtain svcRes sandbox3 w3 where 3: "reconcileService r ?sandbox2 ?h w2 = (svcRes, sandbox3, w3)" by (metis surj_pair)
  have "I w1" using reconcilePVCs_guard [OF assms(2) refl assms(1) 1] .
  from reconcilePod_guard [OF this assms(2) refl 2] have p: "I w2" "i = identity (sb_Meta sandbox1)" by blast+
  then have "i = identity (sb_Meta ?sandbox2)" "?h = NameHash (sandboxName ?sandbox2)"
    using assms(2) by (simp_all add: setPodStatus_def identity_def split: option.split)
  from reconcileService_guard [OF p(1) this 3] have "I w3 \<and> i = identity (sb_Meta sandbox3)" .
  with assms(3) 1 2 3 show ?thesis
    by (auto simp: reconcileChildResources_def Let_def setConditions_def)
qed

lemma updateStatus_guard:
  assumes "I w" "i = identity (sb_Meta sandbox)" "Sandbox_updateStatus r old sandbox w = (e, w')"
  shows "I w'"
proof -
  obtain res w1 where u: "kc_UpdateStatus (sr_sandboxes r) sandbox w = (res, w1)" by fastforce
  have "I w1" using sandboxes.status_guard [OF assms(1) _ u] assms(2) by simp
  with u assms(1,3) show ?thesis by (auto simp: Sandbox_updateStatus_def split: if_splits sum.splits)
qed

lemma deleteOwned_pod_guard:
  assumes "I w" "i = identity (sb_Meta sandbox)" "deleteOwned r sandbox what (sr_pods r) pod_Meta n w = (errs, w')"
  shows "I w'"
proof -
  have "I w1" if "checkOwnership (sr_api r) (pod_Meta p) sandbox = OwnedBySandbox ref"
      "kc_Delete (sr_pods r) False p w = (res1, w1)" for p ref res1 w1
    using pods.delete_guard [OF assms(1) _ that(2)] owned_by [OF assms(1) that(1)] by (simp add: ident [OF assms(2)])
  with assms(1,3) show ?thesis
    by (auto simp: deleteOwned_def split: sum.splits resourceOwnership.splits prod.splits)
qed

lemma deleteOwned_service_guard:
  assumes "I w" "i = identity (sb_Meta sandbox)" "deleteOwned r sandbox what (sr_services r) svc_Meta n w = (errs, w')"
  shows "I w'"
proof -
  have "I w1" if "checkOwnership (sr_api r) (svc_Meta p) sandbox = OwnedBySandbox ref"
      "kc_Delete (sr_services r) False p w = (res1, w1)" for p ref res1 w1
    using services.delete_guard [OF assms(1) _ that(2)] owned_by [OF assms(1) that(1)] by (simp add: ident [OF assms(2)])
  with assms(1,3) show ?thesis
    by (auto simp: deleteOwned_def split: sum.splits resourceOwnership.splits prod.splits)
qed

lemma expiry_guard:
  assumes "I w" "i = identity (sb_Meta sandbox)" "handleSandboxExpiry r now sandbox w = (d, errs, sandbox', w')"
  shows "I w' \<and> i = identity (sb_Meta sandbox')"
proof -
  obtain e1 w1 where 1: "deleteOwned r sandbox ''pod'' (sr_pods r) pod_Meta (resolvePodName sandbox) w = (e1, w1)" by fastforce
  obtain e2 w2 where 2: "deleteOwned r sandbox ''service'' (sr_services r) svc_Meta (sandboxName sandbox) w1 = (e2, w2)"
    by fastforce
  obtain res w3 where 3: "kc_Delete (sr_sandboxes r) False sandbox w2 = (res, w3)" by fastforce
  have "I w1" by (rule deleteOwned_pod_guard [OF assms(1,2) 1])
  from deleteOwned_service_guard [OF this assms(2) 2] have w2: "I w2" .
  then have w3: "I w3" using sandboxes.delete_guard [OF _ _ 3] assms(2) by simp
  have "sb_Meta (retainConditions (sr_api r) now sandbox) = sb_Meta sandbox"
    by (simp add: retainConditions_def setSandboxExpiredCondition_def)
  with assms(2,3) 1 2 3 w2 w3 show ?thesis
    by (auto simp: handleSandboxExpiry_def Let_def split: if_splits sum.splits)
qed

lemma live_guard:
  assumes "I w" "i = identity (sb_Meta sandbox)" "reconcileLive r now1 now2 sandbox w = (res, w')"
  shows "I w'"
proof -
  have mark: "identity (sb_Meta (setSandboxExpiredCondition (sr_api r) now sb)) = identity (sb_Meta sb)" for now sb
    by (simp add: setSandboxExpiredCondition_def)
  obtain d errs sandbox1 w1 where h: "handleSandboxExpiry r now1 sandbox w = (d, errs, sandbox1, w1)" by (metis surj_pair)
  obtain errs2 sandbox2 w2 where c: "reconcileChildResources r now1 sandbox w = (errs2, sandbox2, w2)" by (metis surj_pair)
  note hg = expiry_guard [OF assms(1,2) h] and cg = children_guard [OF assms(1,2) c]
  show ?thesis
    using assms h c hg cg
    by (auto simp: reconcileLive_def Let_def mark split: if_splits prod.splits option.splits
        elim!: updateStatus_guard [rotated 2])
qed

lemma Reconcile_guard:
  assumes "I w" "kc_Get (sr_sandboxes r) ns name w = Inr sandbox" "i = identity (sb_Meta sandbox)"
  shows "I (snd (Sandbox_Reconcile r now1 now2 ns name w))"
proof -
  obtain e sandbox1 w1 where t: "initTrace r sandbox w = (e, sandbox1, w1)" by (metis surj_pair)
  then have "I w1 \<and> i = identity (sb_Meta sandbox1)"
    using assms(1,3) by (auto simp: initTrace_def Let_def split: if_splits dest: patchSandbox_guard)
  then show ?thesis
    using assms t live_guard [of w1 sandbox1 now1 now2]
    by (auto simp: Sandbox_Reconcile_def split: option.splits) (metis surj_pair snd_conv)
qed

end

section \<open>The traced reconciler\<close>

definition tracedReconciler :: "'w SandboxReconciler \<Rightarrow> ('w \<times> ('w, clusterWrite) writeLog) SandboxReconciler" where
  "tracedReconciler r = \<lparr>sr_sandboxes = tracedClient SandboxWrite (sr_sandboxes r),
     sr_pods = tracedClient PodWrite (sr_pods r), sr_services = tracedClient ServiceWrite (sr_services r),
     sr_pvcs = tracedClient PVCWrite (sr_pvcs r), sr_api = sr_api r, sr_setRef = sr_setRef r,
     sr_groupOf = sr_groupOf r, sr_ClusterDomain = sr_ClusterDomain r, sr_PodMutator = sr_PodMutator r,
     sr_errorText = sr_errorText r, sr_traceContext = sr_traceContext r\<rparr>"

lemma tracedReconciler_fields [simp]:
  "sr_sandboxes (tracedReconciler r) = tracedClient SandboxWrite (sr_sandboxes r)"
  "sr_pods (tracedReconciler r) = tracedClient PodWrite (sr_pods r)"
  "sr_services (tracedReconciler r) = tracedClient ServiceWrite (sr_services r)"
  "sr_pvcs (tracedReconciler r) = tracedClient PVCWrite (sr_pvcs r)"
  "sr_api (tracedReconciler r) = sr_api r" "sr_setRef (tracedReconciler r) = sr_setRef r"
  "sr_groupOf (tracedReconciler r) = sr_groupOf r" "sr_PodMutator (tracedReconciler r) = sr_PodMutator r"
  "sr_ClusterDomain (tracedReconciler r) = sr_ClusterDomain r"
  "sr_errorText (tracedReconciler r) = sr_errorText r" "sr_traceContext (tracedReconciler r) = sr_traceContext r"
  by (simp_all add: tracedReconciler_def)

abbreviation ownWrites :: "'w SandboxReconciler \<Rightarrow> string \<times> string \<times> string \<Rightarrow> 'w \<times> ('w, clusterWrite) writeLog \<Rightarrow> bool" where
  "ownWrites r i \<equiv> allLogged (\<lambda>w. ownWrite (\<lambda>ns n. kc_Get (sr_services r) ns n w) i)"

lemma traced_pods: "guarded_kind (sr_pods (tracedReconciler r))
    (\<lambda>w e. ownWrite (\<lambda>ns n. kc_Get (sr_services (tracedReconciler r)) ns n w) i (PodWrite e)) (\<lambda>wl. C \<and> ownWrites r i wl)"
  unfolding tracedReconciler_fields tracedClient_reads by (rule traced_kind.guarded_kind_axioms)

lemma traced_services: "guarded_kind (sr_services (tracedReconciler r))
    (\<lambda>w e. ownWrite (\<lambda>ns n. kc_Get (sr_services (tracedReconciler r)) ns n w) i (ServiceWrite e)) (\<lambda>wl. C \<and> ownWrites r i wl)"
  unfolding tracedReconciler_fields tracedClient_reads by (rule traced_kind.guarded_kind_axioms)

lemma traced_pvcs: "guarded_kind (sr_pvcs (tracedReconciler r))
    (\<lambda>w e. ownWrite (\<lambda>ns n. kc_Get (sr_services (tracedReconciler r)) ns n w) i (PVCWrite e)) (\<lambda>wl. C \<and> ownWrites r i wl)"
  unfolding tracedReconciler_fields tracedClient_reads by (rule traced_kind.guarded_kind_axioms)

lemma traced_sandboxes: "guarded_kind (sr_sandboxes (tracedReconciler r))
    (\<lambda>w e. ownWrite (\<lambda>ns n. kc_Get (sr_services (tracedReconciler r)) ns n w) i (SandboxWrite e)) (\<lambda>wl. C \<and> ownWrites r i wl)"
  unfolding tracedReconciler_fields tracedClient_reads by (rule traced_kind.guarded_kind_axioms)

lemma traced_cluster: "cluster_ok r \<Longrightarrow> cluster_ok (tracedReconciler r)"
  by (simp add: cluster_ok_def patch_keeps_traced)

interpretation traced_sandbox: sandbox_guard "tracedReconciler r" i "\<lambda>wl. cluster_ok r \<and> ownWrites r i wl" for r i
  by (intro sandbox_guard.intro sandbox_guard_axioms.intro traced_pods traced_services traced_pvcs traced_sandboxes)
    (blast intro: traced_cluster)

section \<open>The property\<close>

text \<open>
  C5: a reconcile of a Sandbox writes only what it owns.  Every Pod, Service and volume claim
  it creates is controlled by the Sandbox; it deletes only Pods and Services the Sandbox
  controls (never a volume claim); it patches or takes over an object it does not control
  only when nothing else controls it and its labels authorize the adoption; and it writes no
  other Sandbox.  This holds whatever the server answers, errors and conflicts included.
\<close>

theorem reconcile_writes_own:
  assumes "cluster_ok r" "kc_Get (sr_sandboxes r) ns name w = Inr sandbox"
    and "snd (Sandbox_Reconcile (tracedReconciler r) now1 now2 ns name (w, [])) = (w', calls)"
  shows "\<forall>(w0, call) \<in> set calls.
     ownWrite (\<lambda>ns n. kc_Get (sr_services r) ns n w0) (identity (sb_Meta sandbox)) call"
proof -
  have "ownWrites r (identity (sb_Meta sandbox)) (w', calls)"
    using traced_sandbox.Reconcile_guard [of r "identity (sb_Meta sandbox)" "(w, [])" ns name sandbox now1 now2] assms
    by simp
  then show ?thesis by (auto simp: allLogged_def)
qed

definition demoSuspended :: Sandbox where
  "demoSuspended = emptySandbox\<lparr>sb_Meta := emptyMeta\<lparr>om_Name := ''sb'', om_Namespace := ''ns'', om_UID := ''u1''\<rparr>,
     sb_Spec := emptySandboxSpec\<lparr>ss_OperatingMode := ''Suspended''\<rparr>\<rparr>"

definition demoOwner :: "string \<Rightarrow> OwnerReference" where
  "demoOwner uid = \<lparr>or_APIVersion = sandboxAPIVersion, or_Kind = ''Sandbox'', or_Name = ''sb'', or_UID = uid,
     or_Controller = True, or_BlockOwnerDeletion = True\<rparr>"

definition demoOwnedPod :: "string \<Rightarrow> Pod" where
  "demoOwnedPod uid = \<lparr>pod_Meta = emptyMeta\<lparr>om_Name := ''sb'', om_Namespace := ''ns'', om_OwnerReferences := [demoOwner uid]\<rparr>,
     pod_Spec = emptyPodSpec, pod_Phase = ''Running'', pod_Conditions = [], pod_IPs = [''10.0.0.1'']\<rparr>"

definition demoCluster :: "Sandbox \<Rightarrow> (apiError + Pod) \<Rightarrow> unit SandboxReconciler" where
  "demoCluster sandbox pod = \<lparr>sr_sandboxes = echoClient sb_Meta (\<lambda>ns n. Inr sandbox) [],
     sr_pods = echoClient pod_Meta (\<lambda>ns n. pod) [],
     sr_services = echoClient svc_Meta (\<lambda>ns n. Inl (NotFound n)) [], sr_pvcs = echoClient pvc_Meta (\<lambda>ns n. Inl (NotFound n)) [],
     sr_api = stdMachinery, sr_setRef = stdSetRef, sr_groupOf = (\<lambda>v. v), sr_ClusterDomain = ''cluster.local'',
     sr_PodMutator = None, sr_errorText = (\<lambda>errs. ''errors''), sr_traceContext = []\<rparr>"

lemma demoCluster_ok: "cluster_ok (demoCluster sandbox pod)"
  by (simp add: cluster_ok_def demoCluster_def stdMachinery_ok stdSetRef_ok echoClient_keeps)

text \<open>The definitions that evaluate a pass on a concrete cluster.\<close>

lemmas reconcile_eval = Sandbox_Reconcile_def demoCluster_def tracedReconciler_def tracedClient_def echoClient_def recorded_def
  initTrace_def reconcileLive_def checkSandboxExpiry_def reconcileChildResources_def reconcilePVCs_def
  reconcilePod_def lookupPod_def isSuspended_def suspendPod_def deletePodOnSuspend_def checkOwnership_def stdMachinery_def
  reconcileExistingPod_def alignPod_def trackPod_def ensurePodNameAnnotation_def resolvePodName_def
  clearPodNameAnnotation_def setPodStatus_def podIPsFromStatus_def reconcileService_def clearServiceStatus_def
  computeConditions_def computeSuspendedCondition_def computeFinishedCondition_def Sandbox_computeReadyCondition_def
  podReadiness_def svcRequired_def setConditions_def Sandbox_updateStatus_def sandboxCondition_def emptySandbox_def
  emptySandboxSpec_def emptyBlueprint_def emptySandboxStatus_def emptyMeta_def IsNotFound_def Let_def

lemma demoCluster_reads:
  "kc_Get (sr_sandboxes (demoCluster sandbox pod)) ns n w = Inr sandbox"
  "kc_Get (sr_services (demoCluster sandbox pod)) ns n w = Inl (NotFound n)"
  by (simp_all add: demoCluster_def echoClient_def)

lemma demoSuspended_identity: "identity (sb_Meta demoSuspended) = (''ns'', ''sb'', ''u1'')"
  by (simp add: demoSuspended_def identity_def emptyMeta_def)

lemma demo_suspend_run:
  "snd (Sandbox_Reconcile (tracedReconciler (demoCluster demoSuspended (Inr (demoOwnedPod ''u1'')))) 0 0 ''ns'' ''sb'' ((), []))
     = ((), [((), PodWrite (Deleted False (demoOwnedPod ''u1''))),
             ((), SandboxWrite (StatusUpdated (demoSuspended\<lparr>sb_Status := emptySandboxStatus\<lparr>st_Conditions :=
                [(sandboxCondition demoSuspended ''Suspended'' ''True'' ''PodTerminated''
                    ''Pod has been terminated. Sandbox is not operational.'')\<lparr>c_LastTransitionTime := 0\<rparr>,
                 (sandboxCondition demoSuspended ''Ready'' ''False'' ''SandboxSuspended'' ''Sandbox is suspended'')
                    \<lparr>c_LastTransitionTime := 0\<rparr>]\<rparr>\<rparr>)))])"
  by (simp add: reconcile_eval demoSuspended_def demoOwnedPod_def demoOwner_def)

theorem reconcile_writes_own_witness:
  "cluster_ok (demoCluster demoSuspended (Inr (demoOwnedPod ''u1''))) \<and>
   ownWrite (\<lambda>ns n. Inl (NotFound n)) (''ns'', ''sb'', ''u1'') (PodWrite (Deleted False (demoOwnedPod ''u1''))) \<and>
   \<not> ownWrite (\<lambda>ns n. Inl (NotFound n)) (''ns'', ''sb'', ''u1'') (PodWrite (Deleted False (demoOwnedPod ''u2'')))"
  using reconcile_writes_own [OF demoCluster_ok _ demo_suspend_run, of demoSuspended]
  by (simp add: demoCluster_ok demoCluster_reads demoSuspended_identity ownedBy_def demoOwnedPod_def demoOwner_def)

end
