(* ===== verification/Sandbox_Status.thy ===== *)
theory Sandbox_Status
  imports Sandbox_Ownership
begin

text \<open>
  What the Sandbox reconciler reports: when it calls a Sandbox ready, what it says about a
  suspended one, and the two phases of an expiry.
\<close>

section \<open>Conditions\<close>

abbreviation conditionOf :: "Sandbox \<Rightarrow> string \<Rightarrow> Condition option" where
  "conditionOf sandbox typ \<equiv> find (\<lambda>c. c_Type c = typ) (st_Conditions (sb_Status sandbox))"

lemma ready_type [simp]: "c_Type (Sandbox_computeReadyCondition et sandbox errs svc pod) = ''Ready''"
  by (simp add: Sandbox_computeReadyCondition_def sandboxCondition_def Let_def split: prod.split)

lemma suspended_type: "computeSuspendedCondition sandbox pod = Some c \<Longrightarrow> c_Type c = ''Suspended''"
  by (auto simp: computeSuspendedCondition_def sandboxCondition_def split: if_splits option.splits)

lemma finished_type: "computeFinishedCondition sandbox pod = Some c \<Longrightarrow> c_Type c = ''Finished''"
  by (auto simp: computeFinishedCondition_def sandboxCondition_def split: if_splits option.splits)

lemma find_filter_other:
  "typ \<noteq> t' \<Longrightarrow> find (\<lambda>c. c_Type c = typ) (filter (\<lambda>c. c_Type c \<noteq> t') cs) = find (\<lambda>c. c_Type c = typ) cs"
  by (induction cs) auto

text \<open>A published condition is the computed one, up to its transition time.\<close>

definition publishes :: "Condition option \<Rightarrow> Condition \<Rightarrow> bool" where
  "publishes found c \<longleftrightarrow> (\<exists>c'. found = Some c' \<and> c_Status c' = c_Status c \<and> c_Reason c' = c_Reason c \<and>
     c_Message c' = c_Message c \<and> c_ObservedGeneration c' = c_ObservedGeneration c)"

lemma set_publishes:
  assumes "apimachinery_ok api"
  shows "publishes (find (\<lambda>x. c_Type x = c_Type c) (SetStatusCondition api now cs c)) c"
  by (rule set_same [OF assms, of c now cs]) (auto simp: publishes_def)

lemma fold_set_other:
  "apimachinery_ok api \<Longrightarrow> typ \<notin> c_Type ` set cs \<Longrightarrow>
     find (\<lambda>c. c_Type c = typ) (fold (\<lambda>c cs. SetStatusCondition api now cs c) cs old) = find (\<lambda>c. c_Type c = typ) old"
  by (induction cs arbitrary: old) auto

lemma setConditions_other:
  assumes "apimachinery_ok api" "typ \<notin> c_Type ` set cs" "typ \<noteq> ''Finished''"
  shows "conditionOf (setConditions api now cs sandbox) typ = conditionOf sandbox typ"
  using assms by (simp add: setConditions_def Let_def fold_set_other find_filter_other)

lemma setConditions_publishes:
  assumes api: "apimachinery_ok api" and cs: "cs = xs @ c # ys" "c_Type c \<notin> c_Type ` set ys" "c_Type c \<noteq> ''Finished''"
  shows "publishes (conditionOf (setConditions api now cs sandbox) (c_Type c)) c"
  using set_publishes [OF api] cs
  by (simp add: setConditions_def Let_def fold_set_other [OF api] find_filter_other remove_okD [OF api])

lemma children_ready:
  assumes "apimachinery_ok (sr_api r)" "reconcileChildResources r now sandbox w = (errs, sandbox', w')"
  obtains pvcErr w1 podRes sandbox1 w2 svcRes sandbox3 where
    "reconcilePVCs r sandbox (NameHash (sandboxName sandbox)) w = (pvcErr, w1)"
    "reconcilePod r sandbox (NameHash (sandboxName sandbox)) w1 = (podRes, sandbox1, w2)"
    "reconcileService r (setPodStatus (resultVal podRes) sandbox1) (NameHash (sandboxName sandbox)) w2 = (svcRes, sandbox3, w')"
    "errs = (case pvcErr of Some e \<Rightarrow> [e] | None \<Rightarrow> []) @ resultErr podRes @ resultErr svcRes"
    "sandbox' = setConditions (sr_api r) now
       (computeConditions (sr_errorText r) sandbox3 errs (resultVal svcRes) (resultVal podRes)) sandbox3"
    "publishes (conditionOf sandbox' ''Ready'')
       (Sandbox_computeReadyCondition (sr_errorText r) sandbox3 errs (resultVal svcRes) (resultVal podRes))"
proof -
  let ?h = "NameHash (sandboxName sandbox)"
  obtain pvcErr w1 where 1: "reconcilePVCs r sandbox ?h w = (pvcErr, w1)" by fastforce
  obtain podRes sandbox1 w2 where 2: "reconcilePod r sandbox ?h w1 = (podRes, sandbox1, w2)" by (metis surj_pair)
  obtain svcRes sandbox3 w3 where 3: "reconcileService r (setPodStatus (resultVal podRes) sandbox1) ?h w2 = (svcRes, sandbox3, w3)"
    by (metis surj_pair)
  let ?cs = "computeConditions (sr_errorText r) sandbox3 errs (resultVal svcRes) (resultVal podRes)"
  let ?ready = "Sandbox_computeReadyCondition (sr_errorText r) sandbox3 errs (resultVal svcRes) (resultVal podRes)"
  have e: "errs = (case pvcErr of Some e \<Rightarrow> [e] | None \<Rightarrow> []) @ resultErr podRes @ resultErr svcRes"
    and w3: "w3 = w'" and s: "sandbox' = setConditions (sr_api r) now ?cs sandbox3"
    using assms(2) 1 2 3 by (auto simp: reconcileChildResources_def Let_def)
  have "\<exists>xs. ?cs = xs @ [?ready]" by (simp add: computeConditions_def)
  then have "publishes (conditionOf sandbox' (c_Type ?ready)) ?ready"
    using setConditions_publishes [OF assms(1), of ?cs _ ?ready "[]"] unfolding s by auto
  with that [OF 1 2 3 [unfolded w3] e s] show thesis by simp
qed

section \<open>The Pod that is reported\<close>

text \<open>Replies carry the owner references that were written.\<close>

definition replies_keep :: "('o \<Rightarrow> ObjectMeta) \<Rightarrow> ('o, 'w) objectClient \<Rightarrow> bool" where
  "replies_keep meta kc \<longleftrightarrow>
     (\<forall>x y w z w'. kc_Patch kc x y w = (Inr z, w') \<longrightarrow> om_OwnerReferences (meta z) = om_OwnerReferences (meta y)) \<and>
     (\<forall>y w z w'. kc_Create kc y w = (Inr z, w') \<longrightarrow> om_OwnerReferences (meta z) = om_OwnerReferences (meta y))"

text \<open>The steps of the reconciler keep the identity of the Sandbox, whatever the invariant.\<close>

interpretation plain_sandbox: sandbox_guard r i "\<lambda>w. cluster_ok r" for r i
  by unfold_locales auto

lemma trackPod_val: "trackPod r sandbox pod w = (Inr (Some p), sandbox', w') \<Longrightarrow> p = pod"
  by (auto simp: trackPod_def split: prod.splits option.splits)

lemma alignPod_owned:
  assumes "replies_keep pod_Meta (sr_pods r)" "ownedBy uid (pod_Meta pod')"
    and "alignPod r sandbox nameHash pod pod' b w = (Inr (Some p), sandbox', w')"
  shows "ownedBy uid (pod_Meta p)"
proof -
  obtain u pod'' where u: "updatePodMetadata (sr_api r) (sr_groupOf r) sandbox nameHash pod' = (u, pod'')" by fastforce
  have "ownedBy uid (pod_Meta pod'')" using updatePodMetadata_owned assms(2) by (metis u snd_conv)
  moreover have "ownedBy uid (pod_Meta z)" if "kc_Patch (sr_pods r) pod pod'' w = (Inr z, w1)" for z w1
    using assms(1) that calculation unfolding replies_keep_def ownedBy_def by metis
  ultimately show ?thesis
    using assms(3) u by (auto simp: alignPod_def split: if_splits prod.splits sum.splits dest!: trackPod_val)
qed

lemma existingPod_owned:
  assumes "cluster_ok r" "replies_keep pod_Meta (sr_pods r)"
    and run: "reconcileExistingPod r sandbox nameHash pod w = (Inr (Some p), sandbox', w')"
  shows "ownedBy (om_UID (sb_Meta sandbox)) (pod_Meta p)"
proof (cases "checkOwnership (sr_api r) (pod_Meta pod) sandbox")
  case (OwnedBySandbox ref)
  with run have "alignPod r sandbox nameHash pod pod False w = (Inr (Some p), sandbox', w')"
    by (simp add: reconcileExistingPod_def)
  then show ?thesis
    by (rule alignPod_owned [OF assms(2) plain_sandbox.owned_by [OF assms(1) OwnedBySandbox]])
next
  case Unowned
  with run obtain m where m: "setOwner r sandbox (pod_Meta pod) = Inr m"
      "alignPod r sandbox nameHash pod (pod\<lparr>pod_Meta := m\<rparr>) True w = (Inr (Some p), sandbox', w')"
    by (auto simp: reconcileExistingPod_def split: if_splits sum.splits)
  have "ownedBy (om_UID (sb_Meta sandbox)) (pod_Meta (pod\<lparr>pod_Meta := m\<rparr>))"
    using plain_sandbox.setOwner_owned [OF assms(1) m(1)] by simp
  then show ?thesis by (rule alignPod_owned [OF assms(2) _ m(2)])
qed (use run in \<open>auto simp: reconcileExistingPod_def split: prod.splits option.splits\<close>)

lemma createPod_owned:
  assumes "cluster_ok r" "replies_keep pod_Meta (sr_pods r)"
    and run: "createPod r sandbox nameHash w = (Inr (Some p), sandbox', w')"
  shows "ownedBy (om_UID (sb_Meta sandbox)) (pod_Meta p)"
proof -
  obtain pod m where m: "mutatePod r sandbox (newPod r sandbox nameHash) = Inr pod" "setOwner r sandbox (pod_Meta pod) = Inr m"
    using run by (auto simp: createPod_def split: sum.splits)
  obtain res1 w1 where c: "kc_Create (sr_pods r) (pod\<lparr>pod_Meta := m\<rparr>) w = (res1, w1)" by fastforce
  show ?thesis
  proof (cases res1)
    case (Inr z)
    then have "om_OwnerReferences (pod_Meta z) = om_OwnerReferences m"
      using assms(2) c unfolding replies_keep_def by fastforce
    moreover have "p = z" using run m c Inr by (auto simp: createPod_def dest!: trackPod_val)
    ultimately show ?thesis
      using plain_sandbox.setOwner_owned [OF assms(1) m(2)] by (simp add: ownedBy_def)
  next
    case (Inl err)
    with run m c show ?thesis
      by (auto simp: createPod_def split: apiError.splits sum.splits dest!: existingPod_owned [OF assms(1,2)])
  qed
qed

lemma lookupPod_identity:
  "cluster_ok r \<Longrightarrow> lookupPod r sandbox w = (res, sandbox', w') \<Longrightarrow> identity (sb_Meta sandbox') = identity (sb_Meta sandbox)"
  using plain_sandbox.lookupPod_guard [of r "identity (sb_Meta sandbox)" sandbox] by simp

lemma suspendPod_none: "suspendPod r sandbox pod w = (res, sandbox', w') \<Longrightarrow> resultVal res = None"
  by (auto simp: suspendPod_def split: prod.splits option.splits)

lemma reconcilePod_owned:
  assumes "cluster_ok r" "replies_keep pod_Meta (sr_pods r)"
    and run: "reconcilePod r sandbox nameHash w = (Inr (Some p), sandbox', w')"
  shows "ownedBy (om_UID (sb_Meta sandbox)) (pod_Meta p)"
proof -
  obtain res sandbox1 w1 where l: "lookupPod r sandbox w = (res, sandbox1, w1)" by (metis surj_pair)
  have "om_UID (sb_Meta sandbox1) = om_UID (sb_Meta sandbox)"
    using lookupPod_identity [OF assms(1) l] by (simp add: identity_def)
  with run l show ?thesis
    using existingPod_owned [OF assms(1,2), of sandbox1] createPod_owned [OF assms(1,2), of sandbox1] suspendPod_none
    by (fastforce simp: reconcilePod_def split: sum.splits if_splits option.splits)
qed

section \<open>Readiness\<close>

definition podServing :: "Pod \<Rightarrow> bool" where
  "podServing p \<longleftrightarrow> pod_Phase p = ''Running'' \<and> pod_IPs p \<noteq> [] \<and>
     (\<exists>c. find (\<lambda>c. pc_Type c = ''Ready'') (pod_Conditions p) = Some c \<and> pc_Status c = ''True'')"

lemma podReadiness_iff: "fst (podReadiness p) \<longleftrightarrow> podServing p"
  by (auto simp: podReadiness_def podServing_def split: option.split)

lemma ready_iff:
  "c_Status (Sandbox_computeReadyCondition et sandbox errs svc pod) = ''True'' \<longleftrightarrow>
     errs = [] \<and> \<not> isSuspended sandbox \<and> (\<exists>p. pod = Some p \<and> podServing p) \<and> (svcRequired sandbox svc \<longrightarrow> svc \<noteq> None)"
proof (cases pod)
  case (Some p)
  obtain b m where "podReadiness p = (b, m)" by fastforce
  moreover from this have "b = podServing p" using podReadiness_iff by (metis fst_conv)
  moreover have "podServing p \<Longrightarrow> pod_Phase p \<noteq> ''Succeeded'' \<and> pod_Phase p \<noteq> ''Failed''" by (simp add: podServing_def)
  ultimately show ?thesis
    using Some by (auto simp: Sandbox_computeReadyCondition_def sandboxCondition_def Let_def)
qed (simp add: Sandbox_computeReadyCondition_def sandboxCondition_def Let_def)

lemma service_frame:
  assumes "reconcileService r sandbox nameHash w = (res, sandbox', w')"
  shows "sb_Meta sandbox' = sb_Meta sandbox" "sb_Spec sandbox' = sb_Spec sandbox"
    "st_PodIPs (sb_Status sandbox') = st_PodIPs (sb_Status sandbox)"
    "st_NodeName (sb_Status sandbox') = st_NodeName (sb_Status sandbox)"
    "st_Conditions (sb_Status sandbox') = st_Conditions (sb_Status sandbox)"
    "resultVal res = Some service \<Longrightarrow> st_Service (sb_Status sandbox') = om_Name (svc_Meta service)"
proof -
  have "sb_Meta sandbox' = sb_Meta sandbox \<and> sb_Spec sandbox' = sb_Spec sandbox \<and>
    st_PodIPs (sb_Status sandbox') = st_PodIPs (sb_Status sandbox) \<and>
    st_NodeName (sb_Status sandbox') = st_NodeName (sb_Status sandbox) \<and>
    st_Conditions (sb_Status sandbox') = st_Conditions (sb_Status sandbox) \<and>
    (\<forall>service. resultVal res = Some service \<longrightarrow> st_Service (sb_Status sandbox') = om_Name (svc_Meta service))"
    using assms
    by (auto simp: reconcileService_def Let_def createService_def adoptService_def alignOwnedService_def disableService_def
        setServiceStatus_def clearServiceStatus_def
        split: sum.splits if_splits prod.splits resourceOwnership.splits)
  then show "sb_Meta sandbox' = sb_Meta sandbox" "sb_Spec sandbox' = sb_Spec sandbox"
    "st_PodIPs (sb_Status sandbox') = st_PodIPs (sb_Status sandbox)"
    "st_NodeName (sb_Status sandbox') = st_NodeName (sb_Status sandbox)"
    "st_Conditions (sb_Status sandbox') = st_Conditions (sb_Status sandbox)"
    "resultVal res = Some service \<Longrightarrow> st_Service (sb_Status sandbox') = om_Name (svc_Meta service)"
    by blast+
qed

lemma setConditions_frame [simp]:
  "sb_Meta (setConditions api now cs sandbox) = sb_Meta sandbox" "sb_Spec (setConditions api now cs sandbox) = sb_Spec sandbox"
  "st_PodIPs (sb_Status (setConditions api now cs sandbox)) = st_PodIPs (sb_Status sandbox)"
  "st_NodeName (sb_Status (setConditions api now cs sandbox)) = st_NodeName (sb_Status sandbox)"
  by (simp_all add: setConditions_def Let_def)

text \<open>
  C16: a Sandbox is reported ready only when it is.  If a pass over the children publishes
  Ready as true, then no step failed, the Sandbox is not suspended, and it is backed by a Pod
  that the Sandbox controls, that runs, that reports itself ready and has addresses; the
  addresses and the node in the published status are those of this Pod.
\<close>

theorem ready_truthful:
  assumes "cluster_ok r" "replies_keep pod_Meta (sr_pods r)"
    and "reconcileChildResources r now sandbox w = (errs, sandbox', w')"
    and "conditionOf sandbox' ''Ready'' = Some c" "c_Status c = ''True''"
  shows "errs = [] \<and> \<not> isSuspended sandbox' \<and>
     (\<exists>pod. ownedBy (om_UID (sb_Meta sandbox)) (pod_Meta pod) \<and> podServing pod \<and>
        st_PodIPs (sb_Status sandbox') = pod_IPs pod \<and> st_NodeName (sb_Status sandbox') = ps_NodeName (pod_Spec pod))"
proof -
  have api: "apimachinery_ok (sr_api r)" using assms(1) by (simp add: cluster_ok_def)
  obtain pvcErr w1 podRes sandbox1 w2 svcRes sandbox3 where
    p: "reconcilePod r sandbox (NameHash (sandboxName sandbox)) w1 = (podRes, sandbox1, w2)"
    and s: "reconcileService r (setPodStatus (resultVal podRes) sandbox1) (NameHash (sandboxName sandbox)) w2 = (svcRes, sandbox3, w')"
    and f: "sandbox' = setConditions (sr_api r) now
       (computeConditions (sr_errorText r) sandbox3 errs (resultVal svcRes) (resultVal podRes)) sandbox3"
    and "publishes (conditionOf sandbox' ''Ready'')
       (Sandbox_computeReadyCondition (sr_errorText r) sandbox3 errs (resultVal svcRes) (resultVal podRes))"
    by (rule children_ready [OF api assms(3)]) blast
  then have "c_Status (Sandbox_computeReadyCondition (sr_errorText r) sandbox3 errs (resultVal svcRes) (resultVal podRes)) = ''True''"
    using assms(4,5) by (simp add: publishes_def)
  then obtain pod where r: "errs = []" "\<not> isSuspended sandbox3" "resultVal podRes = Some pod" "podServing pod"
    by (auto simp: ready_iff)
  then have "podRes = Inr (Some pod)" by (cases podRes) auto
  with p have "ownedBy (om_UID (sb_Meta sandbox)) (pod_Meta pod)"
    using reconcilePod_owned [OF assms(1,2)] by blast
  moreover have "st_PodIPs (sb_Status sandbox') = pod_IPs pod \<and> st_NodeName (sb_Status sandbox') = ps_NodeName (pod_Spec pod)"
    using service_frame(3,4) [OF s] by (simp add: f r(3) setPodStatus_def podIPsFromStatus_def)
  moreover have "\<not> isSuspended sandbox'" using r(2) by (simp add: f isSuspended_def)
  ultimately show ?thesis using r by blast
qed

section \<open>Suspension\<close>

text \<open>A patch of the metadata that nobody races changes neither the status nor the spec.\<close>

definition patch_frame :: "(Sandbox, 'w) objectClient \<Rightarrow> bool" where
  "patch_frame kc \<longleftrightarrow> (\<forall>x y w z w'. kc_Patch kc x y w = (Inr z, w') \<longrightarrow> sb_Status z = sb_Status x \<and> sb_Spec z = sb_Spec x)"

definition sameBody :: "Sandbox \<Rightarrow> Sandbox \<Rightarrow> bool" where
  "sameBody a b \<longleftrightarrow> sb_Status a = sb_Status b \<and> sb_Spec a = sb_Spec b"

lemma sameBody_refl [simp]: "sameBody a a"
  by (simp add: sameBody_def)

lemma sameBody_trans: "sameBody a b \<Longrightarrow> sameBody b c \<Longrightarrow> sameBody a c"
  by (simp add: sameBody_def)

lemma patchSandbox_frame:
  "patch_frame (sr_sandboxes r) \<Longrightarrow> patchSandbox r what sandbox anns w = (e, sandbox', w') \<Longrightarrow> sameBody sandbox' sandbox"
  by (fastforce simp: patchSandbox_def sameBody_def patch_frame_def Let_def split: prod.splits sum.splits)

lemma clearPodName_frame:
  "patch_frame (sr_sandboxes r) \<Longrightarrow> clearPodNameAnnotation r sandbox w = (e, sandbox', w') \<Longrightarrow> sameBody sandbox' sandbox"
  by (auto simp: clearPodNameAnnotation_def split: if_splits dest: patchSandbox_frame)

lemma trackPod_frame:
  "patch_frame (sr_sandboxes r) \<Longrightarrow> trackPod r sandbox pod w = (e, sandbox', w') \<Longrightarrow> sameBody sandbox' sandbox"
  by (auto simp: trackPod_def ensurePodNameAnnotation_def Let_def split: if_splits prod.splits option.splits
      dest: patchSandbox_frame)

lemma existingPod_frame:
  "patch_frame (sr_sandboxes r) \<Longrightarrow> reconcileExistingPod r sandbox h pod w = (e, sandbox', w') \<Longrightarrow> sameBody sandbox' sandbox"
  by (auto simp: reconcileExistingPod_def alignPod_def
      split: resourceOwnership.splits if_splits prod.splits option.splits sum.splits dest: clearPodName_frame trackPod_frame)

lemma createPod_frame:
  "patch_frame (sr_sandboxes r) \<Longrightarrow> createPod r sandbox h w = (e, sandbox', w') \<Longrightarrow> sameBody sandbox' sandbox"
  by (auto simp: createPod_def split: prod.splits sum.splits apiError.splits dest: existingPod_frame trackPod_frame)

lemma suspendPod_frame:
  "patch_frame (sr_sandboxes r) \<Longrightarrow> suspendPod r sandbox pod w = (e, sandbox', w') \<Longrightarrow> sameBody sandbox' sandbox"
  by (auto simp: suspendPod_def split: prod.splits option.splits dest: clearPodName_frame)

lemma lookupPod_frame:
  "patch_frame (sr_sandboxes r) \<Longrightarrow> lookupPod r sandbox w = (e, sandbox', w') \<Longrightarrow> sameBody sandbox' sandbox"
  by (auto simp: lookupPod_def split: sum.splits if_splits prod.splits option.splits dest: clearPodName_frame)

lemma reconcilePod_frame:
  assumes "patch_frame (sr_sandboxes r)" "reconcilePod r sandbox h w = (res, sandbox', w')"
  shows "sameBody sandbox' sandbox \<and> (isSuspended sandbox \<longrightarrow> resultVal res = None)"
proof -
  obtain pod sandbox1 w1 where l: "lookupPod r sandbox w = (pod, sandbox1, w1)" by (metis surj_pair)
  then have 1: "sameBody sandbox1 sandbox" using lookupPod_frame [OF assms(1)] by blast
  then have "isSuspended sandbox1 = isSuspended sandbox" by (simp add: isSuspended_def sameBody_def)
  with assms(2) l 1 show ?thesis
    by (auto simp: reconcilePod_def suspendPod_none split: sum.splits if_splits option.splits
        dest: suspendPod_frame [OF assms(1)] existingPod_frame [OF assms(1)] createPod_frame [OF assms(1)]
        elim: sameBody_trans)
qed

text \<open>
  The Suspended condition does not follow the Pod.  Suspending a Sandbox publishes
  Suspended as true, with the reason that the Pod has been terminated, in the very same pass
  and whatever the server says about the Pod: when its deletion was only requested or failed,
  and when a Pod of that name is not this Sandbox's and stays.  Once the Sandbox runs again,
  a pass leaves the condition as it was, still true.
\<close>

theorem suspended_condition_unfaithful:
  assumes "apimachinery_ok (sr_api r)" "patch_frame (sr_sandboxes r)"
    and "reconcileChildResources r now sandbox w = (errs, sandbox', w')"
  shows "(isSuspended sandbox \<longrightarrow> (\<exists>c. conditionOf sandbox' ''Suspended'' = Some c \<and>
            c_Status c = ''True'' \<and> c_Reason c = ''PodTerminated'')) \<and>
     (\<not> isSuspended sandbox \<longrightarrow> conditionOf sandbox' ''Suspended'' = conditionOf sandbox ''Suspended'')"
proof -
  obtain pvcErr w1 podRes sandbox1 w2 svcRes sandbox3 where
    p: "reconcilePod r sandbox (NameHash (sandboxName sandbox)) w1 = (podRes, sandbox1, w2)"
    and s: "reconcileService r (setPodStatus (resultVal podRes) sandbox1) (NameHash (sandboxName sandbox)) w2 = (svcRes, sandbox3, w')"
    and f: "sandbox' = setConditions (sr_api r) now
       (computeConditions (sr_errorText r) sandbox3 errs (resultVal svcRes) (resultVal podRes)) sandbox3"
    by (rule children_ready [OF assms(1,3)]) blast
  let ?ready = "Sandbox_computeReadyCondition (sr_errorText r) sandbox3 errs (resultVal svcRes) (resultVal podRes)"
  have b: "sb_Spec sandbox3 = sb_Spec sandbox" "st_Conditions (sb_Status sandbox3) = st_Conditions (sb_Status sandbox)"
    using reconcilePod_frame [OF assms(2) p] service_frame(2,5) [OF s]
    by (simp_all add: sameBody_def setPodStatus_def split: option.splits)
  show ?thesis
  proof (intro conjI impI)
    assume susp: "isSuspended sandbox"
    let ?c = "sandboxCondition sandbox3 ''Suspended'' ''True'' ''PodTerminated'' ''Pod has been terminated. Sandbox is not operational.''"
    have "resultVal podRes = None" using reconcilePod_frame [OF assms(2) p] susp by blast
    moreover have "isSuspended sandbox3" using susp b by (simp add: isSuspended_def)
    ultimately have "computeConditions (sr_errorText r) sandbox3 errs (resultVal svcRes) (resultVal podRes) = [] @ ?c # [?ready]"
      by (simp add: computeConditions_def computeSuspendedCondition_def computeFinishedCondition_def)
    from setConditions_publishes [OF assms(1) this, of now sandbox3]
    show "\<exists>c. conditionOf sandbox' ''Suspended'' = Some c \<and> c_Status c = ''True'' \<and> c_Reason c = ''PodTerminated''"
      by (auto simp: f publishes_def sandboxCondition_def)
  next
    assume "\<not> isSuspended sandbox"
    then have "computeSuspendedCondition sandbox3 (resultVal podRes) = None"
      using b by (simp add: computeSuspendedCondition_def isSuspended_def)
    then have "''Suspended'' \<notin> c_Type ` set (computeConditions (sr_errorText r) sandbox3 errs (resultVal svcRes) (resultVal podRes))"
      by (auto simp: computeConditions_def split: option.splits dest: finished_type [OF sym])
    then show "conditionOf sandbox' ''Suspended'' = conditionOf sandbox ''Suspended''"
      using setConditions_other [OF assms(1)] b unfolding f by simp
  qed
qed

definition demoRunning :: Sandbox where
  "demoRunning = emptySandbox\<lparr>sb_Meta := emptyMeta\<lparr>om_Name := ''sb'', om_Namespace := ''ns'', om_UID := ''u1'',
     om_Annotations := fmupd SandboxPodNameAnnotation ''sb'' fmempty\<rparr>\<rparr>"

definition demoServingPod :: Pod where
  "demoServingPod = (demoOwnedPod ''u1'')\<lparr>pod_Meta := (pod_Meta (demoOwnedPod ''u1''))\<lparr>
       om_Labels := fmupd sandboxLabel (NameHash ''sb'') fmempty\<rparr>,
     pod_Conditions := [\<lparr>pc_Type = ''Ready'', pc_Status = ''True''\<rparr>]\<rparr>"

lemma demo_managedKeys: "managedKeys isSystem fmempty = []"
  by (simp add: managedKeys_def sorted_list_of_fset.rep_eq)

lemma demo_aligned: "updatePodMetadata stdMachinery (\<lambda>v. v) demoRunning (NameHash ''sb'') demoServingPod = (False, demoServingPod)"
  by (simp add: updatePodMetadata_def demo_managedKeys demoRunning_def demoServingPod_def demoOwnedPod_def emptySandbox_def
      emptySandboxSpec_def emptyBlueprint_def emptyMeta_def propagate_def scrub_def setTracked_def syncTracked_def dropTracked_def
      expectedWarmPoolHash_def expectedTemplateRefHash_def expectedCreatedBy_def extensionOwner_def stdMachinery_def Let_def)

lemma demo_pod:
  "reconcilePod (demoCluster demoRunning (Inr demoServingPod)) demoRunning (NameHash ''sb'') () =
     (Inr (Some demoServingPod), demoRunning, ())"
proof -
  have "checkOwnership stdMachinery (pod_Meta demoServingPod) demoRunning = OwnedBySandbox (demoOwner ''u1'')"
    by (simp add: checkOwnership_def stdMachinery_def demoServingPod_def demoOwnedPod_def demoOwner_def demoRunning_def)
  moreover have "om_Name (pod_Meta demoServingPod) = ''sb''" by (simp add: demoServingPod_def demoOwnedPod_def)
  moreover have "\<not> isSuspended demoRunning" by (simp add: isSuspended_def demoRunning_def emptySandbox_def emptySandboxSpec_def)
  moreover have "mget (om_Annotations (sb_Meta demoRunning)) SandboxPodNameAnnotation = ''sb''" by (simp add: demoRunning_def)
  ultimately show ?thesis
    by (simp add: reconcilePod_def lookupPod_def reconcileExistingPod_def alignPod_def trackPod_def ensurePodNameAnnotation_def
        demo_aligned demoCluster_def echoClient_def Let_def)
qed

lemma demo_serving:
  "pod_Phase demoServingPod = ''Running''" "pod_Conditions demoServingPod = [\<lparr>pc_Type = ''Ready'', pc_Status = ''True''\<rparr>]"
  "pod_IPs demoServingPod = [''10.0.0.1'']" "ps_NodeName (pod_Spec demoServingPod) = []"
  by (simp_all add: demoServingPod_def demoOwnedPod_def emptyPodSpec_def)

lemma demo_ready_run:
  "reconcileChildResources (demoCluster demoRunning (Inr demoServingPod)) 0 demoRunning () =
     ([], demoRunning\<lparr>sb_Status := emptySandboxStatus\<lparr>st_LabelSelector := sandboxLabel @ ''='' @ NameHash ''sb'',
        st_PodIPs := [''10.0.0.1''], st_Conditions := [(sandboxCondition demoRunning ''Ready'' ''True'' ''DependenciesReady''
          ''Pod is Ready'')\<lparr>c_LastTransitionTime := 0\<rparr>]\<rparr>\<rparr>, ())"
proof -
  have "sandboxName demoRunning = ''sb''" "bp_VolumeClaimTemplates (ss_Blueprint (sb_Spec demoRunning)) = []"
    by (simp_all add: demoRunning_def emptySandbox_def emptySandboxSpec_def emptyBlueprint_def)
  then show ?thesis
    by (simp add: reconcileChildResources_def demo_pod reconcilePVCs_def Let_def)
      (simp add: demo_serving setPodStatus_def podIPsFromStatus_def reconcileService_def
        clearServiceStatus_def computeConditions_def computeSuspendedCondition_def computeFinishedCondition_def
        Sandbox_computeReadyCondition_def podReadiness_def svcRequired_def setConditions_def sandboxCondition_def isSuspended_def
        demoCluster_def echoClient_def stdMachinery_def demoRunning_def emptySandbox_def emptySandboxSpec_def
        emptyBlueprint_def emptySandboxStatus_def IsNotFound_def Let_def)
qed

theorem ready_truthful_witness:
  "isSuspended demoRunning = False \<and>
   (\<exists>pod. ownedBy ''u1'' (pod_Meta pod) \<and> podServing pod \<and> pod_IPs pod = [''10.0.0.1''])"
proof -
  have "replies_keep pod_Meta (sr_pods (demoCluster demoRunning (Inr demoServingPod)))"
    by (simp add: replies_keep_def demoCluster_def echoClient_def)
  from ready_truthful [OF demoCluster_ok this demo_ready_run, of "(sandboxCondition demoRunning ''Ready'' ''True''
      ''DependenciesReady'' ''Pod is Ready'')\<lparr>c_LastTransitionTime := 0\<rparr>"]
  show ?thesis by (auto simp: sandboxCondition_def isSuspended_def demoRunning_def)
qed

text \<open>A server that applies a patch to the annotations of the stored Sandbox.\<close>

definition demoAnnotating :: "Sandbox \<Rightarrow> (apiError + Pod) \<Rightarrow> unit SandboxReconciler" where
  "demoAnnotating sandbox pod = (demoCluster sandbox pod)\<lparr>sr_sandboxes := (sr_sandboxes (demoCluster sandbox pod))\<lparr>
     kc_Patch := (\<lambda>x y w. (Inr (x\<lparr>sb_Meta := (sb_Meta x)\<lparr>om_Annotations := om_Annotations (sb_Meta y)\<rparr>\<rparr>), w))\<rparr>\<rparr>"

theorem suspended_condition_unfaithful_witness:
  "(\<exists>c. conditionOf (fst (snd (reconcileChildResources (demoAnnotating demoSuspended (Inr (demoOwnedPod ''u2''))) 0 demoSuspended ())))
      ''Suspended'' = Some c \<and> c_Status c = ''True'' \<and> c_Reason c = ''PodTerminated'') \<and>
   \<not> ownedBy ''u1'' (pod_Meta (demoOwnedPod ''u2''))"
proof -
  let ?r = "demoAnnotating demoSuspended (Inr (demoOwnedPod ''u2''))"
  have "apimachinery_ok (sr_api ?r)" by (simp add: demoAnnotating_def demoCluster_def stdMachinery_ok)
  moreover have "patch_frame (sr_sandboxes ?r)" by (simp add: demoAnnotating_def patch_frame_def)
  moreover have "isSuspended demoSuspended" by (simp add: isSuspended_def demoSuspended_def)
  ultimately show ?thesis
    using suspended_condition_unfaithful [of ?r 0 demoSuspended "()"]
    by (cases "reconcileChildResources ?r 0 demoSuspended ()") (simp add: ownedBy_def demoOwnedPod_def demoOwner_def)
qed

section \<open>Expiry\<close>

lemma marked_iff:
  "apimachinery_ok api \<Longrightarrow> sandboxMarkedExpired api sandbox \<longleftrightarrow>
     (\<exists>c. conditionOf sandbox ''Ready'' = Some c \<and> c_Reason c = SandboxReasonExpired)"
  by (simp add: sandboxMarkedExpired_def split: option.split)

lemma marking_marks:
  assumes "apimachinery_ok api"
  shows "sandboxMarkedExpired api (setSandboxExpiredCondition api now sandbox)"
  using set_publishes [OF assms, of "expiredCondition sandbox" now "st_Conditions (sb_Status sandbox)"]
  by (auto simp: marked_iff [OF assms] setSandboxExpiredCondition_def publishes_def expiredCondition_def sandboxCondition_def)

lemma marking_changes:
  assumes "apimachinery_ok api" "\<not> sandboxMarkedExpired api sandbox"
  shows "sb_Status (setSandboxExpiredCondition api now sandbox) \<noteq> sb_Status sandbox"
  using marking_marks [OF assms(1), of now sandbox] assms(2) by (auto simp: marked_iff [OF assms(1)])

lemma recorded_log: "recorded call e wl = (res, wl') \<Longrightarrow> snd wl' = snd wl @ [(fst wl, e)]"
  by (auto simp: recorded_def split: prod.splits)

lemma traced_writes:
  "kc_UpdateStatus (tracedClient wrap kc) x wl = (res, wl') \<Longrightarrow> snd wl' = snd wl @ [(fst wl, wrap (StatusUpdated x))]"
  "kc_Delete (tracedClient wrap kc) fg x wl = (dres, wl') \<Longrightarrow> snd wl' = snd wl @ [(fst wl, wrap (Deleted fg x))]"
  by (simp_all add: tracedClient_def recorded_log)

lemma deleteOwned_log:
  assumes "apimachinery_ok (sr_api r)"
    and "deleteOwned r sandbox kind (tracedClient wrap kc) meta n wl = (errs, wl')"
  shows "snd wl' = snd wl @ (case kc_Get kc (sandboxNS sandbox) n (fst wl) of
      Inr x \<Rightarrow> if ownedBy (om_UID (sb_Meta sandbox)) (meta x) then [(fst wl, wrap (Deleted False x))] else []
    | Inl _ \<Rightarrow> [])"
  using assms
  by (auto simp: deleteOwned_def checkOwnership_def ownedBy_def split: sum.splits prod.splits option.splits if_splits
      dest: traced_writes(2))

lemma updateStatus_log:
  assumes "sr_sandboxes r = tracedClient SandboxWrite kc" "Sandbox_updateStatus r old sandbox wl = (e, wl')"
  shows "snd wl' = snd wl @ (if old = sb_Status sandbox then [] else [(fst wl, SandboxWrite (StatusUpdated sandbox))])"
  using assms by (auto simp: Sandbox_updateStatus_def split: if_splits prod.splits sum.splits dest: traced_writes(1))

lemma expiry_log:
  assumes "apimachinery_ok (sr_api r)"
    and run: "handleSandboxExpiry (tracedReconciler r) now sandbox (w, []) = (d, errs, sandbox', wl')"
  shows "\<exists>w1. map snd (snd wl') =
     (case kc_Get (sr_pods r) (sandboxNS sandbox) (resolvePodName sandbox) w of
        Inr p \<Rightarrow> if ownedBy (om_UID (sb_Meta sandbox)) (pod_Meta p) then [PodWrite (Deleted False p)] else [] | Inl _ \<Rightarrow> []) @
     (case kc_Get (sr_services r) (sandboxNS sandbox) (sandboxName sandbox) w1 of
        Inr s \<Rightarrow> if ownedBy (om_UID (sb_Meta sandbox)) (svc_Meta s) then [ServiceWrite (Deleted False s)] else [] | Inl _ \<Rightarrow> []) @
     (if ss_ShutdownPolicy (sb_Spec sandbox) = Some ''Delete'' then [SandboxWrite (Deleted False sandbox)] else [])"
proof -
  let ?r = "tracedReconciler r"
  have api: "apimachinery_ok (sr_api ?r)" using assms(1) by simp
  obtain e1 w1 where 1: "deleteOwned ?r sandbox ''pod'' (tracedClient PodWrite (sr_pods r)) pod_Meta (resolvePodName sandbox) (w, []) = (e1, w1)"
    by (rule prod.exhaust)
  obtain e2 w2 where 2: "deleteOwned ?r sandbox ''service'' (tracedClient ServiceWrite (sr_services r)) svc_Meta (sandboxName sandbox) w1 = (e2, w2)"
    by (rule prod.exhaust)
  obtain res w3 where 3: "kc_Delete (tracedClient SandboxWrite (sr_sandboxes r)) False sandbox w2 = (res, w3)" by (rule prod.exhaust)
  have "wl' = (if ss_ShutdownPolicy (sb_Spec sandbox) = Some ''Delete'' then w3 else w2)"
    using run 1 2 3 by (auto simp: handleSandboxExpiry_def Let_def split: if_splits sum.splits)
  then show ?thesis
    using deleteOwned_log [OF api 1] deleteOwned_log [OF api 2] traced_writes(2) [OF 3]
    by (intro exI [of _ "fst w1"]) (auto split: sum.splits)
qed

lemma expiry_deletes:
  assumes "apimachinery_ok (sr_api r)"
    and "handleSandboxExpiry (tracedReconciler r) now sandbox (w, []) = (d, errs, sandbox', wl')"
  shows "kc_Get (sr_pods r) (sandboxNS sandbox) (resolvePodName sandbox) w = Inr pod \<Longrightarrow>
      PodWrite (Deleted False pod) \<in> snd ` set (snd wl') \<longleftrightarrow> ownedBy (om_UID (sb_Meta sandbox)) (pod_Meta pod)"
    and "SandboxWrite (Deleted False sandbox) \<in> snd ` set (snd wl') \<longleftrightarrow> ss_ShutdownPolicy (sb_Spec sandbox) = Some ''Delete''"
proof -
  obtain w1 where l: "map snd (snd wl') =
     (case kc_Get (sr_pods r) (sandboxNS sandbox) (resolvePodName sandbox) w of
        Inr p \<Rightarrow> if ownedBy (om_UID (sb_Meta sandbox)) (pod_Meta p) then [PodWrite (Deleted False p)] else [] | Inl _ \<Rightarrow> []) @
     (case kc_Get (sr_services r) (sandboxNS sandbox) (sandboxName sandbox) w1 of
        Inr s \<Rightarrow> if ownedBy (om_UID (sb_Meta sandbox)) (svc_Meta s) then [ServiceWrite (Deleted False s)] else [] | Inl _ \<Rightarrow> []) @
     (if ss_ShutdownPolicy (sb_Spec sandbox) = Some ''Delete'' then [SandboxWrite (Deleted False sandbox)] else [])"
    using expiry_log [OF assms] by blast
  have e: "snd ` set (snd wl') = set (map snd (snd wl'))" by simp
  show "kc_Get (sr_pods r) (sandboxNS sandbox) (resolvePodName sandbox) w = Inr pod \<Longrightarrow>
      PodWrite (Deleted False pod) \<in> snd ` set (snd wl') \<longleftrightarrow> ownedBy (om_UID (sb_Meta sandbox)) (pod_Meta pod)"
    "SandboxWrite (Deleted False sandbox) \<in> snd ` set (snd wl') \<longleftrightarrow> ss_ShutdownPolicy (sb_Spec sandbox) = Some ''Delete''"
    unfolding e l by (auto split: sum.split)
qed

text \<open>
  An expired Sandbox is taken down in two phases.  Past its shutdown time, a pass over a
  Sandbox not yet marked only records the Expired condition, which makes it a marked one, and
  asks to be called again at once: no child is touched before the terminal status is written.
  A pass over a marked Sandbox deletes its Pod exactly when the Sandbox controls it, and the
  Sandbox itself exactly when the shutdown policy says so.
\<close>

theorem expiry_two_phase:
  assumes "apimachinery_ok (sr_api r)" "sr_traceContext r = []"
    and "kc_Get (sr_sandboxes r) ns name w = Inr sandbox" "om_DeletionTimestamp (sb_Meta sandbox) = None"
    and "ss_ShutdownTime (sb_Spec sandbox) = Some t" "t \<le> now1"
    and "Sandbox_Reconcile (tracedReconciler r) now1 now2 ns name (w, []) = ((after, errs), w', calls)"
  shows "if sandboxMarkedExpired (sr_api r) sandbox then
       (\<forall>pod. kc_Get (sr_pods r) (sandboxNS sandbox) (resolvePodName sandbox) w = Inr pod \<longrightarrow>
          (PodWrite (Deleted False pod) \<in> snd ` set calls \<longleftrightarrow> ownedBy (om_UID (sb_Meta sandbox)) (pod_Meta pod))) \<and>
       (SandboxWrite (Deleted False sandbox) \<in> snd ` set calls \<longleftrightarrow> ss_ShutdownPolicy (sb_Spec sandbox) = Some ''Delete'')
     else
       let marked = setSandboxExpiredCondition (sr_api r) now1 sandbox
       in map snd calls = [SandboxWrite (StatusUpdated marked)] \<and> sandboxMarkedExpired (sr_api r) marked \<and>
          (errs = [] \<longrightarrow> after = immediateRequeueDelay)"
proof -
  let ?r = "tracedReconciler r" and ?m = "setSandboxExpiredCondition (sr_api r) now1 sandbox"
  have live: "reconcileLive ?r now1 now2 sandbox (w, []) = ((after, errs), w', calls)"
    using assms(2-4,7) by (simp add: Sandbox_Reconcile_def initTrace_def)
  have expired: "fst (checkSandboxExpiry sandbox now1)" using assms(5,6) by (simp add: checkSandboxExpiry_def)
  show ?thesis
  proof (cases "sandboxMarkedExpired (sr_api r) sandbox")
    case False
    obtain e wl' where u: "Sandbox_updateStatus ?r (sb_Status sandbox) ?m (w, []) = (e, wl')" by (rule prod.exhaust)
    have "((after, errs), w', calls) = (case e of None \<Rightarrow> ((immediateRequeueDelay, []), wl') | Some err \<Rightarrow> ((0, [CallFailed ''update status'' err]), wl'))"
      using live expired False u by (simp add: reconcileLive_def split: option.splits)
    moreover have "snd wl' = [(w, SandboxWrite (StatusUpdated ?m))]"
      using updateStatus_log [OF _ u] marking_changes [OF assms(1) False, of now1] by (simp add: eq_commute [of "sb_Status sandbox"])
    ultimately show ?thesis
      using False marking_marks [OF assms(1)] by (auto simp: Let_def split: option.splits)
  next
    case True
    obtain d errs1 sandbox1 wl1 where h: "handleSandboxExpiry ?r now1 sandbox (w, []) = (d, errs1, sandbox1, wl1)" by (metis surj_pair)
    obtain e wl2 where u: "Sandbox_updateStatus ?r (sb_Status sandbox) sandbox1 wl1 = (e, wl2)" by (rule prod.exhaust)
    have "(w', calls) = (if d then wl1 else wl2)"
      using live expired True h u by (simp add: reconcileLive_def Let_def split: if_splits)
    then have "snd ` set calls \<subseteq> insert (SandboxWrite (StatusUpdated sandbox1)) (snd ` set (snd wl1))"
      "snd ` set (snd wl1) \<subseteq> snd ` set calls"
      using updateStatus_log [OF _ u, of "sr_sandboxes r"] by (auto split: if_splits)
    then have "x \<in> snd ` set calls \<longleftrightarrow> x \<in> snd ` set (snd wl1)" if "x \<noteq> SandboxWrite (StatusUpdated sandbox1)" for x
      using that by blast
    with expiry_deletes [OF assms(1) h] True show ?thesis by simp
  qed
qed

definition demoExpired :: Sandbox where
  "demoExpired = demoRunning\<lparr>sb_Spec := (sb_Spec demoRunning)\<lparr>ss_ShutdownTime := Some 5, ss_ShutdownPolicy := Some ''Delete''\<rparr>\<rparr>"

definition demoMarked :: Sandbox where
  "demoMarked = setSandboxExpiredCondition stdMachinery 5 demoExpired"

lemma run_shape:
  fixes x :: "('a \<times> 'b) \<times> unit \<times> 'c"
  obtains a b c where "x = ((a, b), (), c)"
  by (cases x) auto

theorem expiry_two_phase_witness:
  "map snd (snd (snd (Sandbox_Reconcile (tracedReconciler (demoCluster demoExpired (Inr demoServingPod))) 7 8 ''ns'' ''sb'' ((), [])))) =
      [SandboxWrite (StatusUpdated (setSandboxExpiredCondition stdMachinery 7 demoExpired))] \<and>
   PodWrite (Deleted False demoServingPod) \<in>
      snd ` set (snd (snd (Sandbox_Reconcile (tracedReconciler (demoCluster demoMarked (Inr demoServingPod))) 7 8 ''ns'' ''sb'' ((), []))))"
proof -
  have r: "apimachinery_ok (sr_api (demoCluster sb p))" "sr_traceContext (demoCluster sb p) = []"
    "sr_api (demoCluster sb p) = stdMachinery" "kc_Get (sr_pods (demoCluster sb p)) ns n w = p" for sb p ns n w
    by (simp_all add: demoCluster_def echoClient_def stdMachinery_ok)
  have s: "om_DeletionTimestamp (sb_Meta demoExpired) = None" "ss_ShutdownTime (sb_Spec demoExpired) = Some 5"
    "om_DeletionTimestamp (sb_Meta demoMarked) = None" "ss_ShutdownTime (sb_Spec demoMarked) = Some 5"
    "om_UID (sb_Meta demoMarked) = ''u1''"
    by (simp_all add: demoMarked_def demoExpired_def demoRunning_def setSandboxExpiredCondition_def emptyMeta_def)
  have "\<not> sandboxMarkedExpired stdMachinery demoExpired"
    by (simp add: demoExpired_def demoRunning_def sandboxMarkedExpired_def stdMachinery_def emptySandbox_def emptySandboxStatus_def)
  moreover have "sandboxMarkedExpired stdMachinery demoMarked"
    unfolding demoMarked_def by (rule marking_marks [OF stdMachinery_ok])
  moreover have "ownedBy ''u1'' (pod_Meta demoServingPod)"
    by (simp add: ownedBy_def demoServingPod_def demoOwnedPod_def demoOwner_def)
  moreover obtain a1 e1 c1 where 1: "Sandbox_Reconcile (tracedReconciler (demoCluster demoExpired (Inr demoServingPod)))
      7 8 ''ns'' ''sb'' ((), []) = ((a1, e1), (), c1)" by (rule run_shape)
  moreover obtain a2 e2 c2 where 2: "Sandbox_Reconcile (tracedReconciler (demoCluster demoMarked (Inr demoServingPod)))
      7 8 ''ns'' ''sb'' ((), []) = ((a2, e2), (), c2)" by (rule run_shape)
  ultimately show ?thesis
    using expiry_two_phase [OF r(1,2) demoCluster_reads(1) s(1,2) _ 1]
      expiry_two_phase [OF r(1,2) demoCluster_reads(1) s(3,4) _ 2]
    by (simp add: r s Let_def)
qed

end
