(* ===== verification/Warm_Pool_Controller.thy ===== *)
theory Warm_Pool_Controller
  imports Pod_Metadata Kube_Client "HOL-Library.Product_Lexorder"
begin

text \<open>
  The warm pool controller (\<^verbatim>\<open>extensions/controllers/sandboxwarmpool_controller.go\<close>,
  \<^verbatim>\<open>utils.go\<close>): it keeps the number of pre-booted Sandboxes of a pool, replaces those of an
  outdated template, and adopts orphans.

  The clients, \<open>SetControllerReference\<close>, \<open>json.Marshal\<close> of the template and the semantic
  equality of the apimachinery are fields of the reconciler.  The goroutines of one batch
  write different objects; they are run in index order, and the error of a batch is its
  first in that order.  Ties of the scale-down order are broken by list position.
\<close>

section \<open>Data\<close>

datatype poolError =
    PoolCall apiError
  | TemplateCall string apiError
  | MarshalFailed string
  | PoolSetRef string
  | ContextDone

record 'w SandboxWarmPoolReconciler =
  wr_pools :: "(SandboxWarmPool, 'w) objectClient"
  wr_sandboxes :: "(Sandbox, 'w) objectClient"
  wr_templates :: "(SandboxTemplate, 'w) objectClient"
  wr_api :: apimachinery
  wr_setRef :: setControllerReference
  wr_marshalPodTemplate :: "PodTemplate \<Rightarrow> string option"
  wr_marshalBlueprint :: "SandboxBlueprint \<Rightarrow> string option"
  wr_specEqual :: "PodSpec \<Rightarrow> PodSpec \<Rightarrow> bool"
  wr_claimSpecEqual :: "string \<Rightarrow> string \<Rightarrow> bool"
  wr_ctxDone :: "nat \<Rightarrow> bool"
  wr_MaxBatchSize :: int
  wr_EnableWarmPoolEviction :: bool
  wr_DisableSandboxCRManagement :: bool

abbreviation "warmPoolSandboxLabel \<equiv> SandboxWarmPoolLabel"
abbreviation "sandboxTemplateRefHash \<equiv> SandboxTemplateRefHashLabel"
abbreviation "warmPoolEvictionAnnotation \<equiv> ''cluster-autoscaler.kubernetes.io/safe-to-evict''"
abbreviation "sandboxWarmPoolLabelIndex \<equiv> ''.metadata.labels[agents.x-k8s.io/warm-pool-sandbox]''"
abbreviation "extensionsAPIVersion \<equiv> ''extensions.agents.x-k8s.io/v1beta1''"

definition warmPoolReadinessGracePeriod :: int where "warmPoolReadinessGracePeriod = 5 * 60 * second"

section \<open>Secure defaults\<close>

definition isSecureByDefault :: "SandboxTemplate \<Rightarrow> bool" where
  "isSecureByDefault template \<longleftrightarrow>
     (ts_NetworkPolicyManagement (tp_Spec template) = [] \<or> ts_NetworkPolicyManagement (tp_Spec template) = ''Managed'') \<and>
     ts_NetworkPolicy (tp_Spec template) = None"

definition ApplySandboxSecureDefaults :: "SandboxTemplate \<Rightarrow> PodSpec \<Rightarrow> PodSpec" where
  "ApplySandboxSecureDefaults template spec =
     (let spec1 = (if ps_AutomountServiceAccountToken spec = None
                   then spec\<lparr>ps_AutomountServiceAccountToken := Some False\<rparr> else spec)
      in if isSecureByDefault template \<and> ps_DNSPolicy spec1 = []
         then spec1\<lparr>ps_DNSPolicy := ''None'', ps_DNSConfig := Some [''8.8.8.8'', ''1.1.1.1'']\<rparr> else spec1)"

definition SandboxTemplateRefHash :: "string \<Rightarrow> string" where
  "SandboxTemplateRefHash templateRefName = NameHash templateRefName"

section \<open>Readiness and staleness\<close>

definition isSandboxReady :: "Sandbox \<Rightarrow> bool" where
  "isSandboxReady sb = (\<exists>c \<in> set (st_Conditions (sb_Status sb)). c_Type c = ''Ready'' \<and> c_Status c = ''True'')"

definition comparePodSpecs :: "'w SandboxWarmPoolReconciler \<Rightarrow> SandboxTemplate \<Rightarrow> PodSpec \<Rightarrow> bool" where
  "comparePodSpecs r template actual =
     wr_specEqual r (ApplySandboxSecureDefaults template (pt_Spec (bp_PodTemplate (ts_Blueprint (tp_Spec template))))) actual"

definition compareVolumeClaimTemplates ::
  "'w SandboxWarmPoolReconciler \<Rightarrow> SandboxTemplate \<Rightarrow> PersistentVolumeClaimTemplate list \<Rightarrow> bool" where
  "compareVolumeClaimTemplates r template actual =
     list_all2 (\<lambda>t a. vct_Name t = vct_Name a \<and> wr_claimSpecEqual r (vct_Spec t) (vct_Spec a))
       (bp_VolumeClaimTemplates (ts_Blueprint (tp_Spec template))) actual"

definition compareSandboxBlueprint :: "'w SandboxWarmPoolReconciler \<Rightarrow> SandboxTemplate \<Rightarrow> SandboxBlueprint \<Rightarrow> bool" where
  "compareSandboxBlueprint r template actual \<longleftrightarrow>
     comparePodSpecs r template (pt_Spec (bp_PodTemplate actual)) \<and>
     compareVolumeClaimTemplates r template (bp_VolumeClaimTemplates actual) \<and>
     bp_Service (ts_Blueprint (tp_Spec template)) = bp_Service actual"

type_synonym vetted = "string \<rightharpoonup> bool"

definition isSandboxStale ::
  "'w SandboxWarmPoolReconciler \<Rightarrow> Sandbox \<Rightarrow> SandboxTemplate \<Rightarrow> string \<Rightarrow> vetted \<Rightarrow> bool \<times> vetted" where
  "isSandboxStale r sandbox template current vettedHashes =
     (let labels = om_Labels (sb_Meta sandbox);
          sandboxHash = mget labels SandboxTemplateHashLabel;
          stale = \<not> compareSandboxBlueprint r template (ss_Blueprint (sb_Spec sandbox))
      in if mget labels sandboxTemplateRefHash \<noteq> SandboxTemplateRefHash (om_Name (tp_Meta template)) then (True, vettedHashes)
         else if GetControllerOf (wr_api r) (sb_Meta sandbox) = None then (stale, vettedHashes)
         else if sandboxHash \<noteq> [] \<and> sandboxHash = current then (False, vettedHashes)
         else if current = [] then (False, vettedHashes)
         else if sandboxHash \<noteq> [] then
           (case vettedHashes sandboxHash of
              Some b \<Rightarrow> (b, vettedHashes)
            | None \<Rightarrow> (stale, vettedHashes(sandboxHash \<mapsto> stale)))
         else (stale, vettedHashes))"

section \<open>The template\<close>

definition computePodTemplateHash :: "'w SandboxWarmPoolReconciler \<Rightarrow> SandboxTemplate \<Rightarrow> poolError + string" where
  "computePodTemplateHash r template =
     (case wr_marshalPodTemplate r (bp_PodTemplate (ts_Blueprint (tp_Spec template))) of
        None \<Rightarrow> Inl (MarshalFailed ''failed to marshal pod template for hashing'')
      | Some json \<Rightarrow> Inr (NameHash json))"

definition computeSandboxBlueprintHash :: "'w SandboxWarmPoolReconciler \<Rightarrow> SandboxTemplate \<Rightarrow> poolError + string" where
  "computeSandboxBlueprintHash r template =
     (case wr_marshalBlueprint r (ts_Blueprint (tp_Spec template)) of
        None \<Rightarrow> Inl (MarshalFailed ''failed to marshal sandbox blueprint for hashing'')
      | Some json \<Rightarrow> Inr (NameHash json))"

definition getTemplate :: "'w SandboxWarmPoolReconciler \<Rightarrow> SandboxWarmPool \<Rightarrow> 'w \<Rightarrow> poolError + SandboxTemplate" where
  "getTemplate r warmPool w =
     (case kc_Get (wr_templates r) (om_Namespace (wp_Meta warmPool)) (ws_TemplateRef (wp_Spec warmPool)) w of
        Inl err \<Rightarrow> Inl (TemplateCall (ws_TemplateRef (wp_Spec warmPool)) err)
      | Inr template \<Rightarrow> Inr template)"

definition fetchTemplateAndHash ::
  "'w SandboxWarmPoolReconciler \<Rightarrow> SandboxWarmPool \<Rightarrow> 'w \<Rightarrow> poolError + SandboxTemplate \<times> string \<times> string" where
  "fetchTemplateAndHash r warmPool w =
     (case getTemplate r warmPool w of
        Inl err \<Rightarrow> Inl err
      | Inr template \<Rightarrow>
          case computePodTemplateHash r template of
            Inl err \<Rightarrow> Inl err
          | Inr podHash \<Rightarrow>
              case computeSandboxBlueprintHash r template of
                Inl err \<Rightarrow> Inl err
              | Inr blueprintHash \<Rightarrow> Inr (template, podHash, blueprintHash))"

definition templateMissing :: "poolError \<Rightarrow> bool" where
  "templateMissing err = (case err of TemplateCall _ e \<Rightarrow> IsNotFound e | _ \<Rightarrow> False)"

section \<open>The members of the pool\<close>

definition setWarmLaunchTypeLabelIfNeeded :: "Sandbox \<Rightarrow> bool \<times> Sandbox" where
  "setWarmLaunchTypeLabelIfNeeded sb =
     (if mget (om_Labels (sb_Meta sb)) SandboxLaunchTypeLabel = SandboxLaunchTypeWarm then (False, sb)
      else (True, sb\<lparr>sb_Meta := (sb_Meta sb)\<lparr>om_Labels := fmupd SandboxLaunchTypeLabel SandboxLaunchTypeWarm (om_Labels (sb_Meta sb))\<rparr>\<rparr>))"

definition adoptSandbox ::
  "'w SandboxWarmPoolReconciler \<Rightarrow> SandboxWarmPool \<Rightarrow> Sandbox \<Rightarrow> 'w \<Rightarrow> (poolError + Sandbox) \<times> 'w" where
  "adoptSandbox r warmPool sb w =
     (case wr_setRef r extensionsAPIVersion ''SandboxWarmPool'' (wp_Meta warmPool) (sb_Meta sb) of
        Inl err \<Rightarrow> (Inl (PoolSetRef err), w)
      | Inr m \<Rightarrow>
          case kc_Update (wr_sandboxes r) (snd (setWarmLaunchTypeLabelIfNeeded (sb\<lparr>sb_Meta := m\<rparr>))) w of
            (Inl err, w') \<Rightarrow> (Inl (PoolCall err), w')
          | (Inr sb', w') \<Rightarrow> (Inr sb', w'))"

definition isRecreate :: "SandboxWarmPool \<Rightarrow> bool" where
  "isRecreate warmPool \<longleftrightarrow> ws_UpdateStrategy (wp_Spec warmPool) = Some ''Recreate''"

definition labelMember ::
  "'w SandboxWarmPoolReconciler \<Rightarrow> Sandbox \<Rightarrow> 'w \<Rightarrow> (poolError + Sandbox) \<times> 'w" where
  "labelMember r sb w =
     (case setWarmLaunchTypeLabelIfNeeded sb of
        (False, _) \<Rightarrow> (Inr sb, w)
      | (True, sb1) \<Rightarrow>
          case kc_Update (wr_sandboxes r) sb1 w of
            (Inl err, w') \<Rightarrow> (Inl (PoolCall err), w')
          | (Inr sb', w') \<Rightarrow> (Inr sb', w'))"

definition deleteSandbox :: "'w SandboxWarmPoolReconciler \<Rightarrow> Sandbox \<Rightarrow> 'w \<Rightarrow> poolError list \<times> 'w" where
  "deleteSandbox r sb w =
     (case kc_Delete (wr_sandboxes r) False sb w of
        (Inl err, w') \<Rightarrow> ([PoolCall err], w')
      | (Inr _, w') \<Rightarrow> ([], w'))"

text \<open>One member: kept (possibly updated), or left out with the errors seen.\<close>

definition filterOne ::
  "'w SandboxWarmPoolReconciler \<Rightarrow> SandboxWarmPool \<Rightarrow> (SandboxTemplate \<times> string) option \<Rightarrow> vetted \<Rightarrow> Sandbox \<Rightarrow> 'w
     \<Rightarrow> Sandbox list \<times> poolError list \<times> vetted \<times> 'w" where
  "filterOne r warmPool tmpl vettedHashes sb w =
     (let ref = GetControllerOf (wr_api r) (sb_Meta sb);
          isOrphan = (ref = None);
          isControlledByPool = (\<exists>c. ref = Some c \<and> or_UID c = om_UID (wp_Meta warmPool));
          (stale, vetted') =
            (case tmpl of
               Some (template, current) \<Rightarrow>
                 if isRecreate warmPool \<or> isOrphan then isSandboxStale r sb template current vettedHashes
                 else (False, vettedHashes)
             | None \<Rightarrow> (False, vettedHashes))
      in if om_DeletionTimestamp (sb_Meta sb) \<noteq> None then ([], [], vettedHashes, w)
         else if \<not> isOrphan \<and> \<not> isControlledByPool then ([], [], vettedHashes, w)
         else if stale then (let (errs, w') = deleteSandbox r sb w in ([], errs, vetted', w'))
         else case (if isOrphan then adoptSandbox r warmPool sb w else labelMember r sb w) of
                (Inl err, w') \<Rightarrow> ([], [err], vetted', w')
              | (Inr sb', w') \<Rightarrow> ([sb'], [], vetted', w'))"

fun filterMembers ::
  "'w SandboxWarmPoolReconciler \<Rightarrow> SandboxWarmPool \<Rightarrow> (SandboxTemplate \<times> string) option \<Rightarrow> vetted \<Rightarrow> Sandbox list \<Rightarrow> 'w
     \<Rightarrow> Sandbox list \<times> poolError list \<times> 'w" where
  "filterMembers r warmPool tmpl vettedHashes [] w = ([], [], w)"
| "filterMembers r warmPool tmpl vettedHashes (sb # sbs) w =
     (let (kept, errs, vetted', w1) = filterOne r warmPool tmpl vettedHashes sb w;
          (active, errs', w2) = filterMembers r warmPool tmpl vetted' sbs w1
      in (kept @ active, errs @ errs', w2))"

definition filterActiveSandboxes ::
  "'w SandboxWarmPoolReconciler \<Rightarrow> SandboxWarmPool \<Rightarrow> Sandbox list \<Rightarrow> (SandboxTemplate \<times> string) option \<Rightarrow> 'w
     \<Rightarrow> Sandbox list \<times> poolError list \<times> 'w" where
  "filterActiveSandboxes r warmPool sandboxes tmpl w = filterMembers r warmPool tmpl Map.empty sandboxes w"

text \<open>Members that never became ready within the grace period are deleted.\<close>

definition isStuck :: "gotime \<Rightarrow> Sandbox \<Rightarrow> bool" where
  "isStuck now sb \<longleftrightarrow> \<not> isSandboxReady sb \<and> om_CreationTimestamp (sb_Meta sb) \<noteq> zeroTime \<and>
     now - om_CreationTimestamp (sb_Meta sb) > warmPoolReadinessGracePeriod"

fun dropStuck :: "'w SandboxWarmPoolReconciler \<Rightarrow> gotime \<Rightarrow> Sandbox list \<Rightarrow> 'w \<Rightarrow> Sandbox list \<times> poolError list \<times> 'w" where
  "dropStuck r now [] w = ([], [], w)"
| "dropStuck r now (sb # sbs) w =
     (if isStuck now sb then
        let (errs, w1) = deleteSandbox r sb w; (healthy, errs', w2) = dropStuck r now sbs w1
        in (healthy, errs @ errs', w2)
      else let (healthy, errs, w1) = dropStuck r now sbs w in (sb # healthy, errs, w1))"

section \<open>Batches\<close>

fun runBatch :: "(nat \<Rightarrow> 'w \<Rightarrow> 'e option \<times> 'w) \<Rightarrow> nat list \<Rightarrow> 'w \<Rightarrow> 'e option \<times> nat \<times> 'w" where
  "runBatch fn [] w = (None, 0, w)"
| "runBatch fn (i # is) w =
     (let (e, w1) = fn i w; (e', n, w2) = runBatch fn is w1
      in (if e = None then e' else e, if e = None then n + 1 else n, w2))"

text \<open>The loop of \<open>slowStartBatch\<close>; \<open>ctxDone\<close> tells, by the successes so far, whether the context has ended.\<close>

function slowStartLoop ::
  "(nat \<Rightarrow> bool) \<Rightarrow> 'e \<Rightarrow> (nat \<Rightarrow> 'w \<Rightarrow> 'e option \<times> 'w) \<Rightarrow> nat \<Rightarrow> nat \<Rightarrow> nat \<Rightarrow> 'w \<Rightarrow> nat \<times> 'e option \<times> 'w" where
  "slowStartLoop ctxDone done fn batchSize remaining successes w =
     (if batchSize = 0 then (successes, None, w)
      else if ctxDone successes then (successes, Some done, w)
      else case runBatch fn [successes..<successes + batchSize] w of
             (Some err, n, w') \<Rightarrow> (successes + n, Some err, w')
           | (None, n, w') \<Rightarrow>
               slowStartLoop ctxDone done fn (min (2 * batchSize) (remaining - batchSize)) (remaining - batchSize) (successes + n) w')"
  by auto
termination
  by (relation "measure (\<lambda>(ctxDone, done, fn, b, r, s, w). 2 * r + (if b = 0 then 0 else 1))") auto

definition slowStartBatch ::
  "(nat \<Rightarrow> bool) \<Rightarrow> 'e \<Rightarrow> nat \<Rightarrow> nat \<Rightarrow> (nat \<Rightarrow> 'w \<Rightarrow> 'e option \<times> 'w) \<Rightarrow> 'w \<Rightarrow> nat \<times> 'e option \<times> 'w" where
  "slowStartBatch ctxDone done n initialBatchSize fn w =
     slowStartLoop ctxDone done fn (min n initialBatchSize) n 0 w"

section \<open>Scaling\<close>

definition poolLabels :: "SandboxWarmPool \<Rightarrow> string \<Rightarrow> string \<Rightarrow> string \<Rightarrow> strmap" where
  "poolLabels warmPool poolNameHash podHash blueprintHash =
     fmap_of_list [(warmPoolSandboxLabel, poolNameHash),
       (sandboxTemplateRefHash, SandboxTemplateRefHash (ws_TemplateRef (wp_Spec warmPool))),
       (SandboxLaunchTypeLabel, SandboxLaunchTypeWarm), (DeprecatedSandboxPodTemplateHashLabel, podHash),
       (SandboxTemplateHashLabel, blueprintHash), (CreatedByLabel, ''controller'')]"

definition poolPodTemplate ::
  "'w SandboxWarmPoolReconciler \<Rightarrow> SandboxWarmPool \<Rightarrow> string \<Rightarrow> SandboxTemplate \<Rightarrow> string \<Rightarrow> string \<Rightarrow> PodTemplate" where
  "poolPodTemplate r warmPool poolNameHash template podHash blueprintHash =
     (let pt = bp_PodTemplate (ts_Blueprint (tp_Spec template)); meta = pt_Meta pt; anns = pm_Annotations meta
      in \<lparr>pt_Spec = ApplySandboxSecureDefaults template (pt_Spec pt),
          pt_Meta = \<lparr>
            pm_Labels = fmupd SandboxTemplateHashLabel blueprintHash (fmupd DeprecatedSandboxPodTemplateHashLabel podHash
              (fmupd sandboxTemplateRefHash (SandboxTemplateRefHash (ws_TemplateRef (wp_Spec warmPool)))
                (fmupd warmPoolSandboxLabel poolNameHash (pm_Labels meta)))),
            pm_Annotations = (if warmPoolEvictionAnnotation |\<notin>| fmdom anns \<and> wr_EnableWarmPoolEviction r
              then fmupd warmPoolEvictionAnnotation ''true'' anns else anns)\<rparr>\<rparr>)"

definition poolSandboxMeta :: "SandboxWarmPool \<Rightarrow> string \<Rightarrow> string \<Rightarrow> string \<Rightarrow> ObjectMeta" where
  "poolSandboxMeta warmPool poolNameHash podHash blueprintHash =
     emptyMeta\<lparr>om_GenerateName := om_Name (wp_Meta warmPool) @ ''-'',
       om_Namespace := om_Namespace (wp_Meta warmPool),
       om_Labels := poolLabels warmPool poolNameHash podHash blueprintHash,
       om_Annotations := fmap_of_list [(SandboxTemplateRefAnnotation, ws_TemplateRef (wp_Spec warmPool))]\<rparr>"

definition buildSandboxCR ::
  "'w SandboxWarmPoolReconciler \<Rightarrow> SandboxWarmPool \<Rightarrow> string \<Rightarrow> SandboxTemplate \<Rightarrow> string \<Rightarrow> string \<Rightarrow> poolError + Sandbox" where
  "buildSandboxCR r warmPool poolNameHash template podHash blueprintHash =
     (let blueprint = (ts_Blueprint (tp_Spec template))\<lparr>
            bp_PodTemplate := poolPodTemplate r warmPool poolNameHash template podHash blueprintHash\<rparr>
      in case wr_setRef r extensionsAPIVersion ''SandboxWarmPool'' (wp_Meta warmPool)
                (poolSandboxMeta warmPool poolNameHash podHash blueprintHash) of
           Inl err \<Rightarrow> Inl (PoolSetRef err)
         | Inr m \<Rightarrow> Inr (emptySandbox\<lparr>sb_Meta := m, sb_Spec := emptySandboxSpec\<lparr>ss_Blueprint := blueprint\<rparr>\<rparr>))"

definition createPoolSandbox :: "'w SandboxWarmPoolReconciler \<Rightarrow> Sandbox \<Rightarrow> 'w \<Rightarrow> poolError option \<times> 'w" where
  "createPoolSandbox r sandboxCR w =
     (case kc_Create (wr_sandboxes r) sandboxCR w of
        (Inl err, w') \<Rightarrow> (Some (PoolCall err), w') | (Inr _, w') \<Rightarrow> (None, w'))"

definition deletePoolSandbox :: "'w SandboxWarmPoolReconciler \<Rightarrow> Sandbox \<Rightarrow> 'w \<Rightarrow> poolError option \<times> 'w" where
  "deletePoolSandbox r sb w =
     (case kc_Delete (wr_sandboxes r) False sb w of
        (Inl err, w') \<Rightarrow> (if IsNotFound err then None else Some (PoolCall err), w')
      | (Inr _, w') \<Rightarrow> (None, w'))"

text \<open>Unready members first, then the newest.\<close>

definition deletionOrder :: "Sandbox list \<Rightarrow> Sandbox list" where
  "deletionOrder = sort_key (\<lambda>sb. (isSandboxReady sb, - om_CreationTimestamp (sb_Meta sb)))"

definition minInt32 :: "32 word \<Rightarrow> 32 word \<Rightarrow> 32 word" where
  "minInt32 a b = (if sint a \<le> sint b then a else b)"

definition replicasOf :: "SandboxWarmPool \<Rightarrow> 32 word" where
  "replicasOf warmPool = (case ws_Replicas (wp_Spec warmPool) of None \<Rightarrow> 1 | Some n \<Rightarrow> n)"

definition countReady :: "Sandbox list \<Rightarrow> 32 word" where
  "countReady sbs = of_nat (length (filter isSandboxReady sbs))"

definition poolStatus :: "string \<Rightarrow> Sandbox list \<Rightarrow> SandboxWarmPoolStatus" where
  "poolStatus poolNameHash sbs = \<lparr>wt_Replicas = of_nat (length sbs), wt_ReadyReplicas = countReady sbs,
     wt_Selector = warmPoolSandboxLabel @ ''='' @ poolNameHash\<rparr>"

definition scaleUp ::
  "'w SandboxWarmPoolReconciler \<Rightarrow> SandboxWarmPool \<Rightarrow> string \<Rightarrow> SandboxTemplate \<times> string \<times> string \<Rightarrow> 32 word \<Rightarrow> 'w
     \<Rightarrow> poolError list \<times> 'w" where
  "scaleUp r warmPool poolNameHash tmpl sandboxesToCreate w =
     (case tmpl of (template, podHash, blueprintHash) \<Rightarrow>
        case buildSandboxCR r warmPool poolNameHash template podHash blueprintHash of
          Inl err \<Rightarrow> ([err], w)
        | Inr sandboxCR \<Rightarrow>
            let (_, e, w') = slowStartBatch (wr_ctxDone r) ContextDone (nat (sint sandboxesToCreate)) 1
                  (\<lambda>_. createPoolSandbox r sandboxCR) w
            in (case e of None \<Rightarrow> [] | Some err \<Rightarrow> [err], w'))"

definition scaleDown ::
  "'w SandboxWarmPoolReconciler \<Rightarrow> Sandbox list \<Rightarrow> 32 word \<Rightarrow> 'w \<Rightarrow> poolError list \<times> 'w" where
  "scaleDown r active sandboxesToDelete w =
     (let ordered = deletionOrder active;
          toDeleteCount = minInt32 sandboxesToDelete (of_nat (length active));
          (_, e, w') = slowStartBatch (wr_ctxDone r) ContextDone (nat (sint toDeleteCount)) 1
            (\<lambda>i. deletePoolSandbox r (ordered ! i)) w
      in (case e of None \<Rightarrow> [] | Some err \<Rightarrow> [err], w'))"

definition reconcilePoolStatusOnly ::
  "'w SandboxWarmPoolReconciler \<Rightarrow> SandboxWarmPool \<Rightarrow> 'w \<Rightarrow> poolError list \<times> SandboxWarmPool" where
  "reconcilePoolStatusOnly r warmPool w =
     (let poolNameHash = NameHash (om_Name (wp_Meta warmPool))
      in case kc_ListBy (wr_sandboxes r) (om_Namespace (wp_Meta warmPool)) sandboxWarmPoolLabelIndex poolNameHash w of
           Inl err \<Rightarrow> ([PoolCall err], warmPool)
         | Inr sbs \<Rightarrow> ([], warmPool\<lparr>wp_Status := poolStatus poolNameHash sbs\<rparr>))"

definition reconcilePool ::
  "'w SandboxWarmPoolReconciler \<Rightarrow> gotime \<Rightarrow> SandboxWarmPool \<Rightarrow> 'w \<Rightarrow> poolError list \<times> SandboxWarmPool \<times> 'w" where
  "reconcilePool r now warmPool w =
     (if wr_DisableSandboxCRManagement r then
        let (errs, warmPool') = reconcilePoolStatusOnly r warmPool w in (errs, warmPool', w)
      else
        let poolNameHash = NameHash (om_Name (wp_Meta warmPool))
        in case kc_ListBy (wr_sandboxes r) (om_Namespace (wp_Meta warmPool)) sandboxWarmPoolLabelIndex poolNameHash w of
             Inl err \<Rightarrow> ([PoolCall err], warmPool, w)
           | Inr sandboxes \<Rightarrow>
               let fetched = fetchTemplateAndHash r warmPool w;
                   tmpl = (case fetched of Inr (template, _, current) \<Rightarrow> Some (template, current) | Inl _ \<Rightarrow> None);
                   (active0, errs1, w1) = filterActiveSandboxes r warmPool sandboxes tmpl w;
                   (active, errs2, w2) = dropStuck r now active0 w1;
                   desired = replicasOf warmPool;
                   current = (of_nat (length active) :: 32 word);
                   maxBatch = (word_of_int (wr_MaxBatchSize r) :: 32 word);
                   warmPool' = warmPool\<lparr>wp_Status := poolStatus poolNameHash active\<rparr>;
                   (errs3, w3) =
                     (case fetched of
                        Inr tmpl \<Rightarrow> if sint current < sint desired
                          then scaleUp r warmPool' poolNameHash tmpl (minInt32 (desired - current) maxBatch) w2 else ([], w2)
                      | Inl _ \<Rightarrow> ([], w2));
                   (errs4, w4) =
                     (if sint current > sint desired
                      then scaleDown r active (minInt32 (current - desired) maxBatch) w3 else ([], w3));
                   errs5 = (case fetched of Inl err \<Rightarrow> if templateMissing err then [] else [err] | Inr _ \<Rightarrow> [])
               in (errs1 @ errs2 @ errs3 @ errs4 @ errs5, warmPool', w4))"

section \<open>Reconcile\<close>

definition Pool_updateStatus ::
  "'w SandboxWarmPoolReconciler \<Rightarrow> SandboxWarmPoolStatus \<Rightarrow> SandboxWarmPool \<Rightarrow> 'w \<Rightarrow> poolError list \<times> 'w" where
  "Pool_updateStatus r oldStatus warmPool w =
     (if oldStatus = wp_Status warmPool then ([], w)
      else case kc_PatchStatus (wr_pools r) (warmPool\<lparr>wp_Status := oldStatus\<rparr>) warmPool w of
             (Inl err, w') \<Rightarrow> ([PoolCall err], w') | (Inr _, w') \<Rightarrow> ([], w'))"

definition Pool_Reconcile ::
  "'w SandboxWarmPoolReconciler \<Rightarrow> gotime \<Rightarrow> string \<Rightarrow> string \<Rightarrow> 'w \<Rightarrow> poolError list \<times> 'w" where
  "Pool_Reconcile r now ns name w =
     (case kc_Get (wr_pools r) ns name w of
        Inl err \<Rightarrow> (if IsNotFound err then [] else [PoolCall err], w)
      | Inr warmPool \<Rightarrow>
          if om_DeletionTimestamp (wp_Meta warmPool) \<noteq> None then ([], w)
          else let (errs, warmPool', w1) = reconcilePool r now warmPool w
               in if errs \<noteq> [] then (errs, w1) else Pool_updateStatus r (wp_Status warmPool) warmPool' w1)"

definition sandboxWarmPoolLabelIndexer :: "ObjectMeta \<Rightarrow> string list" where
  "sandboxWarmPoolLabelIndexer m = (case fmlookup (om_Labels m) warmPoolSandboxLabel of Some v \<Rightarrow> [v] | None \<Rightarrow> [])"

definition sandboxTemplateRefNameIndexer :: "SandboxWarmPool \<Rightarrow> string list" where
  "sandboxTemplateRefNameIndexer wp = (if ws_TemplateRef (wp_Spec wp) = [] then [] else [ws_TemplateRef (wp_Spec wp)])"

definition findWarmPoolsForTemplate :: "'w SandboxWarmPoolReconciler \<Rightarrow> SandboxTemplate \<Rightarrow> 'w \<Rightarrow> (string \<times> string) list" where
  "findWarmPoolsForTemplate r template w =
     (case kc_ListBy (wr_pools r) (om_Namespace (tp_Meta template)) ''.spec.sandboxTemplateRef.name'' (om_Name (tp_Meta template)) w of
        Inl _ \<Rightarrow> []
      | Inr wps \<Rightarrow> map (\<lambda>wp. (om_Namespace (wp_Meta wp), om_Name (wp_Meta wp))) wps)"

end
