(* ===== verification/Claim_Config.thy ===== *)
theory Claim_Config
  imports Warm_Pool_Controller Synth_Sandbox Expiry
begin

text \<open>
  What a SandboxClaim may add to a template
  (\<^verbatim>\<open>extensions/controllers/sandboxclaim_controller.go\<close>): the errors of the claim controller,
  the validation and merging of extra Pod labels and annotations, the injection of
  environment variables and the merging of volume claim templates.

  The validation helpers of the apimachinery are a parameter.  Where the code walks a Go map
  and stops at the first offending key, the model walks the keys in order; which of several
  offending keys is reported is all that depends on it.
\<close>

section \<open>Errors\<close>

text \<open>
  The sentinels, the errors of API calls, and the ways \<open>fmt.Errorf\<close> wraps an error: text
  before it, text after it, two errors joined by a colon.
\<close>

datatype claimError =
    ErrTemplateNotFound
  | ErrInvalidMetadata
  | ErrSandboxNotOwned
  | ErrWarmPoolNotFound
  | errAdoptionTriggeredRetry
  | ErrCrossNamespaceAdoption
  | ErrEnvVarsInjectionRejected
  | ErrVolumeClaimTemplatesDisallowed
  | ErrVolumeClaimTemplatesOverrideForbidden
  | ErrVolumeClaimTemplatesInvalid
  | ApiFailure apiError
  | Plain string
  | Before string claimError
  | After claimError string
  | Both claimError claimError

fun errorIs :: "claimError \<Rightarrow> claimError \<Rightarrow> bool" where
  "errorIs (Before _ e) t = errorIs e t"
| "errorIs (After e _) t = errorIs e t"
| "errorIs (Both e e') t = (errorIs e t \<or> errorIs e' t)"
| "errorIs e t = (e = t)"

fun apiCause :: "claimError \<Rightarrow> apiError option" where
  "apiCause (ApiFailure e) = Some e"
| "apiCause (Before _ e) = apiCause e"
| "apiCause (After e _) = apiCause e"
| "apiCause (Both e e') = (case apiCause e of Some c \<Rightarrow> Some c | None \<Rightarrow> apiCause e')"
| "apiCause _ = None"

definition errIsNotFound :: "claimError \<Rightarrow> bool" where
  "errIsNotFound err = (case apiCause err of Some (NotFound _) \<Rightarrow> True | _ \<Rightarrow> False)"

definition errIsConflict :: "claimError \<Rightarrow> bool" where
  "errIsConflict err = (case apiCause err of Some Conflict \<Rightarrow> True | _ \<Rightarrow> False)"

fun errorText :: "(apiError \<Rightarrow> string) \<Rightarrow> claimError \<Rightarrow> string" where
  "errorText api ErrTemplateNotFound = ''SandboxTemplate not found''"
| "errorText api ErrInvalidMetadata = ''invalid additionalPodMetadata''"
| "errorText api ErrSandboxNotOwned = ''sandbox not owned by this claim''"
| "errorText api ErrWarmPoolNotFound = ''SandboxWarmPool not found''"
| "errorText api errAdoptionTriggeredRetry = ''triggered adoption completion, retry''"
| "errorText api ErrCrossNamespaceAdoption = ''cross-namespace adoption forbidden''"
| "errorText api ErrEnvVarsInjectionRejected = ''environment variable injection rejected''"
| "errorText api ErrVolumeClaimTemplatesDisallowed = ''volume claim templates are disallowed by the template''"
| "errorText api ErrVolumeClaimTemplatesOverrideForbidden = ''overriding volume claim templates is forbidden by the template''"
| "errorText api ErrVolumeClaimTemplatesInvalid = ''invalid volume claim templates''"
| "errorText api (ApiFailure e) = api e"
| "errorText api (Plain s) = s"
| "errorText api (Before s e) = s @ '': '' @ errorText api e"
| "errorText api (After e s) = errorText api e @ '': '' @ s"
| "errorText api (Both e e') = errorText api e @ '': '' @ errorText api e'"

definition suppressErrors :: "claimError list" where
  "suppressErrors = [ErrInvalidMetadata, ErrSandboxNotOwned, ErrEnvVarsInjectionRejected, ErrVolumeClaimTemplatesDisallowed,
     ErrVolumeClaimTemplatesOverrideForbidden, ErrVolumeClaimTemplatesInvalid]"

definition shouldSuppressError :: "claimError \<Rightarrow> bool" where
  "shouldSuppressError err = list_ex (errorIs err) suppressErrors"

section \<open>Additional Pod metadata\<close>

record validation =
  IsQualifiedName :: "string \<Rightarrow> string list"
  IsValidLabelValue :: "string \<Rightarrow> string list"

definition hasSuffix :: "string \<Rightarrow> string \<Rightarrow> bool" where
  "hasSuffix s p \<longleftrightarrow> length p \<le> length s \<and> drop (length s - length p) s = p"

fun joinErrs :: "string list \<Rightarrow> string" where
  "joinErrs [] = []"
| "joinErrs [e] = e"
| "joinErrs (e # es) = e @ ''; '' @ joinErrs es"

definition inDomain :: "string \<Rightarrow> string \<Rightarrow> bool" where
  "inDomain domain d \<longleftrightarrow> domain = d \<or> hasSuffix domain (CHR ''.'' # d)"

definition restrictedDomains :: "string list" where
  "restrictedDomains = [''kubernetes.io'', ''k8s.io'', ''agents.x-k8s.io'']"

definition isRestrictedDomain :: "string \<Rightarrow> bool" where
  "isRestrictedDomain domain = list_ex (inDomain domain) restrictedDomains"

definition effectiveDomains :: "string list \<Rightarrow> string list" where
  "effectiveDomains allowed = (if allowed = [] then [''sandbox.users.io''] else allowed)"

definition keyDomain :: "string \<Rightarrow> string option" where
  "keyDomain key = map_option (\<lambda>(d, _). toLower d) (split_first (CHR ''/'') key)"

definition validateLabel :: "validation \<Rightarrow> string list \<Rightarrow> string \<Rightarrow> string \<Rightarrow> string option" where
  "validateLabel v allowed key value =
     (if IsQualifiedName v key \<noteq> [] then Some (''invalid label key: '' @ Quote key @ '': '' @ joinErrs (IsQualifiedName v key))
      else if EqualFold key ''app'' \<and> EqualFold value ''sandbox-router'' then
        Some (''restricted system label value: '' @ Quote key @ ''='' @ Quote value @ '' is not allowed in AdditionalPodMetadata'')
      else case keyDomain key of
        None \<Rightarrow> Some (''label '' @ Quote key @
          '' must have a domain prefix (e.g. 'sandbox.users.io/my-label') to prevent opting into unintended policy domains'')
      | Some domain \<Rightarrow>
          if \<not> list_ex (inDomain domain) (effectiveDomains allowed)
          then Some (''label domain '' @ Quote domain @ '' is not in the allowlist'')
          else if IsValidLabelValue v value \<noteq> []
          then Some (''invalid label value: '' @ Quote value @ '' does not match allowed pattern: '' @ joinErrs (IsValidLabelValue v value))
          else None)"

definition validateAnnotation :: "validation \<Rightarrow> string \<Rightarrow> string option" where
  "validateAnnotation v key =
     (if IsQualifiedName v key \<noteq> [] then Some (''invalid annotation key: '' @ Quote key @ '': '' @ joinErrs (IsQualifiedName v key))
      else if isRestrictedDomain (case keyDomain key of None \<Rightarrow> [] | Some domain \<Rightarrow> domain)
      then Some (''restricted system domain: '' @ Quote key @ '' is not allowed in AdditionalPodMetadata'')
      else None)"

text \<open>The first error over the entries of a map.\<close>

definition firstError :: "(string \<Rightarrow> string \<Rightarrow> string option) \<Rightarrow> strmap \<Rightarrow> string option" where
  "firstError f m =
     (case List.map_filter (\<lambda>k. f k (mget m k)) (sorted_list_of_fset (fmdom m)) of [] \<Rightarrow> None | e # _ \<Rightarrow> Some e)"

definition validateAdditionalPodMetadata :: "validation \<Rightarrow> string list \<Rightarrow> PodMetadata \<Rightarrow> string option" where
  "validateAdditionalPodMetadata v allowed claimMeta =
     (case firstError (\<lambda>k x. map_option (\<lambda>e. ''failed to validate label '' @ Quote k @ '': '' @ e) (validateLabel v allowed k x))
             (pm_Labels claimMeta) of
        Some err \<Rightarrow> Some err
      | None \<Rightarrow> firstError (\<lambda>k x. map_option (\<lambda>e. ''failed to validate annotation '' @ Quote k @ '': '' @ e) (validateAnnotation v k))
             (pm_Annotations claimMeta))"

definition overrideConflict :: "string \<Rightarrow> strmap \<Rightarrow> string \<Rightarrow> string \<Rightarrow> string option" where
  "overrideConflict what templateMap k x =
     (case fmlookup templateMap k of
        None \<Rightarrow> None
      | Some tv \<Rightarrow> if tv = x then None else
          Some (''metadata override conflict: '' @ what @ '' '' @ Quote k @ '' is defined in template with value '' @ Quote tv @
            '', but claim requests '' @ Quote x))"

definition mergePodMetadata :: "validation \<Rightarrow> string list \<Rightarrow> PodMetadata \<Rightarrow> PodMetadata \<Rightarrow> claimError + PodMetadata" where
  "mergePodMetadata v allowed templateMeta claimMeta =
     (case validateAdditionalPodMetadata v allowed claimMeta of
        Some err \<Rightarrow> Inl (Plain err)
      | None \<Rightarrow>
          case firstError (overrideConflict ''label'' (pm_Labels templateMeta)) (pm_Labels claimMeta) of
            Some err \<Rightarrow> Inl (Plain err)
          | None \<Rightarrow>
              case firstError (overrideConflict ''annotation'' (pm_Annotations templateMeta)) (pm_Annotations claimMeta) of
                Some err \<Rightarrow> Inl (Plain err)
              | None \<Rightarrow> Inr \<lparr>pm_Labels = pm_Labels templateMeta ++\<^sub>f pm_Labels claimMeta,
                            pm_Annotations = pm_Annotations templateMeta ++\<^sub>f pm_Annotations claimMeta\<rparr>)"

section \<open>Environment variables\<close>

abbreviation "EnvVarsInjectionPolicyAllowed \<equiv> ''Allowed''"
abbreviation "EnvVarsInjectionPolicyOverrides \<equiv> ''Overrides''"

fun envIndex :: "string \<Rightarrow> EnvVar list \<Rightarrow> nat option" where
  "envIndex name [] = None"
| "envIndex name (e # es) = (if ev_Name e = name then Some 0 else map_option Suc (envIndex name es))"

definition claimEnv :: "ClaimEnvVar \<Rightarrow> EnvVar" where
  "claimEnv e = \<lparr>ev_Name = ce_Name e, ev_Value = ce_Value e, ev_ValueFrom = None\<rparr>"

fun injectVars :: "string \<Rightarrow> ClaimEnvVar list \<Rightarrow> EnvVar list \<Rightarrow> claimError + EnvVar list" where
  "injectVars policy [] env = Inr env"
| "injectVars policy (e # es) env =
     (case envIndex (ce_Name e) env of
        Some i \<Rightarrow>
          if policy \<noteq> EnvVarsInjectionPolicyOverrides
          then Inl (Plain (''environment variable override is not allowed by the template policy for variable '' @ Quote (ce_Name e)))
          else injectVars policy es (env[i := claimEnv e])
      | None \<Rightarrow> injectVars policy es (env @ [claimEnv e]))"

definition injectEnvs :: "Container \<Rightarrow> ClaimEnvVar list \<Rightarrow> string \<Rightarrow> claimError + Container" where
  "injectEnvs container envsToInject policy =
     (if policy = EnvVarsInjectionPolicyAllowed \<and> ct_EnvFrom container \<noteq> [] then
        Inl (After ErrEnvVarsInjectionRejected (''container '' @ Quote (ct_Name container) @
          '' uses EnvFrom sources; Allowed policy cannot safely prevent overriding EnvFrom-provided variables''))
      else map_sum id (\<lambda>env. container\<lparr>ct_Env := env\<rparr>) (injectVars policy envsToInject (ct_Env container)))"

definition envsByContainer :: "ClaimEnvVar list \<Rightarrow> string \<Rightarrow> ClaimEnvVar list" where
  "envsByContainer envs name = (if name = [] then [] else filter (\<lambda>e. ce_ContainerName e = name) envs)"

definition defaultEnvs :: "ClaimEnvVar list \<Rightarrow> ClaimEnvVar list" where
  "defaultEnvs envs = filter (\<lambda>e. ce_ContainerName e = []) envs"

fun injectInto :: "string \<Rightarrow> (string \<Rightarrow> ClaimEnvVar list) \<Rightarrow> ClaimEnvVar list \<Rightarrow> Container list \<Rightarrow> claimError + Container list" where
  "injectInto policy byName extra [] = Inr []"
| "injectInto policy byName extra (c # cs) =
     (let envs = byName (ct_Name c) @ extra
      in case (if envs = [] then Inr c else injectEnvs c envs policy) of
           Inl err \<Rightarrow> Inl err
         | Inr c' \<Rightarrow> map_sum id ((#) c') (injectInto policy byName [] cs))"

definition missingTarget :: "PodSpec \<Rightarrow> ClaimEnvVar list \<Rightarrow> ClaimEnvVar option" where
  "missingTarget spec envs =
     find (\<lambda>e. ce_ContainerName e \<noteq> [] \<and> ce_ContainerName e \<notin> ct_Name ` set (ps_InitContainers spec @ ps_Containers spec)) envs"

definition injectPodEnvs :: "string \<Rightarrow> ClaimEnvVar list \<Rightarrow> PodSpec \<Rightarrow> claimError + PodSpec" where
  "injectPodEnvs policy envs spec =
     (if envs = [] then Inr spec
      else if policy \<noteq> EnvVarsInjectionPolicyAllowed \<and> policy \<noteq> EnvVarsInjectionPolicyOverrides then
        Inl (After ErrEnvVarsInjectionRejected ''environment variable injection is not allowed by the template policy'')
      else case missingTarget spec envs of
        Some e \<Rightarrow> Inl (Plain (''target container '' @ Quote (ce_ContainerName e) @
          '' not found in template for environment variable '' @ Quote (ce_Name e)))
      | None \<Rightarrow>
          case injectInto policy (envsByContainer envs) [] (ps_InitContainers spec) of
            Inl err \<Rightarrow> Inl err
          | Inr inits \<Rightarrow>
              case injectInto policy (envsByContainer envs) (defaultEnvs envs) (ps_Containers spec) of
                Inl err \<Rightarrow> Inl err
              | Inr mains \<Rightarrow> Inr (spec\<lparr>ps_InitContainers := inits, ps_Containers := mains\<rparr>))"

section \<open>Volume claim templates\<close>

fun validateVCTs :: "nat \<Rightarrow> string set \<Rightarrow> PersistentVolumeClaimTemplate list \<Rightarrow> claimError option" where
  "validateVCTs i names [] = None"
| "validateVCTs i names (v # vs) =
     (if vct_Name v = [] then Some (After ErrVolumeClaimTemplatesInvalid (''name at index '' @ decDigits i @ '' is empty''))
      else if vct_Name v \<in> names then Some (After ErrVolumeClaimTemplatesInvalid (''duplicate name '' @ Quote (vct_Name v)))
      else validateVCTs (Suc i) (insert (vct_Name v) names) vs)"

definition validateVolumeClaimTemplates :: "PersistentVolumeClaimTemplate list \<Rightarrow> claimError option" where
  "validateVolumeClaimTemplates vcts = validateVCTs 0 {} vcts"

type_synonym vctMap = "string \<rightharpoonup> PersistentVolumeClaimTemplate"

fun overrideLoop ::
  "vctMap \<Rightarrow> PersistentVolumeClaimTemplate list \<Rightarrow> PersistentVolumeClaimTemplate list \<times> vctMap" where
  "overrideLoop claimMap [] = ([], claimMap)"
| "overrideLoop claimMap (v # vs) =
     (case claimMap (vct_Name v) of
        Some override \<Rightarrow> let (merged, m) = overrideLoop (claimMap(vct_Name v := None)) vs in (override # merged, m)
      | None \<Rightarrow> let (merged, m) = overrideLoop claimMap vs in (v # merged, m))"

definition mergeVolumeClaimTemplates ::
  "PersistentVolumeClaimTemplate list \<Rightarrow> PersistentVolumeClaimTemplate list \<Rightarrow> string
     \<Rightarrow> claimError + PersistentVolumeClaimTemplate list" where
  "mergeVolumeClaimTemplates templateVCTs claimVCTs policy =
     (case validateVolumeClaimTemplates templateVCTs of
        Some err \<Rightarrow> Inl (Before ''template'' err)
      | None \<Rightarrow>
          if claimVCTs = [] then Inr templateVCTs
          else case validateVolumeClaimTemplates claimVCTs of
            Some err \<Rightarrow> Inl (Before ''claim'' err)
          | None \<Rightarrow>
              if policy = ''Disallowed'' \<or> policy = [] then Inl ErrVolumeClaimTemplatesDisallowed
              else if policy = ''Allowed'' then
                (case find (\<lambda>v. vct_Name v \<in> vct_Name ` set templateVCTs) claimVCTs of
                   Some v \<Rightarrow> Inl (After ErrVolumeClaimTemplatesOverrideForbidden (''cannot override template volume '' @ Quote (vct_Name v)))
                 | None \<Rightarrow> Inr (templateVCTs @ claimVCTs))
              else if policy = ''Overrides'' then
                (let claimMap = foldl (\<lambda>m v. m(vct_Name v \<mapsto> v)) Map.empty claimVCTs;
                     (merged, rest) = overrideLoop claimMap templateVCTs
                 in Inr (merged @ filter (\<lambda>v. rest (vct_Name v) \<noteq> None) claimVCTs))
              else Inl (Plain (''unknown volume claim templates policy '' @ Quote policy)))"

end
