(* ===== verification/Claim_Queue.thy ===== *)
theory Claim_Queue
  imports Claim_Config Warm_Queue
begin

text \<open>
  How the claim controller picks a warm Sandbox
  (\<^verbatim>\<open>extensions/controllers/sandboxclaim_controller.go\<close>): which Sandboxes may be adopted, the
  strategy over the in-memory queue, the loop of \<open>getCandidate\<close> with the keys it gives back,
  and the event handlers that fill the queue.

  \<open>getCandidate\<close> reads Sandboxes through \<open>get\<close> and changes only the queue.  The loop may in
  principle run for ever, so it is a partial function; \<open>None\<close> is divergence.
\<close>

section \<open>Adoptable Sandboxes\<close>

definition getWarmPoolName :: "apimachinery \<Rightarrow> ObjectMeta \<Rightarrow> string" where
  "getWarmPoolName api obj =
     (case GetControllerOf api obj of
        Some c \<Rightarrow> if or_Kind c = ''SandboxWarmPool'' then or_Name c
                  else (case find (\<lambda>ref. or_Kind ref = ''SandboxWarmPool'') (om_OwnerReferences obj) of Some ref \<Rightarrow> or_Name ref | None \<Rightarrow> [])
      | None \<Rightarrow> (case find (\<lambda>ref. or_Kind ref = ''SandboxWarmPool'') (om_OwnerReferences obj) of Some ref \<Rightarrow> or_Name ref | None \<Rightarrow> []))"

text \<open>The texts of these errors are only logged; the rendering of the controller reference is left out.\<close>

definition isAdoptable :: "apimachinery \<Rightarrow> Sandbox \<Rightarrow> claimError option" where
  "isAdoptable api candidate =
     (let m = sb_Meta candidate; name = om_Namespace m @ ''/'' @ om_Name m
      in if om_DeletionTimestamp m \<noteq> None then Some (Plain ''sandbox is deleted'')
         else if warmPoolSandboxLabel |\<notin>| fmdom (om_Labels m) then Some (Plain ''sandbox is missing the warm pool sandbox label'')
         else if sandboxTemplateRefHash |\<notin>| fmdom (om_Labels m) then Some (Plain ''sandbox is missing the sandbox template ref hash label'')
         else case GetControllerOf api m of
           None \<Rightarrow> Some (Plain (''sandbox '' @ name @ '' is unowned and cannot be safely adopted''))
         | Some c \<Rightarrow>
             if or_APIVersion c \<noteq> extensionsAPIVersion \<or> or_Kind c \<noteq> ''SandboxWarmPool''
             then Some (Plain (''sandbox '' @ name @ '' is not managed by warm pool.''))
             else None)"

definition verifySandboxCandidate :: "apimachinery \<Rightarrow> Sandbox \<Rightarrow> SandboxClaim \<Rightarrow> claimError option" where
  "verifySandboxCandidate api candidate claim =
     (let ns = om_Namespace (sb_Meta candidate); claimNs = om_Namespace (sc_Meta claim); pool = cs_WarmPoolRef (sc_Spec claim)
      in if ns \<noteq> claimNs then
           Some (After ErrCrossNamespaceAdoption (''sandbox is in '' @ Quote ns @ '', claim is in '' @ Quote claimNs))
         else case isAdoptable api candidate of
           Some err \<Rightarrow> Some err
         | None \<Rightarrow>
             if getWarmPoolName api (sb_Meta candidate) = [] \<or> getWarmPoolName api (sb_Meta candidate) \<noteq> pool
             then Some (Plain (''incorrect warm pool, expected '' @ pool)) else None)"

section \<open>The strategy\<close>

definition nodeCount :: "SandboxKey list \<Rightarrow> string \<Rightarrow> nat" where
  "nodeCount keys node = length (filter (\<lambda>k. sk_NodeName k = node) keys)"

definition maxNodeCount :: "SandboxKey list \<Rightarrow> nat" where
  "maxNodeCount keys = foldl max 0 (map (\<lambda>k. nodeCount keys (sk_NodeName k)) keys)"

definition pickSmart :: pickStrategy where
  "pickSmart keys =
     (case keys of
        [] \<Rightarrow> None
      | [key] \<Rightarrow> Some key
      | _ \<Rightarrow>
          let scheduled = filter (\<lambda>k. sk_NodeName k \<noteq> []) keys; unscheduled = filter (\<lambda>k. sk_NodeName k = []) keys
          in if scheduled \<noteq> []
             then Some (hd (filter (\<lambda>k. nodeCount scheduled (sk_NodeName k) = maxNodeCount scheduled) scheduled))
             else Some (hd unscheduled))"

section \<open>The loop\<close>

type_synonym getSandbox = "string \<Rightarrow> string \<Rightarrow> apiError + Sandbox"

definition requeue :: "string \<Rightarrow> SandboxKey list \<Rightarrow> SimpleSandboxQueue \<Rightarrow> SimpleSandboxQueue" where
  "requeue pool keys q = foldl (\<lambda>q k. Add q pool k) q keys"

definition parked :: "(Sandbox \<times> SandboxKey) option \<Rightarrow> SandboxKey list" where
  "parked fallback = (case fallback of None \<Rightarrow> [] | Some (_, key) \<Rightarrow> [key])"

text \<open>What the loop does with a popped key: return, or go on with what it holds.\<close>

definition candidateStep ::
  "getSandbox \<Rightarrow> apimachinery \<Rightarrow> SandboxClaim \<Rightarrow> string \<Rightarrow> SandboxKey list \<Rightarrow> (Sandbox \<times> SandboxKey) option \<Rightarrow> SandboxKey \<Rightarrow> SimpleSandboxQueue
     \<Rightarrow> ((claimError + (Sandbox \<times> SandboxKey) option) \<times> SimpleSandboxQueue) + SandboxKey list \<times> (Sandbox \<times> SandboxKey) option" where
  "candidateStep get api claim pool skipped fallback key q =
     (case get (sk_Namespace key) (sk_Name key) of
        Inl err \<Rightarrow>
          if IsNotFound err then Inr (skipped, fallback)
          else Inl (Inl (ApiFailure err), requeue pool (skipped @ parked fallback) (Add q pool key))
      | Inr adopted \<Rightarrow>
          (case verifySandboxCandidate api adopted claim of
             Some err \<Rightarrow> Inr (if errorIs err ErrCrossNamespaceAdoption then skipped @ [key] else skipped, fallback)
           | None \<Rightarrow>
               if isSandboxReady adopted then Inl (Inr (Some (adopted, key)), requeue pool (skipped @ parked fallback) q)
               else if fallback = None then Inr (skipped, Some (adopted, key))
               else Inr (skipped @ [key], fallback)))"

partial_function (option) candidateLoop ::
  "getSandbox \<Rightarrow> apimachinery \<Rightarrow> SandboxClaim \<Rightarrow> string \<Rightarrow> SandboxKey list \<Rightarrow> (Sandbox \<times> SandboxKey) option \<Rightarrow> SimpleSandboxQueue
     \<Rightarrow> ((claimError + (Sandbox \<times> SandboxKey) option) \<times> SimpleSandboxQueue) option" where
  "candidateLoop get api claim pool skipped fallback q =
     (case GetWithStrategy q pool pickSmart of
        None \<Rightarrow> None
      | Some (None, q') \<Rightarrow> Some (Inr fallback, requeue pool skipped q')
      | Some (Some key, q') \<Rightarrow>
          (case candidateStep get api claim pool skipped fallback key q' of
             Inl out \<Rightarrow> Some out
           | Inr (skipped', fallback') \<Rightarrow> candidateLoop get api claim pool skipped' fallback' q'))"

definition claimPool :: "SandboxClaim \<Rightarrow> string" where
  "claimPool claim = GetNamespacedWarmPoolName (om_Namespace (sc_Meta claim)) (cs_WarmPoolRef (sc_Spec claim))"

definition getCandidate ::
  "getSandbox \<Rightarrow> apimachinery \<Rightarrow> SandboxClaim \<Rightarrow> SimpleSandboxQueue
     \<Rightarrow> ((claimError + (Sandbox \<times> SandboxKey) option) \<times> SimpleSandboxQueue) option" where
  "getCandidate get api claim q = candidateLoop get api claim (claimPool claim) [] None q"

section \<open>Event handlers\<close>

definition sandboxKeyOf :: "Sandbox \<Rightarrow> SandboxKey" where
  "sandboxKeyOf sb = \<lparr>sk_Namespace = om_Namespace (sb_Meta sb), sk_Name = om_Name (sb_Meta sb), sk_NodeName = st_NodeName (sb_Status sb)\<rparr>"

definition sandboxEvent_Update :: "apimachinery \<Rightarrow> Sandbox \<Rightarrow> Sandbox \<Rightarrow> SimpleSandboxQueue \<Rightarrow> SimpleSandboxQueue" where
  "sandboxEvent_Update api old new q =
     (let newAdoptable = (isAdoptable api new = None); oldAdoptable = (isAdoptable api old = None);
          oldPool = getWarmPoolName api (sb_Meta old); newPool = getWarmPoolName api (sb_Meta new);
          poolChanged = (oldPool \<noteq> newPool); nodeScheduled = (st_NodeName (sb_Status old) \<noteq> st_NodeName (sb_Status new))
      in if (\<not> oldAdoptable \<and> newAdoptable) \<or> (newAdoptable \<and> poolChanged) \<or> (newAdoptable \<and> nodeScheduled)
         then if newPool \<noteq> [] then Add q (GetNamespacedWarmPoolName (om_Namespace (sb_Meta new)) newPool) (sandboxKeyOf new) else q
         else q)"

definition sandboxEvent_Create :: "apimachinery \<Rightarrow> Sandbox \<Rightarrow> SimpleSandboxQueue \<Rightarrow> SimpleSandboxQueue" where
  "sandboxEvent_Create api new q = sandboxEvent_Update api emptySandbox new q"

definition sandboxEvent_Delete :: "apimachinery \<Rightarrow> Sandbox \<Rightarrow> SimpleSandboxQueue \<Rightarrow> SimpleSandboxQueue" where
  "sandboxEvent_Delete api sandbox q =
     (let pool = getWarmPoolName api (sb_Meta sandbox)
      in if pool \<noteq> [] then RemoveItem q (GetNamespacedWarmPoolName (om_Namespace (sb_Meta sandbox)) pool)
            \<lparr>sk_Namespace = om_Namespace (sb_Meta sandbox), sk_Name = om_Name (sb_Meta sandbox), sk_NodeName = []\<rparr>
         else q)"

definition warmPoolEvent_Delete :: "SandboxWarmPool \<Rightarrow> SimpleSandboxQueue \<Rightarrow> SimpleSandboxQueue" where
  "warmPoolEvent_Delete warmPool q = RemoveQueue q (GetNamespacedWarmPoolName (om_Namespace (wp_Meta warmPool)) (om_Name (wp_Meta warmPool)))"

section \<open>The strategy picks an element of the fullest node\<close>

lemma foldl_max_ge: "\<forall>x \<in> insert a (set xs). x \<le> foldl max (a::nat) xs"
  by (induction xs arbitrary: a) (auto, (metis max.bounded_iff)+)

lemma foldl_max_in: "foldl max (a::nat) xs \<in> insert a (set xs)"
  by (induction xs arbitrary: a) (auto, metis insertE max_def)

lemma nodeCount_pos: "k \<in> set keys \<Longrightarrow> 0 < nodeCount keys (sk_NodeName k)"
  unfolding nodeCount_def by (auto simp: filter_empty_conv)

lemma maxNodeCount_upper: "k \<in> set keys \<Longrightarrow> nodeCount keys (sk_NodeName k) \<le> maxNodeCount keys"
  using foldl_max_ge [of 0 "map (\<lambda>k. nodeCount keys (sk_NodeName k)) keys"] unfolding maxNodeCount_def by auto

lemma maxNodeCount_attained:
  assumes "keys \<noteq> []"
  obtains k where "k \<in> set keys" "nodeCount keys (sk_NodeName k) = maxNodeCount keys"
proof -
  let ?cs = "map (\<lambda>k. nodeCount keys (sk_NodeName k)) keys"
  have "maxNodeCount keys \<in> insert 0 (set ?cs)" unfolding maxNodeCount_def by (rule foldl_max_in)
  moreover have "maxNodeCount keys \<noteq> 0"
    using assms maxNodeCount_upper [of "hd keys" keys] nodeCount_pos [of "hd keys" keys] by simp
  ultimately show ?thesis using that by auto
qed

lemma pickSmart_one: "pickSmart [k] = Some k"
  by (simp add: pickSmart_def)

lemma pickSmart_many:
  "keys = a # b # cs \<Longrightarrow> pickSmart keys =
     (let scheduled = filter (\<lambda>k. sk_NodeName k \<noteq> []) keys; unscheduled = filter (\<lambda>k. sk_NodeName k = []) keys
      in if scheduled \<noteq> []
         then Some (hd (filter (\<lambda>k. nodeCount scheduled (sk_NodeName k) = maxNodeCount scheduled) scheduled))
         else Some (hd unscheduled))"
  by (simp add: pickSmart_def del: filter.simps)

lemma pickSmart_scheduled:
  assumes "scheduled = filter (\<lambda>k. sk_NodeName k \<noteq> []) keys" "scheduled \<noteq> []" "pickSmart keys = Some k"
  shows "\<exists>older newer. scheduled = older @ k # newer \<and> nodeCount scheduled (sk_NodeName k) = maxNodeCount scheduled \<and>
    (\<forall>k' \<in> set older. nodeCount scheduled (sk_NodeName k') < maxNodeCount scheduled)"
proof -
  let ?P = "\<lambda>k. nodeCount scheduled (sk_NodeName k) = maxNodeCount scheduled"
  obtain k0 where k0: "k0 \<in> set scheduled" "?P k0" using maxNodeCount_attained [OF assms(2)] .
  have k: "k = hd (filter ?P scheduled)"
  proof (cases keys rule: list.exhaust [case_names Nil Cons])
    case (Cons a as)
    show ?thesis
    proof (cases as)
      case Nil
      with Cons assms have "scheduled = [k]" by (auto simp: pickSmart_def split: if_splits)
      with k0 show ?thesis by simp
    next
      case more: (Cons b bs)
      with Cons have "keys = a # b # bs" by simp
      from pickSmart_many [OF this] assms show ?thesis by (simp add: Let_def)
    qed
  qed (use assms in simp)
  obtain rest where "filter ?P scheduled = k # rest" using k k0 by (cases "filter ?P scheduled") (auto simp: filter_empty_conv)
  then obtain older newer where s: "scheduled = older @ k # newer" "\<forall>x \<in> set older. \<not> ?P x" "?P k"
    unfolding filter_eq_Cons_iff by blast
  moreover have "nodeCount scheduled (sk_NodeName k') < maxNodeCount scheduled" if "k' \<in> set older" for k'
    using that s maxNodeCount_upper [of k' scheduled] by (simp add: le_neq_implies_less)
  ultimately show ?thesis by blast
qed

lemma pickSmart_unscheduled:
  assumes "filter (\<lambda>k. sk_NodeName k \<noteq> []) keys = []" "keys \<noteq> []"
  shows "pickSmart keys = Some (hd keys)"
proof -
  have "filter (\<lambda>k. sk_NodeName k = []) keys = keys" using assms(1) by (auto simp: filter_empty_conv filter_id_conv)
  with assms show ?thesis
    by (cases keys; cases "tl keys") (simp_all add: pickSmart_one pickSmart_many [OF refl] del: filter.simps)
qed

lemma pickSmart_in: "pickSmart keys = Some k \<Longrightarrow> k \<in> set keys"
proof -
  assume a: "pickSmart keys = Some k"
  then have "keys \<noteq> []" by (auto simp: pickSmart_def)
  show ?thesis
  proof (cases "filter (\<lambda>k. sk_NodeName k \<noteq> []) keys = []")
    case True
    with a \<open>keys \<noteq> []\<close> have "k = hd keys" by (simp add: pickSmart_unscheduled)
    with \<open>keys \<noteq> []\<close> show ?thesis by simp
  next
    case False
    from pickSmart_scheduled [OF refl this a] have "k \<in> set (filter (\<lambda>k. sk_NodeName k \<noteq> []) keys)"
      by (metis in_set_conv_decomp)
    then show ?thesis by simp
  qed
qed

lemma pickSmart_sound: "soundPick pickSmart"
  by (simp add: soundPick_def pickSmart_in)

lemma pickSmart_total: "keys \<noteq> [] \<Longrightarrow> \<exists>k. pickSmart keys = Some k"
  by (cases keys; cases "tl keys") (simp_all add: pickSmart_one pickSmart_many [OF refl] Let_def del: filter.simps)

end
