(* ===== verification/Claim_Controller.thy ===== *)
theory Claim_Controller
  imports Claim_Queue "HOL-Library.Monad_Syntax"
begin

text \<open>
  The claim controller (\<^verbatim>\<open>extensions/controllers/sandboxclaim_controller.go\<close>): finding,
  adopting or creating the Sandbox of a claim, the claim's status, and expiry.

  Beside the world behind the clients, the controller's own memory is part of the state: the
  queue of warm Sandboxes, the observation times and the adoptions already triggered.  The
  in-memory claim is passed along, since calls that succeed replace it by the server's reply
  and calls that fail leave the local change in place.  Events, log lines and metrics are not
  modelled.  A run is \<open>None\<close> when the queue's strategy loop does not return.
\<close>

section \<open>State\<close>

record observedTimeEntry =
  oe_timestamp :: gotime
  oe_uid :: string

record triggeredAdoptionEntry =
  ta_uid :: string
  ta_sandbox :: string

record 'w claimState =
  cw_World :: 'w
  cw_Queue :: SimpleSandboxQueue
  cw_observedTimes :: "string \<times> string \<rightharpoonup> observedTimeEntry"
  cw_triggeredAdoptions :: "string \<times> string \<rightharpoonup> triggeredAdoptionEntry"

record 'w SandboxClaimReconciler =
  cr_claims :: "(SandboxClaim, 'w) objectClient"
  cr_sandboxes :: "(Sandbox, 'w) objectClient"
  cr_pools :: "(SandboxWarmPool, 'w) objectClient"
  cr_templates :: "(SandboxTemplate, 'w) objectClient"
  cr_policies :: "(ObjectMeta, 'w) objectClient"
  cr_api :: apimachinery
  cr_setRef :: setControllerReference
  cr_validation :: validation
  cr_apiText :: "apiError \<Rightarrow> string"
  cr_formatTime :: "gotime \<Rightarrow> string"
  cr_traceContext :: string
  cr_AllowedLabelDomains :: "string list"

definition kube :: "('w \<Rightarrow> 'a \<times> 'w) \<Rightarrow> 'w claimState \<Rightarrow> 'a \<times> 'w claimState" where
  "kube call s = (case call (cw_World s) of (x, w') \<Rightarrow> (x, s\<lparr>cw_World := w'\<rparr>))"

abbreviation claimNS :: "SandboxClaim \<Rightarrow> string" where "claimNS claim \<equiv> om_Namespace (sc_Meta claim)"
abbreviation claimName :: "SandboxClaim \<Rightarrow> string" where "claimName claim \<equiv> om_Name (sc_Meta claim)"
abbreviation claimUID :: "SandboxClaim \<Rightarrow> string" where "claimUID claim \<equiv> om_UID (sc_Meta claim)"
abbreviation "ObservabilityAnnotation \<equiv> ''agents.x-k8s.io/controller-first-observed-at''"

definition claimKey :: "SandboxClaim \<Rightarrow> string \<times> string" where
  "claimKey claim = (claimNS claim, claimName claim)"

definition adoptionCacheLagRequeueDelay :: int where "adoptionCacheLagRequeueDelay = 5 * 1000000"
definition claimRequeueDelay :: int where "claimRequeueDelay = 1000000"

section \<open>Observation times\<close>

definition getOrRecordObservedTime :: "gotime \<Rightarrow> ObjectMeta \<Rightarrow> 'w claimState \<Rightarrow> gotime \<times> 'w claimState" where
  "getOrRecordObservedTime now obj s =
     (let key = (om_Namespace obj, om_Name obj); newEntry = \<lparr>oe_timestamp = now, oe_uid = om_UID obj\<rparr>;
          stored = s\<lparr>cw_observedTimes := (cw_observedTimes s)(key \<mapsto> newEntry)\<rparr>
      in case cw_observedTimes s key of
           Some entry \<Rightarrow> if oe_uid entry = om_UID obj then (oe_timestamp entry, s) else (now, stored)
         | None \<Rightarrow> (now, stored))"

definition forgetObservedTime :: "string \<times> string \<Rightarrow> 'w claimState \<Rightarrow> 'w claimState" where
  "forgetObservedTime key s = s\<lparr>cw_observedTimes := (cw_observedTimes s)(key := None)\<rparr>"

definition forgetObservedUID :: "ObjectMeta \<Rightarrow> 'w claimState \<Rightarrow> 'w claimState" where
  "forgetObservedUID obj s =
     (let key = (om_Namespace obj, om_Name obj)
      in case cw_observedTimes s key of
           Some entry \<Rightarrow> if oe_uid entry = om_UID obj then forgetObservedTime key s else s
         | None \<Rightarrow> s)"

definition timing_Create :: "gotime \<Rightarrow> ObjectMeta \<Rightarrow> 'w claimState \<Rightarrow> bool \<times> 'w claimState" where
  "timing_Create now obj s = (True, snd (getOrRecordObservedTime now obj s))"

definition timing_Update :: "gotime \<Rightarrow> ObjectMeta \<Rightarrow> 'w claimState \<Rightarrow> bool \<times> 'w claimState" where
  "timing_Update now obj s = (True, snd (getOrRecordObservedTime now obj s))"

definition timing_Delete :: "ObjectMeta \<Rightarrow> 'w claimState \<Rightarrow> bool \<times> 'w claimState" where
  "timing_Delete obj s = (True, forgetObservedUID obj s)"

definition triggered :: "SandboxClaim \<Rightarrow> string \<Rightarrow> 'w claimState \<Rightarrow> bool" where
  "triggered claim sbName s =
     (case cw_triggeredAdoptions s (claimKey claim) of
        None \<Rightarrow> False
      | Some prev \<Rightarrow> ta_uid prev = claimUID claim \<and> ta_sandbox prev = sbName)"

definition storeTriggered :: "SandboxClaim \<Rightarrow> string \<Rightarrow> 'w claimState \<Rightarrow> 'w claimState" where
  "storeTriggered claim sbName s =
     s\<lparr>cw_triggeredAdoptions := (cw_triggeredAdoptions s)(claimKey claim \<mapsto> \<lparr>ta_uid = claimUID claim, ta_sandbox = sbName\<rparr>)\<rparr>"

definition forgetTriggered :: "string \<times> string \<Rightarrow> 'w claimState \<Rightarrow> 'w claimState" where
  "forgetTriggered key s = s\<lparr>cw_triggeredAdoptions := (cw_triggeredAdoptions s)(key := None)\<rparr>"

definition putBack :: "string \<Rightarrow> SandboxKey \<Rightarrow> 'w claimState \<Rightarrow> 'w claimState" where
  "putBack pool key s = s\<lparr>cw_Queue := Add (cw_Queue s) pool key\<rparr>"

section \<open>Status\<close>

definition claimCondition :: "SandboxClaim \<Rightarrow> string \<Rightarrow> string \<Rightarrow> Condition" where
  "claimCondition claim reason message = \<lparr>c_Type = ''Ready'', c_Status = ''False'',
     c_ObservedGeneration = om_Generation (sc_Meta claim), c_LastTransitionTime = zeroTime, c_Reason = reason, c_Message = message\<rparr>"

definition TrimSuffix :: "string \<Rightarrow> string \<Rightarrow> string" where
  "TrimSuffix s p = (if hasSuffix s p then take (length s - length p) s else s)"

definition hasSandboxExpiredCondition :: "apimachinery \<Rightarrow> Condition list \<Rightarrow> bool" where
  "hasSandboxExpiredCondition api conditions =
     (case FindStatusCondition api conditions ''Ready'' of None \<Rightarrow> False | Some c \<Rightarrow> c_Reason c = ''SandboxExpired'')"

definition hasClaimExpiredCondition :: "apimachinery \<Rightarrow> Condition list \<Rightarrow> bool" where
  "hasClaimExpiredCondition api conditions =
     (case FindStatusCondition api conditions ''Ready'' of None \<Rightarrow> False | Some c \<Rightarrow> c_Reason c = ''ClaimExpired'')"

definition errorCondition :: "'w SandboxClaimReconciler \<Rightarrow> SandboxClaim \<Rightarrow> claimError \<Rightarrow> Condition" where
  "errorCondition r claim err =
     (let text = errorText (cr_apiText r) err; cond = claimCondition claim
      in if errorIs err ErrTemplateNotFound then
           cond ''TemplateNotFound'' (TrimSuffix text ('': '' @ errorText (cr_apiText r) ErrTemplateNotFound))
         else if errorIs err ErrWarmPoolNotFound then
           cond ''WarmPoolNotFound'' (''SandboxWarmPool '' @ Quote (cs_WarmPoolRef (sc_Spec claim)) @ '' not found'')
         else if errorIs err errAdoptionTriggeredRetry then
           cond ''AdoptionPending'' ''Warm-pool sandbox adoption triggered; waiting for cache to converge''
         else if errorIs err ErrInvalidMetadata then cond ''InvalidMetadata'' text
         else if errorIs err ErrEnvVarsInjectionRejected then cond ''EnvVarsInjectionRejected'' text
         else if errorIs err ErrSandboxNotOwned then cond ''ClaimExpired'' (''Claim expired. '' @ text @ ''; deletion skipped.'')
         else if errorIs err ErrVolumeClaimTemplatesDisallowed \<or> errorIs err ErrVolumeClaimTemplatesOverrideForbidden \<or>
                 errorIs err ErrVolumeClaimTemplatesInvalid then cond ''VolumeClaimTemplatesError'' text
         else cond ''ReconcilerError'' (''Error seen: '' @ text))"

definition Claim_computeReadyCondition ::
  "'w SandboxClaimReconciler \<Rightarrow> SandboxClaim \<Rightarrow> Sandbox option \<Rightarrow> claimError option \<Rightarrow> bool \<Rightarrow> Condition" where
  "Claim_computeReadyCondition r claim sandbox err isClaimExpired =
     (case err of
        Some e \<Rightarrow> errorCondition r claim e
      | None \<Rightarrow>
          if isClaimExpired then claimCondition claim ''ClaimExpired'' ''Claim expired. Sandbox cleanup initiated.''
          else case sandbox of
            None \<Rightarrow> claimCondition claim ''SandboxMissing'' ''Sandbox does not exist''
          | Some sb \<Rightarrow>
              if hasSandboxExpiredCondition (cr_api r) (st_Conditions (sb_Status sb)) then
                claimCondition claim ''SandboxExpired'' ''Underlying Sandbox resource has expired independently of the Claim.''
              else case find (\<lambda>c. c_Type c = ''Ready'') (st_Conditions (sb_Status sb)) of
                Some condition \<Rightarrow> condition
              | None \<Rightarrow> claimCondition claim ''SandboxNotReady'' ''Sandbox is not ready'')"

definition syncFinishedCondition ::
  "'w SandboxClaimReconciler \<Rightarrow> gotime \<Rightarrow> Sandbox option \<Rightarrow> bool \<Rightarrow> Condition list \<Rightarrow> Condition list" where
  "syncFinishedCondition r now sandbox isClaimExpired conditions =
     (case sandbox of
        Some sb \<Rightarrow>
          (case FindStatusCondition (cr_api r) (st_Conditions (sb_Status sb)) ''Finished'' of
             Some finished \<Rightarrow> SetStatusCondition (cr_api r) now conditions finished
           | None \<Rightarrow> RemoveStatusCondition (cr_api r) conditions ''Finished'')
      | None \<Rightarrow> if isClaimExpired then conditions else RemoveStatusCondition (cr_api r) conditions ''Finished'')"

definition boundStatus :: "Sandbox option \<Rightarrow> claimError option \<Rightarrow> SandboxClaimStatus \<Rightarrow> SandboxClaimStatus" where
  "boundStatus sandbox err st =
     (case sandbox of
        Some sb \<Rightarrow> st\<lparr>cst_SandboxName := om_Name (sb_Meta sb), cst_PodIPs := st_PodIPs (sb_Status sb)\<rparr>
      | None \<Rightarrow>
          (case err of
             None \<Rightarrow> st\<lparr>cst_SandboxName := [], cst_PodIPs := []\<rparr>
           | Some e \<Rightarrow> if errorIs e ErrSandboxNotOwned then st\<lparr>cst_SandboxName := [], cst_PodIPs := []\<rparr> else st))"

definition setReady ::
  "'w SandboxClaimReconciler \<Rightarrow> gotime \<Rightarrow> SandboxClaim \<Rightarrow> Condition \<Rightarrow> SandboxClaim" where
  "setReady r now claim c = claim\<lparr>sc_Status := (sc_Status claim)\<lparr>cst_Conditions :=
     SetStatusCondition (cr_api r) now (cst_Conditions (sc_Status claim)) c\<rparr>\<rparr>"

definition computeAndSetStatus ::
  "'w SandboxClaimReconciler \<Rightarrow> gotime \<Rightarrow> SandboxClaim \<Rightarrow> Sandbox option \<Rightarrow> claimError option \<Rightarrow> bool \<Rightarrow> SandboxClaim" where
  "computeAndSetStatus r now claim sandbox err isClaimExpired =
     (if sandbox = None \<and> (\<exists>e. err = Some e \<and> errorIs e errAdoptionTriggeredRetry) \<and> cst_SandboxName (sc_Status claim) \<noteq> [] then claim
      else let st = sc_Status (setReady r now claim (Claim_computeReadyCondition r claim sandbox err isClaimExpired));
               st1 = st\<lparr>cst_Conditions := syncFinishedCondition r now sandbox isClaimExpired (cst_Conditions st)\<rparr>
           in claim\<lparr>sc_Status := boundStatus sandbox err st1\<rparr>)"

definition sortConditions :: "SandboxClaimStatus \<Rightarrow> SandboxClaimStatus" where
  "sortConditions st = st\<lparr>cst_Conditions := sort_key c_Type (cst_Conditions st)\<rparr>"

definition Claim_updateStatus ::
  "'w SandboxClaimReconciler \<Rightarrow> SandboxClaimStatus \<Rightarrow> SandboxClaim \<Rightarrow> 'w claimState
     \<Rightarrow> (claimError option \<times> SandboxClaim) \<times> 'w claimState" where
  "Claim_updateStatus r oldStatus claim s =
     (let old = sortConditions oldStatus; new = claim\<lparr>sc_Status := sortConditions (sc_Status claim)\<rparr>
      in if old = sc_Status new then ((None, new), s)
         else case kube (kc_PatchStatus (cr_claims r) (new\<lparr>sc_Status := old\<rparr>) new) s of
                (Inl err, s') \<Rightarrow> ((Some (ApiFailure err), new), s')
              | (Inr new', s') \<Rightarrow> ((None, new'), s'))"

section \<open>Labels\<close>

definition syncCreatedBy :: "SandboxClaim \<Rightarrow> strmap \<Rightarrow> strmap" where
  "syncCreatedBy claim labels =
     (let val = mget (om_Labels (sc_Meta claim)) CreatedByLabel
      in if val \<noteq> [] then fmupd CreatedByLabel val labels else fmdrop CreatedByLabel labels)"

definition ensureClaimIdentityLabels :: "strmap \<Rightarrow> SandboxClaim \<Rightarrow> strmap" where
  "ensureClaimIdentityLabels labels claim = syncCreatedBy claim (fmupd SandboxIDLabel (claimUID claim) labels)"

definition withTemplateHash :: "string \<Rightarrow> strmap \<Rightarrow> strmap" where
  "withTemplateHash templateHash labels =
     (if templateHash \<noteq> [] then fmupd sandboxTemplateRefHash templateHash labels else labels)"

definition withTrace :: "SandboxClaim \<Rightarrow> strmap \<Rightarrow> strmap" where
  "withTrace claim anns =
     (case fmlookup (om_Annotations (sc_Meta claim)) TraceContextAnnotation of
        Some tc \<Rightarrow> fmupd TraceContextAnnotation tc anns | None \<Rightarrow> anns)"

text \<open>The Pod metadata a claimed Sandbox must have: the template's, the claim's identity, the claim's additions.\<close>

definition claimedPodMeta ::
  "'w SandboxClaimReconciler \<Rightarrow> SandboxClaim \<Rightarrow> SandboxTemplate \<Rightarrow> string \<Rightarrow> claimError + PodMetadata" where
  "claimedPodMeta r claim template templateHash =
     (let meta = pt_Meta (bp_PodTemplate (ts_Blueprint (tp_Spec template)))
      in mergePodMetadata (cr_validation r) (cr_AllowedLabelDomains r)
           (meta\<lparr>pm_Labels := syncCreatedBy claim (withTemplateHash templateHash
              (fmupd SandboxIDLabel (claimUID claim) (pm_Labels meta)))\<rparr>)
           (cs_AdditionalPodMetadata (sc_Spec claim)))"

abbreviation sandboxPodMeta :: "Sandbox \<Rightarrow> PodMetadata" where
  "sandboxPodMeta sb \<equiv> pt_Meta (bp_PodTemplate (ss_Blueprint (sb_Spec sb)))"

definition setPodMeta :: "PodMetadata \<Rightarrow> Sandbox \<Rightarrow> Sandbox" where
  "setPodMeta meta sb =
     (let spec = sb_Spec sb; bp = ss_Blueprint spec; pt = bp_PodTemplate bp
      in sb\<lparr>sb_Spec := spec\<lparr>ss_Blueprint := bp\<lparr>bp_PodTemplate := pt\<lparr>pt_Meta := meta\<rparr>\<rparr>\<rparr>\<rparr>)"

section \<open>Adoption\<close>

definition getClaimTemplate :: "'w SandboxClaimReconciler \<Rightarrow> SandboxClaim \<Rightarrow> 'w \<Rightarrow> claimError + SandboxTemplate" where
  "getClaimTemplate r claim w =
     (case kc_Get (cr_pools r) (claimNS claim) (cs_WarmPoolRef (sc_Spec claim)) w of
        Inl err \<Rightarrow>
          if IsNotFound err then Inl ErrWarmPoolNotFound
          else Inl (Before (''failed to get sandbox warm pool '' @ Quote (cs_WarmPoolRef (sc_Spec claim))) (ApiFailure err))
      | Inr warmPool \<Rightarrow>
          let ref = ws_TemplateRef (wp_Spec warmPool)
          in case kc_Get (cr_templates r) (claimNS claim) ref w of
               Inl err \<Rightarrow>
                 if IsNotFound err then Inl (Before (''SandboxTemplate '' @ Quote ref @ '' not found'') ErrTemplateNotFound)
                 else Inl (Before (''failed to get sandbox template '' @ Quote ref) (ApiFailure err))
             | Inr template \<Rightarrow> Inr template)"

definition adoptedLabels :: "SandboxClaim \<Rightarrow> string \<Rightarrow> strmap \<Rightarrow> strmap" where
  "adoptedLabels claim templateHash labels =
     withTemplateHash templateHash (ensureClaimIdentityLabels
       (fmupd SandboxLaunchTypeLabel SandboxLaunchTypeWarm (fmdrop SandboxTemplateHashLabel
          (fmdrop DeprecatedSandboxPodTemplateHashLabel (fmdrop warmPoolSandboxLabel labels)))) claim)"

definition adoptedAnnotations :: "SandboxClaim \<Rightarrow> string \<Rightarrow> strmap \<Rightarrow> strmap" where
  "adoptedAnnotations claim name anns =
     withTrace claim (if mget anns SandboxPodNameAnnotation \<noteq> name then fmupd SandboxPodNameAnnotation name anns else anns)"

definition adoptedHash :: "claimError + SandboxTemplate \<Rightarrow> Sandbox \<Rightarrow> string" where
  "adoptedHash found adopted =
     (let templateHash = mget (om_Labels (sb_Meta adopted)) sandboxTemplateRefHash
      in case found of
           Inr template \<Rightarrow> if templateHash = [] then SandboxTemplateRefHash (om_Name (tp_Meta template)) else templateHash
         | Inl _ \<Rightarrow> templateHash)"

definition adoptedPodMeta ::
  "'w SandboxClaimReconciler \<Rightarrow> SandboxClaim \<Rightarrow> claimError + SandboxTemplate \<Rightarrow> string \<Rightarrow> PodMetadata \<Rightarrow> claimError + PodMetadata" where
  "adoptedPodMeta r claim found templateHash meta =
     (case found of
        Inr template \<Rightarrow> claimedPodMeta r claim template templateHash
      | Inl _ \<Rightarrow>
          let anns = pm_Annotations meta
          in mergePodMetadata (cr_validation r) (cr_AllowedLabelDomains r)
               \<lparr>pm_Labels = withTemplateHash templateHash (ensureClaimIdentityLabels (pm_Labels meta) claim),
                pm_Annotations = (if mget anns warmPoolEvictionAnnotation = ''true'' then fmdrop warmPoolEvictionAnnotation anns else anns)\<rparr>
               (cs_AdditionalPodMetadata (sc_Spec claim)))"

definition adoptedSandbox ::
  "'w SandboxClaimReconciler \<Rightarrow> SandboxClaim \<Rightarrow> claimError + SandboxTemplate \<Rightarrow> Sandbox \<Rightarrow> claimError + Sandbox" where
  "adoptedSandbox r claim found adopted =
     (case cr_setRef r extensionsAPIVersion ''SandboxClaim'' (sc_Meta claim) ((sb_Meta adopted)\<lparr>om_OwnerReferences := []\<rparr>) of
        Inl err \<Rightarrow> Inl (Before ''failed to set controller reference on adopted sandbox'' (Plain err))
      | Inr m \<Rightarrow>
          let templateHash = adoptedHash found adopted
          in case adoptedPodMeta r claim found templateHash (sandboxPodMeta adopted) of
               Inl err \<Rightarrow> Inl err
             | Inr meta \<Rightarrow>
                 Inr (setPodMeta meta (adopted\<lparr>sb_Meta := m\<lparr>om_Labels := adoptedLabels claim templateHash (om_Labels (sb_Meta adopted)),
                   om_Annotations := adoptedAnnotations claim (om_Name (sb_Meta adopted)) (om_Annotations (sb_Meta adopted))\<rparr>\<rparr>)))"

definition completeAdoption ::
  "'w SandboxClaimReconciler \<Rightarrow> SandboxClaim \<Rightarrow> Sandbox \<Rightarrow> 'w claimState \<Rightarrow> (claimError + Sandbox) \<times> 'w claimState" where
  "completeAdoption r claim adopted s =
     (case adoptedSandbox r claim (getClaimTemplate r claim (cw_World s)) adopted of
        Inl err \<Rightarrow> (Inl err, s)
      | Inr sb \<Rightarrow>
          case kube (kc_Patch (cr_sandboxes r) adopted sb) s of
            (Inl err, s') \<Rightarrow> (Inl (ApiFailure err), s')
          | (Inr sb', s') \<Rightarrow> (Inr sb', s'))"

definition recordAssigned :: "string \<Rightarrow> SandboxClaim \<Rightarrow> SandboxClaim" where
  "recordAssigned name claim = claim\<lparr>sc_Meta := (sc_Meta claim)\<lparr>om_Annotations :=
     fmupd AssignedSandboxNameAnnotation name (om_Annotations (sc_Meta claim))\<rparr>\<rparr>"

text \<open>One attempt on a candidate: \<open>Inr None\<close> asks for the next one.\<close>

definition adoptAttempt ::
  "'w SandboxClaimReconciler \<Rightarrow> string \<Rightarrow> SandboxClaim \<Rightarrow> Sandbox \<Rightarrow> SandboxKey \<Rightarrow> 'w claimState
     \<Rightarrow> (claimError + Sandbox option) \<times> SandboxClaim \<times> 'w claimState" where
  "adoptAttempt r pool claim adopted key s =
     (let claim1 = recordAssigned (om_Name (sb_Meta adopted)) claim
      in case kube (kc_Update (cr_claims r) claim1) s of
           (Inl err, s1) \<Rightarrow> (Inl (ApiFailure err), claim1, putBack pool key s1)
         | (Inr claim2, s1) \<Rightarrow>
             case completeAdoption r claim2 adopted s1 of
               (Inl err, s2) \<Rightarrow>
                 if errIsNotFound err then (Inr None, claim2, s2)
                 else if errIsConflict err then (Inr None, claim2, putBack pool key s2)
                 else (Inl err, claim2, putBack pool key s2)
             | (Inr sb, s2) \<Rightarrow> (Inr (Some sb), claim2, storeTriggered claim2 (om_Name (sb_Meta sb)) s2))"

fun adoptLoop ::
  "nat \<Rightarrow> 'w SandboxClaimReconciler \<Rightarrow> string \<Rightarrow> SandboxClaim \<Rightarrow> 'w claimState
     \<Rightarrow> ((claimError + Sandbox option) \<times> SandboxClaim \<times> 'w claimState) option" where
  "adoptLoop 0 r pool claim s = Some (Inr None, claim, s)"
| "adoptLoop (Suc n) r pool claim s =
     do {
       (found, q) \<leftarrow> getCandidate (\<lambda>ns name. kc_Get (cr_sandboxes r) ns name (cw_World s)) (cr_api r) claim (cw_Queue s);
       let s1 = s\<lparr>cw_Queue := q\<rparr>;
       (case found of
          Inl err \<Rightarrow> Some (Inl err, claim, s1)
        | Inr None \<Rightarrow> Some (Inr None, claim, s1)
        | Inr (Some (adopted, key)) \<Rightarrow>
            (case adoptAttempt r pool claim adopted key s1 of
               (Inl err, claim', s2) \<Rightarrow> Some (Inl err, claim', s2)
             | (Inr (Some sb), claim', s2) \<Rightarrow> Some (Inr (Some sb), claim', s2)
             | (Inr None, claim', s2) \<Rightarrow> adoptLoop n r pool claim' s2))
     }"

definition adoptSandboxFromCandidates ::
  "'w SandboxClaimReconciler \<Rightarrow> SandboxClaim \<Rightarrow> 'w claimState
     \<Rightarrow> ((claimError + Sandbox option) \<times> SandboxClaim \<times> 'w claimState) option" where
  "adoptSandboxFromCandidates r claim s = adoptLoop 3 r (claimPool claim) claim s"

end
