(* ===== verification/Claim_Reconcile.thy ===== *)
theory Claim_Reconcile
  imports Claim_Controller
begin

text \<open>
  The reconcile loop of the claim controller
  (\<^verbatim>\<open>extensions/controllers/sandboxclaim_controller.go\<close>): the Sandbox recorded in the status,
  the one assigned in the metadata, the one named like the claim, adoption, creation from the
  template, expiry and the result of a pass.
\<close>

section \<open>Creation\<close>

definition resolveVCTs :: "SandboxClaim \<Rightarrow> SandboxTemplate \<Rightarrow> claimError + PersistentVolumeClaimTemplate list" where
  "resolveVCTs claim template =
     (let templateVCTs = bp_VolumeClaimTemplates (ts_Blueprint (tp_Spec template)); claimVCTs = cs_VolumeClaimTemplates (sc_Spec claim)
      in if claimVCTs \<noteq> [] then
           (case mergeVolumeClaimTemplates templateVCTs claimVCTs (ts_VolumeClaimTemplatesPolicy (tp_Spec template)) of
              Inl err \<Rightarrow> Inl (Before ''failed to merge volume claim templates'' err)
            | Inr resolved \<Rightarrow> Inr (if resolved \<noteq> [] then resolved else templateVCTs))
         else
           (case validateVolumeClaimTemplates templateVCTs of
              Some err \<Rightarrow> Inl (Before ''invalid volume claim templates in template'' err)
            | None \<Rightarrow> Inr templateVCTs))"

definition coldMeta :: "SandboxClaim \<Rightarrow> SandboxTemplate \<Rightarrow> ObjectMeta" where
  "coldMeta claim template =
     emptyMeta\<lparr>om_Namespace := claimNS claim, om_Name := claimName claim,
       om_Annotations := fmupd SandboxTemplateRefAnnotation (om_Name (tp_Meta template)) (withTrace claim fmempty),
       om_Labels := fmupd sandboxTemplateRefHash (SandboxTemplateRefHash (om_Name (tp_Meta template)))
         (fmupd SandboxLaunchTypeLabel SandboxLaunchTypeCold (ensureClaimIdentityLabels fmempty claim))\<rparr>"

definition coldPodMeta :: "'w SandboxClaimReconciler \<Rightarrow> SandboxClaim \<Rightarrow> SandboxTemplate \<Rightarrow> claimError + PodMetadata" where
  "coldPodMeta r claim template =
     (let meta = pt_Meta (bp_PodTemplate (ts_Blueprint (tp_Spec template)))
      in mergePodMetadata (cr_validation r) (cr_AllowedLabelDomains r)
           (meta\<lparr>pm_Labels := fmupd sandboxTemplateRefHash (SandboxTemplateRefHash (om_Name (tp_Meta template)))
              (ensureClaimIdentityLabels (pm_Labels meta) claim)\<rparr>)
           (cs_AdditionalPodMetadata (sc_Spec claim)))"

definition coldSandbox :: "'w SandboxClaimReconciler \<Rightarrow> SandboxClaim \<Rightarrow> SandboxTemplate \<Rightarrow> claimError + Sandbox" where
  "coldSandbox r claim template =
     (let bp = ts_Blueprint (tp_Spec template)
      in case resolveVCTs claim template of
           Inl err \<Rightarrow> Inl err
         | Inr vcts \<Rightarrow>
             case coldPodMeta r claim template of
               Inl err \<Rightarrow> Inl err
             | Inr meta \<Rightarrow>
                 case injectPodEnvs (ts_EnvVarsInjectionPolicy (tp_Spec template)) (cs_Env (sc_Spec claim)) (pt_Spec (bp_PodTemplate bp)) of
                   Inl err \<Rightarrow> Inl err
                 | Inr spec \<Rightarrow>
                     case cr_setRef r extensionsAPIVersion ''SandboxClaim'' (sc_Meta claim) (coldMeta claim template) of
                       Inl err \<Rightarrow> Inl (Before ''failed to set controller reference for sandbox'' (Plain err))
                     | Inr m \<Rightarrow>
                         Inr (emptySandbox\<lparr>sb_Meta := m, sb_Spec := emptySandboxSpec\<lparr>ss_Blueprint := bp\<lparr>
                           bp_PodTemplate := \<lparr>pt_Spec = ApplySandboxSecureDefaults template spec, pt_Meta = meta\<rparr>,
                           bp_VolumeClaimTemplates := vcts\<rparr>\<rparr>\<rparr>))"

definition createSandbox ::
  "'w SandboxClaimReconciler \<Rightarrow> SandboxClaim \<Rightarrow> SandboxTemplate \<Rightarrow> 'w claimState \<Rightarrow> (claimError + Sandbox) \<times> 'w claimState" where
  "createSandbox r claim template s =
     (case coldSandbox r claim template of
        Inl err \<Rightarrow> (Inl err, s)
      | Inr sandbox \<Rightarrow>
          case kube (kc_Create (cr_sandboxes r) sandbox) s of
            (Inl err, s') \<Rightarrow> (Inl (Before ''sandbox create error'' (ApiFailure err)), s')
          | (Inr sandbox', s') \<Rightarrow> (Inr sandbox', s'))"

section \<open>Finding the claim's Sandbox\<close>

definition initializeSandboxLaunchTypeLabel ::
  "'w SandboxClaimReconciler \<Rightarrow> Sandbox \<Rightarrow> string \<Rightarrow> 'w claimState \<Rightarrow> (claimError + Sandbox) \<times> 'w claimState" where
  "initializeSandboxLaunchTypeLabel r sandbox launchType s =
     (let labels = om_Labels (sb_Meta sandbox)
      in if SandboxLaunchTypeLabel |\<in>| fmdom labels then (Inr sandbox, s)
         else case kube (kc_Patch (cr_sandboxes r) sandbox
                (sandbox\<lparr>sb_Meta := (sb_Meta sandbox)\<lparr>om_Labels := fmupd SandboxLaunchTypeLabel launchType labels\<rparr>\<rparr>)) s of
                (Inl err, s') \<Rightarrow> (Inl (Before (''failed to initialize launch type label on sandbox '' @ Quote (om_Name (sb_Meta sandbox))) (ApiFailure err)), s')
              | (Inr sandbox', s') \<Rightarrow> (Inr sandbox', s'))"

text \<open>The result of a lookup: \<open>None\<close> falls through to the next one.\<close>

type_synonym 'w lookupResult = "(claimError + Sandbox) option \<times> SandboxClaim \<times> 'w claimState"

definition returning :: "SandboxClaim \<Rightarrow> (claimError + Sandbox) \<times> 'w claimState \<Rightarrow> 'w lookupResult" where
  "returning claim res = (Some (fst res), claim, snd res)"

definition statusLaunchType :: "SandboxClaim \<Rightarrow> string" where
  "statusLaunchType claim =
     (let statusName = cst_SandboxName (sc_Status claim)
      in if mget (om_Annotations (sc_Meta claim)) AssignedSandboxNameAnnotation = statusName \<or>
            mget (om_Labels (sc_Meta claim)) DeprecatedAssignedSandboxNameLabel = statusName \<or> statusName \<noteq> claimName claim
         then SandboxLaunchTypeWarm else SandboxLaunchTypeCold)"

definition sandboxFromStatus ::
  "'w SandboxClaimReconciler \<Rightarrow> SandboxClaim \<Rightarrow> 'w claimState \<Rightarrow> 'w lookupResult" where
  "sandboxFromStatus r claim s =
     (let statusName = cst_SandboxName (sc_Status claim)
      in if statusName = [] then (None, claim, s)
         else case kc_Get (cr_sandboxes r) (claimNS claim) statusName (cw_World s) of
                Inr sandbox \<Rightarrow>
                  if IsControlledBy (cr_api r) (sb_Meta sandbox) (sc_Meta claim)
                  then returning claim (initializeSandboxLaunchTypeLabel r sandbox (statusLaunchType claim) (forgetTriggered (claimKey claim) s))
                  else (None, claim, s)
              | Inl err \<Rightarrow>
                  if IsNotFound err then (None, claim, s)
                  else (Some (Inl (Before (''failed to get sandbox '' @ Quote statusName @ '' from status'') (ApiFailure err))), claim, s))"

definition assignedName :: "SandboxClaim \<Rightarrow> string \<times> bool" where
  "assignedName claim =
     (let annotated = mget (om_Annotations (sc_Meta claim)) AssignedSandboxNameAnnotation;
          labelled = mget (om_Labels (sc_Meta claim)) DeprecatedAssignedSandboxNameLabel
      in if annotated \<noteq> [] then (annotated, False) else (labelled, labelled \<noteq> []))"

definition migrateLegacyAssignedSandboxLabel ::
  "'w SandboxClaimReconciler \<Rightarrow> SandboxClaim \<Rightarrow> string \<Rightarrow> 'w claimState \<Rightarrow> claimError option \<times> SandboxClaim \<times> 'w claimState" where
  "migrateLegacyAssignedSandboxLabel r claim sbName s =
     (let claim1 = claim\<lparr>sc_Meta := (sc_Meta claim)\<lparr>
            om_Annotations := fmupd AssignedSandboxNameAnnotation sbName (om_Annotations (sc_Meta claim)),
            om_Labels := fmdrop DeprecatedAssignedSandboxNameLabel (om_Labels (sc_Meta claim))\<rparr>\<rparr>
      in case kube (kc_Patch (cr_claims r) claim claim1) s of
           (Inl err, s') \<Rightarrow> (Some (ApiFailure err), claim1, s') | (Inr claim2, s') \<Rightarrow> (None, claim2, s'))"

definition migrateIf ::
  "bool \<Rightarrow> 'w SandboxClaimReconciler \<Rightarrow> SandboxClaim \<Rightarrow> string \<Rightarrow> 'w claimState \<Rightarrow> SandboxClaim \<times> 'w claimState" where
  "migrateIf fromLabel r claim sbName s =
     (if fromLabel then snd (migrateLegacyAssignedSandboxLabel r claim sbName s) else (claim, s))"

definition dropAssigned :: "bool \<Rightarrow> SandboxClaim \<Rightarrow> SandboxClaim" where
  "dropAssigned fromLabel claim =
     (let m = sc_Meta claim
      in claim\<lparr>sc_Meta := (if fromLabel then m\<lparr>om_Labels := fmdrop DeprecatedAssignedSandboxNameLabel (om_Labels m)\<rparr>
                          else m\<lparr>om_Annotations := fmdrop AssignedSandboxNameAnnotation (om_Annotations m)\<rparr>)\<rparr>)"

definition removeStaleReference ::
  "'w SandboxClaimReconciler \<Rightarrow> string \<Rightarrow> bool \<Rightarrow> SandboxClaim \<Rightarrow> 'w claimState \<Rightarrow> 'w lookupResult" where
  "removeStaleReference r what fromLabel claim s =
     (let claim1 = dropAssigned fromLabel claim
      in case kube (kc_Patch (cr_claims r) claim claim1) s of
           (Inl err, s') \<Rightarrow> (Some (Inl (Before what (ApiFailure err))), claim1, s')
         | (Inr claim2, s') \<Rightarrow> (None, claim2, s'))"

definition adoptionRetry :: "string \<Rightarrow> claimError" where
  "adoptionRetry sbName = After errAdoptionTriggeredRetry (''sandbox '' @ sbName)"

definition completeAssigned ::
  "'w SandboxClaimReconciler \<Rightarrow> SandboxClaim \<Rightarrow> string \<Rightarrow> bool \<Rightarrow> Sandbox \<Rightarrow> 'w claimState \<Rightarrow> 'w lookupResult" where
  "completeAssigned r claim sbName fromLabel sandbox s =
     (if triggered claim sbName s then (Some (Inl (adoptionRetry sbName)), claim, s)
      else case completeAdoption r claim sandbox s of
             (Inl err, s1) \<Rightarrow>
               if errIsNotFound err \<or> errIsConflict err then (None, claim, s1)
               else (Some (Inl (Before (''failed to complete adoption of '' @ Quote sbName) err)), claim, s1)
           | (Inr _, s1) \<Rightarrow>
               let (claim1, s2) = migrateIf fromLabel r claim sbName (storeTriggered claim sbName s1)
               in (Some (Inl (adoptionRetry sbName)), claim1, s2))"

definition sandboxFromMetadata ::
  "'w SandboxClaimReconciler \<Rightarrow> SandboxClaim \<Rightarrow> 'w claimState \<Rightarrow> 'w lookupResult" where
  "sandboxFromMetadata r claim s =
     (case assignedName claim of (sbName, fromLabel) \<Rightarrow>
        if sbName = [] then (None, claim, s)
        else case kc_Get (cr_sandboxes r) (claimNS claim) sbName (cw_World s) of
               Inr sandbox \<Rightarrow>
                 if IsControlledBy (cr_api r) (sb_Meta sandbox) (sc_Meta claim) then
                   (let (claim1, s1) = migrateIf fromLabel r claim sbName (forgetTriggered (claimKey claim) s)
                    in returning claim1 (initializeSandboxLaunchTypeLabel r sandbox SandboxLaunchTypeWarm s1))
                 else if (\<exists>c. GetControllerOf (cr_api r) (sb_Meta sandbox) = Some c \<and> or_Kind c = ''SandboxWarmPool'') then
                   (case verifySandboxCandidate (cr_api r) sandbox claim of
                      Some _ \<Rightarrow> removeStaleReference r ''failed to remove invalid sandbox reference'' fromLabel claim s
                    | None \<Rightarrow> completeAssigned r claim sbName fromLabel sandbox s)
                 else (None, claim, s)
             | Inl err \<Rightarrow>
                 if IsNotFound err then
                   removeStaleReference r ''failed to remove stale sandbox reference from claim metadata'' fromLabel claim s
                 else (Some (Inl (Before (''failed to get sandbox '' @ Quote sbName @ '' for sandbox name lookup'') (ApiFailure err))), claim, s))"

definition sandboxByName ::
  "'w SandboxClaimReconciler \<Rightarrow> SandboxClaim \<Rightarrow> 'w claimState \<Rightarrow> 'w lookupResult" where
  "sandboxByName r claim s =
     (case kc_Get (cr_sandboxes r) (claimNS claim) (claimName claim) (cw_World s) of
        Inl err \<Rightarrow>
          if IsNotFound err then (None, claim, s)
          else (Some (Inl (Before (''failed to get sandbox '' @ Quote (claimName claim)) (ApiFailure err))), claim, s)
      | Inr sandbox \<Rightarrow>
          if \<not> IsControlledBy (cr_api r) (sb_Meta sandbox) (sc_Meta claim) then
            (Some (Inl (Plain (''sandbox '' @ Quote (om_Name (sb_Meta sandbox)) @ '' is not controlled by claim '' @ Quote (claimName claim) @
               ''. Please use a different claim name or delete the sandbox manually''))), claim, s)
          else returning claim (initializeSandboxLaunchTypeLabel r sandbox SandboxLaunchTypeCold s))"

definition orElse ::
  "'w lookupResult \<Rightarrow> (SandboxClaim \<Rightarrow> 'w claimState \<Rightarrow> 'w lookupResult) \<Rightarrow> 'w lookupResult" where
  "orElse res next = (case res of (None, claim, s) \<Rightarrow> next claim s | _ \<Rightarrow> res)"

definition lookupSandbox :: "'w SandboxClaimReconciler \<Rightarrow> SandboxClaim \<Rightarrow> 'w claimState \<Rightarrow> 'w lookupResult" where
  "lookupSandbox r claim s = orElse (orElse (sandboxFromStatus r claim s) (sandboxFromMetadata r)) (sandboxByName r)"

definition getOrCreateSandbox ::
  "'w SandboxClaimReconciler \<Rightarrow> SandboxClaim \<Rightarrow> 'w claimState
     \<Rightarrow> ((claimError + Sandbox option) \<times> SandboxClaim \<times> 'w claimState) option" where
  "getOrCreateSandbox r claim s =
     (case lookupSandbox r claim s of
        (Some res, claim1, s1) \<Rightarrow> Some (map_sum id Some res, claim1, s1)
      | (None, claim1, s1) \<Rightarrow>
          if cs_Env (sc_Spec claim1) \<noteq> [] \<or> cs_VolumeClaimTemplates (sc_Spec claim1) \<noteq> [] then Some (Inr None, claim1, s1)
          else adoptSandboxFromCandidates r claim1 s1)"

section \<open>Active and expired claims\<close>

type_synonym outcome = "Sandbox option \<times> claimError option"

definition alignedLabels :: "SandboxClaim \<Rightarrow> string \<Rightarrow> strmap \<Rightarrow> bool \<times> strmap" where
  "alignedLabels claim templateHash labels =
     (let (u1, l1) = (if mget labels sandboxTemplateRefHash \<noteq> templateHash
                      then (True, fmupd sandboxTemplateRefHash templateHash labels) else (False, labels));
          val = mget (om_Labels (sc_Meta claim)) CreatedByLabel
      in if val \<noteq> [] then
           (if mget l1 CreatedByLabel \<noteq> val then (True, fmupd CreatedByLabel val l1) else (u1, l1))
         else (if CreatedByLabel |\<in>| fmdom l1 then (True, fmdrop CreatedByLabel l1) else (u1, l1)))"

definition syncMetadata ::
  "'w SandboxClaimReconciler \<Rightarrow> SandboxClaim \<Rightarrow> SandboxTemplate \<Rightarrow> Sandbox \<Rightarrow> 'w claimState \<Rightarrow> outcome \<times> 'w claimState" where
  "syncMetadata r claim template sandbox s =
     (let templateHash = SandboxTemplateRefHash (om_Name (tp_Meta template))
      in case claimedPodMeta r claim template templateHash of
           Inl err \<Rightarrow> ((None, Some err), s)
         | Inr meta \<Rightarrow>
             let (update, labels) = alignedLabels claim templateHash (om_Labels (sb_Meta sandbox));
                 sandbox1 = sandbox\<lparr>sb_Meta := (sb_Meta sandbox)\<lparr>om_Labels := labels\<rparr>\<rparr>;
                 sandbox2 = setPodMeta meta sandbox1
             in if meta \<noteq> sandboxPodMeta sandbox \<or> update then
                  (case kube (kc_Patch (cr_sandboxes r) sandbox sandbox2) s of
                     (Inl err, s') \<Rightarrow>
                       ((Some sandbox2, Some (Before (''failed to patch sandbox metadata for claim '' @ Quote (claimName claim)) (ApiFailure err))), s')
                   | (Inr sandbox', s') \<Rightarrow> ((Some sandbox', None), s'))
                else ((Some sandbox1, None), s))"

definition keepSandbox ::
  "'w SandboxClaimReconciler \<Rightarrow> SandboxClaim \<Rightarrow> Sandbox \<Rightarrow> 'w claimState \<Rightarrow> outcome \<times> 'w claimState" where
  "keepSandbox r claim sandbox s =
     (case getClaimTemplate r claim (cw_World s) of
        Inl err \<Rightarrow>
          if pm_Labels (cs_AdditionalPodMetadata (sc_Spec claim)) \<noteq> fmempty \<or> pm_Annotations (cs_AdditionalPodMetadata (sc_Spec claim)) \<noteq> fmempty
          then ((None, Some (Before ''failed to get template for metadata propagation'' err)), s)
          else ((Some sandbox, None), s)
      | Inr template \<Rightarrow> syncMetadata r claim template sandbox s)"

definition reconcileActive ::
  "'w SandboxClaimReconciler \<Rightarrow> SandboxClaim \<Rightarrow> 'w claimState \<Rightarrow> (outcome \<times> SandboxClaim \<times> 'w claimState) option" where
  "reconcileActive r claim s =
     (case validateAdditionalPodMetadata (cr_validation r) (cr_AllowedLabelDomains r) (cs_AdditionalPodMetadata (sc_Spec claim)) of
        Some err \<Rightarrow> Some ((None, Some (Both ErrInvalidMetadata (Plain err))), claim, s)
      | None \<Rightarrow>
          do {
            (res, claim1, s1) \<leftarrow> getOrCreateSandbox r claim s;
            (case res of
               Inl err \<Rightarrow> Some ((None, Some err), claim1, s1)
             | Inr (Some sandbox) \<Rightarrow> (case keepSandbox r claim1 sandbox s1 of (out, s2) \<Rightarrow> Some (out, claim1, s2))
             | Inr None \<Rightarrow>
                 (case getClaimTemplate r claim1 (cw_World s1) of
                    Inl err \<Rightarrow> Some ((None, Some err), claim1, s1)
                  | Inr template \<Rightarrow>
                      (case createSandbox r claim1 template s1 of
                         (Inl err, s2) \<Rightarrow> Some ((None, Some err), claim1, s2)
                       | (Inr sandbox, s2) \<Rightarrow> Some ((Some sandbox, None), claim1, s2))))
          })"

definition expiredName :: "SandboxClaim \<Rightarrow> string" where
  "expiredName claim = (if cst_SandboxName (sc_Status claim) \<noteq> [] then cst_SandboxName (sc_Status claim) else claimName claim)"

definition reconcileExpired ::
  "'w SandboxClaimReconciler \<Rightarrow> SandboxClaim \<Rightarrow> 'w claimState \<Rightarrow> outcome \<times> 'w claimState" where
  "reconcileExpired r claim s =
     (case kc_Get (cr_sandboxes r) (claimNS claim) (expiredName claim) (cw_World s) of
        Inl err \<Rightarrow> if IsNotFound err then ((None, None), s) else ((None, Some (ApiFailure err)), s)
      | Inr sandbox \<Rightarrow>
          if \<not> IsControlledBy (cr_api r) (sb_Meta sandbox) (sc_Meta claim) then
            ((None, Some (After ErrSandboxNotOwned (''sandbox '' @ Quote (om_Name (sb_Meta sandbox)) @ '' is not owned by claim '' @ Quote (claimName claim)))), s)
          else if om_DeletionTimestamp (sb_Meta sandbox) = None then
            (case kube (kc_Delete (cr_sandboxes r) False sandbox) s of
               (Inl err, s') \<Rightarrow> ((Some sandbox, Some (Before ''failed to delete expired sandbox'' (ApiFailure err))), s')
             | (Inr _, s') \<Rightarrow> ((Some sandbox, None), s'))
          else ((Some sandbox, None), s))"

section \<open>Reconcile\<close>

definition cleanupLegacyNetworkPolicy ::
  "'w SandboxClaimReconciler \<Rightarrow> SandboxClaim \<Rightarrow> 'w claimState \<Rightarrow> claimError option \<times> 'w claimState" where
  "cleanupLegacyNetworkPolicy r claim s =
     (case kc_Get (cr_policies r) (claimNS claim) (claimName claim @ ''-network-policy'') (cw_World s) of
        Inl err \<Rightarrow> (if IsNotFound err then None else Some (ApiFailure err), s)
      | Inr existingNP \<Rightarrow>
          if (\<exists>c. GetControllerOf (cr_api r) existingNP = Some c \<and> or_UID c = claimUID claim \<and> or_Kind c = ''SandboxClaim'') then
            (case kube (kc_Delete (cr_policies r) False existingNP) s of
               (Inl err, s') \<Rightarrow> (if IsNotFound err then None else Some (ApiFailure err), s')
             | (Inr _, s') \<Rightarrow> (None, s'))
          else (None, s))"

definition initializeAnnotations ::
  "'w SandboxClaimReconciler \<Rightarrow> gotime \<Rightarrow> SandboxClaim \<Rightarrow> 'w claimState \<Rightarrow> claimError option \<times> SandboxClaim \<times> 'w claimState" where
  "initializeAnnotations r now claim s =
     (let anns = om_Annotations (sc_Meta claim);
          needObservability = (mget anns ObservabilityAnnotation = []);
          needTrace = (cr_traceContext r \<noteq> [] \<and> mget anns TraceContextAnnotation = [])
      in if needObservability \<or> needTrace then
           (let (timestamp, s1) = (if needObservability then getOrRecordObservedTime now (sc_Meta claim) s else (now, s));
                anns1 = (if needObservability then fmupd ObservabilityAnnotation (cr_formatTime r timestamp) anns else anns);
                anns2 = (if needTrace then fmupd TraceContextAnnotation (cr_traceContext r) anns1 else anns1);
                claim1 = claim\<lparr>sc_Meta := (sc_Meta claim)\<lparr>om_Annotations := anns2\<rparr>\<rparr>
            in case kube (kc_Patch (cr_claims r) claim claim1) s1 of
                 (Inl err, s') \<Rightarrow> (Some (ApiFailure err), claim1, s') | (Inr claim2, s') \<Rightarrow> (None, claim2, s'))
         else (None, claim, s))"

definition checkExpiration :: "'w SandboxClaimReconciler \<Rightarrow> gotime \<Rightarrow> SandboxClaim \<Rightarrow> bool \<times> int" where
  "checkExpiration r now claim =
     (case cs_Lifecycle (sc_Spec claim) of
        None \<Rightarrow> (False, 0)
      | Some l \<Rightarrow> TimeLeft now (cl_ShutdownTime l) (cl_TTLSecondsAfterFinished l)
                   (FinishedCondition (cr_api r) (cst_Conditions (sc_Status claim)) ''Finished''))"

definition recordCreationLatencyMetric ::
  "'w SandboxClaimReconciler \<Rightarrow> SandboxClaim \<Rightarrow> SandboxClaimStatus \<Rightarrow> 'w claimState \<Rightarrow> 'w claimState" where
  "recordCreationLatencyMetric r claim oldStatus s =
     (let isTrue = (\<lambda>conditions. case FindStatusCondition (cr_api r) conditions ''Ready'' of None \<Rightarrow> False | Some c \<Rightarrow> c_Status c = ''True'')
      in if \<not> isTrue (cst_Conditions (sc_Status claim)) then s
         else if isTrue (cst_Conditions oldStatus) then forgetObservedUID (sc_Meta claim) s
         else if mget (om_Annotations (sc_Meta claim)) ObservabilityAnnotation \<noteq> [] then forgetObservedTime (claimKey claim) s
         else s)"

text \<open>The result of a pass: the delay after which the claim is queued again (0 for none) and the errors.\<close>

type_synonym 'w passResult = "(int \<times> claimError list) \<times> 'w claimState"

definition sooner :: "int \<Rightarrow> int \<Rightarrow> int" where
  "sooner requeueAfter delay = (if 0 < requeueAfter \<and> requeueAfter < delay then requeueAfter else delay)"

definition passResult :: "int \<Rightarrow> claimError option \<Rightarrow> int \<times> claimError list" where
  "passResult requeueAfter reconcileErr =
     (case reconcileErr of
        None \<Rightarrow> (requeueAfter, [])
      | Some e \<Rightarrow>
          if errorIs e ErrWarmPoolNotFound \<or> errorIs e ErrTemplateNotFound then (sooner requeueAfter (60 * second), [])
          else if errorIs e errAdoptionTriggeredRetry then (sooner requeueAfter adoptionCacheLagRequeueDelay, [])
          else if shouldSuppressError e then (requeueAfter, [])
          else (requeueAfter, [e]))"

definition joined :: "claimError option \<Rightarrow> claimError \<Rightarrow> claimError list" where
  "joined reconcileErr updateErr = (case reconcileErr of None \<Rightarrow> [updateErr] | Some e \<Rightarrow> [e, updateErr])"

text \<open>The status update and the result; \<open>later\<close> is the clock at the second expiry check.\<close>

definition finishPass ::
  "'w SandboxClaimReconciler \<Rightarrow> gotime \<Rightarrow> SandboxClaimStatus \<Rightarrow> bool \<Rightarrow> SandboxClaim \<Rightarrow> outcome \<Rightarrow> 'w claimState \<Rightarrow> 'w passResult" where
  "finishPass r later originalStatus claimExpired claim out s =
     (case out of (sandbox, reconcileErr) \<Rightarrow>
        let claim1 = computeAndSetStatus r later claim sandbox reconcileErr claimExpired;
            (postExpiration, postTimeLeft) = checkExpiration r later claim1;
            newlyExpired = (postExpiration \<and> \<not> hasClaimExpiredCondition (cr_api r) (cst_Conditions (sc_Status claim1)));
            claim2 = (if newlyExpired then setReady r later claim1 (Claim_computeReadyCondition r claim1 sandbox reconcileErr True) else claim1)
        in case Claim_updateStatus r originalStatus claim2 s of
             ((Some err, _), s1) \<Rightarrow> ((0, joined reconcileErr err), s1)
           | ((None, claim3), s1) \<Rightarrow>
               if newlyExpired then ((claimRequeueDelay, []), s1)
               else (passResult (if claimExpired then 0 else if postExpiration then claimRequeueDelay
                                 else if 0 < postTimeLeft then postTimeLeft else 0) reconcileErr,
                     recordCreationLatencyMetric r claim3 (sortConditions originalStatus) s1))"

definition deletesClaim :: "SandboxClaim \<Rightarrow> bool option" where
  "deletesClaim claim =
     (case cs_Lifecycle (sc_Spec claim) of
        None \<Rightarrow> None
      | Some l \<Rightarrow> if cl_ShutdownPolicy l = ''Delete'' then Some False
                  else if cl_ShutdownPolicy l = ''DeleteForeground'' then Some True else None)"

definition runPass ::
  "'w SandboxClaimReconciler \<Rightarrow> gotime \<Rightarrow> gotime \<Rightarrow> SandboxClaim \<Rightarrow> 'w claimState \<Rightarrow> 'w passResult option" where
  "runPass r now later claim s =
     (let originalStatus = sc_Status claim; claimExpired = fst (checkExpiration r now claim)
      in if claimExpired \<and> \<not> hasClaimExpiredCondition (cr_api r) (cst_Conditions originalStatus) then
           (case Claim_updateStatus r originalStatus
                   (setReady r now claim (Claim_computeReadyCondition r claim None None True)) s of
              ((Some err, _), s1) \<Rightarrow> Some ((0, [err]), s1)
            | ((None, _), s1) \<Rightarrow> Some ((claimRequeueDelay, []), s1))
         else case (if claimExpired then deletesClaim claim else None) of
           Some foreground \<Rightarrow>
             (case kube (kc_Delete (cr_claims r) foreground claim) s of
                (Inl err, s1) \<Rightarrow> Some ((0, if IsNotFound err then [] else [ApiFailure err]), s1)
              | (Inr _, s1) \<Rightarrow> Some ((0, []), s1))
         | None \<Rightarrow>
             if claimExpired then
               (case reconcileExpired r claim s of (out, s1) \<Rightarrow> Some (finishPass r later originalStatus True claim out s1))
             else do {
               (out, claim1, s1) \<leftarrow> reconcileActive r claim s;
               Some (finishPass r later originalStatus False claim1 out s1)
             })"

definition Claim_Reconcile ::
  "'w SandboxClaimReconciler \<Rightarrow> gotime \<Rightarrow> gotime \<Rightarrow> string \<Rightarrow> string \<Rightarrow> 'w claimState \<Rightarrow> 'w passResult option" where
  "Claim_Reconcile r now later ns name s =
     (case kc_Get (cr_claims r) ns name (cw_World s) of
        Inl err \<Rightarrow>
          if IsNotFound err then Some ((0, []), forgetTriggered (ns, name) (forgetObservedTime (ns, name) s))
          else Some ((0, [Before (''failed to get sandbox claim '' @ Quote (ns @ ''/'' @ name)) (ApiFailure err)]), s)
      | Inr claim \<Rightarrow>
          let s1 = snd (cleanupLegacyNetworkPolicy r claim s)
          in if om_DeletionTimestamp (sc_Meta claim) \<noteq> None then Some ((0, []), s1)
             else case initializeAnnotations r now claim s1 of
                    (Some err, _, s2) \<Rightarrow> Some ((0, [err]), s2)
                  | (None, claim1, s2) \<Rightarrow> runPass r now later claim1 s2)"

section \<open>Mapping and reporting helpers\<close>

definition warmPoolRefIndexer :: "SandboxClaim \<Rightarrow> string list" where
  "warmPoolRefIndexer claim = (if cs_WarmPoolRef (sc_Spec claim) = [] then [] else [cs_WarmPoolRef (sc_Spec claim)])"

definition mapWarmPoolToClaims :: "'w SandboxClaimReconciler \<Rightarrow> SandboxWarmPool \<Rightarrow> 'w \<Rightarrow> (string \<times> string) list" where
  "mapWarmPoolToClaims r warmPool w =
     (case kc_ListBy (cr_claims r) (om_Namespace (wp_Meta warmPool)) ''.spec.warmPoolRef.name'' (om_Name (wp_Meta warmPool)) w of
        Inl _ \<Rightarrow> [] | Inr claims \<Rightarrow> map claimKey claims)"

definition resolveTemplateName :: "Sandbox option \<Rightarrow> string" where
  "resolveTemplateName sandbox =
     (case sandbox of
        None \<Rightarrow> ''__unknown__''
      | Some sb \<Rightarrow> let name = mget (om_Annotations (sb_Meta sb)) SandboxTemplateRefAnnotation
                  in if name \<noteq> [] then name else ''__unknown__'')"

definition getLaunchType :: "Sandbox option \<Rightarrow> string" where
  "getLaunchType sandbox =
     (case sandbox of
        None \<Rightarrow> ''unknown''
      | Some sb \<Rightarrow> if mget (om_Labels (sb_Meta sb)) SandboxLaunchTypeLabel = SandboxLaunchTypeWarm then ''warm'' else ''cold'')"

end
