(* ===== verification/Claim_Queue_Props.thy ===== *)
theory Claim_Queue_Props
  imports Claim_Queue
begin

text \<open>
  The search for a warm candidate returns, hands out only what may be adopted, prefers ready
  Sandboxes, and loses no candidate: a key leaves the queue only when it is handed out or when
  its Sandbox is gone or can no longer be adopted.
\<close>

definition validKey :: "getSandbox \<Rightarrow> apimachinery \<Rightarrow> SandboxClaim \<Rightarrow> SandboxKey \<Rightarrow> Sandbox \<Rightarrow> bool" where
  "validKey get api claim k sb \<longleftrightarrow> get (sk_Namespace k) (sk_Name k) = Inr sb \<and> verifySandboxCandidate api sb claim = None"

definition deadKey :: "getSandbox \<Rightarrow> apimachinery \<Rightarrow> SandboxClaim \<Rightarrow> SandboxKey \<Rightarrow> bool" where
  "deadKey get api claim k \<longleftrightarrow>
     (case get (sk_Namespace k) (sk_Name k) of
        Inl err \<Rightarrow> IsNotFound err
      | Inr sb \<Rightarrow> \<exists>err. verifySandboxCandidate api sb claim = Some err \<and> \<not> errorIs err ErrCrossNamespaceAdoption)"

definition keyIds :: "SandboxKey list \<Rightarrow> string set" where
  "keyIds keys = uniqueID ` set keys"

fun handed :: "claimError + (Sandbox \<times> SandboxKey) option \<Rightarrow> SandboxKey set" where
  "handed (Inr (Some (_, key))) = {key}"
| "handed _ = {}"

lemma keyIds_simps [simp]:
  "keyIds [] = {}" "keyIds (k # ks) = insert (uniqueID k) (keyIds ks)" "keyIds (ks @ ks') = keyIds ks \<union> keyIds ks'"
  by (auto simp: keyIds_def)

lemma keyIds_enqueue: "keyIds (enqueueKey k items) = insert (uniqueID k) (keyIds items)"
  using sameKey_uniqueID unfolding keyIds_def enqueueKey_def by (auto; metis image_eqI)

lemma requeue_spec:
  "queue_inv q \<Longrightarrow> list_all wfKey keys \<Longrightarrow> queue_inv (requeue pool keys q) \<and>
     keyIds (queue_content (requeue pool keys q) pool) = keyIds (queue_content q pool) \<union> keyIds keys \<and>
     (\<forall>p. p \<noteq> pool \<longrightarrow> queue_content (requeue pool keys q) p = queue_content q p)"
proof (induction keys arbitrary: q)
  case (Cons k keys)
  then have k: "wfKey k" "list_all wfKey keys" by simp_all
  have c: "queue_content (Add q pool k) = (queue_content q)(pool := enqueueKey k (queue_content q pool))"
    by (rule lq.content_add [OF Cons.prems(1) k(1)])
  have "requeue pool (k # keys) q = requeue pool keys (Add q pool k)" by (simp add: requeue_def)
  with Cons.IH [OF lq.inv_add [OF Cons.prems(1) k(1)] k(2), of pool] show ?case
    by (auto simp: c keyIds_enqueue)
qed (simp add: requeue_def)

text \<open>What a run of the loop guarantees, from the keys it started with (queued, skipped and parked).\<close>

definition candidatePost ::
  "getSandbox \<Rightarrow> apimachinery \<Rightarrow> SandboxClaim \<Rightarrow> SandboxKey list \<Rightarrow> SandboxKey list
     \<Rightarrow> claimError + (Sandbox \<times> SandboxKey) option \<Rightarrow> string set \<Rightarrow> bool" where
  "candidatePost get api claim queued held res after \<longleftrightarrow>
     after \<subseteq> keyIds (queued @ held) - uniqueID ` handed res \<and>
     (\<forall>k \<in> set (queued @ held). uniqueID k \<in> after \<or> k \<in> handed res \<or> deadKey get api claim k) \<and>
     (\<forall>sb key. res = Inr (Some (sb, key)) \<longrightarrow> key \<in> set (queued @ held) \<and> validKey get api claim key sb \<and>
        (isSandboxReady sb \<or> (\<forall>k \<in> set queued. \<forall>sb'. validKey get api claim k sb' \<longrightarrow> \<not> isSandboxReady sb'))) \<and>
     (res = Inr None \<longrightarrow> (\<forall>k \<in> set queued. \<forall>sb. \<not> validKey get api claim k sb))"

definition fallbackOk :: "getSandbox \<Rightarrow> apimachinery \<Rightarrow> SandboxClaim \<Rightarrow> (Sandbox \<times> SandboxKey) option \<Rightarrow> bool" where
  "fallbackOk get api claim fallback \<longleftrightarrow>
     (\<forall>sb key. fallback = Some (sb, key) \<longrightarrow> validKey get api claim key sb \<and> \<not> isSandboxReady sb)"

definition loopOk ::
  "getSandbox \<Rightarrow> apimachinery \<Rightarrow> SandboxClaim \<Rightarrow> string \<Rightarrow> SandboxKey list \<Rightarrow> (Sandbox \<times> SandboxKey) option \<Rightarrow> SimpleSandboxQueue \<Rightarrow> bool" where
  "loopOk get api claim pool skipped fallback q \<longleftrightarrow> queue_inv q \<and> list_all wfKey (skipped @ parked fallback) \<and>
     fallbackOk get api claim fallback \<and> distinct (map uniqueID (queue_content q pool @ skipped @ parked fallback))"

definition loopPost ::
  "getSandbox \<Rightarrow> apimachinery \<Rightarrow> SandboxClaim \<Rightarrow> string \<Rightarrow> SandboxKey list \<Rightarrow> (Sandbox \<times> SandboxKey) option \<Rightarrow> SimpleSandboxQueue
     \<Rightarrow> ((claimError + (Sandbox \<times> SandboxKey) option) \<times> SimpleSandboxQueue) option \<Rightarrow> bool" where
  "loopPost get api claim pool skipped fallback q out \<longleftrightarrow>
     (\<exists>res q'. out = Some (res, q') \<and> queue_inv q' \<and> (\<forall>p. p \<noteq> pool \<longrightarrow> queue_content q' p = queue_content q p) \<and>
        (fallback \<noteq> None \<longrightarrow> res \<noteq> Inr None) \<and>
        candidatePost get api claim (queue_content q pool) (skipped @ parked fallback) res (keyIds (queue_content q' pool)))"

lemma candidateLoop_empty:
  assumes "loopOk get api claim pool skipped fallback q" "queue_content q pool = []"
  shows "loopPost get api claim pool skipped fallback q (candidateLoop get api claim pool skipped fallback q)"
proof -
  have ok: "queue_inv q" "list_all wfKey skipped" "list_all wfKey (parked fallback)" "fallbackOk get api claim fallback"
      "distinct (map uniqueID (skipped @ parked fallback))"
    using assms unfolding loopOk_def by auto
  have "GetWithStrategy q pool pickSmart = Some (None, q)" by (rule lq.get_nothing) (use ok assms(2) in auto)
  then have run: "candidateLoop get api claim pool skipped fallback q = Some (Inr fallback, requeue pool skipped q)"
    by (subst candidateLoop.simps) simp
  show ?thesis
  proof (cases fallback)
    case None
    with run requeue_spec [OF ok(1,2), of pool] assms(2) show ?thesis
      by (auto simp: loopPost_def candidatePost_def parked_def keyIds_def)
  next
    case (Some f)
    obtain sb key where f: "f = (sb, key)" by (rule prod.exhaust)
    have "uniqueID key \<notin> keyIds skipped" using ok(5) Some f by (auto simp: parked_def keyIds_def)
    with run requeue_spec [OF ok(1,2), of pool] assms(2) Some f ok(4) show ?thesis
      by (auto simp: loopPost_def candidatePost_def parked_def fallbackOk_def keyIds_def)
  qed
qed

lemma dropKey_ids:
  assumes "distinct (map uniqueID items)" "k \<in> set items" "list_all wfKey items"
  shows "set items = insert k (set (dropKey k items))" "uniqueID k \<notin> keyIds (dropKey k items)"
    "distinct (map uniqueID (dropKey k items))" "list_all wfKey (dropKey k items)" "length (dropKey k items) < length items"
proof -
  have "\<exists>xs ys. items = xs @ k # ys \<and> dropKey k items = xs @ ys"
    using assms
  proof (induction items)
    case (Cons x items)
    show ?case
    proof (cases "sameKey x k")
      case True
      then have "uniqueID x = uniqueID k" by (rule sameKey_uniqueID)
      with Cons.prems have "x = k" by (metis image_eqI list.set_map distinct.simps(2) list.simps(9) set_ConsD)
      then show ?thesis using True by (intro exI [of _ "[]"] exI [of _ items]) simp
    next
      case False
      with Cons.prems have "k \<in> set items" by auto
      with Cons obtain xs ys where "items = xs @ k # ys" "dropKey k items = xs @ ys" by auto
      with False show ?thesis by (intro exI [of _ "x # xs"] exI [of _ ys]) simp
    qed
  qed simp
  then obtain xs ys where s: "items = xs @ k # ys" "dropKey k items = xs @ ys" by blast
  show "set items = insert k (set (dropKey k items))" using s by simp
  show "uniqueID k \<notin> keyIds (dropKey k items)" using s assms(1) by (auto simp: keyIds_def)
  show "distinct (map uniqueID (dropKey k items))" using s assms(1) by simp
  show "list_all wfKey (dropKey k items)" using s assms(3) by simp
  show "length (dropKey k items) < length items" using s by simp
qed

text \<open>One key more at the front of the run: either it is dead, or it joined the held keys.\<close>

lemma candidatePost_step:
  assumes "candidatePost get api claim rest held' res after" "set queued = insert k (set rest)"
    and "(set held' = set held \<and> deadKey get api claim k) \<or> set held' = insert k (set held)"
    and "\<And>sb. validKey get api claim k sb \<Longrightarrow> \<not> isSandboxReady sb \<and> res \<noteq> Inr None"
  shows "candidatePost get api claim queued held res after"
proof -
  have "keyIds (rest @ held') \<subseteq> keyIds (queued @ held)" using assms(2,3) by (auto simp: keyIds_def)
  moreover have "set (rest @ held') \<subseteq> set (queued @ held)" using assms(2,3) by auto
  ultimately show ?thesis using assms unfolding candidatePost_def by (auto; blast)
qed

lemma candidatePost_ready:
  assumes "set queued = insert k (set rest)" "uniqueID k \<notin> keyIds (rest @ held)" "validKey get api claim k sb" "isSandboxReady sb"
  shows "candidatePost get api claim queued held (Inr (Some (sb, k))) (keyIds (rest @ held))"
proof -
  have "keyIds (rest @ held) \<subseteq> keyIds (queued @ held) - {uniqueID k}"
    using assms(1,2) by (auto simp: keyIds_def)
  moreover have "uniqueID k' \<in> keyIds (rest @ held) \<or> k' = k" if "k' \<in> set (queued @ held)" for k'
    using that assms(1) by (auto simp: keyIds_def)
  ultimately show ?thesis using assms(1,3,4) unfolding candidatePost_def by auto
qed

lemma candidatePost_error: "candidatePost get api claim queued held (Inl err) (keyIds queued \<union> keyIds held)"
  by (auto simp: candidatePost_def keyIds_def)

lemma loopPost_step:
  assumes "loopPost get api claim pool skipped' fallback' q1 out" "queue_content q1 = (queue_content q)(pool := rest)"
    and "set (queue_content q pool) = insert k (set rest)"
    and "(set (skipped' @ parked fallback') = set (skipped @ parked fallback) \<and> deadKey get api claim k) \<or>
         set (skipped' @ parked fallback') = insert k (set (skipped @ parked fallback))"
    and "\<And>sb. validKey get api claim k sb \<Longrightarrow> \<not> isSandboxReady sb \<and> fallback' \<noteq> None" "fallback \<noteq> None \<Longrightarrow> fallback' \<noteq> None"
  shows "loopPost get api claim pool skipped fallback q out"
proof -
  from assms(1) obtain res q' where r: "out = Some (res, q')" "queue_inv q'" "\<forall>p. p \<noteq> pool \<longrightarrow> queue_content q' p = queue_content q1 p"
      "fallback' \<noteq> None \<longrightarrow> res \<noteq> Inr None"
      "candidatePost get api claim (queue_content q1 pool) (skipped' @ parked fallback') res (keyIds (queue_content q' pool))"
    unfolding loopPost_def by blast
  have p: "candidatePost get api claim rest (skipped' @ parked fallback') res (keyIds (queue_content q' pool))"
    using r(5) assms(2) by simp
  have "candidatePost get api claim (queue_content q pool) (skipped @ parked fallback) res (keyIds (queue_content q' pool))"
    by (rule candidatePost_step [OF p assms(3,4)]) (use assms(5) r(4) in blast)
  with r assms(2,6) show ?thesis unfolding loopPost_def by auto
qed

lemma step_done:
  assumes ok: "queue_inv q1" "wfKey k" "list_all wfKey (skipped @ parked fallback)"
    and q1: "queue_content q1 = (queue_content q)(pool := rest)" "set (queue_content q pool) = insert k (set rest)"
    and fresh: "uniqueID k \<notin> keyIds (rest @ skipped @ parked fallback)"
    and run: "candidateStep get api claim pool skipped fallback k q1 = Inl out"
  shows "loopPost get api claim pool skipped fallback q (Some out)"
proof (cases "get (sk_Namespace k) (sk_Name k)")
  case (Inl err)
  have a: "queue_inv (Add q1 pool k)" by (rule lq.inv_add [OF ok(1,2)])
  have c: "queue_content (Add q1 pool k) = (queue_content q)(pool := enqueueKey k rest)"
    using lq.content_add [OF ok(1,2), of pool] q1(1) by simp
  have ids: "keyIds (queue_content q pool) = insert (uniqueID k) (keyIds rest)" by (simp add: keyIds_def q1(2))
  have "out = (Inl (ApiFailure err), requeue pool (skipped @ parked fallback) (Add q1 pool k))"
    using run Inl by (simp add: candidateStep_def split: if_splits)
  with requeue_spec [OF a ok(3), of pool] c ids
    candidatePost_error [of get api claim "queue_content q pool" "skipped @ parked fallback" "ApiFailure err"]
  show ?thesis by (auto simp: loopPost_def keyIds_enqueue)
next
  case (Inr sb)
  have v: "validKey get api claim k sb" "isSandboxReady sb" "out = (Inr (Some (sb, k)), requeue pool (skipped @ parked fallback) q1)"
    using run Inr by (auto simp: candidateStep_def validKey_def split: if_splits option.splits)
  from requeue_spec [OF ok(1,3), of pool] candidatePost_ready [OF q1(2) fresh v(1,2)] q1(1) v(3) show ?thesis
    by (auto simp: loopPost_def)
qed

lemma step_again:
  assumes "candidateStep get api claim pool skipped fallback k q1 = Inr (skipped', fallback')" "fallbackOk get api claim fallback"
  shows "fallbackOk get api claim fallback'" "fallback \<noteq> None \<Longrightarrow> fallback' \<noteq> None"
    and "mset (skipped' @ parked fallback') = mset (skipped @ parked fallback) \<and> deadKey get api claim k \<or>
      mset (skipped' @ parked fallback') = mset (k # skipped @ parked fallback)"
    and "\<And>sb. validKey get api claim k sb \<Longrightarrow> \<not> isSandboxReady sb \<and> fallback' \<noteq> None"
  using assms
  by (auto simp: candidateStep_def fallbackOk_def validKey_def deadKey_def parked_def split: if_splits option.splits sum.splits)

lemma candidateLoop_spec:
  "loopOk get api claim pool skipped fallback q \<Longrightarrow>
     loopPost get api claim pool skipped fallback q (candidateLoop get api claim pool skipped fallback q)"
proof (induction "length (queue_content q pool)" arbitrary: skipped fallback q rule: less_induct)
  case less
  let ?C = "queue_content q pool" and ?held = "skipped @ parked fallback"
  have ok: "queue_inv q" "list_all wfKey ?held" "fallbackOk get api claim fallback" "distinct (map uniqueID (?C @ ?held))"
    using less.prems unfolding loopOk_def by auto
  show ?case
  proof (cases "?C = []")
    case True
    with less.prems show ?thesis by (rule candidateLoop_empty)
  next
    case False
    then obtain k where k: "pickSmart ?C = Some k" "k \<in> set ?C" using pickSmart_total pickSmart_in by blast
    obtain q1 where q1: "GetWithStrategy q pool pickSmart = Some (Some k, q1)" "queue_inv q1"
        "queue_content q1 = (queue_content q)(pool := dropKey k ?C)"
      using lq.get_picked [where pick = pickSmart and q = q and p = pool, OF ok(1) k] by blast
    have wf: "list_all wfKey ?C" by (rule lq.content_wf [OF ok(1)])
    have wfk: "wfKey k" using wf k(2) by (simp add: list_all_iff)
    note drop = dropKey_ids [OF _ k(2) wf]
    have d: "distinct (map uniqueID ?C)" using ok(4) by simp
    have all: "distinct (uniqueID k # map uniqueID (dropKey k ?C @ ?held))"
      using ok(4) drop(1-3) [OF d] by (auto simp: keyIds_def)
    then have fresh: "uniqueID k \<notin> keyIds (dropKey k ?C @ ?held)" by (simp add: keyIds_def image_Un)
    show ?thesis
    proof (cases "candidateStep get api claim pool skipped fallback k q1")
      case (Inl out)
      with q1(1) step_done [OF q1(2) wfk ok(2) q1(3) drop(1) [OF d] fresh Inl] show ?thesis
        by (subst candidateLoop.simps) simp
    next
      case (Inr further)
      obtain skipped' fallback' where n: "further = (skipped', fallback')" by (rule prod.exhaust)
      let ?held' = "skipped' @ parked fallback'"
      note step = step_again [OF Inr [unfolded n] ok(3)]
      have "mset (dropKey k ?C @ ?held') = mset (dropKey k ?C @ ?held) \<or> mset (dropKey k ?C @ ?held') = mset (k # dropKey k ?C @ ?held)"
        using step(3) by auto
      then have "mset (map uniqueID (dropKey k ?C @ ?held')) = mset (map uniqueID (dropKey k ?C @ ?held)) \<or>
          mset (map uniqueID (dropKey k ?C @ ?held')) = mset (map uniqueID (k # dropKey k ?C @ ?held))"
        by (metis mset_map)
      then have dist: "distinct (map uniqueID (dropKey k ?C @ ?held'))"
        using all mset_eq_imp_distinct_iff by (metis distinct.simps(2) list.simps(9))
      have held: "(set ?held' = set ?held \<and> deadKey get api claim k) \<or> set ?held' = insert k (set ?held)"
        using step(3) mset_eq_setD [of ?held' ?held] mset_eq_setD [of ?held' "k # ?held"] by auto
      then have "list_all wfKey ?held'" using ok(2) wfk unfolding list_all_iff by (elim disjE conjE) simp_all
      then have "loopOk get api claim pool skipped' fallback' q1"
        using q1(2,3) step(1) dist unfolding loopOk_def by simp
      then have "loopPost get api claim pool skipped' fallback' q1 (candidateLoop get api claim pool skipped' fallback' q1)"
        by (rule less.hyps [rotated]) (use q1(3) drop(5) [OF d] in simp)
      from loopPost_step [OF this q1(3) drop(1) [OF d] held step(4,2)] show ?thesis
        using q1(1) Inr n by (subst candidateLoop.simps) simp
    qed
  qed
qed

section \<open>The property\<close>

text \<open>
  C8: the search for a warm candidate always returns, and loses no candidate.  From a
  well-formed queue it terminates without touching the queues of other pools; what it hands out
  was queued, may be adopted by the claim, has left the queue, and is unready only if no queued
  candidate was ready; it hands out nothing only if none was adoptable; and every other queued
  key is still queued unless its Sandbox is gone or can no longer be adopted.
\<close>

theorem candidate_conserved:
  assumes "queue_inv q"
  shows "\<exists>res q'. getCandidate get api claim q = Some (res, q') \<and> queue_inv q' \<and>
    (\<forall>p. p \<noteq> claimPool claim \<longrightarrow> queue_content q' p = queue_content q p) \<and>
    candidatePost get api claim (queue_content q (claimPool claim)) [] res (keyIds (queue_content q' (claimPool claim)))"
proof -
  have "loopOk get api claim (claimPool claim) [] None q"
    using assms lq.content_distinct [OF assms] by (simp add: loopOk_def fallbackOk_def parked_def)
  from candidateLoop_spec [OF this] show ?thesis
    unfolding loopPost_def getCandidate_def by (auto simp: parked_def)
qed

definition demoCandidate :: "string \<Rightarrow> string \<Rightarrow> Sandbox" where
  "demoCandidate name ready = emptySandbox\<lparr>
     sb_Meta := emptyMeta\<lparr>om_Namespace := ''ns'', om_Name := name, om_UID := name,
       om_Labels := fmap_of_list [(warmPoolSandboxLabel, ''h''), (sandboxTemplateRefHash, ''t'')],
       om_OwnerReferences := [\<lparr>or_APIVersion = extensionsAPIVersion, or_Kind = ''SandboxWarmPool'', or_Name = ''pool'', or_UID = ''pool-uid'',
         or_Controller = True, or_BlockOwnerDeletion = True\<rparr>]\<rparr>,
     sb_Status := emptySandboxStatus\<lparr>st_Conditions := [\<lparr>c_Type = ''Ready'', c_Status = ready, c_ObservedGeneration = 0,
       c_LastTransitionTime = 1, c_Reason = ''r'', c_Message = []\<rparr>]\<rparr>\<rparr>"

definition demoClaim :: SandboxClaim where
  "demoClaim = \<lparr>sc_Meta = emptyMeta\<lparr>om_Namespace := ''ns'', om_Name := ''claim'', om_UID := ''claim-uid''\<rparr>,
     sc_Spec = \<lparr>cs_WarmPoolRef = ''pool'', cs_Lifecycle = None, cs_AdditionalPodMetadata = \<lparr>pm_Labels = fmempty, pm_Annotations = fmempty\<rparr>,
       cs_Env = [], cs_VolumeClaimTemplates = []\<rparr>,
     sc_Status = \<lparr>cst_Conditions = [], cst_SandboxName = [], cst_PodIPs = []\<rparr>\<rparr>"

definition demoGet :: getSandbox where
  "demoGet ns name = (if name = ''gone'' then Inl (NotFound name) else Inr (demoCandidate name (if name = ''b'' then ''True'' else ''False'')))"

definition demoQueue :: SimpleSandboxQueue where
  "demoQueue = requeue ''ns/pool'' (map (\<lambda>n. \<lparr>sk_Namespace = ''ns'', sk_Name = n, sk_NodeName = []\<rparr>) [''a'', ''gone'', ''b'', ''c'']) NewSimpleSandboxQueue"

lemma demoQueue_inv: "queue_inv demoQueue"
  unfolding demoQueue_def
  by (rule conjunct1 [OF requeue_spec]) (simp_all add: NewSimpleSandboxQueue_def queue_inv_def wfKey_def)

theorem candidate_conserved_witness:
  "\<exists>res q'. getCandidate demoGet stdMachinery demoClaim demoQueue = Some (res, q') \<and> queue_inv q' \<and>
    (\<forall>p. p \<noteq> claimPool demoClaim \<longrightarrow> queue_content q' p = queue_content demoQueue p) \<and>
    candidatePost demoGet stdMachinery demoClaim (queue_content demoQueue (claimPool demoClaim)) [] res
      (keyIds (queue_content q' (claimPool demoClaim)))"
  by (rule candidate_conserved [OF demoQueue_inv])

end
