(* ===== verification/Slow_Start.thy ===== *)
theory Slow_Start
  imports Warm_Pool_Controller
begin

text \<open>
  The slow-start batches of \<open>slowStartBatch\<close>: which indices are run, in which order, and how
  many calls can be wasted when one fails.
\<close>

section \<open>Counts as 32-bit integers\<close>

lemma sint_of_nat32: "n < 2 ^ 31 \<Longrightarrow> sint (of_nat n :: 32 word) = int n"
  by (simp add: sint_uint signed_take_bit_int_eq_self unsigned_of_nat take_bit_nat_eq_self)

lemma sint_of_nat_le: "sint (of_nat n :: 32 word) \<le> int n"
proof -
  have "sint (of_nat n :: 32 word) = signed_take_bit 31 (int n)"
    using signed_of_nat [where ?'a = int and ?'b = 32, of n] by simp
  also have "\<dots> \<le> take_bit 32 (int n)" by (simp add: signed_take_bit_eq_take_bit_minus)
  also have "\<dots> \<le> int n" by (simp add: take_bit_int_less_eq_self_iff)
  finally show ?thesis .
qed

section \<open>The calls of a batch\<close>

definition logCalls :: "(nat \<Rightarrow> 'w \<Rightarrow> 'e option \<times> 'w) \<Rightarrow> nat \<Rightarrow> 'w \<times> nat list \<Rightarrow> 'e option \<times> 'w \<times> nat list" where
  "logCalls fn i wl = (case fn i (fst wl) of (e, w') \<Rightarrow> (e, w', snd wl @ [i]))"

lemma runBatch_log:
  "runBatch (logCalls fn) is wl = (e, n, wl') \<Longrightarrow>
     snd wl' = snd wl @ is \<and> n \<le> length is \<and> (e = None \<longrightarrow> n = length is)"
proof (induction "is" arbitrary: wl e n wl')
  case (Cons i "is")
  obtain e1 wl1 where 1: "logCalls fn i wl = (e1, wl1)" by (rule prod.exhaust)
  obtain e2 m wl2 where 2: "runBatch (logCalls fn) is wl1 = (e2, m, wl2)" by (metis surj_pair)
  have "snd wl1 = snd wl @ [i]" using 1 by (auto simp: logCalls_def split: prod.splits)
  with Cons.IH [OF 2] Cons.prems 1 2 show ?case by (auto split: if_splits)
qed simp

text \<open>
  Between batches: the indices below \<open>successes\<close> have been run, all successfully, and the
  next batch is at most as large as what has succeeded plus the first batch.
\<close>

lemma slowStartLoop_log:
  assumes "slowStartLoop ctxDone done (logCalls fn) b remaining s (w, [0..<s]) = (k, e, w', l)"
    and "b \<le> remaining" "b \<le> s + b0" "remaining > 0 \<longrightarrow> b > 0"
  shows "(\<exists>m \<le> s + remaining. l = [0..<m]) \<and> k \<le> length l \<and> length l \<le> 2 * k + b0 \<and>
     (e = None \<longrightarrow> length l = s + remaining \<and> k = s + remaining)"
  using assms
proof (induction ctxDone "done" "logCalls fn" b remaining s "(w, [0..<s])" arbitrary: w rule: slowStartLoop.induct)
  case (1 ctxDone "done" b remaining s w)
  show ?case
  proof (cases "b = 0 \<or> ctxDone s")
    case True
    with 1(2-5) show ?thesis by (auto split: if_splits intro: exI [of _ s] exI [of _ k])
  next
    case False
    obtain e1 n wl1 where r: "runBatch (logCalls fn) [s..<s + b] (w, [0..<s]) = (e1, n, wl1)" by (metis surj_pair)
    obtain w1 l1 where wl1: "wl1 = (w1, l1)" by (rule prod.exhaust)
    have l1: "l1 = [0..<s + b]" and n: "n \<le> b" "e1 = None \<longrightarrow> n = b"
      using runBatch_log [OF r] upt_add_eq_append [of 0 s b] by (simp_all add: wl1)
    show ?thesis
    proof (cases e1)
      case (Some err)
      with 1(2) False r wl1 have "k = s + n" "e = Some err" "l = l1" by auto
      with l1 n 1(3,4) show ?thesis by (auto intro: exI [of _ "s + b"])
    next
      case None
      with n have "n = b" by simp
      with 1(2) False r wl1 None l1 have
        "slowStartLoop ctxDone done (logCalls fn) (min (2 * b) (remaining - b)) (remaining - b) (s + b) (w1, [0..<s + b]) = (k, e, w', l)"
        by simp
      moreover have "min (2 * b) (remaining - b) \<le> s + b + b0" using 1(4) by simp
      ultimately have "(\<exists>m \<le> s + b + (remaining - b). l = [0..<m]) \<and> k \<le> length l \<and> length l \<le> 2 * k + b0 \<and>
          (e = None \<longrightarrow> length l = s + b + (remaining - b) \<and> k = s + b + (remaining - b))"
        using 1(1) [of None "(b, w1, [0..<s + b])" b w1] False r None \<open>n = b\<close> wl1 l1 by simp
      with 1(3) show ?thesis by simp
    qed
  qed
qed

text \<open>An invariant every call below \<open>n\<close> keeps is kept by the whole batch.\<close>

lemma runBatch_inv:
  assumes "\<And>i w. i \<in> set is \<Longrightarrow> I w \<Longrightarrow> I (snd (fn i w))" "I w" "runBatch fn is w = (e, n, w')"
  shows "I w' \<and> n \<le> length is"
  using assms
proof (induction "is" arbitrary: w e n w')
  case (Cons i "is")
  obtain e1 w1 where 1: "fn i w = (e1, w1)" by (rule prod.exhaust)
  obtain e2 m w2 where 2: "runBatch fn is w1 = (e2, m, w2)" by (metis surj_pair)
  have "I w1" using Cons.prems(1) [of i w] Cons.prems(2) 1 by simp
  then have "I w2 \<and> m \<le> length is" using Cons.IH [OF _ _ 2] Cons.prems(1) by simp
  with Cons.prems(3) 1 2 show ?case by (auto split: if_splits)
qed simp

lemma slowStartLoop_inv:
  assumes "\<And>i w. i < s + remaining \<Longrightarrow> I w \<Longrightarrow> I (snd (fn i w))" "b \<le> remaining" "I w"
  shows "I (snd (snd (slowStartLoop ctxDone done fn b remaining s w)))"
  using assms
proof (induction ctxDone "done" fn b remaining s w rule: slowStartLoop.induct)
  case (1 ctxDone "done" fn b remaining s w)
  show ?case
  proof (cases "b = 0 \<or> ctxDone s")
    case False
    obtain e1 n w1 where r: "runBatch fn [s..<s + b] w = (e1, n, w1)" by (metis surj_pair)
    have i: "I w1 \<and> n \<le> b" using runBatch_inv [of "[s..<s + b]" I fn w, OF _ 1(4) r] 1(2,3) by simp
    show ?thesis
    proof (cases e1)
      case None
      have "n \<le> b" using i by simp
      with 1(3) have "s + n + (remaining - b) \<le> s + remaining" by linarith
      then have "I (snd (snd (slowStartLoop ctxDone done fn (min (2 * b) (remaining - b)) (remaining - b) (s + n) w1)))"
        using 1(1) [OF _ _ r [symmetric] _ refl] None False i 1(2) by fastforce
      with None False r show ?thesis by simp
    qed (use False r i in simp)
  qed (use 1(4) in auto)
qed

lemma slowStartBatch_inv:
  assumes "\<And>i w. i < n \<Longrightarrow> I w \<Longrightarrow> I (snd (fn i w))" "I w"
  shows "I (snd (snd (slowStartBatch ctxDone done n initial fn w)))"
  unfolding slowStartBatch_def by (rule slowStartLoop_inv) (use assms in auto)

text \<open>
  C30: a slow-start batch of \<open>n\<close> calls runs an initial segment of the indices below \<open>n\<close>, each
  once and in order; it reports no more successes than calls, and if it reports no error all
  \<open>n\<close> calls were made and succeeded.  When it stops early, at most the number of successes
  plus the size of the first batch was spent on failing calls.
\<close>

theorem slow_start_bounded:
  assumes "slowStartBatch ctxDone done n initial (logCalls fn) (w, []) = (k, e, w', l)" "0 < initial"
  shows "(\<exists>m \<le> n. l = [0..<m]) \<and> k \<le> length l \<and> length l - k \<le> k + initial \<and> (e = None \<longrightarrow> l = [0..<n] \<and> k = n)"
  using slowStartLoop_log [of ctxDone "done" fn "min n initial" n 0 w k e w' l initial] assms
  by (auto simp: slowStartBatch_def)

theorem slow_start_bounded_witness:
  "slowStartBatch (\<lambda>s. False) ''ctx'' 10 1 (logCalls (\<lambda>i w. (if i = 5 then Some ''quota'' else None, w))) ((), []) =
     (6, Some ''quota'', (), [0..<7]) \<and> length [0..<7] - 6 \<le> 6 + (1::nat)"
proof -
  have "slowStartBatch (\<lambda>s. False) ''ctx'' 10 1 (logCalls (\<lambda>i w. (if i = 5 then Some ''quota'' else None, w))) ((), []) =
     (6, Some ''quota'', (), [0..<7])"
    by (simp add: slowStartBatch_def logCalls_def upt_rec)
  with slow_start_bounded [OF this] show ?thesis by simp
qed

end
