(* ===== verification/Warm_Pool_Safety.thy ===== *)
theory Warm_Pool_Safety
  imports Slow_Start Kube_Trace
begin

text \<open>
  What the warm pool controller may write.  \<open>ownPoolWrite\<close> is the contract; the locale
  \<open>pool_guard\<close> proves every step of the reconciler against it, and its interpretation on the
  traced clients gives the property.
\<close>

datatype poolWrite =
    MemberWrite "Sandbox kubeWrite"
  | PoolWrite "SandboxWarmPool kubeWrite"
  | TemplateWrite "SandboxTemplate kubeWrite"

definition freeOrOwned :: "string \<Rightarrow> ObjectMeta \<Rightarrow> bool" where
  "freeOrOwned uid m \<longleftrightarrow> controllerOf m = None \<or> ownedBy uid m"

definition isMember :: "Sandbox list \<Rightarrow> string \<Rightarrow> ObjectMeta \<Rightarrow> bool" where
  "isMember listed uid m \<longleftrightarrow> (\<exists>old \<in> set listed. identity (sb_Meta old) = identity m \<and> freeOrOwned uid (sb_Meta old))"

fun ownPoolWrite :: "Sandbox list \<Rightarrow> string \<times> string \<times> string \<Rightarrow> poolWrite \<Rightarrow> bool" where
  "ownPoolWrite listed (ns, name, uid) (MemberWrite (Created sb)) =
     (ownedBy uid (sb_Meta sb) \<and> om_Namespace (sb_Meta sb) = ns)"
| "ownPoolWrite listed (ns, name, uid) (MemberWrite (Updated sb)) =
     (ownedBy uid (sb_Meta sb) \<and> isMember listed uid (sb_Meta sb))"
| "ownPoolWrite listed (ns, name, uid) (MemberWrite (Deleted fg sb)) =
     (freeOrOwned uid (sb_Meta sb) \<and> isMember listed uid (sb_Meta sb))"
| "ownPoolWrite listed i (PoolWrite (StatusPatched p p')) = (identity (wp_Meta p) = i \<and> wp_Spec p' = wp_Spec p)"
| "ownPoolWrite listed i _ = False"

text \<open>The reply to an update is the stored object: same identity, the owner references that were written.\<close>

definition update_keeps :: "('o \<Rightarrow> ObjectMeta) \<Rightarrow> ('o, 'w) objectClient \<Rightarrow> bool" where
  "update_keeps meta kc \<longleftrightarrow> (\<forall>x w z w'. kc_Update kc x w = (Inr z, w') \<longrightarrow>
     identity (meta z) = identity (meta x) \<and> om_OwnerReferences (meta z) = om_OwnerReferences (meta x))"

definition pool_cluster_ok :: "'w SandboxWarmPoolReconciler \<Rightarrow> bool" where
  "pool_cluster_ok r \<longleftrightarrow> apimachinery_ok (wr_api r) \<and> setref_ok (wr_setRef r) \<and> update_keeps sb_Meta (wr_sandboxes r)"

lemma warmLabel_meta [simp]:
  "identity (sb_Meta (snd (setWarmLaunchTypeLabelIfNeeded sb))) = identity (sb_Meta sb)"
  "ownedBy uid (sb_Meta (snd (setWarmLaunchTypeLabelIfNeeded sb))) = ownedBy uid (sb_Meta sb)"
  by (simp_all add: setWarmLaunchTypeLabelIfNeeded_def ownedBy_def)

lemma isMember_self: "sb \<in> set listed \<Longrightarrow> freeOrOwned uid (sb_Meta sb) \<Longrightarrow> isMember listed uid (sb_Meta sb)"
  unfolding isMember_def by blast

lemma isMember_cong: "identity m = identity m' \<Longrightarrow> isMember listed uid m = isMember listed uid m'"
  by (simp add: isMember_def)

locale pool_guard =
  members: guarded_kind "wr_sandboxes r" "\<lambda>w e. ownPoolWrite listed i (MemberWrite e)" I +
  pools: guarded_kind "wr_pools r" "\<lambda>w e. ownPoolWrite listed i (PoolWrite e)" I
  for r :: "'w SandboxWarmPoolReconciler" and listed :: "Sandbox list" and i :: "string \<times> string \<times> string" and I :: "'w \<Rightarrow> bool" +
  assumes cluster: "I w \<Longrightarrow> pool_cluster_ok r"
begin

definition activeOk :: "string \<Rightarrow> Sandbox \<Rightarrow> bool" where
  "activeOk uid sb \<longleftrightarrow> ownedBy uid (sb_Meta sb) \<and> isMember listed uid (sb_Meta sb)"

lemma ident: "i = identity (wp_Meta warmPool) \<Longrightarrow>
    i = (om_Namespace (wp_Meta warmPool), om_Name (wp_Meta warmPool), om_UID (wp_Meta warmPool))"
  by (simp add: identity_def)

lemma update_reply:
  assumes "I w" "i = (ns, name, uid)" "activeOk uid sb" "kc_Update (wr_sandboxes r) sb w = (res, w')"
  shows "I w' \<and> (\<forall>z. res = Inr z \<longrightarrow> activeOk uid z)"
proof
  show "I w'" using members.update_guard [OF assms(1) _ assms(4)] assms(2,3) by (simp add: activeOk_def)
  show "\<forall>z. res = Inr z \<longrightarrow> activeOk uid z"
  proof (intro allI impI)
    fix z assume "res = Inr z"
    with assms(4) cluster [OF assms(1)] have
      "identity (sb_Meta z) = identity (sb_Meta sb) \<and> om_OwnerReferences (sb_Meta z) = om_OwnerReferences (sb_Meta sb)"
      unfolding pool_cluster_ok_def update_keeps_def by blast
    with assms(3) isMember_cong [of "sb_Meta z" "sb_Meta sb"] show "activeOk uid z"
      by (simp add: activeOk_def ownedBy_def)
  qed
qed

lemma adopt_guard:
  assumes "I w" "i = identity (wp_Meta warmPool)" "sb \<in> set listed" "controllerOf (sb_Meta sb) = None"
    and "adoptSandbox r warmPool sb w = (res, w')"
  shows "I w' \<and> (\<forall>z. res = Inr z \<longrightarrow> activeOk (om_UID (wp_Meta warmPool)) z)"
proof (cases "wr_setRef r extensionsAPIVersion ''SandboxWarmPool'' (wp_Meta warmPool) (sb_Meta sb)")
  case (Inr m)
  let ?sb = "snd (setWarmLaunchTypeLabelIfNeeded (sb\<lparr>sb_Meta := m\<rparr>))"
  obtain res1 w1 where u: "kc_Update (wr_sandboxes r) ?sb w = (res1, w1)" by (rule prod.exhaust)
  have ok: "setref_ok (wr_setRef r)" using cluster [OF assms(1)] by (simp add: pool_cluster_ok_def)
  have "isMember listed (om_UID (wp_Meta warmPool)) m"
    using isMember_self [OF assms(3)] isMember_cong setref_identity [OF ok assms(4) Inr] assms(4)
    by (metis freeOrOwned_def)
  then have "activeOk (om_UID (wp_Meta warmPool)) ?sb"
    using setref_ownedBy [OF ok Inr] isMember_cong [OF warmLabel_meta(1) [of "sb\<lparr>sb_Meta := m\<rparr>"]]
    by (simp add: activeOk_def)
  from update_reply [OF assms(1) ident [OF assms(2)] this u] Inr u assms(5) show ?thesis
    by (auto simp: adoptSandbox_def split: sum.splits)
qed (use assms in \<open>auto simp: adoptSandbox_def\<close>)

lemma label_guard:
  assumes "I w" "i = identity (wp_Meta warmPool)" "activeOk (om_UID (wp_Meta warmPool)) sb" "labelMember r sb w = (res, w')"
  shows "I w' \<and> (\<forall>z. res = Inr z \<longrightarrow> activeOk (om_UID (wp_Meta warmPool)) z)"
proof -
  obtain b sb1 where l: "setWarmLaunchTypeLabelIfNeeded sb = (b, sb1)" by (rule prod.exhaust)
  obtain res1 w1 where u: "kc_Update (wr_sandboxes r) sb1 w = (res1, w1)" by (rule prod.exhaust)
  have "activeOk (om_UID (wp_Meta warmPool)) sb1"
    using assms(3) warmLabel_meta(1) [of sb] warmLabel_meta(2) [of _ sb] isMember_cong [of "sb_Meta sb1" "sb_Meta sb"] l by (simp add: activeOk_def)
  from update_reply [OF assms(1) ident [OF assms(2)] this u] l u assms(1,3,4) show ?thesis
    by (auto simp: labelMember_def split: bool.splits sum.splits)
qed

lemma delete_guard:
  assumes "I w" "i = identity (wp_Meta warmPool)" "freeOrOwned (om_UID (wp_Meta warmPool)) (sb_Meta sb)"
    and "isMember listed (om_UID (wp_Meta warmPool)) (sb_Meta sb)" "deleteSandbox r sb w = (errs, w')"
  shows "I w'"
proof -
  obtain res w1 where d: "kc_Delete (wr_sandboxes r) False sb w = (res, w1)" by (rule prod.exhaust)
  have "I w1" using members.delete_guard [OF assms(1) _ d] assms(3,4) by (simp add: ident [OF assms(2)])
  with d assms(5) show ?thesis by (auto simp: deleteSandbox_def split: sum.splits)
qed

lemma filterOne_guard:
  assumes "I w" "i = identity (wp_Meta warmPool)" "sb \<in> set listed"
    and run: "filterOne r warmPool tmpl v sb w = (kept, errs, v', w')"
  shows "I w' \<and> (\<forall>z \<in> set kept. activeOk (om_UID (wp_Meta warmPool)) z)"
proof -
  let ?uid = "om_UID (wp_Meta warmPool)"
  have api: "apimachinery_ok (wr_api r)" using cluster [OF assms(1)] by (simp add: pool_cluster_ok_def)
  consider "om_DeletionTimestamp (sb_Meta sb) \<noteq> None \<or> \<not> freeOrOwned ?uid (sb_Meta sb)"
    | "om_DeletionTimestamp (sb_Meta sb) = None" "controllerOf (sb_Meta sb) = None"
    | "om_DeletionTimestamp (sb_Meta sb) = None" "ownedBy ?uid (sb_Meta sb)"
    by (auto simp: freeOrOwned_def)
  then show ?thesis
  proof cases
    case 1
    with run api assms(1) show ?thesis
      by (auto simp: filterOne_def Let_def freeOrOwned_def ownedBy_def split: prod.splits if_splits)
  next
    case 2
    then have "freeOrOwned ?uid (sb_Meta sb)" by (simp add: freeOrOwned_def)
    with run api 2 adopt_guard [OF assms(1-3) 2(2)] delete_guard [OF assms(1,2) this isMember_self [OF assms(3) this]]
    show ?thesis by (auto simp: filterOne_def Let_def split: prod.splits if_splits sum.splits)
  next
    case 3
    then have o: "freeOrOwned ?uid (sb_Meta sb)" by (simp add: freeOrOwned_def)
    then have "activeOk ?uid sb" using 3 isMember_self [OF assms(3)] by (simp add: activeOk_def)
    from label_guard [OF assms(1,2) this] run api 3 delete_guard [OF assms(1,2) o isMember_self [OF assms(3) o]]
    show ?thesis by (auto simp: filterOne_def Let_def ownedBy_def split: prod.splits if_splits sum.splits)
  qed
qed

lemma filter_guard:
  assumes "i = identity (wp_Meta warmPool)"
  shows "I w \<Longrightarrow> set sbs \<subseteq> set listed \<Longrightarrow> filterMembers r warmPool tmpl v sbs w = (active, errs, w') \<Longrightarrow>
     I w' \<and> (\<forall>z \<in> set active. activeOk (om_UID (wp_Meta warmPool)) z)"
proof (induction sbs arbitrary: v w active errs w')
  case (Cons sb sbs)
  obtain kept errs1 v1 w1 where 1: "filterOne r warmPool tmpl v sb w = (kept, errs1, v1, w1)" by (metis surj_pair)
  obtain active2 errs2 w2 where 2: "filterMembers r warmPool tmpl v1 sbs w1 = (active2, errs2, w2)" by (metis surj_pair)
  have k: "I w1 \<and> (\<forall>z \<in> set kept. activeOk (om_UID (wp_Meta warmPool)) z)"
    using filterOne_guard [OF Cons.prems(1) assms _ 1] Cons.prems(2) by simp
  with Cons.IH [OF _ _ 2] Cons.prems(2,3) 1 2 show ?case by auto
qed simp

lemma stuck_guard:
  assumes "i = identity (wp_Meta warmPool)"
  shows "I w \<Longrightarrow> \<forall>z \<in> set sbs. activeOk (om_UID (wp_Meta warmPool)) z \<Longrightarrow> dropStuck r now sbs w = (healthy, errs, w') \<Longrightarrow>
     I w' \<and> set healthy \<subseteq> set sbs"
proof (induction sbs arbitrary: w healthy errs w')
  case (Cons sb sbs)
  have sb: "activeOk (om_UID (wp_Meta warmPool)) sb" using Cons.prems(2) by simp
  obtain errs1 w1 where 1: "deleteSandbox r sb w = (errs1, w1)" by (rule prod.exhaust)
  have "I w1"
    by (rule delete_guard [OF Cons.prems(1) assms _ _ 1]) (use sb in \<open>simp_all add: activeOk_def freeOrOwned_def\<close>)
  with Cons 1 show ?case
    by (auto simp: Let_def split: if_splits prod.splits) blast+
qed simp

lemma scaleUp_guard:
  assumes "I w" "i = identity (wp_Meta warmPool)" "scaleUp r warmPool h tmpl n w = (errs, w')"
  shows "I w'"
proof -
  obtain t ph bh where tmpl: "tmpl = (t, ph, bh)" by (metis surj_pair)
  show ?thesis
  proof (cases "buildSandboxCR r warmPool h t ph bh")
    case (Inr cr)
    then have m: "wr_setRef r extensionsAPIVersion ''SandboxWarmPool'' (wp_Meta warmPool) (poolSandboxMeta warmPool h ph bh) = Inr (sb_Meta cr)"
      by (auto simp: buildSandboxCR_def Let_def split: sum.splits)
    have m0: "om_Namespace (poolSandboxMeta warmPool h ph bh) = om_Namespace (wp_Meta warmPool)"
        "controllerOf (poolSandboxMeta warmPool h ph bh) = None"
      by (simp_all add: poolSandboxMeta_def emptyMeta_def)
    have ok: "setref_ok (wr_setRef r)" using cluster [OF assms(1)] by (simp add: pool_cluster_ok_def)
    have step: "I (snd (createPoolSandbox r cr w1))" if "I w1" for w1
    proof -
      obtain res w2 where c: "kc_Create (wr_sandboxes r) cr w1 = (res, w2)" by (rule prod.exhaust)
      have "I w2"
        using members.create_guard [OF that _ c] setref_ownedBy [OF ok m] setref_keeps [OF ok m0(2) m] m0(1)
        by (simp add: ident [OF assms(2)])
      with c show ?thesis by (simp add: createPoolSandbox_def split: sum.splits)
    qed
    then have "I (snd (snd (slowStartBatch (wr_ctxDone r) ContextDone (nat (sint n)) 1 (\<lambda>_. createPoolSandbox r cr) w)))"
      by (rule slowStartBatch_inv [where I = I]) (use step assms(1) in auto)
    with Inr tmpl assms(3) show ?thesis by (auto simp: scaleUp_def split: prod.splits)
  qed (use tmpl assms in \<open>simp add: scaleUp_def\<close>)
qed

lemma scaleDown_guard:
  assumes "I w" "i = identity (wp_Meta warmPool)" "\<forall>z \<in> set active. activeOk (om_UID (wp_Meta warmPool)) z"
    and "scaleDown r active n w = (errs, w')"
  shows "I w'"
proof -
  let ?n = "nat (sint (minInt32 n (of_nat (length active))))"
  have "?n \<le> length active"
    using sint_of_nat_le [of "length active"] by (simp add: minInt32_def nat_le_iff)
  have step: "I (snd (deletePoolSandbox r (deletionOrder active ! k) w1))" if "k < ?n" "I w1" for k w1
  proof -
    let ?sb = "deletionOrder active ! k"
    obtain res w2 where d: "kc_Delete (wr_sandboxes r) False ?sb w1 = (res, w2)" by (rule prod.exhaust)
    have "?sb \<in> set active"
      using that(1) \<open>?n \<le> length active\<close> nth_mem [of k "deletionOrder active"] by (simp add: deletionOrder_def)
    then have "activeOk (om_UID (wp_Meta warmPool)) ?sb" using assms(3) by blast
    then have "I w2"
      using members.delete_guard [OF that(2) _ d] by (simp add: ident [OF assms(2)] activeOk_def freeOrOwned_def)
    with d show ?thesis by (simp add: deletePoolSandbox_def split: sum.splits)
  qed
  then have "I (snd (snd (slowStartBatch (wr_ctxDone r) ContextDone ?n 1 (\<lambda>k. deletePoolSandbox r (deletionOrder active ! k)) w)))"
    by (rule slowStartBatch_inv [where I = I]) (use step assms(1) in auto)
  with assms(4) show ?thesis by (auto simp: scaleDown_def Let_def split: prod.splits)
qed

lemma reconcilePool_guard:
  assumes "I w" "i = identity (wp_Meta warmPool)"
    and listed: "kc_ListBy (wr_sandboxes r) (om_Namespace (wp_Meta warmPool)) sandboxWarmPoolLabelIndex
      (NameHash (om_Name (wp_Meta warmPool))) w = Inr listed"
    and run: "reconcilePool r now warmPool w = (errs, warmPool', w')"
  shows "I w' \<and> (\<exists>st. warmPool' = warmPool\<lparr>wp_Status := st\<rparr>)"
proof (cases "wr_DisableSandboxCRManagement r")
  case True
  with run assms(1) listed show ?thesis by (auto simp: reconcilePool_def reconcilePoolStatusOnly_def Let_def)
next
  case False
  let ?h = "NameHash (om_Name (wp_Meta warmPool))" and ?f = "fetchTemplateAndHash r warmPool w"
  let ?tmpl = "case ?f of Inr (t, _, c) \<Rightarrow> Some (t, c) | Inl _ \<Rightarrow> None"
  obtain active0 errs1 w1 where 1: "filterMembers r warmPool ?tmpl Map.empty listed w = (active0, errs1, w1)" by (metis surj_pair)
  obtain active errs2 w2 where 2: "dropStuck r now active0 w1 = (active, errs2, w2)" by (metis surj_pair)
  define wp' where "wp' = warmPool\<lparr>wp_Status := poolStatus ?h active\<rparr>"
  let ?desired = "replicasOf warmPool" and ?current = "of_nat (length active) :: 32 word" and ?max = "word_of_int (wr_MaxBatchSize r) :: 32 word"
  obtain errs3 w3 where 3: "(case ?f of Inr t \<Rightarrow> if sint ?current < sint ?desired
      then scaleUp r wp' ?h t (minInt32 (?desired - ?current) ?max) w2 else ([], w2) | Inl _ \<Rightarrow> ([], w2)) = (errs3, w3)"
    by (rule prod.exhaust)
  obtain errs4 w4 where 4: "(if sint ?current > sint ?desired
      then scaleDown r active (minInt32 (?current - ?desired) ?max) w3 else ([], w3)) = (errs4, w4)" by (rule prod.exhaust)
  have f: "I w1" "\<forall>z \<in> set active0. activeOk (om_UID (wp_Meta warmPool)) z"
    using filter_guard [OF assms(2,1) subset_refl 1] by blast+
  then have d: "I w2" "\<forall>z \<in> set active. activeOk (om_UID (wp_Meta warmPool)) z"
    using stuck_guard [OF assms(2) f 2] by blast+
  have "i = identity (wp_Meta wp')" using assms(2) by (simp add: wp'_def)
  then have "I w3" using 3 d(1) scaleUp_guard [OF d(1)] by (auto split: sum.splits if_splits)
  then have "I w4" using 4 scaleDown_guard [OF _ assms(2) d(2)] by (auto split: if_splits)
  moreover have "w' = w4 \<and> warmPool' = wp'"
    using run False listed 1 2 3 4 unfolding reconcilePool_def filterActiveSandboxes_def Let_def wp'_def by simp
  ultimately show ?thesis by (auto simp: wp'_def)
qed

lemma Reconcile_guard:
  assumes "I w" "kc_Get (wr_pools r) ns name w = Inr warmPool" "i = identity (wp_Meta warmPool)"
    and listed: "kc_ListBy (wr_sandboxes r) (om_Namespace (wp_Meta warmPool)) sandboxWarmPoolLabelIndex
      (NameHash (om_Name (wp_Meta warmPool))) w = Inr listed"
  shows "I (snd (Pool_Reconcile r now ns name w))"
proof -
  obtain errs warmPool' w1 where 1: "reconcilePool r now warmPool w = (errs, warmPool', w1)" by (metis surj_pair)
  from reconcilePool_guard [OF assms(1,3) listed 1] obtain st where w1: "I w1" and st: "warmPool' = warmPool\<lparr>wp_Status := st\<rparr>" by blast
  obtain res w2 where 2: "kc_PatchStatus (wr_pools r) warmPool warmPool' w1 = (res, w2)" by (rule prod.exhaust)
  have "I w2" using pools.patch_status_guard [OF w1 _ 2] assms(3) by (simp add: st)
  with assms(1,2) 1 2 w1 st show ?thesis
    by (auto simp: Pool_Reconcile_def Pool_updateStatus_def split: sum.splits)
qed

end

section \<open>The traced reconciler\<close>

definition tracedPool :: "'w SandboxWarmPoolReconciler \<Rightarrow> ('w \<times> ('w, poolWrite) writeLog) SandboxWarmPoolReconciler" where
  "tracedPool r = \<lparr>wr_pools = tracedClient PoolWrite (wr_pools r), wr_sandboxes = tracedClient MemberWrite (wr_sandboxes r),
     wr_templates = tracedClient TemplateWrite (wr_templates r), wr_api = wr_api r, wr_setRef = wr_setRef r,
     wr_marshalPodTemplate = wr_marshalPodTemplate r, wr_marshalBlueprint = wr_marshalBlueprint r,
     wr_specEqual = wr_specEqual r, wr_claimSpecEqual = wr_claimSpecEqual r, wr_ctxDone = wr_ctxDone r,
     wr_MaxBatchSize = wr_MaxBatchSize r, wr_EnableWarmPoolEviction = wr_EnableWarmPoolEviction r,
     wr_DisableSandboxCRManagement = wr_DisableSandboxCRManagement r\<rparr>"

lemma tracedPool_fields [simp]:
  "wr_pools (tracedPool r) = tracedClient PoolWrite (wr_pools r)"
  "wr_sandboxes (tracedPool r) = tracedClient MemberWrite (wr_sandboxes r)"
  "wr_api (tracedPool r) = wr_api r" "wr_setRef (tracedPool r) = wr_setRef r"
  "wr_MaxBatchSize (tracedPool r) = wr_MaxBatchSize r"
  "wr_DisableSandboxCRManagement (tracedPool r) = wr_DisableSandboxCRManagement r"
  by (simp_all add: tracedPool_def)

lemma traced_update:
  "kc_Update (tracedClient wrap kc) x wl = (res, wl') \<Longrightarrow> kc_Update kc x (fst wl) = (res, fst wl')"
  by (auto simp: tracedClient_def recorded_def split: prod.splits)

lemma traced_pool_cluster: "pool_cluster_ok r \<Longrightarrow> pool_cluster_ok (tracedPool r)"
  unfolding pool_cluster_ok_def update_keeps_def tracedPool_fields by (metis traced_update surj_pair)

lemma traced_members: "guarded_kind (wr_sandboxes (tracedPool r)) (\<lambda>w e. ownPoolWrite listed i (MemberWrite e))
    (\<lambda>wl. C \<and> allLogged (\<lambda>w. ownPoolWrite listed i) wl)"
  unfolding tracedPool_fields by (rule traced_kind.guarded_kind_axioms)

lemma traced_pools: "guarded_kind (wr_pools (tracedPool r)) (\<lambda>w e. ownPoolWrite listed i (PoolWrite e))
    (\<lambda>wl. C \<and> allLogged (\<lambda>w. ownPoolWrite listed i) wl)"
  unfolding tracedPool_fields by (rule traced_kind.guarded_kind_axioms)

interpretation traced_pool: pool_guard "tracedPool r" listed i
    "\<lambda>wl. pool_cluster_ok r \<and> allLogged (\<lambda>w. ownPoolWrite listed i) wl" for r listed i
  by (intro pool_guard.intro pool_guard_axioms.intro traced_members traced_pools) (blast intro: traced_pool_cluster)

end
