(* ===== verification/Claim_Safety.thy ===== *)
theory Claim_Safety
  imports Claim_Reconcile Claim_Queue_Props Warm_Pool_Safety
begin

text \<open>
  What the claim controller may write.  \<open>ownClaimWrite\<close> is the contract: a Sandbox is created
  under the claim's control and name, taken over only from a warm pool, and deleted only when
  the claim controls it; of the claims only the reconciled one is written.  The locale
  \<open>claim_guard\<close> proves every step of the reconciler against it, and its interpretation on the
  traced clients gives the property.
\<close>

datatype claimWrite =
    ClaimWrite "SandboxClaim kubeWrite"
  | ClaimedWrite "Sandbox kubeWrite"
  | PolicyWrite "ObjectMeta kubeWrite"
  | SourcePoolWrite "SandboxWarmPool kubeWrite"
  | SourceTemplateWrite "SandboxTemplate kubeWrite"

text \<open>A live Sandbox of a warm pool in the namespace.\<close>

definition takeable :: "string \<Rightarrow> ObjectMeta \<Rightarrow> bool" where
  "takeable ns m \<longleftrightarrow> om_Namespace m = ns \<and> om_DeletionTimestamp m = None \<and> warmPoolSandboxLabel |\<in>| fmdom (om_Labels m) \<and>
     (\<exists>c. controllerOf m = Some c \<and> or_Kind c = ''SandboxWarmPool'' \<and> or_APIVersion c = extensionsAPIVersion)"

fun ownClaimWrite :: "string \<times> string \<times> string \<Rightarrow> claimWrite \<Rightarrow> bool" where
  "ownClaimWrite (ns, name, uid) (ClaimedWrite (Created sb)) =
     (ownedBy uid (sb_Meta sb) \<and> om_Namespace (sb_Meta sb) = ns \<and> om_Name (sb_Meta sb) = name)"
| "ownClaimWrite (ns, name, uid) (ClaimedWrite (Patched sb sb')) =
     ((ownedBy uid (sb_Meta sb) \<or> takeable ns (sb_Meta sb)) \<and> ownedBy uid (sb_Meta sb') \<and> identity (sb_Meta sb') = identity (sb_Meta sb))"
| "ownClaimWrite (ns, name, uid) (ClaimedWrite (Deleted fg sb)) = ownedBy uid (sb_Meta sb)"
| "ownClaimWrite i (ClaimWrite (Updated c)) = (identity (sc_Meta c) = i)"
| "ownClaimWrite i (ClaimWrite (Patched c c')) = (identity (sc_Meta c) = i \<and> sc_Spec c' = sc_Spec c)"
| "ownClaimWrite i (ClaimWrite (StatusPatched c c')) = (identity (sc_Meta c) = i \<and> sc_Spec c' = sc_Spec c)"
| "ownClaimWrite i (ClaimWrite (Deleted fg c)) = (identity (sc_Meta c) = i)"
| "ownClaimWrite (ns, name, uid) (PolicyWrite (Deleted fg m)) = ownedBy uid m"
| "ownClaimWrite i _ = False"

text \<open>
  What the reconciler relies on: replies keep a claim's identity, and the reply to a patch of a
  Sandbox carries its identity and the owner references that were written.
\<close>

definition patch_replies :: "('o \<Rightarrow> ObjectMeta) \<Rightarrow> ('o, 'w) objectClient \<Rightarrow> bool" where
  "patch_replies meta kc \<longleftrightarrow> (\<forall>x y w z w'. kc_Patch kc x y w = (Inr z, w') \<longrightarrow>
     identity (meta z) = identity (meta x) \<and> om_OwnerReferences (meta z) = om_OwnerReferences (meta y))"

definition claim_cluster_ok :: "'w SandboxClaimReconciler \<Rightarrow> bool" where
  "claim_cluster_ok r \<longleftrightarrow> apimachinery_ok (cr_api r) \<and> setref_ok (cr_setRef r) \<and> patch_replies sb_Meta (cr_sandboxes r) \<and>
     patch_keeps sc_Meta (cr_claims r) \<and> update_keeps sc_Meta (cr_claims r)"

lemma kubeD: "kube call s = (res, s') \<Longrightarrow> \<exists>w'. call (cw_World s) = (res, w') \<and> s' = s\<lparr>cw_World := w'\<rparr>"
  by (auto simp: kube_def split: prod.splits)

lemma state_worlds [simp]:
  "cw_World (forgetObservedTime k s) = cw_World s" "cw_World (forgetObservedUID m s) = cw_World s"
  "cw_World (storeTriggered c n s) = cw_World s" "cw_World (forgetTriggered k s) = cw_World s" "cw_World (putBack p qk s) = cw_World s"
  "cw_World (snd (getOrRecordObservedTime now m s)) = cw_World s"
  "cw_World (recordCreationLatencyMetric r c st s) = cw_World s"
  by (simp_all add: forgetObservedTime_def forgetObservedUID_def storeTriggered_def forgetTriggered_def putBack_def
      getOrRecordObservedTime_def recordCreationLatencyMetric_def Let_def split: option.split)

lemma isAdoptable_takeable:
  "apimachinery_ok api \<Longrightarrow> isAdoptable api sb = None \<Longrightarrow> takeable (om_Namespace (sb_Meta sb)) (sb_Meta sb)"
  by (auto simp: isAdoptable_def takeable_def Let_def split: if_splits option.splits)

lemma verify_takeable:
  assumes "apimachinery_ok api" "verifySandboxCandidate api sb claim = None"
  shows "takeable (claimNS claim) (sb_Meta sb)"
proof -
  have "om_Namespace (sb_Meta sb) = claimNS claim" "isAdoptable api sb = None"
    using assms(2) by (auto simp: verifySandboxCandidate_def Let_def split: if_splits option.splits)
  with isAdoptable_takeable [OF assms(1)] show ?thesis by metis
qed

text \<open>What the search hands out has been verified, whatever the queue holds.\<close>

lemma candidateLoop_verified:
  assumes "candidateLoop get api claim pool skipped fallback q = Some (Inr (Some (sb, key)), q')"
    and "\<And>sb key. fallback = Some (sb, key) \<Longrightarrow> verifySandboxCandidate api sb claim = None"
  shows "verifySandboxCandidate api sb claim = None"
proof -
  let ?P = "\<lambda>(get :: getSandbox) api claim (pool :: string) (skipped :: SandboxKey list) (fallback :: (Sandbox \<times> SandboxKey) option)
      (q :: SimpleSandboxQueue) (res :: (claimError + (Sandbox \<times> SandboxKey) option) \<times> SimpleSandboxQueue).
    (\<forall>sb key. fallback = Some (sb, key) \<longrightarrow> verifySandboxCandidate api sb claim = None) \<longrightarrow>
    (\<forall>sb key. fst res = Inr (Some (sb, key)) \<longrightarrow> verifySandboxCandidate api sb claim = None)"
  have "?P get api claim pool skipped fallback q (Inr (Some (sb, key)), q')"
  proof (rule candidateLoop.raw_induct [where P = ?P, OF _ assms(1)], goal_cases)
    case (1 loop get api claim pool skipped fallback q res)
    note IH = 1(1) and run = 1(2)
    show ?case
    proof (cases "GetWithStrategy q pool pickSmart")
      case (Some popped)
      obtain picked q1 where p: "popped = (picked, q1)" by (rule prod.exhaust)
      show ?thesis
      proof (cases picked)
        case None
        with run Some p show ?thesis by auto
      next
        case key: (Some key)
        show ?thesis
        proof (cases "candidateStep get api claim pool skipped fallback key q1")
          case (Inl out)
          with run Some p key have "res = out" by simp
          with Inl show ?thesis by (auto simp: candidateStep_def split: sum.splits option.splits if_splits)
        next
          case (Inr further)
          obtain skipped' fallback' where f: "further = (skipped', fallback')" by (rule prod.exhaust)
          have "loop get api claim pool skipped' fallback' q1 = Some res" using run Some p key Inr f by simp
          from IH [OF this] Inr f show ?thesis
            by (auto simp: candidateStep_def split: sum.splits option.splits if_splits)
        qed
      qed
    qed (use run in simp)
  qed
  then show ?thesis using assms(2) by (metis fst_conv)
qed

lemma setPodMeta_meta [simp]: "sb_Meta (setPodMeta meta sb) = sb_Meta sb"
  by (simp add: setPodMeta_def Let_def)

lemma ownedBy_upd [simp]:
  "ownedBy uid (m\<lparr>om_Labels := l\<rparr>) = ownedBy uid m" "ownedBy uid (m\<lparr>om_Annotations := a\<rparr>) = ownedBy uid m"
  by (simp_all add: ownedBy_def)

lemma adoptedSandbox_owned:
  assumes "setref_ok (cr_setRef r)" "adoptedSandbox r claim found sb = Inr sb'"
  shows "ownedBy (claimUID claim) (sb_Meta sb')" "identity (sb_Meta sb') = identity (sb_Meta sb)"
proof -
  let ?m = "(sb_Meta sb)\<lparr>om_OwnerReferences := []\<rparr>"
  obtain m where m: "cr_setRef r extensionsAPIVersion ''SandboxClaim'' (sc_Meta claim) ?m = Inr m"
      "sb_Meta sb' = m\<lparr>om_Labels := om_Labels (sb_Meta sb'), om_Annotations := om_Annotations (sb_Meta sb')\<rparr>"
    using assms(2) by (auto simp: adoptedSandbox_def Let_def split: sum.splits)
  have "ownedBy (claimUID claim) m" by (rule setref_ownedBy [OF assms(1) m(1)])
  then show "ownedBy (claimUID claim) (sb_Meta sb')" by (subst m(2)) simp
  have "identity m = identity ?m" by (rule setref_identity [OF assms(1) _ m(1)]) simp
  then have "identity m = identity (sb_Meta sb)" by (simp add: identity_def)
  then show "identity (sb_Meta sb') = identity (sb_Meta sb)" by (subst m(2)) simp
qed

lemma coldSandbox_owned:
  assumes "setref_ok (cr_setRef r)" "coldSandbox r claim template = Inr sb"
  shows "ownedBy (claimUID claim) (sb_Meta sb)" "om_Namespace (sb_Meta sb) = claimNS claim" "om_Name (sb_Meta sb) = claimName claim"
proof -
  have m: "cr_setRef r extensionsAPIVersion ''SandboxClaim'' (sc_Meta claim) (coldMeta claim template) = Inr (sb_Meta sb)"
    using assms(2) by (auto simp: coldSandbox_def Let_def split: sum.splits)
  have "controllerOf (coldMeta claim template) = None" "om_Namespace (coldMeta claim template) = claimNS claim"
      "om_Name (coldMeta claim template) = claimName claim"
    by (simp_all add: coldMeta_def emptyMeta_def)
  with setref_ownedBy [OF assms(1) m] setref_keeps [OF assms(1) _ m]
  show "ownedBy (claimUID claim) (sb_Meta sb)" "om_Namespace (sb_Meta sb) = claimNS claim" "om_Name (sb_Meta sb) = claimName claim"
    by auto
qed

section \<open>The guard\<close>

locale claim_guard =
  claims: guarded_kind "cr_claims r" "\<lambda>w e. ownClaimWrite i (ClaimWrite e)" I +
  claimed: guarded_kind "cr_sandboxes r" "\<lambda>w e. ownClaimWrite i (ClaimedWrite e)" I +
  policies: guarded_kind "cr_policies r" "\<lambda>w e. ownClaimWrite i (PolicyWrite e)" I
  for r :: "'w SandboxClaimReconciler" and i :: "string \<times> string \<times> string" and I :: "'w \<Rightarrow> bool" +
  assumes cluster: "I w \<Longrightarrow> claim_cluster_ok r"
begin

definition J :: "'w claimState \<Rightarrow> bool" where "J s \<longleftrightarrow> I (cw_World s)"

definition own :: "SandboxClaim \<Rightarrow> bool" where "own claim \<longleftrightarrow> identity (sc_Meta claim) = i"

definition mine :: "Sandbox \<Rightarrow> bool" where "mine sb \<longleftrightarrow> ownedBy (snd (snd i)) (sb_Meta sb)"

lemma J_memory [simp]:
  "J (s\<lparr>cw_Queue := q\<rparr>) = J s" "J (forgetObservedTime k s) = J s" "J (storeTriggered c n s) = J s" "J (forgetTriggered k s) = J s"
  "J (putBack p qk s) = J s" "J (snd (getOrRecordObservedTime now m s)) = J s" "J (recordCreationLatencyMetric r' c st s) = J s"
  by (simp_all add: J_def)

lemma own_parts: "own claim \<Longrightarrow> fst i = claimNS claim \<and> fst (snd i) = claimName claim \<and> snd (snd i) = claimUID claim"
  by (auto simp: own_def identity_def)

lemma allowed:
  "ownClaimWrite i (ClaimedWrite (Created sb)) \<longleftrightarrow> mine sb \<and> om_Namespace (sb_Meta sb) = fst i \<and> om_Name (sb_Meta sb) = fst (snd i)"
  "ownClaimWrite i (ClaimedWrite (Patched sb sb')) \<longleftrightarrow>
     (mine sb \<or> takeable (fst i) (sb_Meta sb)) \<and> mine sb' \<and> identity (sb_Meta sb') = identity (sb_Meta sb)"
  "ownClaimWrite i (ClaimedWrite (Deleted fg sb)) \<longleftrightarrow> mine sb"
  "ownClaimWrite i (PolicyWrite (Deleted fg m)) \<longleftrightarrow> ownedBy (snd (snd i)) m"
  unfolding mine_def by (cases i; simp)+

lemma facts:
  assumes "J s"
  shows "apimachinery_ok (cr_api r)" "setref_ok (cr_setRef r)" "patch_replies sb_Meta (cr_sandboxes r)"
    "patch_keeps sc_Meta (cr_claims r)" "update_keeps sc_Meta (cr_claims r)"
  using cluster assms unfolding J_def claim_cluster_ok_def by blast+

lemma controlled_mine:
  "J s \<Longrightarrow> own claim \<Longrightarrow> IsControlledBy (cr_api r) (sb_Meta sb) (sc_Meta claim) \<Longrightarrow> mine sb"
  using facts(1) [of s] own_parts [of claim] unfolding mine_def ownedBy_def by (simp add: IsControlledBy_iff)

lemma claim_patch_guard:
  assumes "J s" "own claim" "identity (sc_Meta claim') = identity (sc_Meta claim)" "sc_Spec claim' = sc_Spec claim"
    and "kube (kc_Patch (cr_claims r) claim claim') s = (res, s')"
  shows "J s' \<and> own claim' \<and> (\<forall>z. res = Inr z \<longrightarrow> own z)"
proof -
  obtain w' where p: "kc_Patch (cr_claims r) claim claim' (cw_World s) = (res, w')" "s' = s\<lparr>cw_World := w'\<rparr>"
    using kubeD [OF assms(5)] by blast
  have "I w'" using claims.patch_guard [OF _ _ p(1)] assms(1-4) by (simp add: J_def own_def)
  moreover have "identity (sc_Meta z) = identity (sc_Meta claim)" if "res = Inr z" for z
    using facts(4) [OF assms(1)] p(1) that unfolding patch_keeps_def by blast
  ultimately show ?thesis using p(2) assms(2,3) by (auto simp: J_def own_def)
qed

lemma sandbox_patch_guard:
  assumes "J s" "mine sb \<or> takeable (fst i) (sb_Meta sb)" "mine sb'"
    and "identity (sb_Meta sb') = identity (sb_Meta sb)" "kube (kc_Patch (cr_sandboxes r) sb sb') s = (res, s')"
  shows "J s' \<and> (\<forall>z. res = Inr z \<longrightarrow> mine z)"
proof -
  obtain w' where p: "kc_Patch (cr_sandboxes r) sb sb' (cw_World s) = (res, w')" "s' = s\<lparr>cw_World := w'\<rparr>"
    using kubeD [OF assms(5)] by blast
  have "I w'" using claimed.patch_guard [OF _ _ p(1)] assms(1-4) by (simp add: J_def allowed)
  moreover have "om_OwnerReferences (sb_Meta z) = om_OwnerReferences (sb_Meta sb')" if "res = Inr z" for z
    using facts(3) [OF assms(1)] p(1) that unfolding patch_replies_def by blast
  ultimately show ?thesis using p(2) assms(3) by (auto simp: J_def mine_def ownedBy_def)
qed

lemma completeAdoption_guard:
  assumes "J s" "own claim" "takeable (claimNS claim) (sb_Meta sb)" "completeAdoption r claim sb s = (res, s')"
  shows "J s' \<and> (\<forall>z. res = Inr z \<longrightarrow> mine z)"
proof (cases "adoptedSandbox r claim (getClaimTemplate r claim (cw_World s)) sb")
  case (Inr sb')
  obtain res1 s1 where p: "kube (kc_Patch (cr_sandboxes r) sb sb') s = (res1, s1)" by (rule prod.exhaust)
  note o = adoptedSandbox_owned [OF facts(2) [OF assms(1)] Inr]
  have "mine sb'" "takeable (fst i) (sb_Meta sb)" using o(1) own_parts [OF assms(2)] assms(3) by (simp_all add: mine_def)
  from sandbox_patch_guard [OF assms(1) disjI2 [OF this(2)] this(1) o(2) p] p Inr assms(4) show ?thesis
    by (auto simp: completeAdoption_def split: sum.splits)
qed (use assms in \<open>auto simp: completeAdoption_def\<close>)

lemma adoptAttempt_guard:
  assumes "J s" "own claim" "takeable (claimNS claim) (sb_Meta sb)" "adoptAttempt r pool claim sb key s = (res, claim', s')"
  shows "J s' \<and> own claim' \<and> (\<forall>z. res = Inr (Some z) \<longrightarrow> mine z)"
proof -
  let ?claim = "recordAssigned (om_Name (sb_Meta sb)) claim"
  have c: "own ?claim" "claimNS ?claim = claimNS claim" using assms(2) by (simp_all add: recordAssigned_def own_def)
  obtain res1 s1 where u: "kube (kc_Update (cr_claims r) ?claim) s = (res1, s1)" by (rule prod.exhaust)
  obtain w' where w': "kc_Update (cr_claims r) ?claim (cw_World s) = (res1, w')" "s1 = s\<lparr>cw_World := w'\<rparr>" using kubeD [OF u] by blast
  have s1: "J s1" using claims.update_guard [OF _ _ w'(1)] assms(1) c(1) w'(2) by (simp add: J_def own_def)
  show ?thesis
  proof (cases res1)
    case (Inl err)
    with assms(4) u s1 c(1) show ?thesis by (auto simp: adoptAttempt_def Let_def)
  next
    case (Inr claim2)
    have "identity (sc_Meta claim2) = identity (sc_Meta ?claim)"
      using facts(5) [OF assms(1)] w'(1) Inr unfolding update_keeps_def by blast
    then have c2: "own claim2" "claimNS claim2 = claimNS claim" using c by (simp_all add: own_def identity_def)
    obtain res2 s2 where a: "completeAdoption r claim2 sb s1 = (res2, s2)" by (rule prod.exhaust)
    from completeAdoption_guard [OF s1 c2(1) _ a] assms(3) c2 have "J s2 \<and> (\<forall>z. res2 = Inr z \<longrightarrow> mine z)" by simp
    with assms(4) u Inr a c2(1) show ?thesis
      by (auto simp: adoptAttempt_def Let_def split: sum.splits if_splits)
  qed
qed

lemma adoptLoop_guard:
  "J s \<Longrightarrow> own claim \<Longrightarrow> adoptLoop n r pool claim s = Some (res, claim', s') \<Longrightarrow>
     J s' \<and> own claim' \<and> (\<forall>z. res = Inr (Some z) \<longrightarrow> mine z)"
proof (induction n arbitrary: claim s)
  case (Suc n)
  let ?get = "\<lambda>ns name. kc_Get (cr_sandboxes r) ns name (cw_World s)"
  obtain found q where g: "getCandidate ?get (cr_api r) claim (cw_Queue s) = Some (found, q)"
    using Suc.prems(3) by (auto simp: bind_eq_Some_conv)
  let ?s = "s\<lparr>cw_Queue := q\<rparr>"
  have s: "J ?s" using Suc.prems(1) by simp
  show ?case
  proof (cases "\<exists>sb key. found = Inr (Some (sb, key))")
    case True
    then obtain sb key where f: "found = Inr (Some (sb, key))" by blast
    have "verifySandboxCandidate (cr_api r) sb claim = None"
      by (rule candidateLoop_verified [OF g [unfolded f getCandidate_def]]) simp
    then have t: "takeable (claimNS claim) (sb_Meta sb)" by (rule verify_takeable [OF facts(1) [OF s]])
    obtain res1 claim1 s1 where a: "adoptAttempt r pool claim sb key ?s = (res1, claim1, s1)" by (metis surj_pair)
    note guard = adoptAttempt_guard [OF s Suc.prems(2) t a]
    show ?thesis
    proof (cases "res1 = Inr None")
      case True
      with Suc.prems(3) g f a have "adoptLoop n r pool claim1 s1 = Some (res, claim', s')" by (simp add: Let_def)
      with Suc.IH guard show ?thesis by blast
    next
      case False
      with Suc.prems(3) g f a have "res1 = res \<and> claim1 = claim' \<and> s1 = s'"
        by (cases res1) (auto simp: Let_def split: option.splits)
      with guard show ?thesis by blast
    qed
  next
    case False
    with Suc.prems(3) g have "claim' = claim \<and> s' = ?s \<and> (\<forall>z. res \<noteq> Inr (Some z))"
      by (auto simp: Let_def split: sum.splits option.splits)
    with s Suc.prems(2) show ?thesis by blast
  qed
qed auto

lemma initLabel_guard:
  assumes "J s" "mine sb" "initializeSandboxLaunchTypeLabel r sb t s = (res, s')"
  shows "J s' \<and> (\<forall>z. res = Inr z \<longrightarrow> mine z)"
proof -
  let ?sb = "sb\<lparr>sb_Meta := (sb_Meta sb)\<lparr>om_Labels := fmupd SandboxLaunchTypeLabel t (om_Labels (sb_Meta sb))\<rparr>\<rparr>"
  obtain res1 s1 where p: "kube (kc_Patch (cr_sandboxes r) sb ?sb) s = (res1, s1)" by (rule prod.exhaust)
  have "J s1 \<and> (\<forall>z. res1 = Inr z \<longrightarrow> mine z)"
    by (rule sandbox_patch_guard [OF assms(1) disjI1 [OF assms(2)] _ _ p]) (use assms(2) in \<open>simp_all add: mine_def\<close>)
  with assms p show ?thesis
    by (auto simp: initializeSandboxLaunchTypeLabel_def Let_def split: if_splits sum.splits)
qed

lemma migrateIf_guard:
  assumes "J s" "own claim" "migrateIf fromLabel r claim n s = (claim', s')"
  shows "J s' \<and> own claim'"
proof -
  let ?claim = "claim\<lparr>sc_Meta := (sc_Meta claim)\<lparr>
    om_Annotations := fmupd AssignedSandboxNameAnnotation n (om_Annotations (sc_Meta claim)),
    om_Labels := fmdrop DeprecatedAssignedSandboxNameLabel (om_Labels (sc_Meta claim))\<rparr>\<rparr>"
  obtain res1 s1 where p: "kube (kc_Patch (cr_claims r) claim ?claim) s = (res1, s1)" by (rule prod.exhaust)
  have "J s1 \<and> own ?claim \<and> (\<forall>z. res1 = Inr z \<longrightarrow> own z)"
    by (rule claim_patch_guard [OF assms(1,2) _ _ p]) (simp_all add: identity_def)
  with assms p show ?thesis
    by (auto simp: migrateIf_def migrateLegacyAssignedSandboxLabel_def Let_def split: if_splits sum.splits)
qed

lemma removeStale_guard:
  assumes "J s" "own claim" "removeStaleReference r what fromLabel claim s = (res, claim', s')"
  shows "J s' \<and> own claim' \<and> (\<forall>z. res \<noteq> Some (Inr z))"
proof -
  obtain res1 s1 where p: "kube (kc_Patch (cr_claims r) claim (dropAssigned fromLabel claim)) s = (res1, s1)" by (rule prod.exhaust)
  have "J s1 \<and> own (dropAssigned fromLabel claim) \<and> (\<forall>z. res1 = Inr z \<longrightarrow> own z)"
    by (rule claim_patch_guard [OF assms(1,2) _ _ p]) (simp_all add: dropAssigned_def Let_def)
  with assms(3) p show ?thesis by (auto simp: removeStaleReference_def Let_def split: sum.splits)
qed

lemma completeAssigned_guard:
  assumes "J s" "own claim" "takeable (claimNS claim) (sb_Meta sb)" "completeAssigned r claim n fromLabel sb s = (res, claim', s')"
  shows "J s' \<and> own claim' \<and> (\<forall>z. res \<noteq> Some (Inr z))"
proof -
  obtain res1 s1 where a: "completeAdoption r claim sb s = (res1, s1)" by (rule prod.exhaust)
  obtain claim2 s2 where m: "migrateIf fromLabel r claim n (storeTriggered claim n s1) = (claim2, s2)" by (rule prod.exhaust)
  have "J s1" using completeAdoption_guard [OF assms(1-3) a] by blast
  with migrateIf_guard [OF _ assms(2) m] have "J s2 \<and> own claim2" by simp
  with assms a m \<open>J s1\<close> show ?thesis
    by (auto simp: completeAssigned_def split: if_splits sum.splits)
qed

lemma fromStatus_guard:
  assumes "J s" "own claim" "sandboxFromStatus r claim s = (res, claim', s')"
  shows "J s' \<and> own claim' \<and> (\<forall>z. res = Some (Inr z) \<longrightarrow> mine z)"
  using assms initLabel_guard [of "forgetTriggered (claimKey claim) s"] controlled_mine [OF assms(1,2)]
  by (auto simp: sandboxFromStatus_def returning_def Let_def split: if_splits sum.splits) (metis prod.collapse)+

lemma byName_guard:
  assumes "J s" "own claim" "sandboxByName r claim s = (res, claim', s')"
  shows "J s' \<and> own claim' \<and> (\<forall>z. res = Some (Inr z) \<longrightarrow> mine z)"
  using assms initLabel_guard [of s] controlled_mine [OF assms(1,2)]
  by (auto simp: sandboxByName_def returning_def split: if_splits sum.splits) (metis prod.collapse)+

lemma fromMetadata_guard:
  assumes "J s" "own claim" "sandboxFromMetadata r claim s = (res, claim', s')"
  shows "J s' \<and> own claim' \<and> (\<forall>z. res = Some (Inr z) \<longrightarrow> mine z)"
proof -
  obtain n fromLabel where a: "assignedName claim = (n, fromLabel)" by (rule prod.exhaust)
  show ?thesis
  proof (cases "kc_Get (cr_sandboxes r) (claimNS claim) n (cw_World s)")
    case (Inl err)
    with assms a removeStale_guard [OF assms(1,2)] show ?thesis
      by (auto simp: sandboxFromMetadata_def split: if_splits)
  next
    case (Inr sb)
    obtain claim1 s1 where m: "migrateIf fromLabel r claim n (forgetTriggered (claimKey claim) s) = (claim1, s1)" by (rule prod.exhaust)
    obtain res2 s2 where l: "initializeSandboxLaunchTypeLabel r sb SandboxLaunchTypeWarm s1 = (res2, s2)" by (rule prod.exhaust)
    have s1: "J s1" "own claim1" using migrateIf_guard [OF _ assms(2) m] assms(1) by auto
    have "takeable (claimNS claim) (sb_Meta sb)" if "verifySandboxCandidate (cr_api r) sb claim = None"
      by (rule verify_takeable [OF facts(1) [OF assms(1)] that])
    with assms a Inr m l s1 controlled_mine [OF assms(1,2), of sb] initLabel_guard [OF s1(1) _ l]
      removeStale_guard [OF assms(1,2)] completeAssigned_guard [OF assms(1,2)]
    show ?thesis
      by (auto simp: sandboxFromMetadata_def returning_def split: if_splits option.splits)
  qed
qed

lemma orElse_guard:
  assumes "res1 = (o1, claim1, s1)" "J s1 \<and> own claim1 \<and> (\<forall>z. o1 = Some (Inr z) \<longrightarrow> mine z)"
    and "\<And>o2 claim2 s2. J s1 \<Longrightarrow> own claim1 \<Longrightarrow> further claim1 s1 = (o2, claim2, s2) \<Longrightarrow>
      J s2 \<and> own claim2 \<and> (\<forall>z. o2 = Some (Inr z) \<longrightarrow> mine z)"
    and "orElse res1 further = (res, claim', s')"
  shows "J s' \<and> own claim' \<and> (\<forall>z. res = Some (Inr z) \<longrightarrow> mine z)"
  using assms by (cases o1) (auto simp: orElse_def)

lemma lookup_guard:
  assumes "J s" "own claim" "lookupSandbox r claim s = (res, claim', s')"
  shows "J s' \<and> own claim' \<and> (\<forall>z. res = Some (Inr z) \<longrightarrow> mine z)"
proof -
  obtain o1 claim1 s1 where 1: "sandboxFromStatus r claim s = (o1, claim1, s1)" by (metis surj_pair)
  obtain o2 claim2 s2 where 2: "orElse (sandboxFromStatus r claim s) (sandboxFromMetadata r) = (o2, claim2, s2)" by (metis surj_pair)
  have g: "J s2 \<and> own claim2 \<and> (\<forall>z. o2 = Some (Inr z) \<longrightarrow> mine z)"
    by (rule orElse_guard [OF 1 fromStatus_guard [OF assms(1,2) 1] _ 2]) (rule fromMetadata_guard)
  show ?thesis
    by (rule orElse_guard [OF 2 g _ assms(3) [unfolded lookupSandbox_def]]) (rule byName_guard)
qed

lemma getOrCreate_guard:
  assumes "J s" "own claim" "getOrCreateSandbox r claim s = Some (res, claim', s')"
  shows "J s' \<and> own claim' \<and> (\<forall>z. res = Inr (Some z) \<longrightarrow> mine z)"
proof -
  obtain res1 claim1 s1 where l: "lookupSandbox r claim s = (res1, claim1, s1)" by (metis surj_pair)
  note g = lookup_guard [OF assms(1,2) l]
  show ?thesis
  proof (cases res1)
    case None
    with assms(3) l g adoptLoop_guard [of s1 claim1 3] show ?thesis
      by (auto simp: getOrCreateSandbox_def adoptSandboxFromCandidates_def split: if_splits)
  next
    case (Some x)
    with assms(3) l g show ?thesis by (cases x) (auto simp: getOrCreateSandbox_def)
  qed
qed

lemma syncMetadata_guard:
  assumes "J s" "mine sb" "syncMetadata r claim template sb s = (out, s')"
  shows "J s'"
proof (cases "claimedPodMeta r claim template (SandboxTemplateRefHash (om_Name (tp_Meta template)))")
  case (Inr meta)
  obtain u labels where l: "alignedLabels claim (SandboxTemplateRefHash (om_Name (tp_Meta template))) (om_Labels (sb_Meta sb)) = (u, labels)"
    by (rule prod.exhaust)
  let ?sb = "setPodMeta meta (sb\<lparr>sb_Meta := (sb_Meta sb)\<lparr>om_Labels := labels\<rparr>\<rparr>)"
  obtain res s1 where p: "kube (kc_Patch (cr_sandboxes r) sb ?sb) s = (res, s1)" by (rule prod.exhaust)
  have "J s1 \<and> (\<forall>z. res = Inr z \<longrightarrow> mine z)"
    by (rule sandbox_patch_guard [OF assms(1) disjI1 [OF assms(2)] _ _ p]) (use assms(2) in \<open>simp_all add: mine_def\<close>)
  with assms(1,3) Inr l p show ?thesis by (auto simp: syncMetadata_def Let_def split: if_splits sum.splits)
qed (use assms in \<open>auto simp: syncMetadata_def Let_def\<close>)

lemma keepSandbox_guard:
  "J s \<Longrightarrow> mine sb \<Longrightarrow> keepSandbox r claim sb s = (out, s') \<Longrightarrow> J s'"
  by (auto simp: keepSandbox_def split: sum.splits if_splits dest: syncMetadata_guard)

lemma create_guard:
  assumes "J s" "own claim" "createSandbox r claim template s = (res, s')"
  shows "J s'"
proof (cases "coldSandbox r claim template")
  case (Inr sb)
  obtain res1 s1 where c: "kube (kc_Create (cr_sandboxes r) sb) s = (res1, s1)" by (rule prod.exhaust)
  obtain w' where w': "kc_Create (cr_sandboxes r) sb (cw_World s) = (res1, w')" "s1 = s\<lparr>cw_World := w'\<rparr>" using kubeD [OF c] by blast
  note o = coldSandbox_owned [OF facts(2) [OF assms(1)] Inr]
  have "ownClaimWrite i (ClaimedWrite (Created sb))" using o own_parts [OF assms(2)] by (simp add: allowed mine_def)
  then have "I w'" using claimed.create_guard [OF _ _ w'(1)] assms(1) by (simp add: J_def)
  with assms(3) Inr c w'(2) show ?thesis by (auto simp: createSandbox_def J_def split: sum.splits)
qed (use assms in \<open>auto simp: createSandbox_def\<close>)

lemma active_guard:
  assumes "J s" "own claim" "reconcileActive r claim s = Some (out, claim', s')"
  shows "J s' \<and> own claim'"
proof (cases "validateAdditionalPodMetadata (cr_validation r) (cr_AllowedLabelDomains r) (cs_AdditionalPodMetadata (sc_Spec claim))")
  case None
  with assms(3) obtain res claim1 s1 where g: "getOrCreateSandbox r claim s = Some (res, claim1, s1)"
    by (auto simp: reconcileActive_def bind_eq_Some_conv)
  note guard = getOrCreate_guard [OF assms(1,2) g]
  show ?thesis
  proof (cases res)
    case (Inl err)
    with assms(3) None g guard show ?thesis by (auto simp: reconcileActive_def)
  next
    case (Inr found)
    show ?thesis
    proof (cases found)
      case (Some sb)
      obtain out1 s2 where k: "keepSandbox r claim1 sb s1 = (out1, s2)" by (rule prod.exhaust)
      have "J s2" using keepSandbox_guard [OF _ _ k] guard Inr Some by blast
      with assms(3) None g Inr Some k guard show ?thesis by (simp add: reconcileActive_def)
    next
      case cold: None
      show ?thesis
      proof (cases "getClaimTemplate r claim1 (cw_World s1)")
        case (Inl err)
        with assms(3) None g \<open>res = Inr found\<close> cold guard show ?thesis by (simp add: reconcileActive_def)
      next
        case t: (Inr template)
        obtain res2 s2 where c: "createSandbox r claim1 template s1 = (res2, s2)" by (rule prod.exhaust)
        have "J s2" using create_guard [OF _ _ c] guard by blast
        with assms(3) None g Inr cold t c guard show ?thesis by (cases res2) (simp_all add: reconcileActive_def)
      qed
    qed
  qed
qed (use assms in \<open>simp add: reconcileActive_def\<close>)

lemma expired_guard:
  assumes "J s" "own claim" "reconcileExpired r claim s = (out, s')"
  shows "J s'"
proof (cases "kc_Get (cr_sandboxes r) (claimNS claim) (expiredName claim) (cw_World s)")
  case (Inr sb)
  obtain res s1 where d: "kube (kc_Delete (cr_sandboxes r) False sb) s = (res, s1)" by (rule prod.exhaust)
  obtain w' where w': "kc_Delete (cr_sandboxes r) False sb (cw_World s) = (res, w')" "s1 = s\<lparr>cw_World := w'\<rparr>" using kubeD [OF d] by blast
  have "J s1" if "IsControlledBy (cr_api r) (sb_Meta sb) (sc_Meta claim)"
    using claimed.delete_guard [OF _ _ w'(1)] controlled_mine [OF assms(1,2) that] assms(1) w'(2) by (simp add: J_def allowed)
  with assms Inr d show ?thesis by (auto simp: reconcileExpired_def split: if_splits sum.splits)
qed (use assms in \<open>auto simp: reconcileExpired_def split: if_splits\<close>)

lemma cleanup_guard:
  assumes "J s" "own claim"
  shows "J (snd (cleanupLegacyNetworkPolicy r claim s))"
proof (cases "kc_Get (cr_policies r) (claimNS claim) (claimName claim @ ''-network-policy'') (cw_World s)")
  case (Inr np)
  obtain res s1 where d: "kube (kc_Delete (cr_policies r) False np) s = (res, s1)" by (rule prod.exhaust)
  obtain w' where w': "kc_Delete (cr_policies r) False np (cw_World s) = (res, w')" "s1 = s\<lparr>cw_World := w'\<rparr>" using kubeD [OF d] by blast
  have "J s1" if "GetControllerOf (cr_api r) np = Some c" "or_UID c = claimUID claim" for c
  proof -
    have "ownedBy (snd (snd i)) np" using that facts(1) [OF assms(1)] own_parts [OF assms(2)] by (simp add: ownedBy_def)
    then show ?thesis using policies.delete_guard [OF _ _ w'(1)] assms(1) w'(2) by (simp add: J_def allowed)
  qed
  with assms Inr d show ?thesis by (auto simp: cleanupLegacyNetworkPolicy_def split: sum.splits)
qed (use assms in \<open>auto simp: cleanupLegacyNetworkPolicy_def\<close>)

lemma initAnnotations_guard:
  assumes "J s" "own claim" "initializeAnnotations r now claim s = (err, claim', s')"
  shows "J s' \<and> own claim'"
proof -
  let ?anns = "om_Annotations (sc_Meta claim)"
  let ?obs = "mget ?anns ObservabilityAnnotation = []" and ?trace = "cr_traceContext r \<noteq> [] \<and> mget ?anns TraceContextAnnotation = []"
  obtain ts s1 where o: "(if ?obs then getOrRecordObservedTime now (sc_Meta claim) s else (now, s)) = (ts, s1)" by (rule prod.exhaust)
  have "J (snd (if ?obs then getOrRecordObservedTime now (sc_Meta claim) s else (now, s)))" using assms(1) by simp
  then have s1: "J s1" unfolding o by simp
  define anns1 where "anns1 = (if ?obs then fmupd ObservabilityAnnotation (cr_formatTime r ts) ?anns else ?anns)"
  define anns2 where "anns2 = (if ?trace then fmupd TraceContextAnnotation (cr_traceContext r) anns1 else anns1)"
  let ?claim = "claim\<lparr>sc_Meta := (sc_Meta claim)\<lparr>om_Annotations := anns2\<rparr>\<rparr>"
  obtain res s2 where p: "kube (kc_Patch (cr_claims r) claim ?claim) s1 = (res, s2)" by (rule prod.exhaust)
  have g: "J s2 \<and> own ?claim \<and> (\<forall>z. res = Inr z \<longrightarrow> own z)"
    by (rule claim_patch_guard [OF s1 assms(2) _ _ p]) simp_all
  show ?thesis
  proof (cases "?obs \<or> ?trace")
    case True
    have "(err, claim', s') = (case (res, s2) of (Inl err, s') \<Rightarrow> (Some (ApiFailure err), ?claim, s') | (Inr claim2, s') \<Rightarrow> (None, claim2, s'))"
      using assms(3) True unfolding initializeAnnotations_def Let_def o prod.case anns1_def [symmetric] anns2_def [symmetric] p by simp
    with g show ?thesis by (auto split: sum.splits)
  next
    case False
    with assms show ?thesis unfolding initializeAnnotations_def Let_def by simp
  qed
qed

lemma updateStatus_guard:
  assumes "J s" "own claim" "Claim_updateStatus r old claim s = (res, s')"
  shows "J s'"
proof -
  let ?new = "claim\<lparr>sc_Status := sortConditions (sc_Status claim)\<rparr>" and ?old = "claim\<lparr>sc_Status := sortConditions old\<rparr>"
  obtain res1 s1 where p: "kube (kc_PatchStatus (cr_claims r) ?old ?new) s = (res1, s1)" by (rule prod.exhaust)
  obtain w' where w': "kc_PatchStatus (cr_claims r) ?old ?new (cw_World s) = (res1, w')" "s1 = s\<lparr>cw_World := w'\<rparr>" using kubeD [OF p] by blast
  have "J s1" using claims.patch_status_guard [OF _ _ w'(1)] assms(1,2) w'(2) by (simp add: J_def own_def)
  with assms p show ?thesis by (auto simp: Claim_updateStatus_def Let_def split: if_splits sum.splits)
qed

lemma own_status [simp]: "own (claim\<lparr>sc_Status := st\<rparr>) = own claim" "own (setReady r now claim c) = own claim"
  "own (computeAndSetStatus r now claim sb err b) = own claim"
  by (simp_all add: own_def setReady_def computeAndSetStatus_def Let_def)

lemma finishPass_guard:
  assumes "J s" "own claim"
  shows "J (snd (finishPass r later old expired claim out s))"
proof -
  obtain sb e where o: "out = (sb, e)" by (rule prod.exhaust)
  have "J s1" if "Claim_updateStatus r old claim2 s = (res, s1)" "own claim2" for claim2 res s1
    by (rule updateStatus_guard [OF assms(1) that(2,1)])
  moreover define claim1 where "claim1 = computeAndSetStatus r later claim sb e expired"
  moreover obtain pe left where x: "checkExpiration r later claim1 = (pe, left)" by (rule prod.exhaust)
  moreover define newly where "newly \<longleftrightarrow> pe \<and> \<not> hasClaimExpiredCondition (cr_api r) (cst_Conditions (sc_Status claim1))"
  moreover define claim2 where "claim2 = (if newly then setReady r later claim1 (Claim_computeReadyCondition r claim1 sb e True) else claim1)"
  moreover obtain err claim3 s1 where u: "Claim_updateStatus r old claim2 s = ((err, claim3), s1)" by (metis surj_pair)
  ultimately have "J s1" using assms(2) by simp
  then show ?thesis
    unfolding finishPass_def o prod.case Let_def claim1_def [symmetric] x newly_def [symmetric] claim2_def [symmetric] u
    by (cases err) simp_all
qed

lemma runPass_guard:
  assumes "J s" "own claim" "runPass r now later claim s = Some (res, s')"
  shows "J s'"
proof -
  have u: "J s1" if "Claim_updateStatus r old claim2 s = (res1, s1)" "own claim2" for old claim2 res1 s1
    by (rule updateStatus_guard [OF assms(1) that(2,1)])
  have d: "J s1" if del: "kube (kc_Delete (cr_claims r) fg claim) s = (res1, s1)" for fg res1 s1
  proof -
    obtain w' where w': "kc_Delete (cr_claims r) fg claim (cw_World s) = (res1, w')" "s1 = s\<lparr>cw_World := w'\<rparr>" using kubeD [OF del] by blast
    then show ?thesis using claims.delete_guard [OF _ _ w'(1)] assms(1,2) by (simp add: J_def own_def)
  qed
  have f: "J s2" if "finishPass r later old b claim1 out s1 = (res1, s2)" "J s1" "own claim1" for old b claim1 out s1 res1 s2
    using finishPass_guard [OF that(2,3), of later old b out] that(1) by simp
  let ?expired = "fst (checkExpiration r now claim)" and ?marked = "hasClaimExpiredCondition (cr_api r) (cst_Conditions (sc_Status claim))"
  consider (mark) "?expired" "\<not> ?marked" | (delete) fg where "?expired" "?marked" "deletesClaim claim = Some fg"
    | (retain) "?expired" "?marked" "deletesClaim claim = None" | (active) "\<not> ?expired" by fastforce
  then show ?thesis
  proof cases
    case mark
    obtain res1 s1 where r: "Claim_updateStatus r (sc_Status claim) (setReady r now claim (Claim_computeReadyCondition r claim None None True)) s = (res1, s1)"
      by (rule prod.exhaust)
    have "s' = s1" using assms(3) mark r by (cases res1) (auto simp: runPass_def Let_def split: option.splits)
    with u [OF r] assms(2) show ?thesis by simp
  next
    case (delete fg)
    obtain res1 s1 where r: "kube (kc_Delete (cr_claims r) fg claim) s = (res1, s1)" by (rule prod.exhaust)
    have "s' = s1" using assms(3) delete r by (auto simp: runPass_def Let_def split: sum.splits)
    with d [OF r] show ?thesis by simp
  next
    case retain
    obtain out s1 where r: "reconcileExpired r claim s = (out, s1)" by (rule prod.exhaust)
    have "finishPass r later (sc_Status claim) True claim out s1 = (res, s')" using assms(3) retain r by (simp add: runPass_def Let_def)
    from f [OF this expired_guard [OF assms(1,2) r] assms(2)] show ?thesis .
  next
    case active
    obtain out claim1 s1 where r: "reconcileActive r claim s = Some (out, claim1, s1)"
        "finishPass r later (sc_Status claim) False claim1 out s1 = (res, s')"
      using assms(3) active by (auto simp: runPass_def Let_def bind_eq_Some_conv)
    with f [OF r(2)] active_guard [OF assms(1,2) r(1)] show ?thesis by blast
  qed
qed

lemma Reconcile_guard:
  assumes "J s" "kc_Get (cr_claims r) ns name (cw_World s) = Inr claim" "own claim"
    and "Claim_Reconcile r now later ns name s = Some (res, s')"
  shows "J s'"
proof -
  obtain err claim1 s1 where a: "initializeAnnotations r now claim (snd (cleanupLegacyNetworkPolicy r claim s)) = (err, claim1, s1)"
    by (metis surj_pair)
  note c = cleanup_guard [OF assms(1,3)]
  from initAnnotations_guard [OF c assms(3) a] assms(2,4) a c runPass_guard [of s1 claim1] show ?thesis
    by (auto simp: Claim_Reconcile_def Let_def split: if_splits option.splits)
qed

end

section \<open>The traced reconciler\<close>

definition tracedClaims :: "'w SandboxClaimReconciler \<Rightarrow> ('w \<times> ('w, claimWrite) writeLog) SandboxClaimReconciler" where
  "tracedClaims r = \<lparr>cr_claims = tracedClient ClaimWrite (cr_claims r), cr_sandboxes = tracedClient ClaimedWrite (cr_sandboxes r),
     cr_pools = tracedClient SourcePoolWrite (cr_pools r), cr_templates = tracedClient SourceTemplateWrite (cr_templates r),
     cr_policies = tracedClient PolicyWrite (cr_policies r), cr_api = cr_api r, cr_setRef = cr_setRef r, cr_validation = cr_validation r,
     cr_apiText = cr_apiText r, cr_formatTime = cr_formatTime r, cr_traceContext = cr_traceContext r,
     cr_AllowedLabelDomains = cr_AllowedLabelDomains r\<rparr>"

lemma tracedClaims_fields [simp]:
  "cr_claims (tracedClaims r) = tracedClient ClaimWrite (cr_claims r)"
  "cr_sandboxes (tracedClaims r) = tracedClient ClaimedWrite (cr_sandboxes r)"
  "cr_policies (tracedClaims r) = tracedClient PolicyWrite (cr_policies r)"
  "cr_api (tracedClaims r) = cr_api r" "cr_setRef (tracedClaims r) = cr_setRef r"
  by (simp_all add: tracedClaims_def)

lemma patch_replies_traced: "patch_replies meta kc \<Longrightarrow> patch_replies meta (tracedClient wrap kc)"
  unfolding patch_replies_def by (metis tracedClient_patch surj_pair)

lemma update_keeps_traced: "update_keeps meta kc \<Longrightarrow> update_keeps meta (tracedClient wrap kc)"
  unfolding update_keeps_def by (metis traced_update surj_pair)

lemma traced_claim_cluster: "claim_cluster_ok r \<Longrightarrow> claim_cluster_ok (tracedClaims r)"
  unfolding claim_cluster_ok_def tracedClaims_fields by (blast intro: patch_replies_traced patch_keeps_traced update_keeps_traced)

lemma traced_kinds:
  "guarded_kind (cr_claims (tracedClaims r)) (\<lambda>w e. ownClaimWrite i (ClaimWrite e)) (\<lambda>wl. C \<and> allLogged (\<lambda>w. ownClaimWrite i) wl)"
  "guarded_kind (cr_sandboxes (tracedClaims r)) (\<lambda>w e. ownClaimWrite i (ClaimedWrite e)) (\<lambda>wl. C \<and> allLogged (\<lambda>w. ownClaimWrite i) wl)"
  "guarded_kind (cr_policies (tracedClaims r)) (\<lambda>w e. ownClaimWrite i (PolicyWrite e)) (\<lambda>wl. C \<and> allLogged (\<lambda>w. ownClaimWrite i) wl)"
  unfolding tracedClaims_fields by (rule traced_kind.guarded_kind_axioms)+

interpretation traced_claims: claim_guard "tracedClaims r" i
    "\<lambda>wl. claim_cluster_ok r \<and> allLogged (\<lambda>w. ownClaimWrite i) wl" for r i
  by (intro claim_guard.intro claim_guard_axioms.intro traced_kinds) (blast intro: traced_claim_cluster)

end
