(* ===== verification/Claim_Config_Props.thy ===== *)
theory Claim_Config_Props
  imports Claim_Config
begin

text \<open>
  What a claim can and cannot change of a template: extra labels and annotations stay in their
  domains and override nothing, injected variables only extend the containers when the policy
  is \<open>Allowed\<close>, and volume claim templates merge by name.
\<close>

section \<open>Metadata\<close>

lemma firstError_None: "firstError f m = None \<Longrightarrow> k |\<in>| fmdom m \<Longrightarrow> f k (mget m k) = None"
proof -
  assume a: "firstError f m = None" and k: "k |\<in>| fmdom m"
  have "List.map_filter (\<lambda>k. f k (mget m k)) (sorted_list_of_fset (fmdom m)) = []"
    using a by (auto simp: firstError_def split: list.splits)
  moreover have "k \<in> set (sorted_list_of_fset (fmdom m))" using k by simp
  ultimately show ?thesis
    by (metis (mono_tags, lifting) List.map_filter_def filter_empty_conv list.map_disc_iff not_None_eq o_apply)
qed

lemma firstError_lookup: "firstError f m = None \<Longrightarrow> fmlookup m k = Some x \<Longrightarrow> f k x = None"
  using firstError_None [of f m k] by (auto simp: mget_def fmdomI)

definition extraLabelOk :: "validation \<Rightarrow> string list \<Rightarrow> string \<Rightarrow> string \<Rightarrow> bool" where
  "extraLabelOk v allowed k x \<longleftrightarrow> IsQualifiedName v k = [] \<and> IsValidLabelValue v x = [] \<and>
     (\<exists>domain. keyDomain k = Some domain \<and> (\<exists>d \<in> set (effectiveDomains allowed). inDomain domain d))"

definition extraAnnotationOk :: "validation \<Rightarrow> string \<Rightarrow> bool" where
  "extraAnnotationOk v k \<longleftrightarrow> IsQualifiedName v k = [] \<and>
     (\<forall>domain. keyDomain k = Some domain \<longrightarrow> \<not> isRestrictedDomain domain)"

lemma validateLabel_None: "validateLabel v allowed k x = None \<Longrightarrow> extraLabelOk v allowed k x"
  by (auto simp: validateLabel_def extraLabelOk_def list_ex_iff split: if_splits option.splits)

lemma validateAnnotation_None: "validateAnnotation v k = None \<Longrightarrow> extraAnnotationOk v k"
  by (auto simp: validateAnnotation_def extraAnnotationOk_def split: if_splits option.splits)

lemma validate_None:
  assumes "validateAdditionalPodMetadata v allowed c = None"
  shows "fmlookup (pm_Labels c) k = Some x \<Longrightarrow> extraLabelOk v allowed k x"
    and "fmlookup (pm_Annotations c) k = Some x \<Longrightarrow> extraAnnotationOk v k"
proof -
  have l: "firstError (\<lambda>k x. map_option (\<lambda>e. ''failed to validate label '' @ Quote k @ '': '' @ e) (validateLabel v allowed k x)) (pm_Labels c) = None"
    and a: "firstError (\<lambda>k x. map_option (\<lambda>e. ''failed to validate annotation '' @ Quote k @ '': '' @ e) (validateAnnotation v k)) (pm_Annotations c) = None"
    using assms by (auto simp: validateAdditionalPodMetadata_def split: option.splits)
  show "fmlookup (pm_Labels c) k = Some x \<Longrightarrow> extraLabelOk v allowed k x"
    using firstError_lookup [OF l] validateLabel_None by fastforce
  show "fmlookup (pm_Annotations c) k = Some x \<Longrightarrow> extraAnnotationOk v k"
    using firstError_lookup [OF a] validateAnnotation_None by fastforce
qed

lemma mergePodMetadata_Inr:
  assumes "mergePodMetadata v allowed t c = Inr m"
  shows "validateAdditionalPodMetadata v allowed c = None"
    "m = \<lparr>pm_Labels = pm_Labels t ++\<^sub>f pm_Labels c, pm_Annotations = pm_Annotations t ++\<^sub>f pm_Annotations c\<rparr>"
    "firstError (overrideConflict ''label'' (pm_Labels t)) (pm_Labels c) = None"
    "firstError (overrideConflict ''annotation'' (pm_Annotations t)) (pm_Annotations c) = None"
  using assms by (auto simp: mergePodMetadata_def split: option.splits)

lemma no_conflict:
  assumes "firstError (overrideConflict what t) c = None" "fmlookup t k = Some x"
  shows "fmlookup (t ++\<^sub>f c) k = Some x"
  using firstError_lookup [OF assms(1), of k] assms(2)
  by (cases "fmlookup c k") (auto simp: overrideConflict_def fmdomI fmdom_notI split: if_splits)

text \<open>
  C26: a claim's extra Pod metadata stays in its place.  When merging succeeds, every label and
  annotation of the template, and of the identity the controller stamps, keeps its value; a
  label the claim adds is well-formed and lies in an allowed domain, an annotation it adds
  lies in no system domain; and all of the claim's metadata is there.
\<close>

theorem claim_metadata_confined:
  assumes "mergePodMetadata v allowed t c = Inr m"
  shows "(\<forall>k x. fmlookup (pm_Labels t) k = Some x \<longrightarrow> fmlookup (pm_Labels m) k = Some x) \<and>
    (\<forall>k x. fmlookup (pm_Annotations t) k = Some x \<longrightarrow> fmlookup (pm_Annotations m) k = Some x) \<and>
    (\<forall>k x. fmlookup (pm_Labels m) k = Some x \<and> k |\<notin>| fmdom (pm_Labels t) \<longrightarrow> extraLabelOk v allowed k x) \<and>
    (\<forall>k x. fmlookup (pm_Annotations m) k = Some x \<and> k |\<notin>| fmdom (pm_Annotations t) \<longrightarrow> extraAnnotationOk v k) \<and>
    (\<forall>k x. fmlookup (pm_Labels c) k = Some x \<longrightarrow> fmlookup (pm_Labels m) k = Some x) \<and>
    (\<forall>k x. fmlookup (pm_Annotations c) k = Some x \<longrightarrow> fmlookup (pm_Annotations m) k = Some x)"
proof (intro conjI allI impI)
  note m = mergePodMetadata_Inr [OF assms]
  show "fmlookup (pm_Labels m) k = Some x" if "fmlookup (pm_Labels t) k = Some x" for k x
    using no_conflict [OF m(3) that] m(2) by simp
  show "fmlookup (pm_Annotations m) k = Some x" if "fmlookup (pm_Annotations t) k = Some x" for k x
    using no_conflict [OF m(4) that] m(2) by simp
  show "extraLabelOk v allowed k x" if "fmlookup (pm_Labels m) k = Some x \<and> k |\<notin>| fmdom (pm_Labels t)" for k x
    using validate_None(1) [OF m(1), of k x] that m(2) by (auto split: if_splits simp: fmdom_notD)
  show "extraAnnotationOk v k" if "fmlookup (pm_Annotations m) k = Some x \<and> k |\<notin>| fmdom (pm_Annotations t)" for k x
    using validate_None(2) [OF m(1), of k x] that m(2) by (auto split: if_splits simp: fmdom_notD)
  show "fmlookup (pm_Labels m) k = Some x" if "fmlookup (pm_Labels c) k = Some x" for k x
    using that m(2) by (auto simp: fmdomI)
  show "fmlookup (pm_Annotations m) k = Some x" if "fmlookup (pm_Annotations c) k = Some x" for k x
    using that m(2) by (auto simp: fmdomI)
qed

definition laxValidation :: validation where
  "laxValidation = \<lparr>IsQualifiedName = (\<lambda>_. []), IsValidLabelValue = (\<lambda>_. [])\<rparr>"

definition demoTemplateMeta :: PodMetadata where
  "demoTemplateMeta = \<lparr>pm_Labels = fmap_of_list [(SandboxIDLabel, ''uid''), (''tier'', ''gold'')], pm_Annotations = fmempty\<rparr>"

definition demoClaimMeta :: PodMetadata where
  "demoClaimMeta = \<lparr>pm_Labels = fmap_of_list [(''sandbox.users.io/team'', ''x'')], pm_Annotations = fmap_of_list [(''example.com/a'', ''1'')]\<rparr>"

lemma firstError_single: "firstError f (fmupd k x fmempty) = f k x"
  by (simp add: firstError_def mget_def map_filter_simps sorted_list_of_fset.rep_eq split: option.splits)

lemma demoClaimMeta_eq:
  "pm_Labels demoClaimMeta = fmupd ''sandbox.users.io/team'' ''x'' fmempty"
  "pm_Annotations demoClaimMeta = fmupd ''example.com/a'' ''1'' fmempty"
  by (simp_all add: demoClaimMeta_def)

lemma demo_merge:
  "mergePodMetadata laxValidation [] demoTemplateMeta demoClaimMeta =
     Inr \<lparr>pm_Labels = pm_Labels demoTemplateMeta ++\<^sub>f pm_Labels demoClaimMeta,
          pm_Annotations = pm_Annotations demoTemplateMeta ++\<^sub>f pm_Annotations demoClaimMeta\<rparr>"
  by (simp add: mergePodMetadata_def validateAdditionalPodMetadata_def demoClaimMeta_eq firstError_single
      validateLabel_def validateAnnotation_def laxValidation_def keyDomain_def inDomain_def isRestrictedDomain_def restrictedDomains_def
      effectiveDomains_def hasSuffix_def overrideConflict_def demoTemplateMeta_def EqualFold_def toLower_def toLowerChar_def)

theorem claim_metadata_confined_witness:
  "\<exists>m. mergePodMetadata laxValidation [] demoTemplateMeta demoClaimMeta = Inr m \<and>
    fmlookup (pm_Labels m) ''tier'' = Some ''gold'' \<and> fmlookup (pm_Labels m) ''sandbox.users.io/team'' = Some ''x''"
proof -
  obtain m where m: "mergePodMetadata laxValidation [] demoTemplateMeta demoClaimMeta = Inr m" using demo_merge by blast
  from claim_metadata_confined [OF m] m show ?thesis
    by (auto simp: demoTemplateMeta_def demoClaimMeta_def)
qed

section \<open>Volume claim templates\<close>

abbreviation vctLookup :: "string \<Rightarrow> PersistentVolumeClaimTemplate list \<Rightarrow> PersistentVolumeClaimTemplate option" where
  "vctLookup n vs \<equiv> find (\<lambda>v. vct_Name v = n) vs"

lemma validateVCTs_None:
  "validateVCTs i names vs = None \<longleftrightarrow>
     distinct (map vct_Name vs) \<and> [] \<notin> vct_Name ` set vs \<and> names \<inter> vct_Name ` set vs = {}"
  by (induction vs arbitrary: i names) auto

lemma validate_iff:
  "validateVolumeClaimTemplates vs = None \<longleftrightarrow> distinct (map vct_Name vs) \<and> [] \<notin> vct_Name ` set vs"
  by (simp add: validateVolumeClaimTemplates_def validateVCTs_None)

lemma claimMap_lookup:
  "distinct (map vct_Name vs) \<Longrightarrow>
     foldl (\<lambda>m v. m(vct_Name v \<mapsto> v)) m0 vs n = (case vctLookup n vs of Some v \<Rightarrow> Some v | None \<Rightarrow> m0 n)"
proof (induction vs arbitrary: m0)
  case (Cons v vs)
  have "vctLookup n vs = None" if "n = vct_Name v"
    using that Cons.prems by (simp add: find_None_iff) (metis image_eqI)
  with Cons show ?case by (auto split: option.splits)
qed simp

lemma overrideLoop_spec:
  assumes "overrideLoop m vs = (merged, rest)" "distinct (map vct_Name vs)"
    and "\<And>n v. m n = Some v \<Longrightarrow> vct_Name v = n"
  shows "merged = map (\<lambda>v. case m (vct_Name v) of Some o' \<Rightarrow> o' | None \<Rightarrow> v) vs"
    and "rest = (\<lambda>n. if n \<in> vct_Name ` set vs then None else m n)"
proof -
  have "merged = map (\<lambda>v. case m (vct_Name v) of Some o' \<Rightarrow> o' | None \<Rightarrow> v) vs \<and>
      rest = (\<lambda>n. if n \<in> vct_Name ` set vs then None else m n)"
    using assms
  proof (induction vs arbitrary: m merged rest)
    case (Cons v vs)
    have d: "distinct (map vct_Name vs)" "vct_Name v \<notin> vct_Name ` set vs" using Cons.prems(2) by auto
    show ?case
    proof (cases "m (vct_Name v)")
      case None
      obtain merged1 rest1 where r: "overrideLoop m vs = (merged1, rest1)" by (rule prod.exhaust)
      have "merged = v # merged1" "rest = rest1" using Cons.prems(1) None r by simp_all
      then show ?thesis using Cons.IH [OF r d(1) Cons.prems(3)] None by (intro conjI ext) simp_all
    next
      case (Some a)
      let ?m = "m(vct_Name v := None)"
      obtain merged1 rest1 where r: "overrideLoop ?m vs = (merged1, rest1)" by (rule prod.exhaust)
      have n': "\<And>n v. ?m n = Some v \<Longrightarrow> vct_Name v = n" by (auto split: if_splits dest: Cons.prems(3))
      have IH: "merged1 = map (\<lambda>v. case ?m (vct_Name v) of Some o' \<Rightarrow> o' | None \<Rightarrow> v) vs"
          "rest1 = (\<lambda>n. if n \<in> vct_Name ` set vs then None else ?m n)"
        using Cons.IH [OF r d(1) n'] by blast+
      have "?m (vct_Name u) = m (vct_Name u)" if "u \<in> set vs" for u
        using that d(2) imageI [OF that, of vct_Name] by (metis fun_upd_other)
      then have "merged1 = map (\<lambda>v. case m (vct_Name v) of Some o' \<Rightarrow> o' | None \<Rightarrow> v) vs"
        unfolding IH(1) by (intro map_cong refl) simp
      moreover have "merged = a # merged1" "rest = rest1" using Cons.prems(1) Some r by simp_all
      ultimately show ?thesis using IH(2) Some by (intro conjI ext) simp_all
    qed
  qed simp
  then show "merged = map (\<lambda>v. case m (vct_Name v) of Some o' \<Rightarrow> o' | None \<Rightarrow> v) vs"
    "rest = (\<lambda>n. if n \<in> vct_Name ` set vs then None else m n)" by blast+
qed

lemma find_map_name: "(\<And>v. vct_Name (g v) = vct_Name v) \<Longrightarrow> vctLookup n (map g vs) = map_option g (vctLookup n vs)"
  by (induction vs) auto

lemma vctLookup_name: "vctLookup n vs = Some v \<Longrightarrow> vct_Name v = n \<and> v \<in> set vs"
  by (auto simp: find_Some_iff)

lemma vctLookup_mem: "v \<in> set vs \<Longrightarrow> vctLookup (vct_Name v) vs \<noteq> None"
  by (auto simp: find_None_iff)

definition overridden :: "PersistentVolumeClaimTemplate list \<Rightarrow> PersistentVolumeClaimTemplate \<Rightarrow> PersistentVolumeClaimTemplate" where
  "overridden c v = (case vctLookup (vct_Name v) c of Some o' \<Rightarrow> o' | None \<Rightarrow> v)"

lemma overridden_name [simp]: "vct_Name (overridden c v) = vct_Name v"
proof (cases "vctLookup (vct_Name v) c")
  case (Some a)
  then have "vct_Name a = vct_Name v" using vctLookup_name [OF Some] by blast
  with Some show ?thesis by (simp add: overridden_def)
qed (simp add: overridden_def)

lemma merge_Overrides:
  assumes "distinct (map vct_Name t)" "distinct (map vct_Name c)"
    and "overrideLoop (foldl (\<lambda>m v. m(vct_Name v \<mapsto> v)) Map.empty c) t = (merged, rest)"
  shows "merged = map (overridden c) t"
    and "filter (\<lambda>v. rest (vct_Name v) \<noteq> None) c = filter (\<lambda>v. vct_Name v \<notin> vct_Name ` set t) c"
proof -
  have m: "foldl (\<lambda>m v. m(vct_Name v \<mapsto> v)) Map.empty c = (\<lambda>n. vctLookup n c)"
    by (rule ext) (simp add: claimMap_lookup [OF assms(2)] split: option.splits)
  have n: "\<And>n v. vctLookup n c = Some v \<Longrightarrow> vct_Name v = n" using vctLookup_name by blast
  note spec = overrideLoop_spec [OF assms(3) [unfolded m] assms(1) n]
  show "merged = map (overridden c) t" using spec(1) by (simp add: overridden_def)
  show "filter (\<lambda>v. rest (vct_Name v) \<noteq> None) c = filter (\<lambda>v. vct_Name v \<notin> vct_Name ` set t) c"
    using spec(2) vctLookup_mem [of _ c] by (intro filter_cong) auto
qed

text \<open>The three shapes of a successful merge.\<close>

lemma merge_cases:
  assumes "mergeVolumeClaimTemplates t c policy = Inr m"
  shows "validateVolumeClaimTemplates t = None \<and> validateVolumeClaimTemplates c = None \<and>
    (m = t @ c \<and> vct_Name ` set t \<inter> vct_Name ` set c = {} \<or>
     policy = ''Overrides'' \<and> m = map (overridden c) t @ filter (\<lambda>v. vct_Name v \<notin> vct_Name ` set t) c)"
proof (cases "c = []")
  case True
  with assms show ?thesis
    by (auto simp: mergeVolumeClaimTemplates_def validate_iff split: option.splits)
next
  case False
  with assms have v: "validateVolumeClaimTemplates t = None" "validateVolumeClaimTemplates c = None"
    by (auto simp: mergeVolumeClaimTemplates_def split: option.splits)
  obtain merged rest where o: "overrideLoop (foldl (\<lambda>m v. m(vct_Name v \<mapsto> v)) Map.empty c) t = (merged, rest)"
    by (rule prod.exhaust)
  have "policy = ''Overrides'' \<Longrightarrow> m = map (overridden c) t @ filter (\<lambda>v. vct_Name v \<notin> vct_Name ` set t) c"
    using assms False v o merge_Overrides [OF _ _ o] by (simp add: mergeVolumeClaimTemplates_def validate_iff)
  moreover have "policy = ''Allowed'' \<Longrightarrow> m = t @ c \<and> vct_Name ` set t \<inter> vct_Name ` set c = {}"
    using assms False v by (simp add: mergeVolumeClaimTemplates_def find_None_iff disjoint_iff split: option.splits) (metis imageE imageI)
  moreover have "policy = ''Overrides'' \<or> policy = ''Allowed''"
    using assms False v by (auto simp: mergeVolumeClaimTemplates_def split: if_splits)
  ultimately show ?thesis using v by blast
qed

text \<open>
  Volume claim templates merge by name.  When merging succeeds the result has distinct,
  non-empty names, and each name resolves to the claim's entry if the claim has one and to the
  template's otherwise; unless the policy is \<open>Overrides\<close> the template's entries all stand
  unchanged, followed by the claim's.
\<close>

theorem vct_merge_by_name:
  assumes "mergeVolumeClaimTemplates t c policy = Inr m"
  shows "distinct (map vct_Name m) \<and> [] \<notin> vct_Name ` set m \<and>
    (\<forall>n. vctLookup n m = (case vctLookup n c of Some v \<Rightarrow> Some v | None \<Rightarrow> vctLookup n t)) \<and>
    (policy \<noteq> ''Overrides'' \<longrightarrow> m = t @ c)"
proof -
  note v = merge_cases [OF assms, unfolded validate_iff]
  from v consider (append) "m = t @ c" "vct_Name ` set t \<inter> vct_Name ` set c = {}"
    | (override) "policy = ''Overrides''" "m = map (overridden c) t @ filter (\<lambda>v. vct_Name v \<notin> vct_Name ` set t) c" by blast
  then show ?thesis
  proof cases
    case append
    have "vctLookup n m = (case vctLookup n c of Some v \<Rightarrow> Some v | None \<Rightarrow> vctLookup n t)" for n
    proof (cases "vctLookup n t")
      case (Some a)
      then have "vctLookup n c = None" using append(2) vctLookup_name [OF Some] by (simp add: find_None_iff disjoint_iff) blast
      with Some append(1) show ?thesis by (simp add: find_append)
    qed (use append(1) in \<open>simp add: find_append split: option.splits\<close>)
    with v append show ?thesis by auto
  next
    case override
    let ?new = "filter (\<lambda>v. vct_Name v \<notin> vct_Name ` set t) c"
    have names: "map vct_Name m = map vct_Name t @ map vct_Name ?new" by (simp add: override(2))
    have new: "distinct (map vct_Name ?new)" using v by (simp add: distinct_map_filter)
    have "vct_Name x \<notin> set (map vct_Name t)" if "x \<in> set ?new" for x using that by simp
    then have disj: "set (map vct_Name t) \<inter> set (map vct_Name ?new) = {}"
      unfolding set_map [of vct_Name ?new] by (auto simp del: set_map set_filter)
    have "distinct (map vct_Name m)" unfolding names using v new disj by (simp only: distinct_append)
    moreover have "[] \<notin> set (map vct_Name m)" unfolding names using v by auto
    then have "[] \<notin> vct_Name ` set m" by simp
    moreover have "vctLookup n m = (case vctLookup n c of Some v \<Rightarrow> Some v | None \<Rightarrow> vctLookup n t)" for n
    proof (cases "vctLookup n t")
      case (Some a)
      have "vctLookup n (map (overridden c) t) = Some (overridden c a)" by (subst find_map_name) (simp_all add: Some)
      with override(2) Some vctLookup_name [OF Some] show ?thesis
        by (auto simp: find_append overridden_def split: option.splits)
    next
      case None
      then have "n \<notin> vct_Name ` set t" by (auto simp: find_None_iff)
      then have "vctLookup n ?new = vctLookup n c" by (induction c) auto
      moreover have "vctLookup n (map (overridden c) t) = None" by (subst find_map_name) (simp_all add: None)
      ultimately show ?thesis using override(2) None by (simp add: find_append split: option.splits)
    qed
    ultimately show ?thesis using override(1) by simp
  qed
qed

definition demoVCT :: "string \<Rightarrow> string \<Rightarrow> PersistentVolumeClaimTemplate" where
  "demoVCT name spec = \<lparr>vct_Name = name, vct_Labels = fmempty, vct_Annotations = fmempty, vct_Spec = spec\<rparr>"

theorem vct_merge_by_name_witness:
  "\<exists>m. mergeVolumeClaimTemplates [demoVCT ''data'' ''1Gi'', demoVCT ''logs'' ''1Gi''] [demoVCT ''data'' ''9Gi''] ''Overrides'' = Inr m \<and>
    vctLookup ''data'' m = Some (demoVCT ''data'' ''9Gi'') \<and> vctLookup ''logs'' m = Some (demoVCT ''logs'' ''1Gi'')"
proof -
  let ?t = "[demoVCT ''data'' ''1Gi'', demoVCT ''logs'' ''1Gi'']" and ?c = "[demoVCT ''data'' ''9Gi'']"
  obtain m where m: "mergeVolumeClaimTemplates ?t ?c ''Overrides'' = Inr m"
    by (simp add: mergeVolumeClaimTemplates_def validateVolumeClaimTemplates_def demoVCT_def)
  from vct_merge_by_name [OF this] m show ?thesis by (simp add: demoVCT_def)
qed

section \<open>Environment variables\<close>

lemma map_sum_eq_iff [simp]:
  "map_sum f g x = Inr y \<longleftrightarrow> (\<exists>z. x = Inr z \<and> y = g z)" "map_sum f g x = Inl e \<longleftrightarrow> (\<exists>z. x = Inl z \<and> e = f z)"
  by (cases x; auto)+

lemma envIndex_None: "envIndex n env = None \<longleftrightarrow> n \<notin> ev_Name ` set env"
  by (induction env) auto

lemma injectVars_append:
  "injectVars policy es env = Inr env' \<Longrightarrow> policy \<noteq> ''Overrides'' \<Longrightarrow>
     env' = env @ map claimEnv es \<and> ev_Name ` set env \<inter> ce_Name ` set es = {} \<and> distinct (map ce_Name es)"
proof (induction es arbitrary: env)
  case (Cons e es)
  then have i: "envIndex (ce_Name e) env = None" and r: "injectVars policy es (env @ [claimEnv e]) = Inr env'"
    by (auto split: option.splits)
  from Cons.IH [OF r Cons.prems(2)] i show ?case by (auto simp: envIndex_None claimEnv_def)
qed simp

text \<open>A container that only gained variables, under new names.\<close>

definition extends :: "Container \<Rightarrow> ClaimEnvVar list \<Rightarrow> Container \<Rightarrow> bool" where
  "extends c new c' \<longleftrightarrow> c' = c\<lparr>ct_Env := ct_Env c @ map claimEnv new\<rparr> \<and> ev_Name ` set (ct_Env c) \<inter> ce_Name ` set new = {} \<and>
     distinct (map ce_Name new) \<and> (new \<noteq> [] \<longrightarrow> ct_EnvFrom c = [])"

lemma injectEnvs_extends:
  "injectEnvs c envs ''Allowed'' = Inr c' \<Longrightarrow> extends c envs c'"
  by (auto simp: injectEnvs_def extends_def split: if_splits dest: injectVars_append)

lemma injectInto_extends:
  "injectInto ''Allowed'' byName extra cs = Inr cs' \<Longrightarrow>
     length cs' = length cs \<and> (\<forall>i < length cs. extends (cs ! i) (byName (ct_Name (cs ! i)) @ (if i = 0 then extra else [])) (cs' ! i))"
proof (induction cs arbitrary: extra cs')
  case (Cons c cs)
  let ?envs = "byName (ct_Name c) @ extra"
  obtain c1 cs1 where r: "(if ?envs = [] then Inr c else injectEnvs c ?envs ''Allowed'') = Inr c1"
      "injectInto ''Allowed'' byName [] cs = Inr cs1" "cs' = c1 # cs1"
    using Cons.prems by (auto simp: Let_def split: sum.splits if_splits)
  have c1: "extends c ?envs c1"
    using r(1) injectEnvs_extends [of c ?envs c1] by (auto simp: extends_def split: if_splits)
  from Cons.IH [OF r(2)] c1 r(3) show ?case by (auto simp: nth_Cons split: nat.splits)
qed simp

lemma injectInto_delivers:
  assumes "injectInto ''Allowed'' byName extra cs = Inr cs'" "c \<in> set cs" "e \<in> set (byName (ct_Name c))"
  shows "\<exists>c' \<in> set cs'. ct_Name c' = ct_Name c \<and> claimEnv e \<in> set (ct_Env c')"
proof -
  obtain i where i: "i < length cs" "c = cs ! i" using assms(2) by (auto simp: in_set_conv_nth)
  have "extends c (byName (ct_Name c) @ (if i = 0 then extra else [])) (cs' ! i)" "cs' ! i \<in> set cs'"
    using injectInto_extends [OF assms(1)] i by auto
  then show ?thesis using assms(3) by (intro bexI [of _ "cs' ! i"]) (auto simp: extends_def)
qed

definition podContainers :: "PodSpec \<Rightarrow> Container list" where
  "podContainers spec = ps_Containers spec @ ps_InitContainers spec"

text \<open>
  Under the policy \<open>Allowed\<close> a claim's variables only extend the template's containers.  When
  the injection succeeds, the Pod spec differs from the template's only in that each container
  keeps all its variables, in place, followed by new ones under fresh names, and no container
  that reads variables from other sources is touched; every variable of the claim reaches the
  container it names, and those that name none the first container.
\<close>

theorem env_injection_additive:
  assumes "injectPodEnvs ''Allowed'' envs spec = Inr spec'" "ps_Containers spec \<noteq> []"
  shows "length (ps_Containers spec') = length (ps_Containers spec) \<and> length (ps_InitContainers spec') = length (ps_InitContainers spec) \<and>
    spec' = spec\<lparr>ps_Containers := ps_Containers spec', ps_InitContainers := ps_InitContainers spec'\<rparr> \<and>
    (\<forall>i < length (podContainers spec). \<exists>new. extends (podContainers spec ! i) new (podContainers spec' ! i)) \<and>
    (\<forall>e \<in> set envs. if ce_ContainerName e = [] then claimEnv e \<in> set (ct_Env (hd (ps_Containers spec')))
       else \<exists>c \<in> set (podContainers spec'). ct_Name c = ce_ContainerName e \<and> claimEnv e \<in> set (ct_Env c))"
proof (cases "envs = []")
  case True
  with assms have "spec' = spec" by (simp add: injectPodEnvs_def)
  have "extends c [] c" for c by (simp add: extends_def)
  with True \<open>spec' = spec\<close> show ?thesis by auto
next
  case False
  let ?by = "envsByContainer envs" and ?C = "ps_Containers spec" and ?I = "ps_InitContainers spec"
  from assms False obtain inits mains where r: "missingTarget spec envs = None" "injectInto ''Allowed'' ?by [] ?I = Inr inits"
      "injectInto ''Allowed'' ?by (defaultEnvs envs) ?C = Inr mains" "spec' = spec\<lparr>ps_InitContainers := inits, ps_Containers := mains\<rparr>"
    by (auto simp: injectPodEnvs_def split: option.splits sum.splits)
  note I = injectInto_extends [OF r(2)] and C = injectInto_extends [OF r(3)]
  have spec': "ps_Containers spec' = mains" "ps_InitContainers spec' = inits" using r(4) by simp_all
  have "\<exists>new. extends (podContainers spec ! i) new (podContainers spec' ! i)" if "i < length (podContainers spec)" for i
  proof (cases "i < length ?C")
    case True
    with C show ?thesis by (auto simp: podContainers_def spec' nth_append)
  next
    case False
    then have "i - length ?C < length ?I" using that by (auto simp: podContainers_def)
    with I C False show ?thesis by (auto simp: podContainers_def spec' nth_append)
  qed
  moreover have "claimEnv e \<in> set (ct_Env (hd mains))" if "e \<in> set envs" "ce_ContainerName e = []" for e
  proof -
    have "extends (?C ! 0) (?by (ct_Name (?C ! 0)) @ defaultEnvs envs) (mains ! 0)" using C assms(2) by auto
    moreover have "hd mains = mains ! 0" using C assms(2) by (metis hd_conv_nth length_0_conv)
    ultimately show ?thesis using that by (auto simp: extends_def defaultEnvs_def)
  qed
  moreover have "\<exists>c \<in> set (podContainers spec'). ct_Name c = ce_ContainerName e \<and> claimEnv e \<in> set (ct_Env c)"
    if e: "e \<in> set envs" "ce_ContainerName e \<noteq> []" for e
  proof -
    have by_e: "e \<in> set (?by (ce_ContainerName e))" using e by (simp add: envsByContainer_def)
    have "ce_ContainerName e \<in> ct_Name ` set (?I @ ?C)"
      using r(1) e unfolding missingTarget_def find_None_iff by blast
    then obtain c where c: "ce_ContainerName e = ct_Name c" and "c \<in> set (?I @ ?C)" by (rule imageE)
    then have "c \<in> set ?I \<or> c \<in> set ?C" by simp
    then show ?thesis
      using injectInto_delivers [OF r(2), of c e] injectInto_delivers [OF r(3), of c e] by_e [unfolded c]
      unfolding podContainers_def spec' c set_append by blast
  qed
  ultimately show ?thesis using I C r(4) spec' by auto
qed

definition demoContainer :: Container where
  "demoContainer = \<lparr>ct_Name = ''main'', ct_Image = ''img'', ct_Env = [\<lparr>ev_Name = ''A'', ev_Value = ''1'', ev_ValueFrom = None\<rparr>],
     ct_EnvFrom = [], ct_Requests = fmempty, ct_Limits = fmempty, ct_Rest = []\<rparr>"

definition demoEnvVar :: ClaimEnvVar where
  "demoEnvVar = \<lparr>ce_Name = ''B'', ce_Value = ''2'', ce_ContainerName = []\<rparr>"

theorem env_injection_additive_witness:
  "\<exists>spec'. injectPodEnvs ''Allowed'' [demoEnvVar] (emptyPodSpec\<lparr>ps_Containers := [demoContainer]\<rparr>) = Inr spec' \<and>
     claimEnv demoEnvVar \<in> set (ct_Env (hd (ps_Containers spec')))"
proof -
  let ?spec = "emptyPodSpec\<lparr>ps_Containers := [demoContainer]\<rparr>"
  obtain spec' where r: "injectPodEnvs ''Allowed'' [demoEnvVar] ?spec = Inr spec'"
    by (simp add: injectPodEnvs_def missingTarget_def emptyPodSpec_def demoEnvVar_def envsByContainer_def defaultEnvs_def
        injectEnvs_def demoContainer_def)
  from env_injection_additive [OF r] r show ?thesis by (simp add: demoEnvVar_def)
qed

section \<open>Suppressed errors\<close>

text \<open>
  The override rules fail the reconcile instead of being suppressed.  Configuration errors of
  a claim are meant to be suppressed, since no retry can cure them; a claim whose metadata is
  valid but contradicts the template, one that overrides a variable the template defines, and
  one whose variable names a container that is missing yield errors that are not.
\<close>

theorem override_errors_not_suppressed:
  assumes "validateAdditionalPodMetadata v allowed c = None"
  shows "(\<forall>t err. mergePodMetadata v allowed t c = Inl err \<longrightarrow> \<not> shouldSuppressError err) \<and>
    (\<forall>policy es env err. injectVars policy es env = Inl err \<longrightarrow> \<not> shouldSuppressError err) \<and>
    (\<forall>policy es spec err. missingTarget spec es \<noteq> None \<and> injectPodEnvs policy es spec = Inl err \<and>
       policy \<in> {''Allowed'', ''Overrides''} \<longrightarrow> \<not> shouldSuppressError err)"
proof -
  have plain: "\<not> shouldSuppressError (Plain e)" for e by (simp add: shouldSuppressError_def suppressErrors_def)
  have "injectVars policy es env = Inl err \<Longrightarrow> \<exists>e. err = Plain e" for policy es env err
    by (induction es arbitrary: env) (auto split: option.splits if_splits)
  then show ?thesis using assms plain
    by (auto simp: mergePodMetadata_def injectPodEnvs_def missingTarget_def split: option.splits if_splits) metis+
qed

theorem override_errors_not_suppressed_witness:
  "(\<exists>err. mergePodMetadata laxValidation [] \<lparr>pm_Labels = fmupd ''sandbox.users.io/team'' ''y'' fmempty, pm_Annotations = fmempty\<rparr> demoClaimMeta = Inl err \<and>
     \<not> shouldSuppressError err) \<and> shouldSuppressError (Both ErrInvalidMetadata (Plain []))"
proof -
  have v: "validateAdditionalPodMetadata laxValidation [] demoClaimMeta = None"
    using mergePodMetadata_Inr(1) [OF demo_merge] .
  obtain err where m: "mergePodMetadata laxValidation [] \<lparr>pm_Labels = fmupd ''sandbox.users.io/team'' ''y'' fmempty, pm_Annotations = fmempty\<rparr> demoClaimMeta = Inl err"
    by (simp add: mergePodMetadata_def v demoClaimMeta_eq firstError_single overrideConflict_def)
  with override_errors_not_suppressed [OF v] show ?thesis
    by (simp add: shouldSuppressError_def suppressErrors_def)
qed

end
