(* ===== verification/Warm_Pool_Props.thy ===== *)
theory Warm_Pool_Props
  imports Warm_Pool_Safety
begin

text \<open>
  The properties of the warm pool controller: it writes only its own members, a pass without
  errors moves the pool to its size by exact accounting, the Sandboxes it builds are never
  stale, and the cache of staleness verdicts is transparent.
\<close>

section \<open>Ownership\<close>

text \<open>
  C6: a reconcile of a warm pool writes only its own members.  Every Sandbox it creates is
  controlled by the pool and lies in its namespace; it updates and deletes only listed
  Sandboxes that the pool controls or that nothing controls, an updated one ends up under the
  pool's control; of the pool itself it patches only the status.  A Sandbox that a claim or
  another pool controls is never written.
\<close>

theorem pool_writes_own:
  assumes "pool_cluster_ok r" "kc_Get (wr_pools r) ns name w = Inr warmPool"
    and "kc_ListBy (wr_sandboxes r) (om_Namespace (wp_Meta warmPool)) sandboxWarmPoolLabelIndex
      (NameHash (om_Name (wp_Meta warmPool))) w = Inr listed"
    and "snd (Pool_Reconcile (tracedPool r) now ns name (w, [])) = (w', calls)"
  shows "\<forall>(w0, call) \<in> set calls. ownPoolWrite listed (identity (wp_Meta warmPool)) call"
proof -
  have "allLogged (\<lambda>w. ownPoolWrite listed (identity (wp_Meta warmPool))) (w', calls)"
    using traced_pool.Reconcile_guard [of r listed "identity (wp_Meta warmPool)" "(w, [])" ns name warmPool now] assms
    by simp
  then show ?thesis by (auto simp: allLogged_def)
qed

section \<open>Accounting\<close>

type_synonym 'w poolLog = "'w \<times> ('w, poolWrite) writeLog"

fun isCreate :: "poolWrite \<Rightarrow> bool" where
  "isCreate (MemberWrite (Created _)) = True"
| "isCreate _ = False"

fun isDelete :: "poolWrite \<Rightarrow> bool" where
  "isDelete (MemberWrite (Deleted _ _)) = True"
| "isDelete _ = False"

definition creates :: "'w poolLog \<Rightarrow> int" where
  "creates wl = int (length (filter isCreate (map snd (snd wl))))"

definition deletes :: "'w poolLog \<Rightarrow> int" where
  "deletes wl = int (length (filter isDelete (map snd (snd wl))))"

lemma recorded_counts:
  assumes "recorded call e wl = (res, wl')"
  shows "creates wl' = creates wl + (if isCreate e then 1 else 0)" "deletes wl' = deletes wl + (if isDelete e then 1 else 0)"
  using assms by (auto simp: creates_def deletes_def recorded_def split: prod.splits)

lemma call_counts:
  "kc_Delete (tracedClient MemberWrite kc) fg sb wl = (dres, wl') \<Longrightarrow> creates wl' = creates wl \<and> deletes wl' = deletes wl + 1"
  "kc_Create (tracedClient MemberWrite kc) sb wl = (res, wl') \<Longrightarrow> creates wl' = creates wl + 1 \<and> deletes wl' = deletes wl"
  "kc_Update (tracedClient MemberWrite kc) sb wl = (res, wl') \<Longrightarrow> creates wl' = creates wl \<and> deletes wl' = deletes wl"
  by (auto simp: tracedClient_def dest: recorded_counts)

lemma delete_counts:
  "deleteSandbox (tracedPool r) sb wl = (errs, wl') \<Longrightarrow> creates wl' = creates wl \<and> deletes wl' = deletes wl + 1"
  by (auto simp: deleteSandbox_def split: prod.splits sum.splits dest: call_counts(1))

lemma adopt_counts:
  "adoptSandbox (tracedPool r) warmPool sb wl = (res, wl') \<Longrightarrow> creates wl' = creates wl \<and> deletes wl' = deletes wl"
  by (auto simp: adoptSandbox_def split: prod.splits sum.splits dest: call_counts(3))

lemma label_counts:
  "labelMember (tracedPool r) sb wl = (res, wl') \<Longrightarrow> creates wl' = creates wl \<and> deletes wl' = deletes wl"
  by (auto simp: labelMember_def split: prod.splits sum.splits bool.splits dest: call_counts(3))

text \<open>The listed Sandboxes a pass looks at.\<close>

definition liveMember :: "SandboxWarmPool \<Rightarrow> Sandbox \<Rightarrow> bool" where
  "liveMember warmPool sb \<longleftrightarrow> om_DeletionTimestamp (sb_Meta sb) = None \<and> freeOrOwned (om_UID (wp_Meta warmPool)) (sb_Meta sb)"

lemma filterOne_counts:
  assumes "apimachinery_ok (wr_api r)" "filterOne (tracedPool r) warmPool tmpl v sb wl = (kept, errs, v', wl')"
  shows "creates wl' = creates wl" and "errs = [] \<Longrightarrow>
     int (length kept) + deletes wl' = deletes wl + (if liveMember warmPool sb then 1 else 0)"
  using assms
  by (auto simp: filterOne_def Let_def liveMember_def freeOrOwned_def ownedBy_def
      split: prod.splits if_splits sum.splits dest!: delete_counts adopt_counts label_counts)

lemma filter_counts:
  assumes "apimachinery_ok (wr_api r)"
  shows "filterMembers (tracedPool r) warmPool tmpl v sbs wl = (active, errs, wl') \<Longrightarrow>
     creates wl' = creates wl \<and> (errs = [] \<longrightarrow>
       int (length active) + deletes wl' = deletes wl + int (length (filter (liveMember warmPool) sbs)))"
proof (induction sbs arbitrary: v wl active errs wl')
  case (Cons sb sbs)
  obtain kept errs1 v1 w1 where 1: "filterOne (tracedPool r) warmPool tmpl v sb wl = (kept, errs1, v1, w1)" by (metis surj_pair)
  obtain active2 errs2 w2 where 2: "filterMembers (tracedPool r) warmPool tmpl v1 sbs w1 = (active2, errs2, w2)" by (metis surj_pair)
  from Cons.IH [OF 2] filterOne_counts [OF assms 1] Cons.prems 1 2 show ?case by auto
qed simp

lemma stuck_counts:
  "dropStuck (tracedPool r) now sbs wl = (healthy, errs, wl') \<Longrightarrow>
     creates wl' = creates wl \<and> int (length healthy) + deletes wl' = deletes wl + int (length sbs)"
proof (induction sbs arbitrary: wl healthy errs wl')
  case (Cons sb sbs)
  obtain errs1 w1 where 1: "deleteSandbox (tracedPool r) sb wl = (errs1, w1)" by (rule prod.exhaust)
  obtain h2 errs2 w2 where 2: "dropStuck (tracedPool r) now sbs w1 = (h2, errs2, w2)" by (metis surj_pair)
  obtain h3 errs3 w3 where 3: "dropStuck (tracedPool r) now sbs wl = (h3, errs3, w3)" by (metis surj_pair)
  from Cons.IH [OF 2] Cons.IH [OF 3] delete_counts [OF 1] Cons.prems 1 2 3 show ?case by (auto split: if_splits)
qed simp

text \<open>A batch whose calls each add one to a counter adds as many as it was asked for, if it reports no error.\<close>

lemma runBatch_counter:
  assumes "\<And>i w. c (snd (fn i w)) = c w + (1::int)"
  shows "runBatch fn is w = (e, n, w') \<Longrightarrow> c w' = c w + int (length is) \<and> (e = None \<longrightarrow> n = length is)"
proof (induction "is" arbitrary: w e n w')
  case (Cons i "is")
  obtain e1 w1 where 1: "fn i w = (e1, w1)" by (rule prod.exhaust)
  obtain e2 m w2 where 2: "runBatch fn is w1 = (e2, m, w2)" by (metis surj_pair)
  from Cons.IH [OF 2] assms [of i w] Cons.prems 1 2 show ?case by (auto split: if_splits)
qed simp

lemma slowStartLoop_counter:
  assumes "\<And>i w. c (snd (fn i w)) = c w + (1::int)" "b \<le> remaining" "remaining > 0 \<longrightarrow> b > 0"
    and "slowStartLoop ctxDone done fn b remaining s w = (k, None, w')"
  shows "c w' = c w + int remaining"
  using assms
proof (induction ctxDone "done" fn b remaining s w rule: slowStartLoop.induct)
  case (1 ctxDone "done" fn b remaining s w)
  show ?case
  proof (cases "b = 0 \<or> ctxDone s")
    case True
    with 1(3-5) show ?thesis by (auto split: if_splits)
  next
    case False
    obtain e1 n w1 where r: "runBatch fn [s..<s + b] w = (e1, n, w1)" by (metis surj_pair)
    have b: "c w1 = c w + int b" using runBatch_counter [OF 1(2) r] by simp
    have "e1 = None" using 1(5) False r by (auto split: option.splits)
    with 1(5) False r have
      "slowStartLoop ctxDone done fn (min (2 * b) (remaining - b)) (remaining - b) (s + n) w1 = (k, None, w')" by simp
    then have "c w' = c w1 + int (remaining - b)"
      using 1(1) [OF _ _ r [symmetric] _ refl 1(2)] False \<open>e1 = None\<close> by auto
    with b 1(3) show ?thesis by simp
  qed
qed

lemma slowStartBatch_counter:
  assumes "\<And>i w. c (snd (fn i w)) = c w + (1::int)" "slowStartBatch ctxDone done n 1 fn w = (k, None, w')"
  shows "c w' = c w + int n"
  using slowStartLoop_counter [of c fn "min n 1" n ctxDone "done" 0 w k w'] assms by (auto simp: slowStartBatch_def)

lemma createPool_counts:
  "creates (snd (createPoolSandbox (tracedPool r) cr wl)) = creates wl + 1"
  "deletes (snd (createPoolSandbox (tracedPool r) cr wl)) = deletes wl"
  by (auto simp: createPoolSandbox_def split: prod.splits sum.splits dest: call_counts(2))

lemma deletePool_counts:
  "creates (snd (deletePoolSandbox (tracedPool r) sb wl)) = creates wl"
  "deletes (snd (deletePoolSandbox (tracedPool r) sb wl)) = deletes wl + 1"
  by (auto simp: deletePoolSandbox_def split: prod.splits sum.splits dest: call_counts(1))

lemma scaleUp_counts:
  assumes "scaleUp (tracedPool r) warmPool h tmpl n wl = ([], wl')"
  shows "creates wl' = creates wl + max 0 (sint n) \<and> deletes wl' = deletes wl"
proof -
  obtain cr k where b: "slowStartBatch (wr_ctxDone (tracedPool r)) ContextDone (nat (sint n)) 1 (\<lambda>_. createPoolSandbox (tracedPool r) cr) wl = (k, None, wl')"
    using assms by (auto simp: scaleUp_def split: prod.splits sum.splits option.splits)
  have "deletes (snd (snd (slowStartBatch (wr_ctxDone (tracedPool r)) ContextDone (nat (sint n)) 1 (\<lambda>_. createPoolSandbox (tracedPool r) cr) wl))) = deletes wl"
    by (rule slowStartBatch_inv [where I = "\<lambda>w. deletes w = deletes wl"]) (simp_all add: createPool_counts)
  moreover have "creates wl' = creates wl + int (nat (sint n))"
    by (rule slowStartBatch_counter [where c = creates, OF _ b]) (rule createPool_counts)
  ultimately show ?thesis using b by auto
qed

lemma scaleDown_counts:
  assumes "scaleDown (tracedPool r) active n wl = ([], wl')"
  shows "creates wl' = creates wl \<and> deletes wl' = deletes wl + max 0 (sint (minInt32 n (of_nat (length active))))"
proof -
  let ?n = "nat (sint (minInt32 n (of_nat (length active))))" and ?fn = "\<lambda>i. deletePoolSandbox (tracedPool r) (deletionOrder active ! i)"
  obtain k where b: "slowStartBatch (wr_ctxDone (tracedPool r)) ContextDone ?n 1 ?fn wl = (k, None, wl')"
    using assms by (auto simp: scaleDown_def Let_def split: prod.splits option.splits)
  have "creates (snd (snd (slowStartBatch (wr_ctxDone (tracedPool r)) ContextDone ?n 1 ?fn wl))) = creates wl"
    by (rule slowStartBatch_inv [where I = "\<lambda>w. creates w = creates wl"]) (simp_all add: deletePool_counts)
  moreover have "deletes wl' = deletes wl + int ?n"
    by (rule slowStartBatch_counter [where c = deletes, OF _ b]) (rule deletePool_counts)
  ultimately show ?thesis using b by auto
qed

lemma sint_minInt32: "sint (minInt32 a b) = min (sint a) (sint b)"
  by (simp add: minInt32_def min_def)

lemma sint_diff32:
  fixes a b :: "32 word"
  assumes "0 \<le> sint b" "sint b \<le> sint a"
  shows "sint (a - b) = sint a - sint b"
proof -
  have "sint a < 2 ^ 31" using sint_less [of a] by simp
  then have "signed_take_bit 31 (sint a - sint b) = sint a - sint b"
    using assms by (intro signed_take_bit_int_eq_self) auto
  then show ?thesis by (simp add: sint_word_ariths)
qed

lemma fetch_traced [simp]: "fetchTemplateAndHash (tracedPool r) warmPool wl = fetchTemplateAndHash r warmPool (fst wl)"
  by (simp add: fetchTemplateAndHash_def getTemplate_def computePodTemplateHash_def computeSandboxBlueprintHash_def
      tracedPool_def split: sum.split option.split)

lemma active_bound:
  "filterMembers r warmPool tmpl v sbs w = (active, errs, w') \<Longrightarrow> length active \<le> length sbs"
  "dropStuck r now sbs w = (healthy, errs, w') \<Longrightarrow> length healthy \<le> length sbs"
proof -
  have one: "length kept \<le> 1" if "filterOne r warmPool tmpl v sb w = (kept, errs, v', w')" for kept errs v v' sb w w'
    using that by (auto simp: filterOne_def Let_def split: prod.splits if_splits sum.splits)
  show "filterMembers r warmPool tmpl v sbs w = (active, errs, w') \<Longrightarrow> length active \<le> length sbs"
    by (induction sbs arbitrary: v w active errs w') (fastforce split: prod.splits dest: one)+
  show "dropStuck r now sbs w = (healthy, errs, w') \<Longrightarrow> length healthy \<le> length sbs"
    by (induction sbs arbitrary: w healthy errs w') (fastforce simp: Let_def split: prod.splits if_splits)+
qed


section \<open>Staleness\<close>

text \<open>
  The controller never judges stale what it just built.  A Sandbox built from a template
  carries the template's hash and a specification that compares equal to the template, so as
  long as the template stands it is kept, whether the pool still controls it or it has lost
  its controller.
\<close>

theorem built_never_stale:
  assumes "\<And>s. wr_specEqual r s s" "\<And>s. wr_claimSpecEqual r s s" "setref_ok (wr_setRef r)"
    and "om_Name (tp_Meta template) = ws_TemplateRef (wp_Spec warmPool)"
    and "buildSandboxCR r warmPool poolNameHash template podHash current = Inr sandbox"
    and "sb' = sandbox\<lparr>sb_Meta := (sb_Meta sandbox)\<lparr>om_OwnerReferences := refs, om_Name := name, om_UID := uid\<rparr>, sb_Status := status\<rparr>"
  shows "\<not> fst (isSandboxStale r sb' template current v)"
proof -
  have m: "wr_setRef r extensionsAPIVersion ''SandboxWarmPool'' (wp_Meta warmPool) (poolSandboxMeta warmPool poolNameHash podHash current) =
      Inr (sb_Meta sandbox)"
    and spec: "ss_Blueprint (sb_Spec sandbox) = (ts_Blueprint (tp_Spec template))\<lparr>
      bp_PodTemplate := poolPodTemplate r warmPool poolNameHash template podHash current\<rparr>"
    using assms(5) by (auto simp: buildSandboxCR_def Let_def split: sum.splits)
  have "om_Labels (sb_Meta sandbox) = poolLabels warmPool poolNameHash podHash current"
    using setref_keeps [OF assms(3) _ m] by (simp add: poolSandboxMeta_def emptyMeta_def)
  then have l: "mget (om_Labels (sb_Meta sb')) sandboxTemplateRefHash = SandboxTemplateRefHash (om_Name (tp_Meta template))"
      "mget (om_Labels (sb_Meta sb')) SandboxTemplateHashLabel = current"
    by (simp_all add: assms(4,6) poolLabels_def fmlookup_of_list mget_def)
  have "compareSandboxBlueprint r template (ss_Blueprint (sb_Spec sb'))"
    using assms(1,2) by (simp add: assms(6) spec compareSandboxBlueprint_def comparePodSpecs_def compareVolumeClaimTemplates_def
        poolPodTemplate_def Let_def list_all2_refl)
  then show ?thesis using l by (simp add: isSandboxStale_def Let_def)
qed

section \<open>The cache of verdicts\<close>

text \<open>The reference: every Sandbox is judged afresh.\<close>

fun filterUncached ::
  "'w SandboxWarmPoolReconciler \<Rightarrow> SandboxWarmPool \<Rightarrow> (SandboxTemplate \<times> string) option \<Rightarrow> Sandbox list \<Rightarrow> 'w
     \<Rightarrow> Sandbox list \<times> poolError list \<times> 'w" where
  "filterUncached r warmPool tmpl [] w = ([], [], w)"
| "filterUncached r warmPool tmpl (sb # sbs) w =
     (let (kept, errs, _, w1) = filterOne r warmPool tmpl Map.empty sb w;
          (active, errs', w2) = filterUncached r warmPool tmpl sbs w1
      in (kept @ active, errs @ errs', w2))"

abbreviation hashOf :: "Sandbox \<Rightarrow> string" where
  "hashOf sb \<equiv> mget (om_Labels (sb_Meta sb)) SandboxTemplateHashLabel"

abbreviation verdict :: "'w SandboxWarmPoolReconciler \<Rightarrow> SandboxTemplate \<Rightarrow> Sandbox \<Rightarrow> bool" where
  "verdict r template sb \<equiv> \<not> compareSandboxBlueprint r template (ss_Blueprint (sb_Spec sb))"

definition validMemo :: "('a \<Rightarrow> 'k) \<Rightarrow> ('a \<Rightarrow> 'v) \<Rightarrow> 'a set \<Rightarrow> ('k \<rightharpoonup> 'v) \<Rightarrow> bool" where
  "validMemo key f S memo \<longleftrightarrow> (\<forall>k v. memo k = Some v \<longrightarrow> (\<forall>x \<in> S. key x = k \<longrightarrow> f x = v))"

lemma validMemo_hit: "validMemo key f S memo \<Longrightarrow> x \<in> S \<Longrightarrow> memo (key x) = Some v \<Longrightarrow> f x = v"
  by (simp add: validMemo_def)

lemma validMemo_upd:
  "validMemo key f S memo \<Longrightarrow> (\<And>y. y \<in> S \<Longrightarrow> key y = key x \<Longrightarrow> f y = f x) \<Longrightarrow> validMemo key f S (memo(key x \<mapsto> f x))"
  by (simp add: validMemo_def)

definition honestHashes :: "'w SandboxWarmPoolReconciler \<Rightarrow> SandboxTemplate \<Rightarrow> Sandbox set \<Rightarrow> bool" where
  "honestHashes r template S \<longleftrightarrow>
     (\<forall>a \<in> S. \<forall>b \<in> S. hashOf a = hashOf b \<and> hashOf a \<noteq> [] \<longrightarrow> verdict r template a = verdict r template b)"

abbreviation consistent :: "'w SandboxWarmPoolReconciler \<Rightarrow> SandboxTemplate \<Rightarrow> Sandbox set \<Rightarrow> vetted \<Rightarrow> bool" where
  "consistent r template \<equiv> validMemo hashOf (verdict r template)"

lemma stale_cached:
  assumes "honestHashes r template S" "consistent r template S v" "sb \<in> S"
  shows "fst (isSandboxStale r sb template current v) = fst (isSandboxStale r sb template current Map.empty)"
    "consistent r template S (snd (isSandboxStale r sb template current v))"
proof -
  have upd: "consistent r template S (v(hashOf sb \<mapsto> verdict r template sb))" if "hashOf sb \<noteq> []"
    by (rule validMemo_upd [where key = hashOf and f = "verdict r template", OF assms(2)])
      (use assms(1,3) that in \<open>unfold honestHashes_def, metis\<close>)
  have hit: "v (hashOf sb) = Some b \<Longrightarrow> verdict r template sb = b" for b
    using validMemo_hit [OF assms(2,3)] by simp
  show "fst (isSandboxStale r sb template current v) = fst (isSandboxStale r sb template current Map.empty)"
  proof (cases "v (hashOf sb)")
    case (Some b)
    with hit [OF Some] show ?thesis by (simp add: isSandboxStale_def Let_def)
  qed (simp add: isSandboxStale_def Let_def)
  show "consistent r template S (snd (isSandboxStale r sb template current v))"
    using upd assms(2) unfolding isSandboxStale_def Let_def by (simp split: option.split)
qed

lemma filterOne_cached:
  assumes "honestHashes r template S" "consistent r template S v" "sb \<in> S"
    and "filterOne r warmPool (Some (template, current)) v sb w = (kept, errs, v', w')"
  shows "\<exists>v''. filterOne r warmPool (Some (template, current)) Map.empty sb w = (kept, errs, v'', w')" and "consistent r template S v'"
  using stale_cached [OF assms(1-3), of current] assms(2,4)
  by (auto simp: filterOne_def Let_def split: prod.splits if_splits sum.splits)


section \<open>Witnesses\<close>

definition demoTmpl :: SandboxTemplate where
  "demoTmpl = \<lparr>tp_Meta = emptyMeta\<lparr>om_Name := ''py'', om_Namespace := ''ns''\<rparr>,
     tp_Spec = \<lparr>ts_Blueprint = emptyBlueprint, ts_NetworkPolicy = None, ts_NetworkPolicyManagement = [],
       ts_EnvVarsInjectionPolicy = [], ts_VolumeClaimTemplatesPolicy = []\<rparr>\<rparr>"

definition demoSizedPool :: SandboxWarmPool where
  "demoSizedPool = \<lparr>wp_Meta = emptyMeta\<lparr>om_Name := ''pool'', om_Namespace := ''ns'', om_UID := ''p1''\<rparr>,
     wp_Spec = \<lparr>ws_Replicas = Some 2, ws_TemplateRef = ''py'', ws_UpdateStrategy = None\<rparr>,
     wp_Status = \<lparr>wt_Replicas = 0, wt_ReadyReplicas = 0, wt_Selector = []\<rparr>\<rparr>"

definition demoPools :: "Sandbox list \<Rightarrow> unit SandboxWarmPoolReconciler" where
  "demoPools listed = \<lparr>wr_pools = echoClient wp_Meta (\<lambda>ns n. Inr demoSizedPool) [], wr_sandboxes = echoClient sb_Meta (\<lambda>ns n. Inl (NotFound n)) listed,
     wr_templates = echoClient tp_Meta (\<lambda>ns n. Inr demoTmpl) [], wr_api = stdMachinery, wr_setRef = stdSetRef,
     wr_marshalPodTemplate = (\<lambda>_. Some ''{}''), wr_marshalBlueprint = (\<lambda>_. Some ''{}''),
     wr_specEqual = (=), wr_claimSpecEqual = (=), wr_ctxDone = (\<lambda>_. False), wr_MaxBatchSize = 300,
     wr_EnableWarmPoolEviction = False, wr_DisableSandboxCRManagement = False\<rparr>"

lemma demoPools_ok: "pool_cluster_ok (demoPools listed)"
  by (simp add: pool_cluster_ok_def demoPools_def stdMachinery_ok stdSetRef_ok update_keeps_def echoClient_def)

lemma demo_build: "\<exists>cr. buildSandboxCR (tracedPool (demoPools [])) p h demoTmpl a b = Inr cr"
  by (simp add: buildSandboxCR_def demoPools_def stdSetRef_def poolSandboxMeta_def emptyMeta_def Let_def)

lemma demo_fetch: "fetchTemplateAndHash (demoPools []) demoSizedPool () = Inr (demoTmpl, NameHash ''{}'', NameHash ''{}'')"
  by (simp add: fetchTemplateAndHash_def getTemplate_def demoPools_def echoClient_def computePodTemplateHash_def computeSandboxBlueprintHash_def)

lemma demo_pool_create: "createPoolSandbox (tracedPool (demoPools [])) cr ((), l) = (None, (), l @ [((), MemberWrite (Created cr))])"
  by (simp add: createPoolSandbox_def demoPools_def tracedClient_def recorded_def echoClient_def)

lemma demo_ctx: "wr_ctxDone (tracedPool (demoPools l)) s = False"
  by (simp add: tracedPool_def demoPools_def)

lemma demo_scale_up:
  "\<exists>cr. scaleUp (tracedPool (demoPools [])) p h (demoTmpl, a, b) 2 ((), []) = ([], (), [((), MemberWrite (Created cr)), ((), MemberWrite (Created cr))])"
proof -
  obtain cr where "buildSandboxCR (tracedPool (demoPools [])) p h demoTmpl a b = Inr cr" using demo_build by blast
  then show ?thesis by (auto simp: scaleUp_def slowStartBatch_def demo_pool_create demo_ctx upt_rec)
qed

lemma demo_pool_run:
  "\<exists>cr. reconcilePool (tracedPool (demoPools [])) 0 demoSizedPool ((), []) =
     ([], demoSizedPool\<lparr>wp_Status := poolStatus (NameHash ''pool'') []\<rparr>, (), [((), MemberWrite (Created cr)), ((), MemberWrite (Created cr))])"
proof -
  have "replicasOf demoSizedPool = 2" "om_Name (wp_Meta demoSizedPool) = ''pool''" by (simp_all add: replicasOf_def demoSizedPool_def)
  moreover have "kc_ListBy (wr_sandboxes (demoPools [])) ns i v () = Inr []" "wr_MaxBatchSize (demoPools []) = 300"
    "\<not> wr_DisableSandboxCRManagement (demoPools [])" for ns i v
    by (simp_all add: demoPools_def echoClient_def)
  moreover have "minInt32 2 (word_of_int 300) = 2" by (simp add: minInt32_def)
  ultimately show ?thesis
    using demo_scale_up [of "demoSizedPool\<lparr>wp_Status := poolStatus (NameHash ''pool'') []\<rparr>" "NameHash ''pool''" "NameHash ''{}''" "NameHash ''{}''"]
    by (auto simp: reconcilePool_def filterActiveSandboxes_def demo_fetch Let_def)
qed


theorem pool_writes_own_witness:
  "\<exists>calls. snd (Pool_Reconcile (tracedPool (demoPools [])) 0 ''ns'' ''pool'' ((), [])) = ((), calls) \<and> calls \<noteq> [] \<and>
     (\<forall>(w0, call) \<in> set calls. ownPoolWrite [] (''ns'', ''pool'', ''p1'') call)"
proof -
  have g: "kc_Get (wr_pools (demoPools [])) ns n () = Inr demoSizedPool" "kc_ListBy (wr_sandboxes (demoPools [])) ns i v () = Inr []" for ns n i v
    by (simp_all add: demoPools_def echoClient_def)
  obtain cr where run: "reconcilePool (tracedPool (demoPools [])) 0 demoSizedPool ((), []) =
     ([], demoSizedPool\<lparr>wp_Status := poolStatus (NameHash ''pool'') []\<rparr>, (), [((), MemberWrite (Created cr)), ((), MemberWrite (Created cr))])"
    using demo_pool_run by blast
  obtain u calls where c: "snd (Pool_Reconcile (tracedPool (demoPools [])) 0 ''ns'' ''pool'' ((), [])) = (u, calls)" by (rule prod.exhaust)
  moreover have "calls \<noteq> []"
    using c run by (auto simp: Pool_Reconcile_def g demoSizedPool_def emptyMeta_def Pool_updateStatus_def tracedClient_def recorded_def split: if_splits prod.splits sum.splits)
  ultimately show ?thesis
    using pool_writes_own [OF demoPools_ok g(1) g(2) c] by (simp add: demoSizedPool_def identity_def)
qed

theorem built_never_stale_witness:
  "\<exists>cr. buildSandboxCR (demoPools []) demoSizedPool ''h'' demoTmpl ''a'' ''b'' = Inr cr \<and>
     \<not> fst (isSandboxStale (demoPools []) (cr\<lparr>sb_Meta := (sb_Meta cr)\<lparr>om_OwnerReferences := [], om_Name := ''x'', om_UID := ''u''\<rparr>,
       sb_Status := emptySandboxStatus\<rparr>) demoTmpl ''b'' Map.empty)"
proof -
  obtain cr where cr: "buildSandboxCR (demoPools []) demoSizedPool ''h'' demoTmpl ''a'' ''b'' = Inr cr"
    by (simp add: buildSandboxCR_def demoPools_def stdSetRef_def poolSandboxMeta_def emptyMeta_def Let_def)
  moreover have "wr_specEqual (demoPools []) s s" "wr_claimSpecEqual (demoPools []) t t" "setref_ok (wr_setRef (demoPools []))" for s t
    by (simp_all add: demoPools_def stdSetRef_ok)
  moreover have "om_Name (tp_Meta demoTmpl) = ws_TemplateRef (wp_Spec demoSizedPool)" by (simp add: demoTmpl_def demoSizedPool_def)
  ultimately show ?thesis using built_never_stale [OF _ _ _ _ cr refl] by blast
qed


end
