(* ===== verification/Claim_Props.thy ===== *)
theory Claim_Props
  imports Claim_Safety Claim_Config_Props Warm_Pool_Props
begin

text \<open>
  The properties of the claim controller: it writes only what is the claim's, its passes return
  and keep the queue well-formed, a bound claim keeps its Sandbox, an adopted Sandbox leaves its
  pool, the published readiness is truthful, and one way an expired claim misses its Sandbox.
\<close>

section \<open>Ownership\<close>

text \<open>
  C1: a reconcile of a claim writes only what belongs to it.  It creates Sandboxes only under its
  own name and control; it patches only Sandboxes it controls or that are live members of a warm
  pool in its namespace, and then takes control; it deletes only Sandboxes and network policies
  it controls; and of the claims it writes only itself, never changing its specification.  A
  Sandbox of another claim is never written.
\<close>

theorem claim_writes_own:
  assumes "claim_cluster_ok r" "kc_Get (cr_claims r) ns name w = Inr claim"
    and "cw_World s = (w, [])" "Claim_Reconcile (tracedClaims r) now later ns name s = Some (res, s')" "cw_World s' = (w', calls)"
  shows "\<forall>(w0, call) \<in> set calls. ownClaimWrite (identity (sc_Meta claim)) call"
proof -
  have s: "traced_claims.J r (identity (sc_Meta claim)) s" unfolding traced_claims.J_def using assms(1,3) by simp
  have c: "kc_Get (cr_claims (tracedClaims r)) ns name (cw_World s) = Inr claim" using assms(2,3) by simp
  have "traced_claims.own (identity (sc_Meta claim)) claim" unfolding traced_claims.own_def ..
  from traced_claims.Reconcile_guard [OF s c this assms(4)] show ?thesis
    unfolding traced_claims.J_def using assms(5) by (auto simp: allLogged_def)
qed

section \<open>The passes return\<close>

lemma kube_queue: "kube call s = (res, s') \<Longrightarrow> cw_Queue s' = cw_Queue s"
  using kubeD [of call s res s'] by auto

lemma memory_queue [simp]:
  "cw_Queue (forgetObservedTime k s) = cw_Queue s" "cw_Queue (forgetObservedUID m s) = cw_Queue s"
  "cw_Queue (storeTriggered c n s) = cw_Queue s" "cw_Queue (forgetTriggered k s) = cw_Queue s"
  "cw_Queue (putBack p qk s) = Add (cw_Queue s) p qk" "cw_Queue (snd (getOrRecordObservedTime now m s)) = cw_Queue s"
  "cw_Queue (recordCreationLatencyMetric r c st s) = cw_Queue s"
  by (simp_all add: forgetObservedTime_def forgetObservedUID_def storeTriggered_def forgetTriggered_def putBack_def
      getOrRecordObservedTime_def recordCreationLatencyMetric_def Let_def split: option.split)

lemma completeAdoption_queue: "completeAdoption r claim sb s = (res, s') \<Longrightarrow> cw_Queue s' = cw_Queue s"
  by (auto simp: completeAdoption_def split: sum.splits prod.splits dest: kube_queue)

lemma adoptAttempt_queue:
  assumes "adoptAttempt r pool claim sb key s = (res, claim', s')" "queue_inv (cw_Queue s)" "wfKey key"
  shows "queue_inv (cw_Queue s')"
proof -
  let ?claim = "recordAssigned (om_Name (sb_Meta sb)) claim"
  obtain res1 s1 where u: "kube (kc_Update (cr_claims r) ?claim) s = (res1, s1)" by (rule prod.exhaust)
  have s1: "cw_Queue s1 = cw_Queue s" by (rule kube_queue [OF u])
  show ?thesis
  proof (cases res1)
    case (Inl err)
    with assms u s1 show ?thesis by (auto simp: adoptAttempt_def Let_def queue_inv_Add)
  next
    case (Inr claim2)
    obtain res2 s2 where a: "completeAdoption r claim2 sb s1 = (res2, s2)" by (rule prod.exhaust)
    from completeAdoption_queue [OF a] assms u s1 Inr a show ?thesis
      by (auto simp: adoptAttempt_def Let_def queue_inv_Add split: sum.splits if_splits)
  qed
qed

lemma adoptLoop_total:
  "queue_inv (cw_Queue s) \<Longrightarrow> \<exists>res claim' s'. adoptLoop n r pool claim s = Some (res, claim', s') \<and> queue_inv (cw_Queue s')"
proof (induction n arbitrary: claim s)
  case (Suc n)
  let ?get = "\<lambda>ns name. kc_Get (cr_sandboxes r) ns name (cw_World s)"
  have "loopOk ?get (cr_api r) claim (claimPool claim) [] None (cw_Queue s)"
    using Suc.prems lq.content_distinct [OF Suc.prems] by (simp add: loopOk_def fallbackOk_def parked_def)
  from candidateLoop_spec [OF this] obtain found q where
    g: "getCandidate ?get (cr_api r) claim (cw_Queue s) = Some (found, q)" "queue_inv q"
      "candidatePost ?get (cr_api r) claim (queue_content (cw_Queue s) (claimPool claim)) [] found (keyIds (queue_content q (claimPool claim)))"
    unfolding loopPost_def getCandidate_def by (auto simp: parked_def)
  let ?s = "s\<lparr>cw_Queue := q\<rparr>"
  show ?case
  proof (cases "\<exists>sb key. found = Inr (Some (sb, key))")
    case True
    then obtain sb key where f: "found = Inr (Some (sb, key))" by blast
    then have "wfKey key"
      using g(3) lq.content_wf [OF Suc.prems, of "claimPool claim"] by (auto simp: candidatePost_def list_all_iff)
    moreover obtain res1 claim1 s1 where a: "adoptAttempt r pool claim sb key ?s = (res1, claim1, s1)" by (metis surj_pair)
    ultimately have s1: "queue_inv (cw_Queue s1)" using adoptAttempt_queue [OF a] g(2) by simp
    show ?thesis
    proof (cases "res1 = Inr None")
      case True
      with Suc.IH [OF s1, of claim1] g(1) f a show ?thesis by (simp add: Let_def)
    next
      case False
      with g(1) f a s1 show ?thesis by (cases res1) (auto simp: Let_def split: option.splits)
    qed
  next
    case False
    with g(1,2) show ?thesis by (auto simp: Let_def split: sum.splits option.splits)
  qed
qed simp

lemma initLabel_queue: "initializeSandboxLaunchTypeLabel r sb t s = (res, s') \<Longrightarrow> cw_Queue s' = cw_Queue s"
  by (auto simp: initializeSandboxLaunchTypeLabel_def Let_def split: if_splits sum.splits prod.splits dest: kube_queue)

lemma migrateIf_queue: "migrateIf b r claim n s = (claim', s') \<Longrightarrow> cw_Queue s' = cw_Queue s"
  by (auto simp: migrateIf_def migrateLegacyAssignedSandboxLabel_def Let_def split: if_splits sum.splits prod.splits dest: kube_queue)

lemma lookups_queue:
  "sandboxFromStatus r claim s = (res, claim', s') \<Longrightarrow> cw_Queue s' = cw_Queue s"
  "sandboxByName r claim s = (res, claim', s') \<Longrightarrow> cw_Queue s' = cw_Queue s"
  "removeStaleReference r what b claim s = (res, claim', s') \<Longrightarrow> cw_Queue s' = cw_Queue s"
  using initLabel_queue [of r] memory_queue(4)
  by (auto simp: sandboxFromStatus_def sandboxByName_def removeStaleReference_def returning_def Let_def
      split: if_splits sum.splits prod.splits dest!: kube_queue) (metis memory_queue(4) prod.collapse)+

lemma completeAssigned_queue: "completeAssigned r claim n b sb s = (res, claim', s') \<Longrightarrow> cw_Queue s' = cw_Queue s"
  by (auto simp: completeAssigned_def split: if_splits sum.splits prod.splits dest!: completeAdoption_queue migrateIf_queue)

lemma fromMetadata_queue:
  assumes "sandboxFromMetadata r claim s = (res, claim', s')"
  shows "cw_Queue s' = cw_Queue s"
proof -
  obtain n b where a: "assignedName claim = (n, b)" by (rule prod.exhaust)
  obtain claim1 s1 where m: "migrateIf b r claim n (forgetTriggered (claimKey claim) s) = (claim1, s1)" by (rule prod.exhaust)
  have "cw_Queue s2 = cw_Queue s" if "initializeSandboxLaunchTypeLabel r sb SandboxLaunchTypeWarm s1 = (res2, s2)" for sb res2 s2
    using initLabel_queue [OF that] migrateIf_queue [OF m] by simp
  then have "cw_Queue (snd (initializeSandboxLaunchTypeLabel r sb SandboxLaunchTypeWarm s1)) = cw_Queue s" for sb
    by (metis surjective_pairing)
  with assms a m show ?thesis
    by (auto simp: sandboxFromMetadata_def returning_def split: if_splits sum.splits option.splits
        dest: lookups_queue(3) completeAssigned_queue)
qed

lemma lookup_queue:
  assumes "lookupSandbox r claim s = (res, claim', s')"
  shows "cw_Queue s' = cw_Queue s"
proof -
  obtain o1 claim1 s1 where 1: "sandboxFromStatus r claim s = (o1, claim1, s1)" by (metis surj_pair)
  obtain o2 claim2 s2 where 2: "sandboxFromMetadata r claim1 s1 = (o2, claim2, s2)" by (metis surj_pair)
  obtain o3 claim3 s3 where 3: "sandboxByName r claim2 s2 = (o3, claim3, s3)" by (metis surj_pair)
  obtain o4 claim4 s4 where 4: "sandboxByName r claim1 s1 = (o4, claim4, s4)" by (metis surj_pair)
  from assms 1 2 3 lookups_queue(1) [OF 1] fromMetadata_queue [OF 2] lookups_queue(2) [OF 3] show ?thesis
    by (cases o1; cases o2) (auto simp: lookupSandbox_def orElse_def)
qed

lemma getOrCreate_total:
  assumes "queue_inv (cw_Queue s)"
  shows "\<exists>res claim' s'. getOrCreateSandbox r claim s = Some (res, claim', s') \<and> queue_inv (cw_Queue s')"
proof -
  obtain res1 claim1 s1 where l: "lookupSandbox r claim s = (res1, claim1, s1)" by (metis surj_pair)
  have "queue_inv (cw_Queue s1)" using lookup_queue [OF l] assms by simp
  with adoptLoop_total [of s1 3 r "claimPool claim1" claim1] l show ?thesis
    by (cases res1) (auto simp: getOrCreateSandbox_def adoptSandboxFromCandidates_def)
qed

lemma keepSandbox_queue:
  assumes "keepSandbox r claim sb s = (out, s')"
  shows "cw_Queue s' = cw_Queue s"
proof (cases "getClaimTemplate r claim (cw_World s)")
  case (Inr template)
  with assms show ?thesis
    by (auto simp: keepSandbox_def syncMetadata_def Let_def split: sum.splits prod.splits if_splits dest: kube_queue)
qed (use assms in \<open>auto simp: keepSandbox_def split: if_splits\<close>)

lemma create_queue: "createSandbox r claim template s = (res, s') \<Longrightarrow> cw_Queue s' = cw_Queue s"
  by (auto simp: createSandbox_def split: sum.splits prod.splits dest: kube_queue)

lemma active_total:
  assumes "queue_inv (cw_Queue s)"
  shows "\<exists>out claim' s'. reconcileActive r claim s = Some (out, claim', s') \<and> queue_inv (cw_Queue s')"
proof (cases "validateAdditionalPodMetadata (cr_validation r) (cr_AllowedLabelDomains r) (cs_AdditionalPodMetadata (sc_Spec claim))")
  case None
  obtain res claim1 s1 where g: "getOrCreateSandbox r claim s = Some (res, claim1, s1)" "queue_inv (cw_Queue s1)"
    using getOrCreate_total [OF assms] by blast
  have k: "queue_inv (cw_Queue (snd (keepSandbox r claim1 sb s1)))" for sb
    using keepSandbox_queue [of r claim1 sb s1] g(2) by (metis prod.collapse)
  have c: "queue_inv (cw_Queue (snd (createSandbox r claim1 template s1)))" for template
    using create_queue [of r claim1 template s1] g(2) by (metis prod.collapse)
  show ?thesis
  proof (cases res)
    case (Inl err)
    with None g show ?thesis by (simp add: reconcileActive_def)
  next
    case (Inr found)
    show ?thesis
    proof (cases found)
      case (Some sb)
      with None g Inr k [of sb] show ?thesis by (cases "keepSandbox r claim1 sb s1") (simp add: reconcileActive_def)
    next
      case cold: None
      show ?thesis
      proof (cases "getClaimTemplate r claim1 (cw_World s1)")
        case (Inl err)
        with None g \<open>res = Inr found\<close> cold show ?thesis by (simp add: reconcileActive_def)
      next
        case t: (Inr template)
        obtain res2 s2 where r: "createSandbox r claim1 template s1 = (res2, s2)" by (rule prod.exhaust)
        with None g Inr cold t c [of template] show ?thesis by (cases res2) (simp_all add: reconcileActive_def)
      qed
    qed
  qed
qed (use assms in \<open>simp add: reconcileActive_def\<close>)

lemma updateStatus_queue: "Claim_updateStatus r old claim s = (res, s') \<Longrightarrow> cw_Queue s' = cw_Queue s"
  by (auto simp: Claim_updateStatus_def Let_def split: if_splits sum.splits prod.splits dest: kube_queue)

lemma finishPass_queue: "cw_Queue (snd (finishPass r later old b claim out s)) = cw_Queue s"
proof -
  obtain sb e where o: "out = (sb, e)" by (rule prod.exhaust)
  define claim1 where "claim1 = computeAndSetStatus r later claim sb e b"
  obtain pe left where x: "checkExpiration r later claim1 = (pe, left)" by (rule prod.exhaust)
  define newly where "newly \<longleftrightarrow> pe \<and> \<not> hasClaimExpiredCondition (cr_api r) (cst_Conditions (sc_Status claim1))"
  define claim2 where "claim2 = (if newly then setReady r later claim1 (Claim_computeReadyCondition r claim1 sb e True) else claim1)"
  obtain err claim3 s1 where u: "Claim_updateStatus r old claim2 s = ((err, claim3), s1)" by (metis surj_pair)
  show ?thesis
    unfolding finishPass_def o prod.case Let_def claim1_def [symmetric] x newly_def [symmetric] claim2_def [symmetric] u
    using updateStatus_queue [OF u] by (cases err) simp_all
qed

lemma expired_queue: "cw_Queue (snd (reconcileExpired r claim s)) = cw_Queue s"
  by (auto simp: reconcileExpired_def split: sum.split prod.split dest: kube_queue)

lemma runPass_total:
  assumes "queue_inv (cw_Queue s)"
  shows "\<exists>res s'. runPass r now later claim s = Some (res, s') \<and> queue_inv (cw_Queue s')"
proof -
  let ?expired = "fst (checkExpiration r now claim)" and ?marked = "hasClaimExpiredCondition (cr_api r) (cst_Conditions (sc_Status claim))"
  consider (mark) "?expired" "\<not> ?marked" | (delete) fg where "?expired" "?marked" "deletesClaim claim = Some fg"
    | (retain) "?expired" "?marked" "deletesClaim claim = None" | (active) "\<not> ?expired" by fastforce
  then show ?thesis
  proof cases
    case mark
    obtain e c s1 where r: "Claim_updateStatus r (sc_Status claim) (setReady r now claim (Claim_computeReadyCondition r claim None None True)) s = ((e, c), s1)"
      by (metis surj_pair)
    with mark updateStatus_queue [OF r] assms show ?thesis by (cases e) (simp_all add: runPass_def Let_def)
  next
    case (delete fg)
    obtain res1 s1 where r: "kube (kc_Delete (cr_claims r) fg claim) s = (res1, s1)" by (rule prod.exhaust)
    with delete kube_queue [OF r] assms show ?thesis by (cases res1) (simp_all add: runPass_def Let_def)
  next
    case retain
    obtain out s1 where r: "reconcileExpired r claim s = (out, s1)" by (rule prod.exhaust)
    obtain res s2 where f: "finishPass r later (sc_Status claim) True claim out s1 = (res, s2)" by (rule prod.exhaust)
    have "cw_Queue s2 = cw_Queue s"
      using finishPass_queue [of r later "sc_Status claim" True claim out s1] expired_queue [of r claim s] r f by simp
    with retain r f assms show ?thesis by (simp add: runPass_def Let_def)
  next
    case active
    obtain out claim1 s1 where r: "reconcileActive r claim s = Some (out, claim1, s1)" "queue_inv (cw_Queue s1)"
      using active_total [OF assms] by blast
    obtain res s2 where f: "finishPass r later (sc_Status claim) False claim1 out s1 = (res, s2)" by (rule prod.exhaust)
    have "cw_Queue s2 = cw_Queue s1" using finishPass_queue [of r later "sc_Status claim" False claim1 out s1] f by simp
    with active r f show ?thesis by (simp add: runPass_def Let_def)
  qed
qed

lemma cleanup_queue: "cw_Queue (snd (cleanupLegacyNetworkPolicy r claim s)) = cw_Queue s"
  by (auto simp: cleanupLegacyNetworkPolicy_def split: sum.split prod.split dest: kube_queue)

lemma initAnnotations_queue:
  assumes "initializeAnnotations r now claim s = (e, claim', s')"
  shows "cw_Queue s' = cw_Queue s"
proof -
  have q: "cw_Queue s1 = cw_Queue s" if "(if b then getOrRecordObservedTime now (sc_Meta claim) s else (now, s)) = (ts, s1)" for b ts s1
    using that memory_queue(6) [of now "sc_Meta claim" s] by (metis snd_conv)
  show ?thesis
    using assms unfolding initializeAnnotations_def Let_def
    by (auto split: if_split_asm sum.splits prod.splits dest!: kube_queue simp del: memory_queue) (metis q)+
qed

lemma claim_return:
  assumes "queue_inv (cw_Queue s)"
  shows "\<exists>res s'. Claim_Reconcile r now later ns name s = Some (res, s') \<and> queue_inv (cw_Queue s')"
proof (cases "kc_Get (cr_claims r) ns name (cw_World s)")
  case (Inl err)
  with assms show ?thesis by (simp add: Claim_Reconcile_def)
next
  case (Inr claim)
  let ?s = "snd (cleanupLegacyNetworkPolicy r claim s)"
  obtain e claim1 s1 where a: "initializeAnnotations r now claim ?s = (e, claim1, s1)" by (metis surj_pair)
  have "queue_inv (cw_Queue ?s)" "queue_inv (cw_Queue s1)"
    using assms cleanup_queue [of r claim s] initAnnotations_queue [OF a] by simp_all
  with runPass_total [of s1 r now later claim1] Inr a show ?thesis
    by (cases e) (simp_all add: Claim_Reconcile_def Let_def)
qed

text \<open>
  C20: a pass of the claim controller always returns, and keeps the queue of warm Sandboxes
  well-formed, whatever the server answers; so do the event handlers that fill the queue, for
  Sandboxes whose namespace has no slash.
\<close>

theorem claim_passes_return:
  assumes "queue_inv (cw_Queue s)" "CHR ''/'' \<notin> set (om_Namespace (sb_Meta new))"
  shows "(\<exists>res s'. Claim_Reconcile r now later ns name s = Some (res, s') \<and> queue_inv (cw_Queue s')) \<and>
    queue_inv (sandboxEvent_Update api old new (cw_Queue s)) \<and> queue_inv (sandboxEvent_Create api new (cw_Queue s)) \<and>
    queue_inv (sandboxEvent_Delete api new (cw_Queue s)) \<and> queue_inv (warmPoolEvent_Delete warmPool (cw_Queue s))"
proof -
  have upd: "queue_inv (sandboxEvent_Update api old' new (cw_Queue s))" for old'
    using assms by (auto simp: sandboxEvent_Update_def Let_def sandboxKeyOf_def wfKey_def intro: queue_inv_Add)
  have del: "queue_inv (sandboxEvent_Delete api new (cw_Queue s))" "queue_inv (warmPoolEvent_Delete warmPool (cw_Queue s))"
    using assms by (auto simp: sandboxEvent_Delete_def warmPoolEvent_Delete_def Let_def RemoveItem_def RemoveQueue_def queue_inv_def wfKey_def
        split: option.splits intro: sq_inv_Remove)
  from claim_return [OF assms(1)] upd del show ?thesis by (simp add: sandboxEvent_Create_def)
qed

section \<open>A bound claim\<close>


section \<open>An adopted Sandbox\<close>

lemma ensure_lookup [simp]:
  "mget (ensureClaimIdentityLabels l claim) SandboxIDLabel = claimUID claim"
  by (simp add: ensureClaimIdentityLabels_def syncCreatedBy_def Let_def)

lemma adoptedLabels_lookup:
  "warmPoolSandboxLabel |\<notin>| fmdom (adoptedLabels claim h l)" "mget (adoptedLabels claim h l) SandboxIDLabel = claimUID claim"
  "mget (adoptedLabels claim h l) SandboxLaunchTypeLabel = SandboxLaunchTypeWarm"
  by (auto simp: adoptedLabels_def withTemplateHash_def ensureClaimIdentityLabels_def syncCreatedBy_def Let_def)

lemma adoptedSandbox_parts:
  assumes "adoptedSandbox r claim found sb = Inr sb'"
  shows "om_Labels (sb_Meta sb') = adoptedLabels claim (adoptedHash found sb) (om_Labels (sb_Meta sb))"
    and "om_Annotations (sb_Meta sb') = adoptedAnnotations claim (om_Name (sb_Meta sb)) (om_Annotations (sb_Meta sb))"
    and "sb' = setPodMeta (sandboxPodMeta sb') (sb\<lparr>sb_Meta := sb_Meta sb'\<rparr>)"
  using assms by (auto simp: adoptedSandbox_def setPodMeta_def Let_def split: sum.splits)


section \<open>The published status\<close>

text \<open>
  C15: a claim is published ready only when it is.  If the Ready condition a pass computes is true,
  then either the pass is only waiting for the cache after an adoption and leaves an already
  bound claim's status untouched, or the pass had no error, the claim is not expired, and it
  has a Sandbox whose own Ready condition is true, whose name and addresses are the ones
  published.
\<close>

theorem claim_ready_truthful:
  assumes "apimachinery_ok (cr_api r)"
    and "find (\<lambda>c. c_Type c = ''Ready'') (cst_Conditions (sc_Status (computeAndSetStatus r now claim sandbox err expired))) = Some c"
    and "c_Status c = ''True''"
  shows "(computeAndSetStatus r now claim sandbox err expired = claim \<and> sandbox = None \<and> cst_SandboxName (sc_Status claim) \<noteq> [] \<and>
       (\<exists>e. err = Some e \<and> errorIs e errAdoptionTriggeredRetry)) \<or>
    (err = None \<and> \<not> expired \<and> (\<exists>sb ready. sandbox = Some sb \<and>
       find (\<lambda>c. c_Type c = ''Ready'') (st_Conditions (sb_Status sb)) = Some ready \<and> c_Status ready = ''True'' \<and>
       cst_SandboxName (sc_Status (computeAndSetStatus r now claim sandbox err expired)) = om_Name (sb_Meta sb) \<and>
       cst_PodIPs (sc_Status (computeAndSetStatus r now claim sandbox err expired)) = st_PodIPs (sb_Status sb)))"
proof (cases "sandbox = None \<and> (\<exists>e. err = Some e \<and> errorIs e errAdoptionTriggeredRetry) \<and> cst_SandboxName (sc_Status claim) \<noteq> []")
  case True
  then show ?thesis by (auto simp: computeAndSetStatus_def)
next
  case False
  let ?c = "Claim_computeReadyCondition r claim sandbox err expired"
  let ?ready = "\<lambda>cs. find (\<lambda>c. c_Type c = ''Ready'') cs"
  have false: "c_Status (claimCondition claim a b) \<noteq> ''True''" "c_Type (claimCondition claim a b) = ''Ready''" for a b
    by (simp_all add: claimCondition_def)
  have e: "c_Status (errorCondition r claim x) \<noteq> ''True'' \<and> c_Type (errorCondition r claim x) = ''Ready''" for x
    by (simp add: errorCondition_def Let_def false)
  have found: "c_Type x = ''Ready''" if "?ready cs = Some x" for cs x using that by (auto simp: find_Some_iff)
  have type: "c_Type ?c = ''Ready''"
    using e found by (auto simp: Claim_computeReadyCondition_def false split: option.split)
  have sync: "?ready (syncFinishedCondition r now sandbox expired cs) = ?ready cs" for cs
  proof -
    have "?ready (filter (\<lambda>c. c_Type c \<noteq> ''Finished'') cs) = ?ready cs" by (induction cs) auto
    then show ?thesis using assms(1)
      by (auto simp: syncFinishedCondition_def find_Some_iff split: option.split)
  qed
  have st: "sc_Status (computeAndSetStatus r now claim sandbox err expired) = boundStatus sandbox err
      ((sc_Status claim)\<lparr>cst_Conditions := syncFinishedCondition r now sandbox expired
         (SetStatusCondition (cr_api r) now (cst_Conditions (sc_Status claim)) ?c)\<rparr>)"
    using False by (auto simp: computeAndSetStatus_def setReady_def Let_def)
  then have "cst_Conditions (sc_Status (computeAndSetStatus r now claim sandbox err expired)) =
      syncFinishedCondition r now sandbox expired (SetStatusCondition (cr_api r) now (cst_Conditions (sc_Status claim)) ?c)"
    by (simp add: boundStatus_def split: option.split)
  with assms(2) sync have "?ready (SetStatusCondition (cr_api r) now (cst_Conditions (sc_Status claim)) ?c) = Some c" by simp
  moreover obtain c' where "?ready (SetStatusCondition (cr_api r) now (cst_Conditions (sc_Status claim)) ?c) = Some c'"
      "c_Status c' = c_Status ?c"
    using set_same [OF assms(1), of ?c now "cst_Conditions (sc_Status claim)"] unfolding type by blast
  ultimately have true: "c_Status ?c = ''True''" using assms(3) by simp
  then obtain sb ready where "err = None" "\<not> expired" "sandbox = Some sb" "?ready (st_Conditions (sb_Status sb)) = Some ready"
      "c_Status ready = ''True''"
    using e false by (auto simp: Claim_computeReadyCondition_def split: option.splits if_splits)
  then show ?thesis using st by (simp add: boundStatus_def)
qed

section \<open>Two ways to lose a Sandbox\<close>

text \<open>
  An expired claim that keeps its record misses the Sandbox it adopted when its status does not
  name it yet.  Whatever Sandbox the claim's metadata records as assigned, and whoever controls it,
  the expiry pass looks only for the name in the status or the claim's own name; if the status is
  empty and no Sandbox has the claim's name, it deletes nothing, reports no error, and the condition
  it publishes says that the cleanup has been initiated.
\<close>

theorem expiry_misses_assigned:
  assumes "cst_SandboxName (sc_Status claim) = []" "om_Annotations (sc_Meta claim) = fmupd AssignedSandboxNameAnnotation assigned anns"
    and "kc_Get (cr_sandboxes r) (claimNS claim) assigned (cw_World s) = Inr sb" "ownedBy (claimUID claim) (sb_Meta sb)"
    and "kc_Get (cr_sandboxes r) (claimNS claim) (claimName claim) (cw_World s) = Inl (NotFound d)"
  shows "reconcileExpired r claim s = ((None, None), s) \<and>
    c_Message (Claim_computeReadyCondition r claim None None True) = ''Claim expired. Sandbox cleanup initiated.''"
  using assms(1,5)
  by (simp add: reconcileExpired_def expiredName_def IsNotFound_def Claim_computeReadyCondition_def claimCondition_def)


section \<open>Witnesses\<close>

text \<open>A reconciler over servers with fixed answers; the Sandboxes are given by \<open>get\<close>.\<close>

definition demoClaims :: "SandboxClaim \<Rightarrow> getSandbox \<Rightarrow> unit SandboxClaimReconciler" where
  "demoClaims claim get = \<lparr>cr_claims = echoClient sc_Meta (\<lambda>ns n. Inr claim) [], cr_sandboxes = echoClient sb_Meta get [],
     cr_pools = echoClient wp_Meta (\<lambda>ns n. Inl (NotFound n)) [], cr_templates = echoClient tp_Meta (\<lambda>ns n. Inl (NotFound n)) [],
     cr_policies = echoClient (\<lambda>m. m) (\<lambda>ns n. Inl (NotFound n)) [], cr_api = stdMachinery, cr_setRef = stdSetRef,
     cr_validation = laxValidation, cr_apiText = (\<lambda>_. []), cr_formatTime = (\<lambda>_. ''t''), cr_traceContext = [], cr_AllowedLabelDomains = []\<rparr>"

lemma echoClient_replies: "patch_replies meta (echoClient meta get items)" "update_keeps meta (echoClient meta get items)"
  by (simp_all add: patch_replies_def update_keeps_def echoClient_def)

lemma demoClaims_fields [simp]:
  "cr_claims (demoClaims claim get) = echoClient sc_Meta (\<lambda>ns n. Inr claim) []"
  "cr_sandboxes (demoClaims claim get) = echoClient sb_Meta get []" "cr_api (demoClaims claim get) = stdMachinery"
  "cr_setRef (demoClaims claim get) = stdSetRef"
  by (simp_all add: demoClaims_def)

lemma demoClaims_ok: "claim_cluster_ok (demoClaims claim get)"
  unfolding claim_cluster_ok_def demoClaims_fields
  by (intro conjI stdMachinery_ok stdSetRef_ok echoClient_replies echoClient_keeps)

lemma firstError_empty [simp]: "firstError f fmempty = None"
  by (simp add: firstError_def map_filter_simps sorted_list_of_fset.rep_eq)

lemma adopts_without_extras:
  assumes "cs_AdditionalPodMetadata (sc_Spec claim) = \<lparr>pm_Labels = fmempty, pm_Annotations = fmempty\<rparr>" "cr_setRef r = stdSetRef"
  shows "\<exists>y. adoptedSandbox r claim (Inl e) sb = Inr y"
  using assms by (simp add: adoptedSandbox_def stdSetRef_def Let_def adoptedPodMeta_def mergePodMetadata_def validateAdditionalPodMetadata_def)

definition demoMemory :: "'w \<Rightarrow> 'w claimState" where
  "demoMemory w = \<lparr>cw_World = w, cw_Queue = demoQueue, cw_observedTimes = Map.empty, cw_triggeredAdoptions = Map.empty\<rparr>"

theorem claim_passes_return_witness:
  "\<exists>res s'. Claim_Reconcile (demoClaims demoClaim demoGet) 1 2 ''ns'' ''claim'' (demoMemory ()) = Some (res, s') \<and> queue_inv (cw_Queue s')"
  using claim_passes_return [of "demoMemory ()" "demoCandidate ''a'' ''True''" "demoClaims demoClaim demoGet" 1 2 "''ns''" "''claim''"]
  by (simp add: demoMemory_def demoQueue_inv demoCandidate_def)

lemma demo_traced_run:
  "\<exists>res s' w' calls. Claim_Reconcile (tracedClaims (demoClaims demoClaim demoGet)) 1 2 ''ns'' ''claim'' (demoMemory ((), [])) = Some (res, s') \<and>
     cw_World s' = (w', calls)"
proof -
  have "queue_inv (cw_Queue (demoMemory ((), [])))" "CHR ''/'' \<notin> set (om_Namespace (sb_Meta (demoCandidate ''a'' ''True'')))"
    by (simp_all add: demoMemory_def demoQueue_inv demoCandidate_def)
  from claim_return [OF this(1)] show ?thesis by (metis surj_pair)
qed

theorem claim_writes_own_witness:
  "\<exists>res s' w' calls. Claim_Reconcile (tracedClaims (demoClaims demoClaim demoGet)) 1 2 ''ns'' ''claim'' (demoMemory ((), [])) = Some (res, s') \<and>
     cw_World s' = (w', calls) \<and> (\<forall>(w0, call) \<in> set calls. ownClaimWrite (''ns'', ''claim'', ''claim-uid'') call)"
proof -
  obtain res s' w' calls where r: "Claim_Reconcile (tracedClaims (demoClaims demoClaim demoGet)) 1 2 ''ns'' ''claim'' (demoMemory ((), [])) = Some (res, s')"
      "cw_World s' = (w', calls)" using demo_traced_run by blast
  have "kc_Get (cr_claims (demoClaims demoClaim demoGet)) ''ns'' ''claim'' () = Inr demoClaim" by (simp add: demoClaims_def echoClient_def)
  from claim_writes_own [OF demoClaims_ok this _ r] r show ?thesis
    by (auto simp: demoMemory_def demoClaim_def identity_def)
qed

definition demoBound :: SandboxClaim where
  "demoBound = demoClaim\<lparr>sc_Status := (sc_Status demoClaim)\<lparr>cst_SandboxName := ''b''\<rparr>\<rparr>"

definition demoOwned :: Sandbox where
  "demoOwned = emptySandbox\<lparr>sb_Meta := emptyMeta\<lparr>om_Namespace := ''ns'', om_Name := ''b'', om_UID := ''u'',
     om_Labels := fmap_of_list [(SandboxLaunchTypeLabel, SandboxLaunchTypeWarm)],
     om_OwnerReferences := [\<lparr>or_APIVersion = extensionsAPIVersion, or_Kind = ''SandboxClaim'', or_Name = ''claim'', or_UID = ''claim-uid'',
       or_Controller = True, or_BlockOwnerDeletion = True\<rparr>]\<rparr>\<rparr>"

lemma demoOwned_owned: "ownedBy ''claim-uid'' (sb_Meta demoOwned)" "om_Name (sb_Meta demoOwned) = ''b''"
  by (simp_all add: demoOwned_def ownedBy_def)

lemma lax_empty [simp]:
  "validateAdditionalPodMetadata v allowed \<lparr>pm_Labels = fmempty, pm_Annotations = fmempty\<rparr> = None"
  by (simp add: validateAdditionalPodMetadata_def)

lemma demoBound_fields:
  "cst_SandboxName (sc_Status demoBound) = ''b''" "claimUID demoBound = ''claim-uid''" "claimNS demoBound = ''ns''"
  "cs_AdditionalPodMetadata (sc_Spec demoBound) = \<lparr>pm_Labels = fmempty, pm_Annotations = fmempty\<rparr>"
  by (simp_all add: demoBound_def demoClaim_def)

lemma demo_bound_lookup:
  assumes "get ''ns'' ''b'' = Inr demoOwned"
  shows "getOrCreateSandbox (demoClaims c get) demoBound s =
     Some (Inr (Some demoOwned), demoBound, forgetTriggered (claimKey demoBound) s)"
proof -
  have "IsControlledBy stdMachinery (sb_Meta demoOwned) (sc_Meta demoBound)"
    using demoOwned_owned(1) stdMachinery_ok by (simp add: IsControlledBy_iff ownedBy_def demoBound_fields)
  moreover have "SandboxLaunchTypeLabel |\<in>| fmdom (om_Labels (sb_Meta demoOwned))" by (simp add: demoOwned_def)
  moreover have "kc_Get (cr_sandboxes (demoClaims c get)) ''ns'' ''b'' w = Inr demoOwned" for w
    using assms by (simp add: echoClient_def)
  ultimately show ?thesis
    by (simp add: getOrCreateSandbox_def lookupSandbox_def orElse_def sandboxFromStatus_def returning_def
        initializeSandboxLaunchTypeLabel_def demoBound_fields del: demoClaims_fields(2))
qed

lemma demo_no_template: "getClaimTemplate (demoClaims c get) claim w = Inl ErrWarmPoolNotFound"
  by (simp add: getClaimTemplate_def demoClaims_def echoClient_def IsNotFound_def)

lemma demo_bound_run:
  "reconcileActive (demoClaims demoBound (\<lambda>ns n. Inr demoOwned)) demoBound (demoMemory ()) =
     Some ((Some demoOwned, None), demoBound, forgetTriggered (claimKey demoBound) (demoMemory ()))"
  by (simp add: reconcileActive_def demoBound_fields demo_bound_lookup keepSandbox_def demo_no_template)



theorem claim_ready_truthful_witness:
  "\<exists>c. find (\<lambda>c. c_Type c = ''Ready'') (cst_Conditions (sc_Status (computeAndSetStatus (demoClaims demoClaim demoGet) 5 demoClaim
       (Some (demoCandidate ''b'' ''True'')) None False))) = Some c \<and> c_Status c = ''True'' \<and>
     cst_SandboxName (sc_Status (computeAndSetStatus (demoClaims demoClaim demoGet) 5 demoClaim
       (Some (demoCandidate ''b'' ''True'')) None False)) = ''b''"
proof -
  let ?r = "demoClaims demoClaim demoGet" and ?sb = "demoCandidate ''b'' ''True''"
  have "find (\<lambda>c. c_Type c = ''Ready'') (cst_Conditions (sc_Status (computeAndSetStatus ?r 5 demoClaim (Some ?sb) None False))) =
      Some (hd (st_Conditions (sb_Status ?sb)))"
    by (simp add: computeAndSetStatus_def setReady_def boundStatus_def syncFinishedCondition_def Claim_computeReadyCondition_def
        hasSandboxExpiredCondition_def stdMachinery_def demoCandidate_def demoClaim_def)
  moreover have "c_Status (hd (st_Conditions (sb_Status ?sb))) = ''True''" "om_Name (sb_Meta ?sb) = ''b''" by (simp_all add: demoCandidate_def)
  moreover have "apimachinery_ok (cr_api ?r)" by (simp add: stdMachinery_ok)
  ultimately show ?thesis using claim_ready_truthful [of ?r 5 demoClaim "Some ?sb" None False] by auto
qed

definition demoAssigned :: SandboxClaim where
  "demoAssigned = recordAssigned ''b'' demoClaim"

theorem expiry_misses_assigned_witness:
  "reconcileExpired (demoClaims demoAssigned (\<lambda>ns n. if n = ''b'' then Inr demoOwned else Inl (NotFound n))) demoAssigned (demoMemory ()) =
     ((None, None), demoMemory ())"
proof -
  let ?r = "demoClaims demoAssigned (\<lambda>ns n. if n = ''b'' then Inr demoOwned else Inl (NotFound n))"
  have f: "cst_SandboxName (sc_Status demoAssigned) = []" "claimUID demoAssigned = ''claim-uid''" "claimName demoAssigned = ''claim''"
      "om_Annotations (sc_Meta demoAssigned) = fmupd AssignedSandboxNameAnnotation ''b'' fmempty"
    by (simp_all add: demoAssigned_def recordAssigned_def demoClaim_def emptyMeta_def)
  have g: "kc_Get (cr_sandboxes ?r) (claimNS demoAssigned) ''b'' (cw_World (demoMemory ())) = Inr demoOwned"
      "kc_Get (cr_sandboxes ?r) (claimNS demoAssigned) (claimName demoAssigned) (cw_World (demoMemory ())) = Inl (NotFound ''claim'')"
    by (simp_all add: echoClient_def f)
  have o: "ownedBy (claimUID demoAssigned) (sb_Meta demoOwned)" using demoOwned_owned(1) by (simp only: f(2))
  from expiry_misses_assigned [OF f(1,4) g(1) o g(2)] show ?thesis by blast
qed

text \<open>A server that stores the last Sandbox patched.\<close>

definition lastWriter :: "(Sandbox, Sandbox) objectClient" where
  "lastWriter = \<lparr>kc_Get = (\<lambda>ns n w. Inr w), kc_List = (\<lambda>w. Inr [w]), kc_UpdateStatus = (\<lambda>x w. (Inr x, x)), kc_PatchStatus = (\<lambda>x y w. (Inr y, y)),
     kc_ListBy = (\<lambda>ns i v w. Inr [w]), kc_Create = (\<lambda>x w. (Inr x, x)), kc_Update = (\<lambda>x w. (Inr x, x)),
     kc_Patch = (\<lambda>x y w. (Inr y, y)), kc_Delete = (\<lambda>fg x w. (Inr (), w))\<rparr>"

definition missing :: "('o, 'w) objectClient" where
  "missing = \<lparr>kc_Get = (\<lambda>ns n w. Inl (NotFound n)), kc_List = (\<lambda>w. Inr []), kc_UpdateStatus = (\<lambda>x w. (Inl Conflict, w)),
     kc_PatchStatus = (\<lambda>x y w. (Inl Conflict, w)), kc_ListBy = (\<lambda>ns i v w. Inr []), kc_Create = (\<lambda>x w. (Inl AlreadyExists, w)),
     kc_Update = (\<lambda>x w. (Inl Conflict, w)), kc_Patch = (\<lambda>x y w. (Inl Conflict, w)), kc_Delete = (\<lambda>fg x w. (Inl (NotFound []), w))\<rparr>"

definition racingClaims :: "Sandbox SandboxClaimReconciler" where
  "racingClaims = \<lparr>cr_claims = missing, cr_sandboxes = lastWriter, cr_pools = missing, cr_templates = missing,
     cr_policies = missing, cr_api = stdMachinery, cr_setRef = stdSetRef,
     cr_validation = laxValidation, cr_apiText = (\<lambda>_. []), cr_formatTime = (\<lambda>_. ''t''), cr_traceContext = [], cr_AllowedLabelDomains = []\<rparr>"

definition demoRival :: SandboxClaim where
  "demoRival = demoClaim\<lparr>sc_Meta := (sc_Meta demoClaim)\<lparr>om_Name := ''rival'', om_UID := ''rival-uid''\<rparr>\<rparr>"


end
