(* ===== verification/Pool_Key_Agreement.thy ===== *)
theory Pool_Key_Agreement
  imports Claim_Props Rest_Storage Driver_Targets
begin

text \<open>
  The warm pool key seen from both ends: the claim controller's cold Sandboxes, as
  \<^verbatim>\<open>pkg/scale/apiserver/storage.go\<close> keys them on Create, and the templates, as the warm pool
  driver \<^verbatim>\<open>pkg/scale/warmpool/driver.go\<close> keys them when it sets node targets.
\<close>

lemma injectEnvs_keeps:
  "injectEnvs c envs policy = Inr c' \<Longrightarrow> \<exists>env. c' = c\<lparr>ct_Env := env\<rparr>"
  by (cases "injectVars policy envs (ct_Env c)") (auto simp: injectEnvs_def split: if_splits)

lemma injectInto_head:
  assumes "injectInto policy byName extra cs = Inr cs'"
  shows "(cs = [] \<and> cs' = []) \<or> (\<exists>c rest env rest'. cs = c # rest \<and> cs' = c\<lparr>ct_Env := env\<rparr> # rest')"
proof (cases cs)
  case (Cons c rest)
  let ?envs = "byName (ct_Name c) @ extra"
  from assms Cons obtain c' rest' where
    c': "(if ?envs = [] then Inr c else injectEnvs c ?envs policy) = Inr c'" and "cs' = c' # rest'"
    by (cases "if ?envs = [] then Inr c else injectEnvs c ?envs policy";
        cases "injectInto policy byName [] rest") auto
  moreover from c' have "\<exists>env. c' = c\<lparr>ct_Env := env\<rparr>"
  proof (cases "?envs = []")
    case True
    with c' have "c' = c\<lparr>ct_Env := ct_Env c\<rparr>" by simp
    then show ?thesis ..
  next
    case False
    with c' show ?thesis using injectEnvs_keeps by auto
  qed
  ultimately show ?thesis using Cons by blast
qed (use assms in simp)

lemma requestOrLimit_env [simp]: "requestOrLimit ops (c\<lparr>ct_Env := env\<rparr>) name = requestOrLimit ops c name"
  by (simp add: requestOrLimit_def Let_def)

lemma PoolKeyFor_env [simp]: "PoolKeyFor ops (c\<lparr>ct_Env := env\<rparr> # rest') net = PoolKeyFor ops (c # rest) net"
  by (simp add: PoolKeyFor_def SizeClassForContainers_def)

lemma injectPodEnvs_key:
  assumes "injectPodEnvs policy envs spec = Inr spec'"
  shows "PoolKeyFor ops (ps_Containers spec') net = PoolKeyFor ops (ps_Containers spec) net"
proof (cases "envs = []")
  case False
  with assms obtain mains inits where
    "injectInto policy (envsByContainer envs) (defaultEnvs envs) (ps_Containers spec) = Inr mains"
    "spec' = spec\<lparr>ps_InitContainers := inits, ps_Containers := mains\<rparr>"
    by (auto simp: injectPodEnvs_def split: if_splits option.splits sum.splits)
  with injectInto_head [OF this(1)] show ?thesis by auto
qed (use assms in \<open>simp add: injectPodEnvs_def\<close>)

lemma secureDefaults_containers [simp]: "ps_Containers (ApplySandboxSecureDefaults template spec) = ps_Containers spec"
  by (simp add: ApplySandboxSecureDefaults_def Let_def)

lemma coldSandbox_pod:
  assumes "coldSandbox r claim template = Inr sb"
  obtains spec where
    "injectPodEnvs (ts_EnvVarsInjectionPolicy (tp_Spec template)) (cs_Env (sc_Spec claim))
       (pt_Spec (bp_PodTemplate (ts_Blueprint (tp_Spec template)))) = Inr spec"
    "ps_Containers (pt_Spec (bp_PodTemplate (ss_Blueprint (sb_Spec sb)))) = ps_Containers spec"
    "cr_setRef r extensionsAPIVersion ''SandboxClaim'' (sc_Meta claim) (coldMeta claim template) = Inr (sb_Meta sb)"
  using assms by (auto simp: coldSandbox_def Let_def split: sum.splits)

lemma cold_no_net: "mget (om_Annotations (coldMeta claim template)) NetAnnotation = []"
  by (simp add: coldMeta_def withTrace_def emptyMeta_def split: option.split)

lemma PoolKeyFor_net: "PoolKeyFor ops cs net = PoolKeyFor ops cs net' \<longleftrightarrow> 
  (if net = [] then NetDefault else net) = (if net' = [] then NetDefault else net')"
  by (simp add: PoolKeyFor_def)

lemma setref_annotations:
  assumes "setref_ok setRef" "controllerOf m = None" "setRef av kind owner m = Inr m'"
  shows "om_Annotations m' = om_Annotations m"
proof -
  from assms have "m' = m\<lparr>om_OwnerReferences := om_OwnerReferences m'\<rparr>"
    unfolding setref_ok_def by (metis Inr_inject)
  then show ?thesis by (metis ObjectMeta.select_convs(10) ObjectMeta.surjective ObjectMeta.update_convs(11))
qed

lemma cold_annotations:
  assumes "setref_ok (cr_setRef r)" "coldSandbox r claim template = Inr sb"
  shows "om_Annotations (sb_Meta sb) = om_Annotations (coldMeta claim template)"
  using assms(2)
proof (rule coldSandbox_pod)
  assume "cr_setRef r extensionsAPIVersion ''SandboxClaim'' (sc_Meta claim) (coldMeta claim template) = Inr (sb_Meta sb)"
  then show ?thesis by (rule setref_annotations [OF assms(1), rotated]) (simp add: coldMeta_def emptyMeta_def)
qed

lemma cold_key:
  assumes "setref_ok (cr_setRef r)" "coldSandbox r claim template = Inr sb"
  shows "poolKeyForSandbox ops sb = (templateKey ops template)\<lparr>pk_Net := NetDefault\<rparr>"
proof -
  obtain spec where "injectPodEnvs (ts_EnvVarsInjectionPolicy (tp_Spec template)) (cs_Env (sc_Spec claim))
       (pt_Spec (bp_PodTemplate (ts_Blueprint (tp_Spec template)))) = Inr spec"
    "ps_Containers (pt_Spec (bp_PodTemplate (ss_Blueprint (sb_Spec sb)))) = ps_Containers spec"
    by (rule coldSandbox_pod [OF assms(2)])
  from injectPodEnvs_key [OF this(1)] this(2) cold_annotations [OF assms] show ?thesis
    by (simp add: poolKeyForSandbox_def templateKey_def cold_no_net) (simp add: PoolKeyFor_def)
qed

definition netTemplate :: SandboxTemplate where
  "netTemplate = \<lparr>tp_Meta = emptyMeta\<lparr>om_Name := ''rt'', om_Annotations := fmupd netAnnotation ''bridge'' fmempty\<rparr>,
     tp_Spec = \<lparr>ts_Blueprint = emptyBlueprint, ts_NetworkPolicy = None, ts_NetworkPolicyManagement = [],
       ts_EnvVarsInjectionPolicy = [], ts_VolumeClaimTemplatesPolicy = []\<rparr>\<rparr>"

lemma netTemplate_cold: "\<exists>sb. coldSandbox (demoClaims Claim_Queue_Props.demoClaim demoGet) Claim_Queue_Props.demoClaim netTemplate = Inr sb"
proof -
  have "cs_AdditionalPodMetadata (sc_Spec Claim_Queue_Props.demoClaim) = \<lparr>pm_Labels = fmempty, pm_Annotations = fmempty\<rparr>"
    "cs_Env (sc_Spec Claim_Queue_Props.demoClaim) = []" "cs_VolumeClaimTemplates (sc_Spec Claim_Queue_Props.demoClaim) = []"
    "bp_VolumeClaimTemplates (ts_Blueprint (tp_Spec netTemplate)) = []"
    by (simp_all add: Claim_Queue_Props.demoClaim_def netTemplate_def emptyBlueprint_def)
  then show ?thesis
    by (simp add: coldSandbox_def resolveVCTs_def validateVolumeClaimTemplates_def coldPodMeta_def mergePodMetadata_def
        validateAdditionalPodMetadata_def injectPodEnvs_def stdSetRef_def Let_def coldMeta_def emptyMeta_def)
qed

end
