(* ===== verification/Api_Conversion.thy ===== *)
theory Api_Conversion
  imports K8s_Meta Go_Strconv
begin

text \<open>
  The conversion webhook between the served v1alpha1 version and the stored v1beta1 version (the
  hub): \<^verbatim>\<open>api/v1alpha1/sandbox_conversion.go\<close> and, under
  \<^verbatim>\<open>extensions/api/v1alpha1\<close>, \<^verbatim>\<open>sandboxclaim_conversion.go\<close>,
  \<^verbatim>\<open>sandboxwarmpool_conversion.go\<close> and \<^verbatim>\<open>sandboxtemplate_conversion.go\<close>.

  The v1alpha1 types whose fields are those of their v1beta1 counterparts share their records; the
  ones that differ have records of their own.  An absent slice or map and an empty one are not
  distinguished.  JSON coding of the objects kept in annotations is the parameter \<open>stateCodec\<close>.
\<close>

section \<open>The v1alpha1 types\<close>

record AlphaSandboxSpec =
  as_PodTemplate :: PodTemplate
  as_VolumeClaimTemplates :: "PersistentVolumeClaimTemplate list"
  as_ShutdownTime :: "gotime option"
  as_ShutdownPolicy :: "string option"
  as_Replicas :: "32 word option"
  as_Service :: "bool option"

record AlphaSandboxStatus =
  at_ServiceFQDN :: string
  at_Service :: string
  at_Conditions :: "Condition list"
  at_Replicas :: "32 word"
  at_LabelSelector :: string
  at_PodIPs :: "string list"

record AlphaSandbox =
  ab_Meta :: ObjectMeta
  ab_Spec :: AlphaSandboxSpec
  ab_Status :: AlphaSandboxStatus

record AlphaClaimSpec =
  ac_TemplateRef :: string
  ac_Lifecycle :: "ClaimLifecycle option"
  ac_WarmPool :: "string option"
  ac_AdditionalPodMetadata :: PodMetadata
  ac_Env :: "ClaimEnvVar list"

record AlphaClaim =
  al_Meta :: ObjectMeta
  al_Spec :: AlphaClaimSpec
  al_Status :: SandboxClaimStatus

record AlphaWarmPoolSpec =
  aw_Replicas :: "32 word"
  aw_TemplateRef :: string
  aw_UpdateStrategy :: "string option"

record AlphaWarmPool =
  ap_Meta :: ObjectMeta
  ap_Spec :: AlphaWarmPoolSpec
  ap_Status :: SandboxWarmPoolStatus

record AlphaTemplateSpec =
  ats_PodTemplate :: PodTemplate
  ats_VolumeClaimTemplates :: "PersistentVolumeClaimTemplate list"
  ats_NetworkPolicy :: "string option"
  ats_NetworkPolicyManagement :: string
  ats_EnvVarsInjectionPolicy :: string
  ats_Service :: "bool option"

record AlphaTemplate =
  atp_Meta :: ObjectMeta
  atp_Spec :: AlphaTemplateSpec

text \<open>
  \<open>json.Marshal\<close> and \<open>json.Unmarshal\<close> at the types the conversions keep in annotations; an error
  is \<open>None\<close>.
\<close>

record stateCodec =
  marshalSandbox :: "AlphaSandbox \<Rightarrow> string option"
  unmarshalSandbox :: "string \<Rightarrow> AlphaSandbox option"
  marshalClaim :: "AlphaClaim \<Rightarrow> string option"
  unmarshalClaim :: "string \<Rightarrow> AlphaClaim option"
  marshalWarmPool :: "AlphaWarmPool \<Rightarrow> string option"
  marshalTemplate :: "AlphaTemplate \<Rightarrow> string option"
  marshalVCTs :: "PersistentVolumeClaimTemplate list \<Rightarrow> string option"
  unmarshalVCTs :: "string \<Rightarrow> PersistentVolumeClaimTemplate list option"

datatype convError =
    MarshalState string
  | UnmarshalState string
  | InvalidPolicyAnnotation string
  | MarshalClaimTemplates
  | UnmarshalClaimTemplates

abbreviation "SandboxStateAnnotation \<equiv> ''api.agents.x-k8s.io/v1alpha1-sandbox-state''"
abbreviation "ClaimStateAnnotation \<equiv> ''api.agents.x-k8s.io/v1alpha1-sandboxclaim-state''"
abbreviation "ClaimVCTsAnnotation \<equiv> ''api.agents.x-k8s.io/v1beta1-sandboxclaim-volume-claim-templates''"
abbreviation "WarmPoolStateAnnotation \<equiv> ''api.agents.x-k8s.io/v1alpha1-sandboxwarmpool-state''"
abbreviation "TemplateStateAnnotation \<equiv> ''api.agents.x-k8s.io/v1alpha1-sandboxtemplate-state''"
abbreviation "VCTPolicyAnnotation \<equiv> ''api.agents.x-k8s.io/v1beta1-volume-claim-templates-policy''"

definition dropAnnotation :: "string \<Rightarrow> ObjectMeta \<Rightarrow> ObjectMeta" where
  "dropAnnotation k m = m\<lparr>om_Annotations := fmdrop k (om_Annotations m)\<rparr>"

definition putAnnotation :: "string \<Rightarrow> string \<Rightarrow> ObjectMeta \<Rightarrow> ObjectMeta" where
  "putAnnotation k v m = m\<lparr>om_Annotations := fmupd k v (om_Annotations m)\<rparr>"

section \<open>Sandbox\<close>

definition ConvertPodMetadataTo :: "PodMetadata \<Rightarrow> PodMetadata" where
  "ConvertPodMetadataTo src = \<lparr>pm_Labels = pm_Labels src, pm_Annotations = pm_Annotations src\<rparr>"

definition ConvertPodMetadataFrom :: "PodMetadata \<Rightarrow> PodMetadata" where
  "ConvertPodMetadataFrom src = \<lparr>pm_Labels = pm_Labels src, pm_Annotations = pm_Annotations src\<rparr>"

definition ConvertPodTemplateTo :: "PodTemplate \<Rightarrow> PodTemplate" where
  "ConvertPodTemplateTo src = \<lparr>pt_Spec = pt_Spec src, pt_Meta = ConvertPodMetadataTo (pt_Meta src)\<rparr>"

definition ConvertPodTemplateFrom :: "PodTemplate \<Rightarrow> PodTemplate" where
  "ConvertPodTemplateFrom src = \<lparr>pt_Spec = pt_Spec src, pt_Meta = ConvertPodMetadataFrom (pt_Meta src)\<rparr>"

definition ConvertPVCClaimTemplateTo :: "PersistentVolumeClaimTemplate \<Rightarrow> PersistentVolumeClaimTemplate" where
  "ConvertPVCClaimTemplateTo src = \<lparr>vct_Name = vct_Name src, vct_Labels = vct_Labels src,
     vct_Annotations = vct_Annotations src, vct_Spec = vct_Spec src\<rparr>"

definition ConvertPVCClaimTemplateFrom :: "PersistentVolumeClaimTemplate \<Rightarrow> PersistentVolumeClaimTemplate" where
  "ConvertPVCClaimTemplateFrom src = \<lparr>vct_Name = vct_Name src, vct_Labels = vct_Labels src,
     vct_Annotations = vct_Annotations src, vct_Spec = vct_Spec src\<rparr>"

definition ConvertSpecTo :: "AlphaSandboxSpec \<Rightarrow> SandboxSpec" where
  "ConvertSpecTo src =
     \<lparr>ss_Blueprint = \<lparr>bp_PodTemplate = ConvertPodTemplateTo (as_PodTemplate src),
        bp_VolumeClaimTemplates = map ConvertPVCClaimTemplateTo (as_VolumeClaimTemplates src),
        bp_Service = as_Service src\<rparr>,
      ss_ShutdownTime = as_ShutdownTime src, ss_ShutdownPolicy = as_ShutdownPolicy src,
      ss_OperatingMode = (if as_Replicas src = Some 0 then ''Suspended'' else ''Running'')\<rparr>"

definition ConvertSpecFrom :: "SandboxSpec \<Rightarrow> AlphaSandboxSpec" where
  "ConvertSpecFrom src =
     \<lparr>as_PodTemplate = ConvertPodTemplateFrom (bp_PodTemplate (ss_Blueprint src)),
      as_VolumeClaimTemplates = map ConvertPVCClaimTemplateFrom (bp_VolumeClaimTemplates (ss_Blueprint src)),
      as_ShutdownTime = ss_ShutdownTime src, as_ShutdownPolicy = ss_ShutdownPolicy src,
      as_Replicas = (if ss_OperatingMode src = ''Suspended'' then Some 0 else Some 1),
      as_Service = bp_Service (ss_Blueprint src)\<rparr>"

definition ConvertStatusTo :: "AlphaSandboxStatus \<Rightarrow> SandboxStatus" where
  "ConvertStatusTo src =
     \<lparr>st_ServiceFQDN = at_ServiceFQDN src, st_Service = at_Service src,
      st_Conditions = at_Conditions src, st_LabelSelector = at_LabelSelector src,
      st_PodIPs = at_PodIPs src, st_NodeName = []\<rparr>"

definition ConvertStatusFrom :: "SandboxStatus \<Rightarrow> 32 word \<Rightarrow> AlphaSandboxStatus" where
  "ConvertStatusFrom src replicas =
     \<lparr>at_ServiceFQDN = st_ServiceFQDN src, at_Service = st_Service src,
      at_Conditions = st_Conditions src, at_Replicas = replicas,
      at_LabelSelector = st_LabelSelector src, at_PodIPs = st_PodIPs src\<rparr>"

definition Sandbox_ConvertTo :: "stateCodec \<Rightarrow> AlphaSandbox \<Rightarrow> convError + Sandbox" where
  "Sandbox_ConvertTo J s =
     (case marshalSandbox J (s\<lparr>ab_Meta := dropAnnotation SandboxStateAnnotation (ab_Meta s)\<rparr>) of
        None \<Rightarrow> Inl (MarshalState ''Sandbox'')
      | Some stateJSON \<Rightarrow>
          Inr \<lparr>sb_Meta = putAnnotation SandboxStateAnnotation stateJSON (ab_Meta s),
               sb_Spec = ConvertSpecTo (ab_Spec s), sb_Status = ConvertStatusTo (ab_Status s)\<rparr>)"

definition restoreReplicas :: "string \<Rightarrow> 32 word option \<Rightarrow> 32 word option \<Rightarrow> 32 word option" where
  "restoreReplicas mode original current =
     (if mode = ''Suspended'' then Some 0
      else if mode = ''Running'' then (if original \<noteq> Some 0 then original else Some 1)
      else current)"

definition Sandbox_ConvertFrom :: "stateCodec \<Rightarrow> Sandbox \<Rightarrow> convError + AlphaSandbox" where
  "Sandbox_ConvertFrom J src =
     (let mode = ss_OperatingMode (sb_Spec src);
          s = \<lparr>ab_Meta = sb_Meta src, ab_Spec = ConvertSpecFrom (sb_Spec src),
               ab_Status = ConvertStatusFrom (sb_Status src) (if mode = ''Suspended'' then 0 else 1)\<rparr>
      in case fmlookup (om_Annotations (ab_Meta s)) SandboxStateAnnotation of
           None \<Rightarrow> Inr s
         | Some stateJSON \<Rightarrow>
             (case unmarshalSandbox J stateJSON of
                None \<Rightarrow> Inl (UnmarshalState ''Sandbox'')
              | Some original \<Rightarrow>
                  Inr (s\<lparr>ab_Meta := dropAnnotation SandboxStateAnnotation (ab_Meta s),
                         ab_Spec := (ab_Spec s)\<lparr>as_Replicas :=
                           restoreReplicas mode (as_Replicas (ab_Spec original)) (as_Replicas (ab_Spec s))\<rparr>,
                         ab_Status := (ab_Status s)\<lparr>at_Replicas := at_Replicas (ab_Status original)\<rparr>\<rparr>)))"

section \<open>SandboxClaim\<close>

definition IsSpecificPool :: "string \<Rightarrow> bool" where
  "IsSpecificPool p \<longleftrightarrow> p \<noteq> ''none'' \<and> p \<noteq> ''default'' \<and> p \<noteq> []"

definition stripRandomSuffix :: "string \<Rightarrow> string" where
  "stripRandomSuffix name = (case lastIndex (CHR ''-'') name of Some idx \<Rightarrow> take idx name | None \<Rightarrow> name)"

definition CutPrefix :: "string \<Rightarrow> string \<Rightarrow> string option" where
  "CutPrefix s p = (if take (length p) s = p then Some (drop (length p) s) else None)"

definition isWarmPoolRefMatching :: "string \<Rightarrow> string \<Rightarrow> string \<Rightarrow> bool" where
  "isWarmPoolRefMatching actualName expectedName sandboxName \<longleftrightarrow>
     actualName = expectedName \<or> actualName = ''shadow-pool-'' @ expectedName \<or>
     sandboxName \<noteq> [] \<and> (actualName = sandboxName \<or> actualName = stripRandomSuffix sandboxName)"

definition specificPool :: "string option \<Rightarrow> string option" where
  "specificPool wp = (case wp of Some p \<Rightarrow> if IsSpecificPool p then Some p else None | None \<Rightarrow> None)"

definition warmPoolRefTo :: "AlphaClaimSpec \<Rightarrow> string \<Rightarrow> string \<Rightarrow> string" where
  "warmPoolRefTo src claimName sandboxName =
     (case specificPool (ac_WarmPool src) of
        Some p \<Rightarrow> p
      | None \<Rightarrow> if sandboxName \<noteq> [] \<and> claimName \<noteq> sandboxName then stripRandomSuffix sandboxName
                else ''shadow-pool-'' @ ac_TemplateRef src)"

definition copyLifecycle :: "ClaimLifecycle \<Rightarrow> ClaimLifecycle" where
  "copyLifecycle l = \<lparr>cl_ShutdownTime = cl_ShutdownTime l,
     cl_TTLSecondsAfterFinished = cl_TTLSecondsAfterFinished l, cl_ShutdownPolicy = cl_ShutdownPolicy l\<rparr>"

definition copyEnv :: "ClaimEnvVar \<Rightarrow> ClaimEnvVar" where
  "copyEnv e = \<lparr>ce_Name = ce_Name e, ce_Value = ce_Value e, ce_ContainerName = ce_ContainerName e\<rparr>"

definition convertClaimSpecTo :: "AlphaClaimSpec \<Rightarrow> string \<Rightarrow> string \<Rightarrow> SandboxClaimSpec" where
  "convertClaimSpecTo src claimName sandboxName =
     \<lparr>cs_WarmPoolRef = warmPoolRefTo src claimName sandboxName,
      cs_Lifecycle = map_option copyLifecycle (ac_Lifecycle src),
      cs_AdditionalPodMetadata = ConvertPodMetadataTo (ac_AdditionalPodMetadata src),
      cs_Env = map copyEnv (ac_Env src),
      cs_VolumeClaimTemplates = []\<rparr>"

definition convertClaimSpecFrom :: "SandboxClaimSpec \<Rightarrow> AlphaClaimSpec" where
  "convertClaimSpecFrom src =
     (let (template, policy) =
            (case CutPrefix (cs_WarmPoolRef src) ''shadow-pool-'' of
               Some templateName \<Rightarrow> (templateName, ''default'')
             | None \<Rightarrow> (cs_WarmPoolRef src, cs_WarmPoolRef src))
      in \<lparr>ac_TemplateRef = template, ac_Lifecycle = map_option copyLifecycle (cs_Lifecycle src),
          ac_WarmPool = Some policy,
          ac_AdditionalPodMetadata = ConvertPodMetadataFrom (cs_AdditionalPodMetadata src),
          ac_Env = map copyEnv (cs_Env src)\<rparr>)"

definition convertClaimStatusTo :: "SandboxClaimStatus \<Rightarrow> SandboxClaimStatus" where
  "convertClaimStatusTo src = \<lparr>cst_Conditions = cst_Conditions src,
     cst_SandboxName = cst_SandboxName src, cst_PodIPs = cst_PodIPs src\<rparr>"

definition convertClaimStatusFrom :: "SandboxClaimStatus \<Rightarrow> SandboxClaimStatus" where
  "convertClaimStatusFrom src = \<lparr>cst_Conditions = cst_Conditions src,
     cst_SandboxName = cst_SandboxName src, cst_PodIPs = cst_PodIPs src\<rparr>"

definition restoreVCTs :: "stateCodec \<Rightarrow> AlphaClaim \<Rightarrow> SandboxClaim \<Rightarrow> convError + SandboxClaim" where
  "restoreVCTs J s dst =
     (case fmlookup (om_Annotations (al_Meta s)) ClaimVCTsAnnotation of
        None \<Rightarrow> Inr dst
      | Some raw \<Rightarrow>
          (case unmarshalVCTs J raw of
             None \<Rightarrow> Inl UnmarshalClaimTemplates
           | Some vcts \<Rightarrow>
               Inr (dst\<lparr>sc_Meta := dropAnnotation ClaimVCTsAnnotation (sc_Meta dst),
                        sc_Spec := (sc_Spec dst)\<lparr>cs_VolumeClaimTemplates := vcts\<rparr>\<rparr>)))"

definition Claim_ConvertTo :: "stateCodec \<Rightarrow> AlphaClaim \<Rightarrow> convError + SandboxClaim" where
  "Claim_ConvertTo J s =
     (case restoreVCTs J s
             \<lparr>sc_Meta = al_Meta s,
              sc_Spec = convertClaimSpecTo (al_Spec s) (om_Name (al_Meta s)) (cst_SandboxName (al_Status s)),
              sc_Status = convertClaimStatusTo (al_Status s)\<rparr> of
        Inl err \<Rightarrow> Inl err
      | Inr dst \<Rightarrow>
          (case marshalClaim J (s\<lparr>al_Meta := dropAnnotation ClaimStateAnnotation (al_Meta s)\<rparr>) of
             None \<Rightarrow> Inl (MarshalState ''SandboxClaim'')
           | Some stateJSON \<Rightarrow> Inr (dst\<lparr>sc_Meta := putAnnotation ClaimStateAnnotation stateJSON (sc_Meta dst)\<rparr>)))"

definition restorePool :: "SandboxClaim \<Rightarrow> AlphaClaim \<Rightarrow> AlphaClaimSpec \<Rightarrow> AlphaClaimSpec" where
  "restorePool src original spec =
     (let expected = (case specificPool (ac_WarmPool (al_Spec original)) of
                        Some p \<Rightarrow> p | None \<Rightarrow> ac_TemplateRef (al_Spec original))
      in if isWarmPoolRefMatching (cs_WarmPoolRef (sc_Spec src)) expected (cst_SandboxName (sc_Status src))
         then spec\<lparr>ac_TemplateRef := ac_TemplateRef (al_Spec original), ac_WarmPool := ac_WarmPool (al_Spec original)\<rparr>
         else spec\<lparr>ac_TemplateRef := ac_TemplateRef (al_Spec original), ac_WarmPool := Some (cs_WarmPoolRef (sc_Spec src))\<rparr>)"

definition restoreClaim :: "stateCodec \<Rightarrow> SandboxClaim \<Rightarrow> AlphaClaim \<Rightarrow> convError + AlphaClaim" where
  "restoreClaim J src s =
     (case fmlookup (om_Annotations (al_Meta s)) ClaimStateAnnotation of
        None \<Rightarrow> Inr s
      | Some stateJSON \<Rightarrow>
          (case unmarshalClaim J stateJSON of
             None \<Rightarrow> Inl (UnmarshalState ''SandboxClaim'')
           | Some original \<Rightarrow>
               Inr (s\<lparr>al_Meta := dropAnnotation ClaimStateAnnotation (al_Meta s),
                      al_Spec := restorePool src original (al_Spec s)\<rparr>)))"

definition preserveVCTs :: "stateCodec \<Rightarrow> SandboxClaim \<Rightarrow> AlphaClaim \<Rightarrow> convError + AlphaClaim" where
  "preserveVCTs J src s =
     (if cs_VolumeClaimTemplates (sc_Spec src) \<noteq> [] then
        (case marshalVCTs J (cs_VolumeClaimTemplates (sc_Spec src)) of
           None \<Rightarrow> Inl MarshalClaimTemplates
         | Some raw \<Rightarrow> Inr (s\<lparr>al_Meta := putAnnotation ClaimVCTsAnnotation raw (al_Meta s)\<rparr>))
      else Inr (s\<lparr>al_Meta := dropAnnotation ClaimVCTsAnnotation (al_Meta s)\<rparr>))"

definition Claim_ConvertFrom :: "stateCodec \<Rightarrow> SandboxClaim \<Rightarrow> convError + AlphaClaim" where
  "Claim_ConvertFrom J src =
     (case restoreClaim J src \<lparr>al_Meta = sc_Meta src, al_Spec = convertClaimSpecFrom (sc_Spec src),
                              al_Status = convertClaimStatusFrom (sc_Status src)\<rparr> of
        Inl err \<Rightarrow> Inl err
      | Inr s \<Rightarrow> preserveVCTs J src s)"

section \<open>SandboxWarmPool\<close>

definition convertWarmPoolSpecTo :: "AlphaWarmPoolSpec \<Rightarrow> SandboxWarmPoolSpec" where
  "convertWarmPoolSpecTo src = \<lparr>ws_Replicas = Some (aw_Replicas src), ws_TemplateRef = aw_TemplateRef src,
     ws_UpdateStrategy = aw_UpdateStrategy src\<rparr>"

definition convertWarmPoolSpecFrom :: "SandboxWarmPoolSpec \<Rightarrow> AlphaWarmPoolSpec" where
  "convertWarmPoolSpecFrom src =
     \<lparr>aw_Replicas = (case ws_Replicas src of Some n \<Rightarrow> n | None \<Rightarrow> 1), aw_TemplateRef = ws_TemplateRef src,
      aw_UpdateStrategy = ws_UpdateStrategy src\<rparr>"

definition convertWarmPoolStatusTo :: "SandboxWarmPoolStatus \<Rightarrow> SandboxWarmPoolStatus" where
  "convertWarmPoolStatusTo src = \<lparr>wt_Replicas = wt_Replicas src, wt_ReadyReplicas = wt_ReadyReplicas src,
     wt_Selector = wt_Selector src\<rparr>"

definition convertWarmPoolStatusFrom :: "SandboxWarmPoolStatus \<Rightarrow> SandboxWarmPoolStatus" where
  "convertWarmPoolStatusFrom src = \<lparr>wt_Replicas = wt_Replicas src, wt_ReadyReplicas = wt_ReadyReplicas src,
     wt_Selector = wt_Selector src\<rparr>"

definition WarmPool_ConvertTo :: "stateCodec \<Rightarrow> AlphaWarmPool \<Rightarrow> convError + SandboxWarmPool" where
  "WarmPool_ConvertTo J s =
     (case marshalWarmPool J (s\<lparr>ap_Meta := dropAnnotation WarmPoolStateAnnotation (ap_Meta s)\<rparr>) of
        None \<Rightarrow> Inl (MarshalState ''SandboxWarmPool'')
      | Some stateJSON \<Rightarrow>
          Inr \<lparr>wp_Meta = putAnnotation WarmPoolStateAnnotation stateJSON (ap_Meta s),
               wp_Spec = convertWarmPoolSpecTo (ap_Spec s),
               wp_Status = convertWarmPoolStatusTo (ap_Status s)\<rparr>)"

definition WarmPool_ConvertFrom :: "SandboxWarmPool \<Rightarrow> AlphaWarmPool" where
  "WarmPool_ConvertFrom src =
     \<lparr>ap_Meta = dropAnnotation WarmPoolStateAnnotation (wp_Meta src),
      ap_Spec = convertWarmPoolSpecFrom (wp_Spec src), ap_Status = convertWarmPoolStatusFrom (wp_Status src)\<rparr>"

section \<open>SandboxTemplate\<close>

definition convertTemplateSpecTo :: "AlphaTemplateSpec \<Rightarrow> SandboxTemplateSpec" where
  "convertTemplateSpecTo src =
     \<lparr>ts_Blueprint = \<lparr>bp_PodTemplate = ConvertPodTemplateTo (ats_PodTemplate src),
        bp_VolumeClaimTemplates = map ConvertPVCClaimTemplateTo (ats_VolumeClaimTemplates src),
        bp_Service = ats_Service src\<rparr>,
      ts_NetworkPolicy = ats_NetworkPolicy src,
      ts_NetworkPolicyManagement = ats_NetworkPolicyManagement src,
      ts_EnvVarsInjectionPolicy = ats_EnvVarsInjectionPolicy src,
      ts_VolumeClaimTemplatesPolicy = []\<rparr>"

definition convertTemplateSpecFrom :: "SandboxTemplateSpec \<Rightarrow> AlphaTemplateSpec" where
  "convertTemplateSpecFrom src =
     \<lparr>ats_PodTemplate = ConvertPodTemplateFrom (bp_PodTemplate (ts_Blueprint src)),
      ats_VolumeClaimTemplates = map ConvertPVCClaimTemplateFrom (bp_VolumeClaimTemplates (ts_Blueprint src)),
      ats_NetworkPolicy = ts_NetworkPolicy src,
      ats_NetworkPolicyManagement = ts_NetworkPolicyManagement src,
      ats_EnvVarsInjectionPolicy = ts_EnvVarsInjectionPolicy src,
      ats_Service = bp_Service (ts_Blueprint src)\<rparr>"

definition validVCTPolicy :: "string \<Rightarrow> bool" where
  "validVCTPolicy p \<longleftrightarrow> p \<in> {''Disallowed'', ''Allowed'', ''Overrides''}"

definition restorePolicy :: "AlphaTemplate \<Rightarrow> SandboxTemplate \<Rightarrow> convError + SandboxTemplate" where
  "restorePolicy s dst =
     (case fmlookup (om_Annotations (atp_Meta s)) VCTPolicyAnnotation of
        None \<Rightarrow> Inr dst
      | Some policy \<Rightarrow>
          if validVCTPolicy policy
          then Inr (dst\<lparr>tp_Meta := dropAnnotation VCTPolicyAnnotation (tp_Meta dst),
                        tp_Spec := (tp_Spec dst)\<lparr>ts_VolumeClaimTemplatesPolicy := policy\<rparr>\<rparr>)
          else Inl (InvalidPolicyAnnotation policy))"

definition Template_ConvertTo :: "stateCodec \<Rightarrow> AlphaTemplate \<Rightarrow> convError + SandboxTemplate" where
  "Template_ConvertTo J s =
     (case restorePolicy s \<lparr>tp_Meta = atp_Meta s, tp_Spec = convertTemplateSpecTo (atp_Spec s)\<rparr> of
        Inl err \<Rightarrow> Inl err
      | Inr dst \<Rightarrow>
          (case marshalTemplate J (s\<lparr>atp_Meta := dropAnnotation TemplateStateAnnotation (atp_Meta s)\<rparr>) of
             None \<Rightarrow> Inl (MarshalState ''SandboxTemplate'')
           | Some stateJSON \<Rightarrow> Inr (dst\<lparr>tp_Meta := putAnnotation TemplateStateAnnotation stateJSON (tp_Meta dst)\<rparr>)))"

definition Template_ConvertFrom :: "SandboxTemplate \<Rightarrow> AlphaTemplate" where
  "Template_ConvertFrom src =
     (let meta = dropAnnotation TemplateStateAnnotation (tp_Meta src);
          policy = ts_VolumeClaimTemplatesPolicy (tp_Spec src)
      in \<lparr>atp_Meta = (if policy \<noteq> [] then putAnnotation VCTPolicyAnnotation policy meta
                      else dropAnnotation VCTPolicyAnnotation meta),
          atp_Spec = convertTemplateSpecFrom (tp_Spec src)\<rparr>)"

end
