(* ===== verification/Api_Conversion_Props.thy ===== *)
theory Api_Conversion_Props
  imports Api_Conversion
begin

text \<open>
  Round trips of the conversion webhook: what a v1alpha1 object is after a hop through the hub, what
  a v1beta1 object is after a hop through v1alpha1, and the well-formedness of what the conversions
  produce.
\<close>

section \<open>Field-wise copies are identities\<close>

named_theorems copies

lemma ConvertPodMetadataTo_id [copies]: "ConvertPodMetadataTo m = m"
  by (simp add: ConvertPodMetadataTo_def)

lemma ConvertPodMetadataFrom_id [copies]: "ConvertPodMetadataFrom m = m"
  by (simp add: ConvertPodMetadataFrom_def)

lemma ConvertPodTemplateTo_id [copies]: "ConvertPodTemplateTo t = t"
  by (simp add: ConvertPodTemplateTo_def copies)

lemma ConvertPodTemplateFrom_id [copies]: "ConvertPodTemplateFrom t = t"
  by (simp add: ConvertPodTemplateFrom_def copies)

lemma ConvertPVCClaimTemplateTo_id [copies]: "ConvertPVCClaimTemplateTo = (\<lambda>v. v)"
  by (simp add: ConvertPVCClaimTemplateTo_def fun_eq_iff)

lemma ConvertPVCClaimTemplateFrom_id [copies]: "ConvertPVCClaimTemplateFrom = (\<lambda>v. v)"
  by (simp add: ConvertPVCClaimTemplateFrom_def fun_eq_iff)

lemma copyLifecycle_id [copies]: "copyLifecycle = (\<lambda>l. l)"
  by (simp add: copyLifecycle_def fun_eq_iff)

lemma copyEnv_id [copies]: "copyEnv = (\<lambda>e. e)"
  by (simp add: copyEnv_def fun_eq_iff)

lemma convertClaimStatus_id [copies]: "convertClaimStatusTo = (\<lambda>st. st)" "convertClaimStatusFrom = (\<lambda>st. st)"
  by (simp_all add: convertClaimStatusTo_def convertClaimStatusFrom_def fun_eq_iff)

lemma convertWarmPoolStatus_id [copies]: "convertWarmPoolStatusTo = (\<lambda>st. st)" "convertWarmPoolStatusFrom = (\<lambda>st. st)"
  by (simp_all add: convertWarmPoolStatusTo_def convertWarmPoolStatusFrom_def fun_eq_iff)

lemma map_option_same [copies]: "map_option (\<lambda>x. x) y = y"
  by (cases y) auto

section \<open>Annotations\<close>

named_theorems annotations

lemma fmdrop_fmupd_same: "fmdrop k (fmupd k v m) = fmdrop k m"
  by (rule fmap_ext) simp

lemma fmdrop_fmupd_other: "k \<noteq> l \<Longrightarrow> fmdrop k (fmupd l v m) = fmupd l v (fmdrop k m)"
  by (rule fmap_ext) simp

lemma fmupd_fmdrop_same: "fmlookup m k = Some v \<Longrightarrow> fmupd k v (fmdrop k m) = m"
  by (rule fmap_ext) auto

lemma fmdrop_absent: "fmlookup m k = None \<Longrightarrow> fmdrop k m = m"
  by (rule fmap_ext) simp

lemma drop_put_same [annotations]: "dropAnnotation k (putAnnotation k v m) = dropAnnotation k m"
  by (simp add: dropAnnotation_def putAnnotation_def fmdrop_fmupd_same)

lemma drop_put_other [annotations]:
  "k \<noteq> l \<Longrightarrow> dropAnnotation k (putAnnotation l v m) = putAnnotation l v (dropAnnotation k m)"
  by (simp add: dropAnnotation_def putAnnotation_def fmdrop_fmupd_other)

lemma put_drop_same [annotations]:
  "fmlookup (om_Annotations m) k = Some v \<Longrightarrow> putAnnotation k v (dropAnnotation k m) = m"
  by (simp add: dropAnnotation_def putAnnotation_def fmupd_fmdrop_same)

lemma drop_absent [annotations]: "fmlookup (om_Annotations m) k = None \<Longrightarrow> dropAnnotation k m = m"
  by (simp add: dropAnnotation_def fmdrop_absent)

lemma lookup_put [annotations]:
  "fmlookup (om_Annotations (putAnnotation k v m)) l = (if l = k then Some v else fmlookup (om_Annotations m) l)"
  by (simp add: putAnnotation_def)

lemma lookup_drop [annotations]:
  "fmlookup (om_Annotations (dropAnnotation k m)) l = (if l = k then None else fmlookup (om_Annotations m) l)"
  by (simp add: dropAnnotation_def)

lemma name_kept [annotations]:
  "om_Name (putAnnotation k v m) = om_Name m" "om_Name (dropAnnotation k m) = om_Name m"
  by (simp_all add: putAnnotation_def dropAnnotation_def)

lemma drop_comm: "dropAnnotation k (dropAnnotation l m) = dropAnnotation l (dropAnnotation k m)"
  by (simp add: dropAnnotation_def fmdrop_comm)

section \<open>Sandbox\<close>

definition stripSandbox :: "AlphaSandbox \<Rightarrow> AlphaSandbox" where
  "stripSandbox s = s\<lparr>ab_Meta := dropAnnotation SandboxStateAnnotation (ab_Meta s)\<rparr>"

text \<open>
  The law of \<open>encoding/json\<close> the Sandbox conversion relies on: the state it writes decodes to an
  object with the same replica counts.
\<close>

definition sandbox_state_ok :: "stateCodec \<Rightarrow> AlphaSandbox \<Rightarrow> bool" where
  "sandbox_state_ok J s \<longleftrightarrow>
     (\<exists>j original. marshalSandbox J s = Some j \<and> unmarshalSandbox J j = Some original \<and>
        as_Replicas (ab_Spec original) = as_Replicas (ab_Spec s) \<and>
        at_Replicas (ab_Status original) = at_Replicas (ab_Status s))"

text \<open>
  C36: A v1alpha1 Sandbox survives a hop through the stored version: converting it to v1beta1
  succeeds, and converting the result back gives the object again, replica counts included, with
  only the state annotation stripped.
\<close>

theorem alpha_sandbox_roundtrip:
  assumes "sandbox_state_ok J (stripSandbox s)"
  shows "\<exists>h. Sandbox_ConvertTo J s = Inr h \<and> Sandbox_ConvertFrom J h = Inr (stripSandbox s)"
proof -
  from assms obtain j original where "marshalSandbox J (stripSandbox s) = Some j"
    "unmarshalSandbox J j = Some original" "as_Replicas (ab_Spec original) = as_Replicas (ab_Spec s)"
    "at_Replicas (ab_Status original) = at_Replicas (ab_Status s)"
    by (auto simp: sandbox_state_ok_def stripSandbox_def)
  then show ?thesis
    by (auto simp: Sandbox_ConvertTo_def Sandbox_ConvertFrom_def stripSandbox_def ConvertSpecTo_def
        ConvertSpecFrom_def ConvertStatusTo_def ConvertStatusFrom_def restoreReplicas_def copies annotations)
qed

text \<open>
  After a v1beta1 client suspends a Sandbox last written through v1alpha1, its v1alpha1 view
  asks for zero replicas but still reports the replica count of that last write.
\<close>

theorem alpha_status_replicas_stale:
  assumes "sandbox_state_ok J (stripSandbox s)" and "Sandbox_ConvertTo J s = Inr h"
  shows "\<exists>a. Sandbox_ConvertFrom J (h\<lparr>sb_Spec := (sb_Spec h)\<lparr>ss_OperatingMode := ''Suspended''\<rparr>\<rparr>) = Inr a \<and>
     as_Replicas (ab_Spec a) = Some 0 \<and> at_Replicas (ab_Status a) = at_Replicas (ab_Status s)"
  using assms
  by (auto simp: sandbox_state_ok_def stripSandbox_def Sandbox_ConvertTo_def Sandbox_ConvertFrom_def
      restoreReplicas_def ConvertStatusFrom_def Let_def annotations)

section \<open>SandboxClaim\<close>

definition stripClaim :: "AlphaClaim \<Rightarrow> AlphaClaim" where
  "stripClaim s = s\<lparr>al_Meta := dropAnnotation ClaimStateAnnotation (al_Meta s)\<rparr>"

definition claim_state_ok :: "stateCodec \<Rightarrow> AlphaClaim \<Rightarrow> bool" where
  "claim_state_ok J s \<longleftrightarrow>
     (\<exists>j original. marshalClaim J s = Some j \<and> unmarshalClaim J j = Some original \<and>
        ac_TemplateRef (al_Spec original) = ac_TemplateRef (al_Spec s) \<and>
        ac_WarmPool (al_Spec original) = ac_WarmPool (al_Spec s))"

text \<open>The preserved volume claim templates, when there are any, are in the encoder's own form.\<close>

definition vcts_annotation_ok :: "stateCodec \<Rightarrow> AlphaClaim \<Rightarrow> bool" where
  "vcts_annotation_ok J s \<longleftrightarrow>
     (case fmlookup (om_Annotations (al_Meta s)) ClaimVCTsAnnotation of None \<Rightarrow> True
      | Some raw \<Rightarrow> (case unmarshalVCTs J raw of None \<Rightarrow> False
                    | Some vcts \<Rightarrow> vcts \<noteq> [] \<and> marshalVCTs J vcts = Some raw))"

lemma warmPoolRefTo_matches:
  "isWarmPoolRefMatching (warmPoolRefTo spec claimName sandboxName)
     (case specificPool (ac_WarmPool spec) of Some p \<Rightarrow> p | None \<Rightarrow> ac_TemplateRef spec) sandboxName"
  by (auto simp: isWarmPoolRefMatching_def warmPoolRefTo_def split: option.splits)

lemma restorePool_converted:
  assumes "ac_TemplateRef (al_Spec original) = ac_TemplateRef spec"
    and "ac_WarmPool (al_Spec original) = ac_WarmPool spec"
    and "cs_WarmPoolRef (sc_Spec src) = warmPoolRefTo spec claimName (cst_SandboxName (sc_Status src))"
  shows "restorePool src original t = t\<lparr>ac_TemplateRef := ac_TemplateRef spec, ac_WarmPool := ac_WarmPool spec\<rparr>"
  unfolding restorePool_def assms Let_def by (simp add: warmPoolRefTo_matches)

lemma convertClaimSpec_roundtrip:
  "(convertClaimSpecFrom (convertClaimSpecTo a n b))\<lparr>ac_TemplateRef := ac_TemplateRef a, ac_WarmPool := ac_WarmPool a\<rparr> = a"
  by (simp add: convertClaimSpecFrom_def convertClaimSpecTo_def copies split: option.split)

lemma convertClaimSpecFrom_vcts [simp]:
  "convertClaimSpecFrom (spec\<lparr>cs_VolumeClaimTemplates := vs\<rparr>) = convertClaimSpecFrom spec"
  by (simp add: convertClaimSpecFrom_def split: option.split)

text \<open>
  C21: A v1alpha1 SandboxClaim survives a hop through the stored version.  Whatever warm pool
  reference the hub form gets -- the named pool, the pool of the bound sandbox, or the shadow pool of
  the template -- the way back recognises it and restores the claim's own template reference and pool
  policy; preserved volume claim templates travel through the hub's field.
\<close>

theorem alpha_claim_roundtrip:
  assumes "claim_state_ok J (stripClaim s)" and "vcts_annotation_ok J s"
  shows "\<exists>h. Claim_ConvertTo J s = Inr h \<and> Claim_ConvertFrom J h = Inr (stripClaim s)"
proof -
  from assms(1) obtain j original where j: "marshalClaim J (s\<lparr>al_Meta := dropAnnotation ClaimStateAnnotation (al_Meta s)\<rparr>) = Some j"
    "unmarshalClaim J j = Some original" "ac_TemplateRef (al_Spec original) = ac_TemplateRef (al_Spec s)"
    "ac_WarmPool (al_Spec original) = ac_WarmPool (al_Spec s)"
    by (auto simp: claim_state_ok_def stripClaim_def)
  note defs = Claim_ConvertTo_def Claim_ConvertFrom_def restoreVCTs_def restoreClaim_def preserveVCTs_def
    stripClaim_def copies annotations j
  have ref: "cs_WarmPoolRef (convertClaimSpecTo (al_Spec s) (om_Name (al_Meta s)) (cst_SandboxName (al_Status s)))
    = warmPoolRefTo (al_Spec s) (om_Name (al_Meta s)) (cst_SandboxName (al_Status s))"
    "cs_VolumeClaimTemplates (convertClaimSpecTo (al_Spec s) (om_Name (al_Meta s)) (cst_SandboxName (al_Status s))) = []"
    by (simp_all add: convertClaimSpecTo_def)
  show ?thesis
  proof (cases "fmlookup (om_Annotations (al_Meta s)) ClaimVCTsAnnotation")
    case None
    then show ?thesis
      by (simp add: defs ref restorePool_converted [where spec = "al_Spec s" and claimName = "om_Name (al_Meta s)"]
          convertClaimSpec_roundtrip)
  next
    case (Some raw)
    with assms(2) obtain vcts where "unmarshalVCTs J raw = Some vcts" "vcts \<noteq> []" "marshalVCTs J vcts = Some raw"
      by (auto simp: vcts_annotation_ok_def split: option.splits)
    with Some show ?thesis
      by (simp add: defs ref drop_comm [of ClaimStateAnnotation ClaimVCTsAnnotation] restorePool_converted [where spec = "al_Spec s" and claimName = "om_Name (al_Meta s)"]
          convertClaimSpec_roundtrip)
  qed
qed

text \<open>The name the warm pool controller's \<open>GenerateName\<close> gives a sandbox: the pool, a dash, a random part.\<close>

definition generatedFor :: "string \<Rightarrow> string \<Rightarrow> bool" where
  "generatedFor pool name \<longleftrightarrow> (\<exists>r. CHR ''-'' \<notin> set r \<and> name = pool @ CHR ''-'' # r)"

lemma stripRandomSuffix_generated: "generatedFor pool name \<Longrightarrow> stripRandomSuffix name = pool"
  by (auto simp: generatedFor_def stripRandomSuffix_def)

lemma CutPrefix_Some: "CutPrefix s p = Some t \<longleftrightarrow> s = p @ t"
proof
  assume "CutPrefix s p = Some t"
  then show "s = p @ t" by (auto simp: CutPrefix_def split: if_splits) (metis append_take_drop_id)
qed (simp add: CutPrefix_def)

text \<open>The warm pool reference of a v1beta1 claim after its v1alpha1 form is written back.\<close>

lemma warmPoolRef_hop:
  assumes "generatedFor (cs_WarmPoolRef spec) sandboxName \<or> sandboxName \<in> {[], claimName}"
  shows "warmPoolRefTo (convertClaimSpecFrom spec) claimName sandboxName =
     (if IsSpecificPool (cs_WarmPoolRef spec) \<or> sandboxName \<notin> {[], claimName} then cs_WarmPoolRef spec
      else ''shadow-pool-'' @ cs_WarmPoolRef spec)"
proof (cases "CutPrefix (cs_WarmPoolRef spec) ''shadow-pool-''")
  case None
  with assms show ?thesis
    by (auto simp: warmPoolRefTo_def specificPool_def convertClaimSpecFrom_def stripRandomSuffix_generated)
next
  case (Some t)
  then have "cs_WarmPoolRef spec = ''shadow-pool-'' @ t" by (simp add: CutPrefix_Some)
  with Some assms show ?thesis
    by (auto simp: warmPoolRefTo_def specificPool_def convertClaimSpecFrom_def IsSpecificPool_def
        dest: stripRandomSuffix_generated)
qed

lemma restoreVCTs_None:
  "fmlookup (om_Annotations (al_Meta s)) ClaimVCTsAnnotation = None \<Longrightarrow> restoreVCTs J s dst = Inr dst"
  by (simp add: restoreVCTs_def)

definition hub_claim_codec_ok :: "stateCodec \<Rightarrow> SandboxClaim \<Rightarrow> bool" where
  "hub_claim_codec_ok J h \<longleftrightarrow>
     (\<exists>raw. marshalVCTs J (cs_VolumeClaimTemplates (sc_Spec h)) = Some raw \<and>
        unmarshalVCTs J raw = Some (cs_VolumeClaimTemplates (sc_Spec h))) \<and>
     (\<forall>a. marshalClaim J a \<noteq> None)"

text \<open>
  C22: A v1beta1 SandboxClaim that a v1alpha1 client reads and writes back keeps its status, volume
  claim templates and every other field, whether unbound, cold or bound to a sandbox its pool
  generated; its warm pool reference is kept exactly when it is not one of the words the v1alpha1
  policy reserves (or the claim is bound warm), and otherwise names the shadow pool of that word.
\<close>

theorem hub_claim_roundtrip:
  assumes "hub_claim_codec_ok J h"
    and "fmlookup (om_Annotations (sc_Meta h)) ClaimStateAnnotation = None"
    and "fmlookup (om_Annotations (sc_Meta h)) ClaimVCTsAnnotation = None"
    and bound: "generatedFor (cs_WarmPoolRef (sc_Spec h)) (cst_SandboxName (sc_Status h)) \<or>
       cst_SandboxName (sc_Status h) \<in> {[], om_Name (sc_Meta h)}"
  shows "\<exists>a h' j. Claim_ConvertFrom J h = Inr a \<and> Claim_ConvertTo J a = Inr h' \<and>
     sc_Meta h' = putAnnotation ClaimStateAnnotation j (sc_Meta h) \<and> sc_Status h' = sc_Status h \<and>
     sc_Spec h' = (sc_Spec h)\<lparr>cs_WarmPoolRef :=
       (if IsSpecificPool (cs_WarmPoolRef (sc_Spec h)) \<or> cst_SandboxName (sc_Status h) \<notin> {[], om_Name (sc_Meta h)}
        then cs_WarmPoolRef (sc_Spec h) else ''shadow-pool-'' @ cs_WarmPoolRef (sc_Spec h))\<rparr>"
proof -
  define vcts where "vcts = cs_VolumeClaimTemplates (sc_Spec h)"
  from assms(1) obtain raw where raw: "marshalVCTs J vcts = Some raw" "unmarshalVCTs J raw = Some vcts"
    by (auto simp: hub_claim_codec_ok_def vcts_def)
  define m where "m = (if vcts = [] then sc_Meta h else putAnnotation ClaimVCTsAnnotation raw (sc_Meta h))"
  define a where "a = \<lparr>al_Meta = m, al_Spec = convertClaimSpecFrom (sc_Spec h), al_Status = sc_Status h\<rparr>"
  have from_h: "Claim_ConvertFrom J h = Inr a"
    using assms(2,3) raw
    by (simp add: Claim_ConvertFrom_def restoreClaim_def preserveVCTs_def a_def m_def copies annotations flip: vcts_def)
  from assms(1) obtain j where j: "marshalClaim J (a\<lparr>al_Meta := dropAnnotation ClaimStateAnnotation (al_Meta a)\<rparr>) = Some j"
    by (auto simp: hub_claim_codec_ok_def)
  let ?spec = "convertClaimSpecTo (convertClaimSpecFrom (sc_Spec h)) (om_Name m) (cst_SandboxName (sc_Status h))"
  have restored: "restoreVCTs J a \<lparr>sc_Meta = m, sc_Spec = ?spec, sc_Status = sc_Status h\<rparr>
    = Inr \<lparr>sc_Meta = sc_Meta h, sc_Spec = ?spec\<lparr>cs_VolumeClaimTemplates := vcts\<rparr>, sc_Status = sc_Status h\<rparr>"
    using assms(3) raw by (simp add: restoreVCTs_def a_def m_def annotations convertClaimSpecTo_def)
  then have "Claim_ConvertTo J a = Inr \<lparr>sc_Meta = putAnnotation ClaimStateAnnotation j (sc_Meta h),
      sc_Spec = ?spec\<lparr>cs_VolumeClaimTemplates := vcts\<rparr>, sc_Status = sc_Status h\<rparr>"
    using j by (simp add: Claim_ConvertTo_def a_def copies)
  moreover have "?spec\<lparr>cs_VolumeClaimTemplates := vcts\<rparr> = (sc_Spec h)\<lparr>cs_WarmPoolRef :=
      warmPoolRefTo (convertClaimSpecFrom (sc_Spec h)) (om_Name (sc_Meta h)) (cst_SandboxName (sc_Status h))\<rparr>"
    by (simp add: convertClaimSpecTo_def convertClaimSpecFrom_def copies vcts_def m_def annotations split: option.split)
  ultimately show ?thesis
    using from_h warmPoolRef_hop [OF bound] by fastforce
qed

section \<open>Warm pools and templates\<close>

definition stripWarmPool :: "AlphaWarmPool \<Rightarrow> AlphaWarmPool" where
  "stripWarmPool s = s\<lparr>ap_Meta := dropAnnotation WarmPoolStateAnnotation (ap_Meta s)\<rparr>"

definition stripTemplate :: "AlphaTemplate \<Rightarrow> AlphaTemplate" where
  "stripTemplate s = s\<lparr>atp_Meta := dropAnnotation TemplateStateAnnotation (atp_Meta s)\<rparr>"

definition policy_annotation_ok :: "AlphaTemplate \<Rightarrow> bool" where
  "policy_annotation_ok s \<longleftrightarrow>
     (case fmlookup (om_Annotations (atp_Meta s)) VCTPolicyAnnotation of None \<Rightarrow> True | Some p \<Rightarrow> validVCTPolicy p)"

text \<open>
  A v1alpha1 warm pool survives a hop through the stored version.  A v1alpha1 template does so
  exactly when its preserved volume claim templates policy is absent or one of the three policies;
  with any other value the conversion is refused.
\<close>

lemma alpha_pool_roundtrip:
  assumes "\<forall>p. marshalWarmPool J p \<noteq> None"
  shows "\<exists>h. WarmPool_ConvertTo J p = Inr h \<and> WarmPool_ConvertFrom h = stripWarmPool p"
proof -
  from assms obtain j where "marshalWarmPool J (p\<lparr>ap_Meta := dropAnnotation WarmPoolStateAnnotation (ap_Meta p)\<rparr>) = Some j"
    by blast
  then show ?thesis
    by (simp add: WarmPool_ConvertTo_def WarmPool_ConvertFrom_def stripWarmPool_def convertWarmPoolSpecTo_def
        convertWarmPoolSpecFrom_def copies annotations)
qed

lemma alpha_template_roundtrip:
  assumes "\<forall>t. marshalTemplate J t \<noteq> None"
  shows "(\<exists>h. Template_ConvertTo J t = Inr h \<and> Template_ConvertFrom h = stripTemplate t) \<longleftrightarrow> policy_annotation_ok t"
proof -
  from assms obtain i where
    "marshalTemplate J (t\<lparr>atp_Meta := dropAnnotation TemplateStateAnnotation (atp_Meta t)\<rparr>) = Some i"
    by blast
  note defs = Template_ConvertTo_def Template_ConvertFrom_def restorePolicy_def stripTemplate_def
    convertTemplateSpecTo_def convertTemplateSpecFrom_def policy_annotation_ok_def validVCTPolicy_def copies annotations this
  show ?thesis
    by (cases "fmlookup (om_Annotations (atp_Meta t)) VCTPolicyAnnotation")
      (auto simp: defs drop_comm [of TemplateStateAnnotation VCTPolicyAnnotation])
qed

section \<open>Well-formedness\<close>

definition hubSandboxOk :: "Sandbox \<Rightarrow> bool" where
  "hubSandboxOk h \<longleftrightarrow> ss_OperatingMode (sb_Spec h) \<in> {''Running'', ''Suspended''}"

definition hubTemplateOk :: "SandboxTemplate \<Rightarrow> bool" where
  "hubTemplateOk h \<longleftrightarrow> ts_VolumeClaimTemplatesPolicy (tp_Spec h) = [] \<or> validVCTPolicy (ts_VolumeClaimTemplatesPolicy (tp_Spec h))"

lemma stripRandomSuffix_ne: "name \<noteq> [] \<Longrightarrow> hd name \<noteq> CHR ''-'' \<Longrightarrow> stripRandomSuffix name \<noteq> []"
  by (cases name) (auto simp: stripRandomSuffix_def split: option.splits)

lemma warmPoolRefTo_ne:
  "(sandboxName \<noteq> [] \<longrightarrow> hd sandboxName \<noteq> CHR ''-'') \<Longrightarrow> warmPoolRefTo spec claimName sandboxName \<noteq> []"
  by (auto simp: warmPoolRefTo_def specificPool_def IsSpecificPool_def stripRandomSuffix_ne split: option.splits if_splits)

lemma Sandbox_ConvertTo_typed:
  "Sandbox_ConvertTo J s = Inr h \<Longrightarrow> hubSandboxOk h \<and>
     (ss_OperatingMode (sb_Spec h) = ''Suspended'' \<longleftrightarrow> as_Replicas (ab_Spec s) = Some 0)"
  by (auto simp: Sandbox_ConvertTo_def hubSandboxOk_def ConvertSpecTo_def split: option.splits if_splits)

lemma Template_ConvertTo_typed: "Template_ConvertTo J t = Inr g \<Longrightarrow> hubTemplateOk g"
  by (auto simp: Template_ConvertTo_def restorePolicy_def hubTemplateOk_def convertTemplateSpecTo_def
      split: option.splits sum.splits if_splits)

lemma Claim_ConvertTo_ref:
  "Claim_ConvertTo J c = Inr k \<Longrightarrow>
     cs_WarmPoolRef (sc_Spec k) = warmPoolRefTo (al_Spec c) (om_Name (al_Meta c)) (cst_SandboxName (al_Status c))"
  by (auto simp: Claim_ConvertTo_def restoreVCTs_def convertClaimSpecTo_def split: option.splits sum.splits)

lemma Sandbox_ConvertFrom_total:
  assumes "\<forall>j. unmarshalSandbox J j \<noteq> None"
  shows "\<exists>a. Sandbox_ConvertFrom J h = Inr a"
proof (cases "fmlookup (om_Annotations (sb_Meta h)) SandboxStateAnnotation")
  case (Some j)
  obtain original where "unmarshalSandbox J j = Some original" using assms by blast
  with Some show ?thesis by (simp add: Sandbox_ConvertFrom_def Let_def)
qed (simp add: Sandbox_ConvertFrom_def Let_def)

lemma Sandbox_ConvertFrom_typed:
  "Sandbox_ConvertFrom J h = Inr a \<Longrightarrow>
     as_Replicas (ab_Spec a) = Some 0 \<longleftrightarrow> ss_OperatingMode (sb_Spec h) = ''Suspended''"
  by (auto simp: Sandbox_ConvertFrom_def ConvertSpecFrom_def restoreReplicas_def Let_def split: option.splits if_splits)

text \<open>
  C37: Whatever a client stores through v1alpha1 is well formed in the hub -- an operating mode and a
  volume claim templates policy of their enumerations, a warm pool reference that is not empty -- and
  the v1alpha1 view of any stored Sandbox asks for zero replicas exactly when the Sandbox is
  suspended, whatever its state annotation holds.
\<close>

theorem conversions_typed:
  "(Sandbox_ConvertTo J s = Inr h \<longrightarrow> hubSandboxOk h \<and>
      (ss_OperatingMode (sb_Spec h) = ''Suspended'' \<longleftrightarrow> as_Replicas (ab_Spec s) = Some 0)) \<and>
   (Template_ConvertTo J t = Inr g \<longrightarrow> hubTemplateOk g) \<and>
   (Claim_ConvertTo J c = Inr k \<and> (cst_SandboxName (al_Status c) \<noteq> [] \<longrightarrow> hd (cst_SandboxName (al_Status c)) \<noteq> CHR ''-'')
      \<longrightarrow> cs_WarmPoolRef (sc_Spec k) \<noteq> []) \<and>
   (Sandbox_ConvertFrom J h' = Inr a \<longrightarrow>
      (as_Replicas (ab_Spec a) = Some 0 \<longleftrightarrow> ss_OperatingMode (sb_Spec h') = ''Suspended''))"
proof (intro conjI impI)
  assume "Claim_ConvertTo J c = Inr k \<and> (cst_SandboxName (al_Status c) \<noteq> [] \<longrightarrow> hd (cst_SandboxName (al_Status c)) \<noteq> CHR ''-'')"
  then show "cs_WarmPoolRef (sc_Spec k) \<noteq> []" by (metis Claim_ConvertTo_ref warmPoolRefTo_ne)
qed (use Sandbox_ConvertTo_typed Sandbox_ConvertFrom_typed Template_ConvertTo_typed in blast)+

section \<open>Witnesses\<close>

text \<open>A codec that knows one object of each kind.\<close>

definition demoVolume :: PersistentVolumeClaimTemplate where
  "demoVolume = \<lparr>vct_Name = ''data'', vct_Labels = fmempty, vct_Annotations = fmempty, vct_Spec = ''1Gi''\<rparr>"

definition demoAlphaSandbox :: AlphaSandbox where
  "demoAlphaSandbox = \<lparr>ab_Meta = emptyMeta\<lparr>om_Name := ''box''\<rparr>,
     ab_Spec = \<lparr>as_PodTemplate = bp_PodTemplate emptyBlueprint, as_VolumeClaimTemplates = [demoVolume],
       as_ShutdownTime = None, as_ShutdownPolicy = Some ''Retain'', as_Replicas = None, as_Service = None\<rparr>,
     ab_Status = \<lparr>at_ServiceFQDN = [], at_Service = [], at_Conditions = [], at_Replicas = 1,
       at_LabelSelector = [], at_PodIPs = []\<rparr>\<rparr>"

definition demoAlphaClaim :: AlphaClaim where
  "demoAlphaClaim = \<lparr>al_Meta = emptyMeta\<lparr>om_Name := ''claim'', om_Annotations := fmupd ClaimVCTsAnnotation ''[vct]'' fmempty\<rparr>,
     al_Spec = \<lparr>ac_TemplateRef = ''py'', ac_Lifecycle = None, ac_WarmPool = Some ''none'',
       ac_AdditionalPodMetadata = \<lparr>pm_Labels = fmempty, pm_Annotations = fmempty\<rparr>, ac_Env = []\<rparr>,
     al_Status = \<lparr>cst_Conditions = [], cst_SandboxName = ''fast-x7b2q'', cst_PodIPs = []\<rparr>\<rparr>"

definition demoHubClaim :: SandboxClaim where
  "demoHubClaim = \<lparr>sc_Meta = emptyMeta\<lparr>om_Name := ''claim''\<rparr>,
     sc_Spec = \<lparr>cs_WarmPoolRef = ''shadow-pool-py'', cs_Lifecycle = None,
       cs_AdditionalPodMetadata = \<lparr>pm_Labels = fmempty, pm_Annotations = fmempty\<rparr>, cs_Env = [],
       cs_VolumeClaimTemplates = [demoVolume]\<rparr>,
     sc_Status = \<lparr>cst_Conditions = [], cst_SandboxName = ''shadow-pool-py-x7b2q'', cst_PodIPs = []\<rparr>\<rparr>"

definition demoStateCodec :: stateCodec where
  "demoStateCodec = \<lparr>marshalSandbox = (\<lambda>_. Some ''{sandbox}''), unmarshalSandbox = (\<lambda>_. Some demoAlphaSandbox),
     marshalClaim = (\<lambda>_. Some ''{claim}''), unmarshalClaim = (\<lambda>_. Some demoAlphaClaim),
     marshalWarmPool = (\<lambda>_. Some ''{pool}''), marshalTemplate = (\<lambda>_. Some ''{template}''),
     marshalVCTs = (\<lambda>_. Some ''[vct]''), unmarshalVCTs = (\<lambda>_. Some [demoVolume])\<rparr>"

theorem alpha_sandbox_roundtrip_witness:
  "sandbox_state_ok demoStateCodec (stripSandbox demoAlphaSandbox) \<and>
   (\<exists>h. Sandbox_ConvertTo demoStateCodec demoAlphaSandbox = Inr h \<and>
      Sandbox_ConvertFrom demoStateCodec h = Inr (stripSandbox demoAlphaSandbox))"
proof -
  have ok: "sandbox_state_ok demoStateCodec (stripSandbox demoAlphaSandbox)"
    by (simp add: sandbox_state_ok_def demoStateCodec_def stripSandbox_def)
  show ?thesis using alpha_sandbox_roundtrip [OF ok] ok by simp
qed

theorem alpha_status_replicas_stale_witness:
  "\<exists>h a. Sandbox_ConvertTo demoStateCodec demoAlphaSandbox = Inr h \<and>
     Sandbox_ConvertFrom demoStateCodec (h\<lparr>sb_Spec := (sb_Spec h)\<lparr>ss_OperatingMode := ''Suspended''\<rparr>\<rparr>) = Inr a \<and>
     as_Replicas (ab_Spec a) = Some 0 \<and> at_Replicas (ab_Status a) = 1"
proof -
  have ok: "sandbox_state_ok demoStateCodec (stripSandbox demoAlphaSandbox)"
    by (simp add: sandbox_state_ok_def demoStateCodec_def stripSandbox_def)
  obtain h where h: "Sandbox_ConvertTo demoStateCodec demoAlphaSandbox = Inr h"
    by (simp add: Sandbox_ConvertTo_def demoStateCodec_def)
  have "at_Replicas (ab_Status demoAlphaSandbox) = 1" by (simp add: demoAlphaSandbox_def)
  with alpha_status_replicas_stale [OF ok h] h show ?thesis by auto
qed

theorem alpha_claim_roundtrip_witness:
  "\<exists>h. Claim_ConvertTo demoStateCodec demoAlphaClaim = Inr h \<and> Claim_ConvertFrom demoStateCodec h = Inr (stripClaim demoAlphaClaim)"
  by (rule alpha_claim_roundtrip)
    (simp_all add: claim_state_ok_def vcts_annotation_ok_def demoStateCodec_def stripClaim_def demoAlphaClaim_def)

theorem hub_claim_roundtrip_witness:
  "\<exists>a h'. Claim_ConvertFrom demoStateCodec demoHubClaim = Inr a \<and> Claim_ConvertTo demoStateCodec a = Inr h' \<and>
     sc_Spec h' = sc_Spec demoHubClaim \<and> sc_Status h' = sc_Status demoHubClaim"
proof -
  have "generatedFor ''shadow-pool-py'' ''shadow-pool-py-x7b2q''"
    unfolding generatedFor_def by (rule exI [of _ "''x7b2q''"]) simp
  then have bound: "generatedFor (cs_WarmPoolRef (sc_Spec demoHubClaim)) (cst_SandboxName (sc_Status demoHubClaim)) \<or>
      cst_SandboxName (sc_Status demoHubClaim) \<in> {[], om_Name (sc_Meta demoHubClaim)}"
    by (simp add: demoHubClaim_def)
  have "hub_claim_codec_ok demoStateCodec demoHubClaim"
    "fmlookup (om_Annotations (sc_Meta demoHubClaim)) ClaimStateAnnotation = None"
    "fmlookup (om_Annotations (sc_Meta demoHubClaim)) ClaimVCTsAnnotation = None"
    by (simp_all add: hub_claim_codec_ok_def demoStateCodec_def demoHubClaim_def emptyMeta_def)
  moreover have "IsSpecificPool (cs_WarmPoolRef (sc_Spec demoHubClaim))"
    by (simp add: IsSpecificPool_def demoHubClaim_def)
  ultimately show ?thesis using hub_claim_roundtrip [OF _ _ _ bound] by fastforce
qed

theorem conversions_typed_witness:
  "\<exists>h a. Sandbox_ConvertTo demoStateCodec demoAlphaSandbox = Inr h \<and> hubSandboxOk h \<and>
     ss_OperatingMode (sb_Spec h) \<noteq> ''Suspended'' \<and>
     Sandbox_ConvertFrom demoStateCodec h = Inr a \<and> as_Replicas (ab_Spec a) \<noteq> Some 0"
proof -
  obtain h where h: "Sandbox_ConvertTo demoStateCodec demoAlphaSandbox = Inr h"
    by (simp add: Sandbox_ConvertTo_def demoStateCodec_def)
  have "\<forall>j. unmarshalSandbox demoStateCodec j \<noteq> None" by (simp add: demoStateCodec_def)
  from Sandbox_ConvertFrom_total [OF this] obtain a where a: "Sandbox_ConvertFrom demoStateCodec h = Inr a" ..
  have "as_Replicas (ab_Spec demoAlphaSandbox) \<noteq> Some 0" by (simp add: demoAlphaSandbox_def)
  with conversions_typed [of demoStateCodec demoAlphaSandbox h _ _ _ _ h a] h a show ?thesis by blast
qed

end
