(* ===== verification/Spec2Isabelle.thy ===== *)
theory Spec2Isabelle
  imports Warm_Queue Expiry Pod_Runtime E2b_Id Store_Watch Rest_Storage Gateway_Safety Driver_Targets
    Pod_Metadata_Props Sandbox_Status Pool_Key_Agreement Api_Conversion_Props
begin

text \<open>
  A verification library for the Cocoon sandbox operator.

  The operator hands out pre-booted microVM sandboxes.  Warm pools keep sandboxes ready, an
  in-memory queue offers them to claims, the claim controller adopts them.

  \<^item> \<^verbatim>\<open>Go_Prelude\<close>: string maps and the list facts the components share.
  \<^item> \<^verbatim>\<open>Warm_Queue\<close>: the queue of adoptable sandboxes
    (\<^verbatim>\<open>extensions/controllers/queue/simple_sandbox_queue.go\<close>), sequential and under
    interleaving goroutines.
\<close>

section \<open>Properties that span components\<close>

text \<open>
  C23: The Sandbox a claim cold-creates from a template asks for the warm pool the driver keeps for
  that template -- same image, same size class -- exactly when the template asks for the default
  network.  A template with another network gets warm capacity that the Sandboxes created from it
  never match: the network annotation is not carried to the Sandbox, where Create looks for it.
\<close>

theorem pool_key_agreement:
  assumes "setref_ok (cr_setRef r)" and "coldSandbox r claim template = Inr sb"
  shows "pk_Template (poolKeyForSandbox ops sb) = pk_Template (templateKey ops template) \<and>
     pk_Size (poolKeyForSandbox ops sb) = pk_Size (templateKey ops template) \<and>
     (poolKeyForSandbox ops sb = templateKey ops template \<longleftrightarrow> templateNet template \<in> {[], NetDefault})"
  by (auto simp: cold_key [OF assms] templateKey_def PoolKeyFor_def)

theorem pool_key_agreement_witness:
  "\<exists>sb. coldSandbox (demoClaims Claim_Queue_Props.demoClaim demoGet) Claim_Queue_Props.demoClaim netTemplate = Inr sb \<and>
     pk_Size (poolKeyForSandbox demoQuantity sb) = pk_Size (templateKey demoQuantity netTemplate) \<and>
     poolKeyForSandbox demoQuantity sb \<noteq> templateKey demoQuantity netTemplate"
proof -
  obtain sb where sb: "coldSandbox (demoClaims Claim_Queue_Props.demoClaim demoGet) Claim_Queue_Props.demoClaim netTemplate = Inr sb"
    using netTemplate_cold ..
  have "setref_ok (cr_setRef (demoClaims Claim_Queue_Props.demoClaim demoGet))" by (simp add: stdSetRef_ok)
  from pool_key_agreement [OF this sb, of demoQuantity] sb show ?thesis
    by (simp add: templateNet_def netTemplate_def NetDefault_def)
qed
end
